(* ===== verification/Prelude.thy ===== *)
theory Prelude
  imports Complex_Main
begin

text \<open>
  Shared vocabulary of the development: JavaScript objects with insertion order
  (the \<open>state.activeLayers\<close> registry and the legend classification tables are such
  objects), JSON property values with JavaScript truthiness and \<open>String(v)\<close>,
  and the string operations the client uses on identifiers (\<open>toLowerCase\<close>,
  \<open>includes\<close>, \<open>startsWith\<close>, the \<open>replace(/[^a-zA-Z0-9]/g, "_")\<close> sanitiser,
  \<open>toString(16)\<close> with \<open>padStart\<close>).  The lemmas about them are declared into the
  collection \<open>js_simps\<close>, which the component theories pass to \<open>simp\<close>.
\<close>

named_theorems js_simps "rewrite rules for the JavaScript object and string model"

section \<open>JavaScript objects keyed by strings\<close>

text \<open>
  An object is an association list without duplicate keys, in insertion order:
  \<open>obj[k] = v\<close> replaces the value in place when \<open>k\<close> is present and appends
  otherwise; \<open>delete obj[k]\<close> removes the entry; \<open>Object.keys\<close> is the key list.
\<close>

type_synonym 'v jsobj = "(string \<times> 'v) list"

definition obj_get :: "'v jsobj \<Rightarrow> string \<Rightarrow> 'v option" where
  "obj_get ob k = map_of ob k"

fun obj_set :: "'v jsobj \<Rightarrow> string \<Rightarrow> 'v \<Rightarrow> 'v jsobj" where
  "obj_set [] k v = [(k, v)]"
| "obj_set ((k', v') # ob) k v =
     (if k' = k then (k, v) # ob else (k', v') # obj_set ob k v)"

fun obj_del :: "'v jsobj \<Rightarrow> string \<Rightarrow> 'v jsobj" where
  "obj_del [] k = []"
| "obj_del ((k', v') # ob) k = (if k' = k then obj_del ob k else (k', v') # obj_del ob k)"

definition obj_keys :: "'v jsobj \<Rightarrow> string list" where
  "obj_keys ob = map fst ob"

lemma obj_get_set [js_simps]: "obj_get (obj_set ob k v) k' = (if k' = k then Some v else obj_get ob k')"
  by (induction ob k v rule: obj_set.induct) (auto simp: obj_get_def)

lemma obj_get_del [js_simps]: "obj_get (obj_del ob k) k' = (if k' = k then None else obj_get ob k')"
  by (induction ob k rule: obj_del.induct) (auto simp: obj_get_def)

lemma obj_keys_set [js_simps]:
  "obj_keys (obj_set ob k v) = (if k \<in> set (obj_keys ob) then obj_keys ob else obj_keys ob @ [k])"
  by (induction ob k v rule: obj_set.induct) (auto simp: obj_keys_def)

lemma obj_keys_del [js_simps]: "obj_keys (obj_del ob k) = filter (\<lambda>k'. k' \<noteq> k) (obj_keys ob)"
  by (induction ob k rule: obj_del.induct) (auto simp: obj_keys_def)

lemma obj_del_notin [js_simps]: "k \<notin> set (obj_keys ob) \<Longrightarrow> obj_del ob k = ob"
  by (induction ob k rule: obj_del.induct) (auto simp: obj_keys_def)

lemma obj_del_set_new [js_simps]:
  "k \<notin> set (obj_keys ob) \<Longrightarrow> obj_del (obj_set ob k v) k = ob"
  by (induction ob k v rule: obj_set.induct) (auto simp: obj_keys_def obj_del_notin)

lemma obj_set_in_set: "(k', v') \<in> set (obj_set ob k v) \<Longrightarrow> (k', v') = (k, v) \<or> (k', v') \<in> set ob"
  by (induction ob k v rule: obj_set.induct) (auto split: if_splits)

lemma obj_del_subset: "set (obj_del ob k) \<subseteq> set ob"
  by (induction ob k rule: obj_del.induct) auto

lemma obj_get_None_iff [js_simps]: "obj_get ob k = None \<longleftrightarrow> k \<notin> set (obj_keys ob)"
  by (simp add: obj_get_def obj_keys_def map_of_eq_None_iff)

section \<open>JSON values\<close>

text \<open>
  A GeoJSON property value.  Numbers are kept as integers: the client only compares,
  prints and tests them for truthiness, and the category fields it classifies on hold
  strings or integer codes.
\<close>

datatype jval = JStr string | JNum int | JBool bool | JNull

text \<open>The settled value of a \<open>fetch\<close> the client awaits: a failure (a rejected promise,
  a non-OK status or an \<open>error\<close> field in the body) or the parsed body.\<close>

datatype 'a reply = FetchFailed string | FetchOk 'a

text \<open>The result of a DOM handler: it returns, or throws a \<open>TypeError\<close> after the
  effects before the throw.\<close>

datatype 's ui_outcome = UiDone 's | UiTypeError 's

text \<open>JavaScript truthiness of a property read; \<open>None\<close> is \<open>undefined\<close>.\<close>

fun truthy :: "jval option \<Rightarrow> bool" where
  "truthy None = False"
| "truthy (Some (JStr s)) = (s \<noteq> [])"
| "truthy (Some (JNum n)) = (n \<noteq> 0)"
| "truthy (Some (JBool b)) = b"
| "truthy (Some JNull) = False"

function dec_nat :: "nat \<Rightarrow> string" where
  "dec_nat n = (if n < 10 then [''0123456789'' ! n]
                else dec_nat (n div 10) @ [''0123456789'' ! (n mod 10)])"
  by auto
termination
  by (relation "measure id") auto

declare dec_nat.simps [simp del]

lemma dec_nat_small [js_simps]: "n < 10 \<Longrightarrow> dec_nat n = [''0123456789'' ! n]"
  by (simp add: dec_nat.simps)

lemma dec_nat_large [js_simps]: "\<not> n < 10 \<Longrightarrow> dec_nat n = dec_nat (n div 10) @ [''0123456789'' ! (n mod 10)]"
  by (simp add: dec_nat.simps)

text \<open>\<open>String(v)\<close>.\<close>

fun js_string :: "jval \<Rightarrow> string" where
  "js_string (JStr s) = s"
| "js_string (JNum n) = (if n < 0 then CHR ''-'' # dec_nat (nat (- n)) else dec_nat (nat n))"
| "js_string (JBool b) = (if b then ''true'' else ''false'')"
| "js_string JNull = ''null''"

section \<open>Strings\<close>

definition upper_letters :: string where
  "upper_letters = ''ABCDEFGHIJKLMNOPQRSTUVWXYZ''"

definition lower_letters :: string where
  "lower_letters = ''abcdefghijklmnopqrstuvwxyz''"

definition digit_chars :: string where
  "digit_chars = ''0123456789''"

text \<open>\<open>toLowerCase\<close> on ASCII letters; other characters are kept.\<close>

definition lower_char :: "char \<Rightarrow> char" where
  "lower_char c = (case map_of (zip upper_letters lower_letters) c of Some d \<Rightarrow> d | None \<Rightarrow> c)"

definition to_lower :: "string \<Rightarrow> string" where
  "to_lower s = map lower_char s"

text \<open>\<open>s.includes(t)\<close>: \<open>t\<close> occurs in \<open>s\<close> at some position.\<close>

fun js_includes :: "string \<Rightarrow> string \<Rightarrow> bool" where
  "js_includes [] t = (t = [])"
| "js_includes (c # cs) t = (take (length t) (c # cs) = t \<or> js_includes cs t)"

text \<open>\<open>s.startsWith(p)\<close>.\<close>

definition starts_with :: "string \<Rightarrow> string \<Rightarrow> bool" where
  "starts_with s p = (take (length p) s = p)"

text \<open>\<open>s.replace(/[^a-zA-Z0-9]/g, "_")\<close>.\<close>

definition is_alnum :: "char \<Rightarrow> bool" where
  "is_alnum c = (c \<in> set upper_letters \<or> c \<in> set lower_letters \<or> c \<in> set digit_chars)"

definition sanitize :: "string \<Rightarrow> string" where
  "sanitize s = map (\<lambda>c. if is_alnum c then c else CHR ''_'') s"

text \<open>\<open>n.toString(16)\<close> and \<open>padStart(6, '0')\<close>.\<close>

function hex :: "nat \<Rightarrow> string" where
  "hex n = (if n < 16 then [''0123456789abcdef'' ! n]
            else hex (n div 16) @ [''0123456789abcdef'' ! (n mod 16)])"
  by auto
termination
  by (relation "measure id") auto

declare hex.simps [simp del]

lemma hex_small [js_simps]: "n < 16 \<Longrightarrow> hex n = [''0123456789abcdef'' ! n]"
  by (simp add: hex.simps)

lemma hex_large [js_simps]: "\<not> n < 16 \<Longrightarrow> hex n = hex (n div 16) @ [''0123456789abcdef'' ! (n mod 16)]"
  by (simp add: hex.simps)

definition pad_start :: "nat \<Rightarrow> char \<Rightarrow> string \<Rightarrow> string" where
  "pad_start n c s = replicate (n - length s) c @ s"

lemma replicate_numeral [js_simps]: "replicate (numeral k) c = c # replicate (pred_numeral k) c"
  by (simp add: numeral_eq_Suc)

lemma js_includes_iff: "js_includes s t \<longleftrightarrow> (\<exists>u v. s = u @ t @ v)"
proof (induction s)
  case Nil
  then show ?case by auto
next
  case (Cons c cs)
  show ?case
  proof
    assume "js_includes (c # cs) t"
    then consider "take (length t) (c # cs) = t" | "js_includes cs t" by auto
    then show "\<exists>u v. c # cs = u @ t @ v"
    proof cases
      case 1
      then have "c # cs = [] @ t @ drop (length t) (c # cs)"
        by (metis append_take_drop_id self_append_conv2)
      then show ?thesis by blast
    next
      case 2
      with Cons.IH obtain u v where "cs = u @ t @ v" by blast
      then have "c # cs = (c # u) @ t @ v" by simp
      then show ?thesis by blast
    qed
  next
    assume "\<exists>u v. c # cs = u @ t @ v"
    then obtain u v where uv: "c # cs = u @ t @ v" by blast
    show "js_includes (c # cs) t"
    proof (cases u)
      case Nil
      with uv have "take (length t) (c # cs) = t" by (metis append_eq_conv_conj append_self_conv2)
      then show ?thesis by simp
    next
      case (Cons d u')
      with uv have "cs = u' @ t @ v" by simp
      with Cons.IH show ?thesis by auto
    qed
  qed
qed

lemma js_includes_mono: "js_includes s t \<Longrightarrow> js_includes s' s \<Longrightarrow> js_includes s' t"
  by (auto simp: js_includes_iff) (metis append.assoc)

lemma sanitize_alnum: "c \<in> set (sanitize s) \<Longrightarrow> is_alnum c \<or> c = CHR ''_''"
  by (auto simp: sanitize_def)

lemma sanitize_no_dash [js_simps]: "CHR ''-'' \<notin> set (sanitize s)"
  by (auto simp: sanitize_def is_alnum_def upper_letters_def lower_letters_def digit_chars_def)

lemma length_sanitize [js_simps]: "length (sanitize s) = length s"
  by (simp add: sanitize_def)

lemma starts_with_append [js_simps]: "starts_with (p @ s) p"
  by (simp add: starts_with_def)

text \<open>
  Property order of \<open>Object.keys\<close>, \<open>Object.entries\<close> and \<open>for ... in\<close>: the keys that
  are array indices (canonical decimal numerals below \<open>2^32 - 1\<close>) first, in
  ascending numeric order, then the other keys in insertion order.
\<close>

definition digit_val :: "char \<Rightarrow> nat" where
  "digit_val c = length (takeWhile (\<lambda>d. d \<noteq> c) digit_chars)"

definition digits_val :: "string \<Rightarrow> nat" where
  "digits_val k = foldl (\<lambda>n c. 10 * n + digit_val c) 0 k"

definition is_array_index :: "string \<Rightarrow> bool" where
  "is_array_index k \<longleftrightarrow> k \<noteq> [] \<and> set k \<subseteq> set digit_chars \<and>
     (hd k = CHR ''0'' \<longrightarrow> k = ''0'') \<and> digits_val k < 4294967295"

definition obj_entries :: "'v jsobj \<Rightarrow> 'v jsobj" where
  "obj_entries ob = sort_key (\<lambda>e. digits_val (fst e)) (filter (\<lambda>e. is_array_index (fst e)) ob) @
                    filter (\<lambda>e. \<not> is_array_index (fst e)) ob"

lemma obj_entries_no_index:
  "\<forall>k \<in> set (obj_keys ob). \<not> is_array_index k \<Longrightarrow> obj_entries ob = ob"
proof -
  assume "\<forall>k \<in> set (obj_keys ob). \<not> is_array_index k"
  then have "filter (\<lambda>e. is_array_index (fst e)) ob = []" "filter (\<lambda>e. \<not> is_array_index (fst e)) ob = ob"
    by (auto simp: obj_keys_def filter_empty_conv)
  then show "obj_entries ob = ob" by (simp add: obj_entries_def)
qed

lemma is_array_index_letter:
  "c \<notin> set digit_chars \<Longrightarrow> c \<in> set k \<Longrightarrow> \<not> is_array_index k"
  by (auto simp: is_array_index_def)

lemma set_obj_entries: "set (obj_entries ob) = set ob"
  by (auto simp: obj_entries_def)

lemma find_append_cases:
  "find P (xs @ ys) = (case find P xs of None \<Rightarrow> find P ys | Some x \<Rightarrow> Some x)"
  by (induction xs) auto

lemma those_map_Some_iff: "(\<exists>y. those (map f xs) = Some y) \<longleftrightarrow> (\<forall>x \<in> set xs. \<exists>y. f x = Some y)"
  by (induction xs) (auto split: option.split)

lemma obj_get_in_set: "obj_get ob k = Some v \<Longrightarrow> (k, v) \<in> set ob"
  by (simp add: obj_get_def map_of_SomeD)

lemma obj_get_key: "obj_get ob k = Some v \<Longrightarrow> k \<in> set (obj_keys ob)"
  by (auto simp: obj_get_def obj_keys_def dest: map_of_SomeD intro: rev_image_eqI)

lemma obj_get_Nil [simp]: "obj_get [] k = None"
  by (simp add: obj_get_def)


text \<open>\<open>dec_nat\<close> prints a number that \<open>digits_val\<close> reads back.\<close>

lemma digit_val_nth: "j < 10 \<Longrightarrow> digit_val (''0123456789'' ! j) = j"
  by (auto simp: digit_val_def digit_chars_def less_Suc_eq numeral_eq_Suc)

lemma digits_val_snoc: "digits_val (xs @ [c]) = 10 * digits_val xs + digit_val c"
  by (simp add: digits_val_def)

lemma digits_val_dec_nat [simp]: "digits_val (dec_nat n) = n"
proof (induction n rule: dec_nat.induct)
  case (1 n)
  show ?case
  proof (cases "n < 10")
    case True
    then show ?thesis by (simp add: js_simps digits_val_def digit_val_nth)
  next
    case False
    then have "digits_val (dec_nat n) = 10 * (n div 10) + n mod 10"
      using 1 by (simp add: js_simps digits_val_snoc digit_val_nth)
    then show ?thesis by simp
  qed
qed

lemma dec_nat_inj: "dec_nat i = dec_nat j \<longleftrightarrow> i = j"
  by (metis digits_val_dec_nat)

end
