(* ===== verification/MapEngine.thy ===== *)
theory MapEngine
  imports Prelude
begin

text \<open>
  The part of the MapLibre GL map object the client relies on: the set of sources,
  the ordered layer stack (each layer naming its source), the terrain, the per-layer
  filter and visibility, and the two ways MapLibre reports a misuse.  \<open>addSource\<close>
  of an existing id and \<open>removeSource\<close> of a missing id throw (a value \<open>Inl\<close> here);
  \<open>addLayer\<close> of an existing id, of a layer whose source is missing or before a
  missing layer, \<open>removeLayer\<close> of a missing layer, \<open>removeSource\<close> of a source a
  layer still uses and \<open>setFilter\<close> on a missing layer only fire an error event and
  leave the style unchanged (recorded in \<open>m_errors\<close>).  MapLibre is not part of the
  repository: this theory is the contract the client code is verified against.
\<close>

datatype filter_expr = NoFilter | InIds "string list" | EqId string

record mlayer =
  ml_id :: string
  ml_type :: string
  ml_source :: "string option"
  ml_filter :: filter_expr
  ml_visible :: bool
  ml_text :: "string option"

datatype map_event =
    LayerExists string
  | MissingSource string string
  | MissingBefore string string
  | NoSuchLayer string
  | SourceInUse string string

datatype map_exn = SourceExists string | NoSuchSource string

record mapst =
  m_sources :: "string list"
  m_layers :: "mlayer list"
  m_terrain :: "string option"
  m_errors :: "map_event list"

type_synonym 'a map_result = "map_exn + 'a"

text \<open>A handler that lets a thrown map exception escape: the state it reached and,
  when it threw, the exception.\<close>

datatype 's outcome = Done 's | Thrown map_exn 's

section \<open>Queries\<close>

definition layer_ids :: "mapst \<Rightarrow> string list" where
  "layer_ids m = map ml_id (m_layers m)"

definition has_layer :: "mapst \<Rightarrow> string \<Rightarrow> bool" where
  "has_layer m i = (i \<in> set (layer_ids m))"

definition has_source :: "mapst \<Rightarrow> string \<Rightarrow> bool" where
  "has_source m s = (s \<in> set (m_sources m))"

definition source_in_use :: "mapst \<Rightarrow> string \<Rightarrow> string option" where
  "source_in_use m s = map_option ml_id (find (\<lambda>l. ml_source l = Some s) (m_layers m))"

section \<open>Operations\<close>

definition fire :: "map_event \<Rightarrow> mapst \<Rightarrow> mapst" where
  "fire e m = m\<lparr>m_errors := m_errors m @ [e]\<rparr>"

definition addSource :: "string \<Rightarrow> mapst \<Rightarrow> mapst map_result" where
  "addSource s m =
     (if has_source m s then Inl (SourceExists s)
      else Inr (m\<lparr>m_sources := m_sources m @ [s]\<rparr>))"

definition removeSource :: "string \<Rightarrow> mapst \<Rightarrow> mapst map_result" where
  "removeSource s m =
     (if \<not> has_source m s then Inl (NoSuchSource s)
      else case source_in_use m s of
             Some l \<Rightarrow> Inr (fire (SourceInUse s l) m)
           | None \<Rightarrow> Inr (m\<lparr>m_sources := removeAll s (m_sources m)\<rparr>))"

fun insert_before :: "string \<Rightarrow> mlayer \<Rightarrow> mlayer list \<Rightarrow> mlayer list" where
  "insert_before b l [] = [l]"
| "insert_before b l (x # xs) = (if ml_id x = b then l # x # xs else x # insert_before b l xs)"

definition addLayer :: "mlayer \<Rightarrow> string option \<Rightarrow> mapst \<Rightarrow> mapst" where
  "addLayer l before m =
     (if has_layer m (ml_id l) then fire (LayerExists (ml_id l)) m
      else if (case ml_source l of Some s \<Rightarrow> \<not> has_source m s | None \<Rightarrow> False)
        then fire (MissingSource (ml_id l) (the (ml_source l))) m
      else case before of
             None \<Rightarrow> m\<lparr>m_layers := m_layers m @ [l]\<rparr>
           | Some b \<Rightarrow>
               (if has_layer m b then m\<lparr>m_layers := insert_before b l (m_layers m)\<rparr>
                else fire (MissingBefore (ml_id l) b) m))"

definition removeLayer :: "string \<Rightarrow> mapst \<Rightarrow> mapst" where
  "removeLayer i m =
     (if has_layer m i then m\<lparr>m_layers := filter (\<lambda>l. ml_id l \<noteq> i) (m_layers m)\<rparr>
      else fire (NoSuchLayer i) m)"

definition setFilter :: "string \<Rightarrow> filter_expr \<Rightarrow> mapst \<Rightarrow> mapst" where
  "setFilter i f m =
     (if has_layer m i
      then m\<lparr>m_layers := map (\<lambda>l. if ml_id l = i then l\<lparr>ml_filter := f\<rparr> else l) (m_layers m)\<rparr>
      else fire (NoSuchLayer i) m)"

definition setTerrain :: "string option \<Rightarrow> mapst \<Rightarrow> mapst" where
  "setTerrain t m = m\<lparr>m_terrain := t\<rparr>"

text \<open>\<open>setLayoutProperty(id, "visibility", v ? "visible" : "none")\<close>.\<close>

definition setVisibility :: "string \<Rightarrow> bool \<Rightarrow> mapst \<Rightarrow> mapst" where
  "setVisibility i v m =
     (if has_layer m i
      then m\<lparr>m_layers := map (\<lambda>l. if ml_id l = i then l\<lparr>ml_visible := v\<rparr> else l) (m_layers m)\<rparr>
      else fire (NoSuchLayer i) m)"

fun outcome_state :: "'s outcome \<Rightarrow> 's" where
  "outcome_state (Done s) = s"
| "outcome_state (Thrown e s) = s"

text \<open>\<open>if (map.getLayer(id)) map.removeLayer(id)\<close>, the guarded removal the client uses.\<close>

definition remove_layer_if :: "string \<Rightarrow> mapst \<Rightarrow> mapst" where
  "remove_layer_if i m = (if has_layer m i then removeLayer i m else m)"

text \<open>\<open>if (map.getSource(id)) map.removeSource(id)\<close>: cannot throw.\<close>

definition remove_source_if :: "string \<Rightarrow> mapst \<Rightarrow> mapst" where
  "remove_source_if s m =
     (if has_source m s then (case removeSource s m of Inr m' \<Rightarrow> m' | Inl _ \<Rightarrow> m) else m)"

text \<open>A new basemap style: its own sources and layers, everything the client added gone.\<close>

definition setStyle :: "string list \<Rightarrow> mlayer list \<Rightarrow> mapst \<Rightarrow> mapst" where
  "setStyle srcs lys m = \<lparr>m_sources = srcs, m_layers = lys, m_terrain = None, m_errors = m_errors m\<rparr>"

text \<open>\<open>map.getStyle().layers.find(l => l.type === "symbol")?.id || null\<close>.\<close>

definition first_symbol_id :: "mapst \<Rightarrow> string option" where
  "first_symbol_id m = map_option ml_id (find (\<lambda>l. ml_type l = ''symbol'') (m_layers m))"

section \<open>Well-formedness\<close>

text \<open>Distinct source ids, distinct layer ids, and every layer's source present.\<close>

definition map_wf :: "mapst \<Rightarrow> bool" where
  "map_wf m \<longleftrightarrow> distinct (m_sources m) \<and> distinct (layer_ids m) \<and>
     (\<forall>l \<in> set (m_layers m). \<forall>s. ml_source l = Some s \<longrightarrow> s \<in> set (m_sources m))"

lemmas map_defs = addSource_def removeSource_def addLayer_def removeLayer_def setFilter_def
  setTerrain_def remove_layer_if_def remove_source_if_def fire_def has_layer_def has_source_def

lemma set_insert_before [simp]: "set (insert_before b l xs) = insert l (set xs)"
  by (induction xs) auto

lemma distinct_insert_before:
  "distinct (map ml_id xs) \<Longrightarrow> ml_id l \<notin> ml_id ` set xs \<Longrightarrow> distinct (map ml_id (insert_before b l xs))"
  by (induction xs) auto

lemma filter_insert_before:
  "ml_id l \<notin> ml_id ` set xs \<Longrightarrow> filter (\<lambda>x. ml_id x \<noteq> ml_id l) (insert_before b l xs) = xs"
  by (induction xs) (auto simp: filter_id_conv rev_image_eqI)

lemma fire_fields [simp]:
  "m_sources (fire e m) = m_sources m" "m_layers (fire e m) = m_layers m"
  "m_terrain (fire e m) = m_terrain m" "layer_ids (fire e m) = layer_ids m"
  by (simp_all add: fire_def layer_ids_def)

lemma map_wf_fire [simp]: "map_wf (fire e m) = map_wf m"
  by (simp add: map_wf_def layer_ids_def)

lemma source_in_use_None: "source_in_use m s = None \<Longrightarrow> l \<in> set (m_layers m) \<Longrightarrow> ml_source l \<noteq> Some s"
  by (auto simp: source_in_use_def find_None_iff)

lemma addSource_wf: "map_wf m \<Longrightarrow> addSource s m = Inr m' \<Longrightarrow> map_wf m'"
  by (auto simp: map_wf_def map_defs layer_ids_def split: if_splits)

lemma removeSource_wf:
  assumes wf: "map_wf m" and r: "removeSource s m = Inr m'"
  shows "map_wf m'"
proof (cases "source_in_use m s")
  case None
  with r have "m' = m\<lparr>m_sources := removeAll s (m_sources m)\<rparr>"
    by (simp add: removeSource_def split: if_splits)
  with wf None show ?thesis
    by (auto simp: map_wf_def layer_ids_def distinct_removeAll dest: source_in_use_None)
next
  case (Some l)
  with r wf show ?thesis by (auto simp: removeSource_def split: if_splits)
qed

lemma addLayer_wf: "map_wf m \<Longrightarrow> map_wf (addLayer l b m)"
  by (auto simp: map_wf_def map_defs layer_ids_def distinct_insert_before
      split: if_splits option.splits)

lemma removeLayer_wf: "map_wf m \<Longrightarrow> map_wf (removeLayer i m)"
  by (auto simp: map_wf_def map_defs layer_ids_def distinct_map_filter)

lemma ml_id_filter_update [simp]:
  "ml_id \<circ> (\<lambda>l. if ml_id l = i then l\<lparr>ml_filter := f\<rparr> else l) = ml_id"
  by auto

lemma ml_source_filter_update:
  "l \<in> set (map (\<lambda>l. if ml_id l = i then l\<lparr>ml_filter := f\<rparr> else l) xs) \<Longrightarrow>
   \<exists>l' \<in> set xs. ml_source l = ml_source l'"
  by (induction xs) auto

lemma setFilter_wf: "map_wf m \<Longrightarrow> map_wf (setFilter i f m)"
  unfolding map_wf_def setFilter_def layer_ids_def
  by (auto dest!: ml_source_filter_update)

lemma remove_layer_if_wf: "map_wf m \<Longrightarrow> map_wf (remove_layer_if i m)"
  by (simp add: remove_layer_if_def removeLayer_wf)

lemma remove_source_if_wf: "map_wf m \<Longrightarrow> map_wf (remove_source_if s m)"
  by (auto simp: remove_source_if_def removeSource_wf split: sum.splits)

lemma setTerrain_wf: "map_wf m \<Longrightarrow> map_wf (setTerrain t m)"
  by (simp add: map_wf_def setTerrain_def layer_ids_def)

lemmas map_ops_wf = addLayer_wf removeLayer_wf setFilter_wf remove_layer_if_wf
  remove_source_if_wf setTerrain_wf

section \<open>Frame facts used by the handlers\<close>

lemma has_layer_removeLayer [simp]:
  "has_layer (removeLayer i m) j = (has_layer m j \<and> j \<noteq> i)"
  by (auto simp: map_defs layer_ids_def)

lemma has_layer_remove_layer_if [simp]:
  "has_layer (remove_layer_if i m) j = (has_layer m j \<and> j \<noteq> i)"
  by (auto simp: remove_layer_if_def)

lemma sources_removeLayer [simp]: "m_sources (removeLayer i m) = m_sources m"
  by (simp add: map_defs)

lemma sources_remove_layer_if [simp]: "m_sources (remove_layer_if i m) = m_sources m"
  by (simp add: remove_layer_if_def)

lemma sources_addLayer [simp]: "m_sources (addLayer l b m) = m_sources m"
  by (auto simp: map_defs split: option.splits)

lemma has_source_remove_source_if:
  "source_in_use m s = None \<Longrightarrow> has_source (remove_source_if s m) t = (has_source m t \<and> t \<noteq> s)"
  by (auto simp: map_defs)

lemma layers_remove_source_if [simp]: "m_layers (remove_source_if s m) = m_layers m"
  by (auto simp: map_defs split: option.splits)

lemma has_layer_addLayer:
  "has_layer (addLayer l b m) j \<longleftrightarrow> has_layer m j \<or>
     (j = ml_id l \<and> \<not> has_layer m j \<and> (\<forall>s. ml_source l = Some s \<longrightarrow> has_source m s) \<and>
      (\<forall>x. b = Some x \<longrightarrow> has_layer m x))"
  by (auto simp: map_defs layer_ids_def split: option.splits)

lemma filter_absent_id: "i \<notin> ml_id ` set xs \<Longrightarrow> filter (\<lambda>x. ml_id x \<noteq> i) xs = xs"
  by (induction xs) auto

lemma remove_layer_if_fields [simp]:
  "m_layers (remove_layer_if i m) = filter (\<lambda>x. ml_id x \<noteq> i) (m_layers m)"
  "m_terrain (remove_layer_if i m) = m_terrain m"
  "m_errors (remove_layer_if i m) = m_errors m"
  by (auto simp: map_defs layer_ids_def filter_absent_id)

lemma fold_remove_layer_if [simp]:
  "m_layers (fold remove_layer_if is m) = filter (\<lambda>x. ml_id x \<notin> set is) (m_layers m)"
  "m_sources (fold remove_layer_if is m) = m_sources m"
  "m_terrain (fold remove_layer_if is m) = m_terrain m"
  "m_errors (fold remove_layer_if is m) = m_errors m"
  by (induction "is" arbitrary: m) (auto intro: filter_cong)

lemma remove_source_if_unused:
  assumes "\<forall>l \<in> set (m_layers m). ml_source l \<noteq> Some s"
  shows "m_sources (remove_source_if s m) = removeAll s (m_sources m)"
    and "m_terrain (remove_source_if s m) = m_terrain m"
    and "m_errors (remove_source_if s m) = m_errors m"
proof -
  have "source_in_use m s = None"
    using assms by (auto simp: source_in_use_def find_None_iff)
  then show "m_sources (remove_source_if s m) = removeAll s (m_sources m)"
    and "m_terrain (remove_source_if s m) = m_terrain m"
    and "m_errors (remove_source_if s m) = m_errors m"
    by (auto simp: map_defs)
qed

text \<open>Adding layers whose ids are fresh, whose sources exist, before a present anchor.\<close>

lemma fold_addLayer_fresh:
  assumes "distinct (map ml_id ls)"
    and "\<forall>l \<in> set ls. \<not> has_layer m (ml_id l)"
    and "\<forall>l \<in> set ls. \<forall>s. ml_source l = Some s \<longrightarrow> has_source m s"
    and "\<forall>x. b = Some x \<longrightarrow> has_layer m x"
  shows "filter (\<lambda>x. ml_id x \<notin> ml_id ` set ls) (m_layers (fold (\<lambda>l. addLayer l b) ls m)) = m_layers m \<and>
         set (layer_ids (fold (\<lambda>l. addLayer l b) ls m)) = set (layer_ids m) \<union> ml_id ` set ls \<and>
         m_sources (fold (\<lambda>l. addLayer l b) ls m) = m_sources m \<and>
         m_terrain (fold (\<lambda>l. addLayer l b) ls m) = m_terrain m \<and>
         m_errors (fold (\<lambda>l. addLayer l b) ls m) = m_errors m"
  using assms
proof (induction ls arbitrary: m)
  case Nil
  then show ?case by (simp add: filter_id_conv)
next
  case (Cons l ls)
  let ?m' = "addLayer l b m"
  have fresh: "\<not> has_layer m (ml_id l)" using Cons.prems(2) by simp
  have add: "m_layers ?m' = (case b of None \<Rightarrow> m_layers m @ [l] | Some x \<Rightarrow> insert_before x l (m_layers m))"
    and same: "m_sources ?m' = m_sources m" "m_terrain ?m' = m_terrain m" "m_errors ?m' = m_errors m"
    using fresh Cons.prems(3,4) by (auto simp: map_defs split: option.splits)
  have ids': "set (layer_ids ?m') = insert (ml_id l) (set (layer_ids m))"
    using add by (auto simp: layer_ids_def split: option.splits)
  have anchor': "\<forall>x. b = Some x \<longrightarrow> has_layer ?m' x"
  proof (intro allI impI)
    fix x assume "b = Some x"
    with Cons.prems(4) have "x \<in> set (layer_ids m)" by (simp add: has_layer_def)
    with ids' show "has_layer ?m' x" by (simp add: has_layer_def)
  qed
  have IH: "filter (\<lambda>x. ml_id x \<notin> ml_id ` set ls) (m_layers (fold (\<lambda>l. addLayer l b) ls ?m')) = m_layers ?m' \<and>
      set (layer_ids (fold (\<lambda>l. addLayer l b) ls ?m')) = set (layer_ids ?m') \<union> ml_id ` set ls \<and>
      m_sources (fold (\<lambda>l. addLayer l b) ls ?m') = m_sources ?m' \<and>
      m_terrain (fold (\<lambda>l. addLayer l b) ls ?m') = m_terrain ?m' \<and>
      m_errors (fold (\<lambda>l. addLayer l b) ls ?m') = m_errors ?m'"
    using Cons.prems anchor' by (intro Cons.IH) (auto simp: ids' has_layer_def same(1) has_source_def image_iff)
  have "ml_id l \<notin> ml_id ` set (m_layers m)" using fresh by (simp add: has_layer_def layer_ids_def)
  then have restore: "filter (\<lambda>x. ml_id x \<noteq> ml_id l) (m_layers ?m') = m_layers m"
    using add by (auto simp: filter_insert_before filter_absent_id split: option.splits)
  let ?F = "fold (\<lambda>l. addLayer l b) ls ?m'"
  have "filter (\<lambda>x. ml_id x \<notin> ml_id ` set (l # ls)) (m_layers ?F) =
        filter (\<lambda>x. ml_id x \<noteq> ml_id l) (filter (\<lambda>x. ml_id x \<notin> ml_id ` set ls) (m_layers ?F))"
    by (simp add: filter_filter conj_commute)
  also have "\<dots> = m_layers m" using IH restore by simp
  finally have layers: "filter (\<lambda>x. ml_id x \<notin> ml_id ` set (l # ls)) (m_layers ?F) = m_layers m" .
  from IH ids' same have "set (layer_ids ?F) = set (layer_ids m) \<union> ml_id ` set (l # ls) \<and>
      m_sources ?F = m_sources m \<and> m_terrain ?F = m_terrain m \<and> m_errors ?F = m_errors m"
    by auto
  with layers show ?case by simp
qed

end
