(* ===== verification/Style.thy ===== *)
theory Style
  imports MapEngine
begin

text \<open>
  The style and classification engine of \<open>src/static/js/layer-handlers.js\<close>:
  \<open>KEYWORD_COLORS\<close>, \<open>getRandomColor\<close> and \<open>generateVectorStyle\<close>.  A GeoJSON
  feature is its geometry type (\<open>None\<close> for a \<open>null\<close> geometry) and its property
  object.  \<open>Math.random()\<close> is a supply \<open>rng\<close>: a function from draw number to the
  integer \<open>Math.floor(Math.random()*16777215)\<close> and the number of draws made so far.
  The style is returned with the supply advanced; a \<open>TypeError\<close> of the source is
  the value \<open>Inl\<close>.
\<close>

record feature =
  f_geometry :: "string option"
  f_props :: "jval jsobj"

type_synonym rng = "(nat \<Rightarrow> nat) \<times> nat"

section \<open>Colours\<close>

definition KEYWORD_COLORS :: "(string \<times> string) list" where
  "KEYWORD_COLORS = [
     (''builtup'', ''#d73027''), (''building'', ''#d73027''),
     (''water'', ''#1297f6ff''), (''waterbody'', ''#1297f6ff''), (''river'', ''#1297f6ff''),
     (''tank'', ''#1297f6ff''), (''tributaries'', ''#1297f6ff''), (''tributary'', ''#096d86ff''),
     (''tanks'', ''#4575b4''), (''stream'', ''#4575b4''), (''checkdam'', ''#4C688A''),
     (''Basin'', ''#9e9ac8''), (''impplaces'', ''#9E097D''), (''tea'', ''#66a61e''),
     (''forest'', ''#1b7837''), (''grassland'', ''#a6d96a''), (''plantation'', ''#1b7837''),
     (''vegetation'', ''#1b7837''), (''road'', ''#bababa''), (''estate'', ''#9e9ac8''),
     (''boundary'', ''#fee08b''), (''contour'', ''#fc8d59''), (''wood'', ''#966F33''),
     (''bark'', ''#966F33''), (''stump'', ''#966F33'')]"

text \<open>\<open>Object.keys(KEYWORD_COLORS).find(k => s.includes(k))\<close>.\<close>

definition keyword_key :: "string \<Rightarrow> string option" where
  "keyword_key s = map_option fst (find (\<lambda>(k, c). js_includes s k) KEYWORD_COLORS)"

definition keyword_color :: "string \<Rightarrow> string option" where
  "keyword_color s = map_option snd (find (\<lambda>(k, c). js_includes s k) KEYWORD_COLORS)"

text \<open>\<open>getRandomColor\<close>: one draw, printed as six hexadecimal digits.\<close>

definition getRandomColor :: "rng \<Rightarrow> string \<times> rng" where
  "getRandomColor r = (CHR ''#'' # pad_start 6 (CHR ''0'') (hex (fst r (snd r))), (fst r, Suc (snd r)))"

text \<open>\<open>colorKey ? KEYWORD_COLORS[colorKey] : getRandomColor()\<close>: no draw on a match.\<close>

definition pick_color :: "string \<Rightarrow> rng \<Rightarrow> string \<times> rng" where
  "pick_color s r = (case keyword_color s of Some c \<Rightarrow> (c, r) | None \<Rightarrow> getRandomColor r)"

section \<open>Layer specifications\<close>

datatype color_expr = CConst string | CMatch string "(jval \<times> string) list" string

datatype pval = PColor color_expr | PNum real | PHeight string | PStr string

record lspec =
  ls_id :: string
  ls_type :: string
  ls_source :: string
  ls_minzoom :: "nat option"
  ls_maxzoom :: "nat option"
  ls_paint :: "(string \<times> pval) list"

record style_out =
  so_layers :: "lspec list"
  so_classification :: "string jsobj"
  so_classField :: "string option"

definition potentialFields :: "string list" where
  "potentialFields = [''Name'', ''name'', ''LULC'', ''Layer'', ''layer'', ''TYPE'', ''type'',
     ''CLASS'', ''class'', ''CATEGORY'', ''category'', ''VILGNAME1'']"

definition heightFields :: "string list" where
  "heightFields = [''LOD'', ''height'', ''Height'', ''HEIGHT'', ''relh'', ''building_h'']"

text \<open>\<open>[...new Set(xs)]\<close>: first occurrences, in order.\<close>

fun uniq :: "'a list \<Rightarrow> 'a list" where
  "uniq [] = []"
| "uniq (x # xs) = x # uniq (filter (\<lambda>y. y \<noteq> x) xs)"

text \<open>\<open>features.map(f => f.properties[classField]).filter(Boolean)\<close>, then the set.\<close>

definition class_values :: "string \<Rightarrow> feature list \<Rightarrow> jval list" where
  "class_values fld fs =
     uniq (List.map_filter (\<lambda>f. let v = obj_get (f_props f) fld in
                                  if truthy v then v else None) fs)"

text \<open>The \<open>uniqueValues.forEach\<close> loop: classification entry and match arm per value.\<close>

fun classify_values ::
  "jval list \<Rightarrow> string jsobj \<Rightarrow> (jval \<times> string) list \<Rightarrow> rng \<Rightarrow>
   string jsobj \<times> (jval \<times> string) list \<times> rng" where
  "classify_values [] cl arms r = (cl, arms, r)"
| "classify_values (v # vs) cl arms r =
     (let (c, r') = pick_color (to_lower (js_string v)) r
      in classify_values vs (obj_set cl (js_string v) c) (arms @ [(v, c)]) r')"

definition plain_polygon_layers :: "string \<Rightarrow> string \<Rightarrow> string \<Rightarrow> color_expr \<Rightarrow> lspec list" where
  "plain_polygon_layers prefix src nameLower ce =
     (let isBoundary = js_includes nameLower ''boundary'' in
      [\<lparr>ls_id = prefix @ ''-fill'', ls_type = ''fill'', ls_source = src,
        ls_minzoom = None, ls_maxzoom = None,
        ls_paint = [(''fill-color'', PColor ce), (''fill-opacity'', PNum (if isBoundary then 0.1 else 0.7))]\<rparr>,
       \<lparr>ls_id = prefix @ ''-line'', ls_type = ''line'', ls_source = src,
        ls_minzoom = None, ls_maxzoom = None,
        ls_paint = [(''line-color'', PColor ce), (''line-width'', PNum (if isBoundary then 2.5 else 1.5)),
                    (''line-opacity'', PNum 0.9)]\<rparr>])"

definition geometry_layers ::
  "string \<Rightarrow> string \<Rightarrow> string \<Rightarrow> jval jsobj \<Rightarrow> string \<Rightarrow> color_expr \<Rightarrow> lspec list" where
  "geometry_layers prefix src nameLower props0 geomType ce =
     (if js_includes geomType ''Polygon'' then
        (let heightField = find (\<lambda>f. truthy (obj_get props0 f)) heightFields in
         case heightField of
           Some hf \<Rightarrow>
             (if js_includes nameLower ''builtup'' \<or> js_includes nameLower ''building'' then
                [\<lparr>ls_id = prefix @ ''-extrusion'', ls_type = ''fill-extrusion'', ls_source = src,
                  ls_minzoom = Some 15, ls_maxzoom = None,
                  ls_paint = [(''fill-extrusion-color'', PColor ce), (''fill-extrusion-opacity'', PNum 0.85),
                              (''fill-extrusion-base'', PNum 0), (''fill-extrusion-height'', PHeight hf)]\<rparr>,
                 \<lparr>ls_id = prefix @ ''-fill-lod'', ls_type = ''fill'', ls_source = src,
                  ls_minzoom = None, ls_maxzoom = Some 15,
                  ls_paint = [(''fill-color'', PColor ce), (''fill-opacity'', PNum 0.7)]\<rparr>]
              else plain_polygon_layers prefix src nameLower ce)
         | None \<Rightarrow> plain_polygon_layers prefix src nameLower ce)
      else if js_includes geomType ''LineString'' then
        [\<lparr>ls_id = prefix @ ''-line'', ls_type = ''line'', ls_source = src,
          ls_minzoom = None, ls_maxzoom = None,
          ls_paint = [(''line-color'', PColor ce), (''line-width'', PNum 2.5), (''line-opacity'', PNum 0.8)]\<rparr>]
      else if js_includes geomType ''Point'' then
        [\<lparr>ls_id = prefix @ ''-point'', ls_type = ''circle'', ls_source = src,
          ls_minzoom = None, ls_maxzoom = None,
          ls_paint = [(''circle-color'', PColor ce), (''circle-radius'', PNum 5),
                      (''circle-stroke-color'', PStr ''white''), (''circle-stroke-width'', PNum 1),
                      (''circle-opacity'', PNum 0.9)]\<rparr>]
      else [])"

text \<open>
  \<open>generateVectorStyle(layerIdPrefix, sourceId, geojson, filename)\<close>; \<open>dname\<close> is
  the display name the vector list's checkbox for \<open>filename\<close> carries, if any.
\<close>

definition generateVectorStyle ::
  "string \<Rightarrow> string \<Rightarrow> feature list \<Rightarrow> string \<Rightarrow> string option \<Rightarrow> rng \<Rightarrow>
   string + style_out \<times> rng" where
  "generateVectorStyle prefix src fs filename dname r =
     (let nameLower = to_lower filename;
          empty = \<lparr>so_layers = [], so_classification = [], so_classField = None\<rparr>
      in case fs of
        [] \<Rightarrow> Inr (empty, r)
      | f0 # _ \<Rightarrow>
        (case f_geometry f0 of
           None \<Rightarrow> Inl ''TypeError: Cannot read properties of null (reading 'type')''
         | Some geomType \<Rightarrow>
           (if geomType = [] then Inr (empty, r)
            else
             (let props0 = f_props f0;
                  classField = find (\<lambda>f. truthy (obj_get props0 f)) potentialFields
              in case classField of
                Some fld \<Rightarrow>
                  (let (cl, arms, r1) = classify_values (class_values fld fs) [] [] r;
                       (dflt, r2) = getRandomColor r1
                   in Inr (\<lparr>so_layers = geometry_layers prefix src nameLower props0 geomType
                                          (CMatch fld arms dflt),
                            so_classification = cl, so_classField = Some fld\<rparr>, r2))
              | None \<Rightarrow>
                  (let (base, r1) = pick_color nameLower r;
                       displayName = (case dname of Some n \<Rightarrow> n | None \<Rightarrow> filename)
                   in Inr (\<lparr>so_layers = geometry_layers prefix src nameLower props0 geomType (CConst base),
                            so_classification = [(displayName, base)], so_classField = None\<rparr>, r1))))))"

text \<open>The definitions a concrete style unfolds to, for evaluation by \<open>simp\<close>.\<close>

lemmas style_eval = generateVectorStyle_def potentialFields_def heightFields_def class_values_def
  List.map_filter_def obj_get_def pick_color_def keyword_color_def keyword_key_def KEYWORD_COLORS_def
  to_lower_def lower_char_def upper_letters_def lower_letters_def getRandomColor_def pad_start_def
  geometry_layers_def plain_polygon_layers_def

section \<open>Keyword lookup\<close>

lemma lower_char_not_upper: "lower_char c \<notin> set upper_letters"
proof (cases "map_of (zip upper_letters lower_letters) c")
  case None
  have "length upper_letters = length lower_letters"
    by (simp add: upper_letters_def lower_letters_def)
  with None have "c \<notin> set upper_letters"
    by (simp add: map_of_zip_is_None)
  with None show ?thesis by (simp add: lower_char_def)
next
  case (Some d)
  then have "d \<in> set lower_letters" by (auto dest: map_of_SomeD set_zip_rightD)
  then have "d \<notin> set upper_letters" by (auto simp: upper_letters_def lower_letters_def)
  with Some show ?thesis by (simp add: lower_char_def)
qed

lemma to_lower_no_upper [js_simps]: "c \<in> set upper_letters \<Longrightarrow> c \<notin> set (to_lower s)"
  using lower_char_not_upper by (auto simp: to_lower_def)

text \<open>
  The first entry of a list that a predicate on keys selects is never one shadowed by an
  earlier entry whose key the predicate accepts whenever it accepts the later one.
\<close>

lemma find_shadowed:
  assumes "find (\<lambda>(k, c). Q k) xs = Some (k2, c2)"
    and "(k1, c1) \<in> set (takeWhile (\<lambda>(k, c). k \<noteq> k2) xs)"
    and "Q k2 \<Longrightarrow> Q k1"
  shows False
  using assms
proof (induction xs)
  case Nil
  then show ?case by simp
next
  case (Cons x xs)
  obtain k c where x: "x = (k, c)" by (cases x)
  show ?case
  proof (cases "Q k")
    case True
    with Cons.prems(1) x have "k = k2" by simp
    with Cons.prems(2) x show ?thesis by simp
  next
    case False
    with Cons.prems(1) x have found: "find (\<lambda>(k, c). Q k) xs = Some (k2, c2)" by simp
    then have "Q k2" by (auto simp: find_Some_iff)
    show ?thesis
    proof (cases "(k1, c1) = x")
      case True
      with x False Cons.prems(3) \<open>Q k2\<close> show ?thesis by simp
    next
      case False
      with Cons.prems(2) x have "(k1, c1) \<in> set (takeWhile (\<lambda>(k, c). k \<noteq> k2) xs)"
        by (auto split: if_splits)
      then show ?thesis using found Cons.prems(3) by (intro Cons.IH)
    qed
  qed
qed

lemma keyword_key_Some: "keyword_key s = Some k \<Longrightarrow> \<exists>c. find (\<lambda>(k, c). js_includes s k) KEYWORD_COLORS = Some (k, c)"
  by (auto simp: keyword_key_def)

lemma keyword_key_includes: "keyword_key s = Some k \<Longrightarrow> js_includes s k"
  by (auto simp: keyword_key_def find_Some_iff)

lemma keyword_key_color:
  "keyword_color s = (case keyword_key s of None \<Rightarrow> None | Some k \<Rightarrow> map_of KEYWORD_COLORS k)"
  by (auto simp: keyword_key_def keyword_color_def KEYWORD_COLORS_def find_Some_iff split: option.splits)

lemma shadowed_key:
  assumes "(k1, c1) \<in> set (takeWhile (\<lambda>(k, c). k \<noteq> k2) KEYWORD_COLORS)"
    and "js_includes k2 k1"
  shows "keyword_key s \<noteq> Some k2"
proof
  assume "keyword_key s = Some k2"
  then obtain c2 where found: "find (\<lambda>(k, c). js_includes s k) KEYWORD_COLORS = Some (k2, c2)"
    by (blast dest: keyword_key_Some)
  have "js_includes s k2 \<Longrightarrow> js_includes s k1"
    using assms(2) by (rule js_includes_mono)
  with found assms(1) show False by (rule find_shadowed)
qed

text \<open>
  C4: three entries of \<open>KEYWORD_COLORS\<close> can never be chosen.  The looked-up name is
  lowercased, so the key \<open>Basin\<close> never occurs in it; \<open>tanks\<close> contains the earlier key
  \<open>tank\<close>, which wins; and \<open>waterbody\<close> contains the earlier key \<open>water\<close>.
\<close>

theorem dead_keyword_entries:
  "keyword_key (to_lower s) \<notin> {Some ''Basin'', Some ''tanks'', Some ''waterbody''}"
proof -
  have "keyword_key (to_lower s) \<noteq> Some ''Basin''"
  proof
    assume "keyword_key (to_lower s) = Some ''Basin''"
    then have "js_includes (to_lower s) ''Basin''" by (rule keyword_key_includes)
    then have "CHR ''B'' \<in> set (to_lower s)" by (auto simp: js_includes_iff)
    moreover have "CHR ''B'' \<in> set upper_letters" by (simp add: upper_letters_def)
    ultimately show False by (simp add: to_lower_no_upper)
  qed
  moreover have "keyword_key (to_lower s) \<noteq> Some ''tanks''"
    by (rule shadowed_key [of "''tank''" "''#1297f6ff''"]) (simp_all add: KEYWORD_COLORS_def)
  moreover have "keyword_key (to_lower s) \<noteq> Some ''waterbody''"
    by (rule shadowed_key [of "''water''" "''#1297f6ff''"]) (simp_all add: KEYWORD_COLORS_def)
  ultimately show ?thesis by blast
qed

section \<open>The generated style\<close>

definition style_layer_ids :: "string \<Rightarrow> string set" where
  "style_layer_ids p = {p @ ''-extrusion'', p @ ''-fill-lod'', p @ ''-fill'', p @ ''-line'', p @ ''-point''}"

lemma geometry_layers_shape:
  "l \<in> set (geometry_layers p src nl props0 g ce) \<Longrightarrow> ls_source l = src \<and> ls_id l \<in> style_layer_ids p"
  by (auto simp: geometry_layers_def plain_polygon_layers_def style_layer_ids_def Let_def
      split: if_splits option.splits)

lemma geometry_layers_distinct: "distinct (map ls_id (geometry_layers p src nl props0 g ce))"
  by (auto simp: geometry_layers_def plain_polygon_layers_def Let_def split: option.splits)

lemma generateVectorStyle_cases:
  assumes "generateVectorStyle p src fs fn d r = Inr (so, r')"
  obtains (empty) "so_layers so = []"
  | (geom) f0 fs' g ce where "fs = f0 # fs'" "f_geometry f0 = Some g"
      "so_layers so = geometry_layers p src (to_lower fn) (f_props f0) g ce"
  using assms
  by (auto simp: generateVectorStyle_def Let_def split: list.splits option.splits if_splits
      prod.splits)

text \<open>Every layer the engine emits reads the layer's source and carries one of five ids.\<close>

lemma generateVectorStyle_layers:
  assumes "generateVectorStyle p src fs fn d r = Inr (so, r')"
  shows "(\<forall>l \<in> set (so_layers so). ls_source l = src \<and> ls_id l \<in> style_layer_ids p) \<and>
         distinct (map ls_id (so_layers so))"
  using assms
  by (cases rule: generateVectorStyle_cases) (auto dest: geometry_layers_shape
      simp: geometry_layers_distinct)

text \<open>The engine raises exactly when the first feature's geometry is \<open>null\<close>.\<close>

lemma generateVectorStyle_Inl_iff:
  "(\<exists>e. generateVectorStyle p src fs fn d r = Inl e) \<longleftrightarrow> fs \<noteq> [] \<and> f_geometry (hd fs) = None"
  by (auto simp: generateVectorStyle_def Let_def split: list.splits option.splits if_splits
      prod.splits)

lemma classify_values_rng_free:
  "\<forall>v \<in> set vs. keyword_color (to_lower (js_string v)) \<noteq> None \<Longrightarrow>
   fst (classify_values vs cl arms r1) = fst (classify_values vs cl arms r2)"
proof (induction vs arbitrary: cl arms r1 r2)
  case Nil
  then show ?case by simp
next
  case (Cons v vs)
  then obtain c where "keyword_color (to_lower (js_string v)) = Some c" by auto
  with Cons show ?case by (simp add: pick_color_def)
qed

lemma generateVectorStyle_classification:
  assumes "generateVectorStyle p src fs fn d r = Inr (so, r')" and "so_classField so = Some fld"
  shows "so_classification so = fst (classify_values (class_values fld fs) [] [] r)"
  using assms
  by (auto simp: generateVectorStyle_def Let_def split: list.splits option.splits if_splits
      prod.splits)

section \<open>Classification keys\<close>

lemma set_uniq [simp]: "set (uniq xs) = set xs"
  by (induction xs rule: uniq.induct) auto

lemma set_class_values:
  "v \<in> set (class_values fld fs) \<longleftrightarrow> (\<exists>f \<in> set fs. obj_get (f_props f) fld = Some v \<and> truthy (Some v))"
  by (force simp: class_values_def List.map_filter_def Let_def split: if_splits)

lemma classify_values_keys:
  "set (obj_keys (fst (classify_values vs cl arms r))) = set (obj_keys cl) \<union> js_string ` set vs"
  by (induction vs cl arms r rule: classify_values.induct)
     (auto simp: obj_keys_set split: prod.split if_splits)

lemma generateVectorStyle_classified:
  assumes "generateVectorStyle p src fs fn d r = Inr (so, r')" "so_classField so = Some fld"
    and "f \<in> set fs" "obj_get (f_props f) fld = Some c" "truthy (Some c)"
  shows "js_string c \<in> set (obj_keys (so_classification so))"
proof -
  have "c \<in> set (class_values fld fs)" using assms(3-5) by (auto simp: set_class_values)
  moreover have "so_classification so = fst (classify_values (class_values fld fs) [] [] r)"
    using assms(1,2)
    by (auto simp: generateVectorStyle_def Let_def split: list.splits option.splits if_splits prod.splits)
  ultimately show ?thesis using classify_values_keys [of "class_values fld fs" "[]" "[]" r] by simp
qed

text \<open>
  When every category value of the classification field matches a keyword of the
  colour table, the legend table does not depend on \<open>Math.random()\<close>: regenerating the
  style (as the basemap replay does) reproduces it.
\<close>

theorem classification_keyword_deterministic:
  assumes "generateVectorStyle p src fs fn d r1 = Inr (o1, r1')"
    and "generateVectorStyle p src fs fn d r2 = Inr (o2, r2')"
    and "so_classField o1 = Some fld" and "so_classField o2 = Some fld"
    and "\<forall>v \<in> set (class_values fld fs). keyword_color (to_lower (js_string v)) \<noteq> None"
  shows "so_classification o1 = so_classification o2"
  using generateVectorStyle_classification [OF assms(1,3)]
    generateVectorStyle_classification [OF assms(2,4)] classify_values_rng_free [OF assms(5)]
  by simp

theorem classification_keyword_deterministic_witness:
  "\<exists>o1 r1' o2 r2'.
     generateVectorStyle ''vector-f'' ''source-vector-f'' [\<lparr>f_geometry = Some ''Point'', f_props = [(''Name'', JStr ''Forest A'')]\<rparr>] ''f'' None (\<lambda>_. 0, 0) = Inr (o1, r1') \<and>
     generateVectorStyle ''vector-f'' ''source-vector-f'' [\<lparr>f_geometry = Some ''Point'', f_props = [(''Name'', JStr ''Forest A'')]\<rparr>] ''f'' None (\<lambda>_. 1, 0) = Inr (o2, r2') \<and>
     so_classField o1 = Some ''Name'' \<and> so_classification o1 = so_classification o2"
proof -
  let ?fs = "[\<lparr>f_geometry = Some ''Point'', f_props = [(''Name'', JStr ''Forest A'')]\<rparr>]"
  have "\<exists>o1 r1'. generateVectorStyle ''vector-f'' ''source-vector-f'' ?fs ''f'' None (\<lambda>_. 0, 0) = Inr (o1, r1') \<and>
          so_classField o1 = Some ''Name''"
    by (simp add: style_eval js_simps)
  then obtain o1 r1' where g1: "generateVectorStyle ''vector-f'' ''source-vector-f'' ?fs ''f'' None (\<lambda>_. 0, 0) = Inr (o1, r1')"
    and c1: "so_classField o1 = Some ''Name''" by blast
  have "\<exists>o2 r2'. generateVectorStyle ''vector-f'' ''source-vector-f'' ?fs ''f'' None (\<lambda>_. 1, 0) = Inr (o2, r2') \<and>
          so_classField o2 = Some ''Name''"
    by (simp add: style_eval js_simps)
  then obtain o2 r2' where g2: "generateVectorStyle ''vector-f'' ''source-vector-f'' ?fs ''f'' None (\<lambda>_. 1, 0) = Inr (o2, r2')"
    and c2: "so_classField o2 = Some ''Name''" by blast
  have kw: "\<forall>v \<in> set (class_values ''Name'' ?fs). keyword_color (to_lower (js_string v)) \<noteq> None"
    by (simp add: style_eval js_simps)
  from classification_keyword_deterministic [OF g1 g2 c1 c2 kw] g1 g2 c1 show ?thesis by blast
qed

text \<open>
  With a category value that matches no keyword, the legend colour is the random
  draw, so two runs of the engine on the same payload give different tables.
\<close>

theorem classification_depends_on_random:
  "(case generateVectorStyle ''vector-x'' ''source-vector-x'' [\<lparr>f_geometry = Some ''Point'', f_props = [(''Name'', JStr ''A'')]\<rparr>] ''x'' None (\<lambda>_. 0, 0)
      of Inr (so, _) \<Rightarrow> so_classification so | Inl _ \<Rightarrow> []) = [(''A'', ''#000000'')] \<and>
   (case generateVectorStyle ''vector-x'' ''source-vector-x'' [\<lparr>f_geometry = Some ''Point'', f_props = [(''Name'', JStr ''A'')]\<rparr>] ''x'' None (\<lambda>_. 1, 0)
      of Inr (so, _) \<Rightarrow> so_classification so | Inl _ \<Rightarrow> []) = [(''A'', ''#000001'')]"
  by (simp add: style_eval js_simps)

end
