(* ===== verification/Layers.thy ===== *)
theory Layers
  imports Style
begin

text \<open>
  The layer activation controller of \<open>src/static/js/layer-handlers.js\<close>: the session
  state of \<open>main.js\<close> (\<open>state.currentDEM\<close>, \<open>state.activeLayers\<close>,
  \<open>state.highlightedFeature\<close>, \<open>firstSymbolId\<close>) together with the map, and the
  handlers \<open>handleDemChange\<close>, \<open>handleVectorToggle\<close>, \<open>addOrUpdateLabelLayer\<close> and
  \<open>handleRasterToggle\<close>.  A handler's network reply is an argument: the vector
  handler awaits one \<open>fetch\<close> before any state change, so the continuation after the
  \<open>await\<close> is the step modelled here, and two requests in flight are two such steps
  in either order.  A handler that catches its errors returns the new session with the
  checkbox's \<open>checked\<close> value; \<open>handleDemChange\<close>, which has no \<open>catch\<close>, returns
  an outcome that records an escaping exception together with the state reached.
\<close>

record dem_state =
  dem_id :: string
  dem_name :: string
  dem_source :: string

record vector_info =
  vi_classification :: "string jsobj"
  vi_classField :: "string option"
  vi_sourceId :: string
  vi_filename :: string
  vi_features :: "feature list"
  vi_layerIds :: "string list"
  vi_displayName :: string

text \<open>The \<open>layerInfo\<close> object a raster checkbox carries (\<open>stats\<close> as (min, max) pairs).\<close>

record raster_meta =
  rm_id :: string
  rm_name :: string
  rm_bands :: nat
  rm_stats :: "(real \<times> real) list"
  rm_colormap :: "string option"

datatype layer_info = VectorLayer vector_info | RasterLayer raster_meta

record session =
  currentDEM :: "dem_state option"
  activeLayers :: "layer_info jsobj"
  highlightedFeature :: "(string \<times> string) option"
  firstSymbolId :: "string option"
  rng :: rng
  smap :: mapst

text \<open>The JSON body of \<open>/api/vector_layer/<file>\<close>.\<close>

record geojson =
  gj_error :: "string option"
  gj_features :: "feature list option"

section \<open>Identifiers\<close>

definition vector_prefix :: "string \<Rightarrow> string" where
  "vector_prefix filename = ''vector-'' @ sanitize filename"

definition raster_layer_id :: "string \<Rightarrow> string" where
  "raster_layer_id filename = ''raster-'' @ sanitize filename"

definition source_of :: "string \<Rightarrow> string" where
  "source_of k = ''source-'' @ k"

definition label_id :: "string \<Rightarrow> string" where
  "label_id k = k @ ''-labels''"

definition HIGHLIGHT_LAYER :: string where
  "HIGHLIGHT_LAYER = ''highlight-layer''"

section \<open>Helpers\<close>

definition to_mlayer :: "lspec \<Rightarrow> mlayer" where
  "to_mlayer l = \<lparr>ml_id = ls_id l, ml_type = ls_type l, ml_source = Some (ls_source l),
                  ml_filter = NoFilter, ml_visible = True, ml_text = None\<rparr>"

text \<open>\<open>window.clearFeatureHighlight\<close> (\<open>ui.js\<close>).\<close>

definition clearFeatureHighlight :: "session \<Rightarrow> session" where
  "clearFeatureHighlight s =
     s\<lparr>smap := remove_layer_if HIGHLIGHT_LAYER (smap s), highlightedFeature := None\<rparr>"

text \<open>\<open>geojson.features.forEach((f, i) => f.properties._uniqueId = `${prefix}_${i}`)\<close>.\<close>

definition tag_features :: "string \<Rightarrow> feature list \<Rightarrow> feature list" where
  "tag_features prefix fs =
     map (\<lambda>(i, f). f\<lparr>f_props := obj_set (f_props f) ''_uniqueId'' (JStr (prefix @ ''_'' @ dec_nat i))\<rparr>)
         (zip [0..<length fs] fs)"

definition info_source :: "layer_info \<Rightarrow> string option" where
  "info_source i = (case i of VectorLayer v \<Rightarrow> Some (vi_sourceId v) | RasterLayer _ \<Rightarrow> None)"

text \<open>\<open>addOrUpdateLabelLayer(layerIdPrefix, field = 'Name')\<close>.\<close>

definition addOrUpdateLabelLayer :: "string \<Rightarrow> string \<Rightarrow> session \<Rightarrow> session" where
  "addOrUpdateLabelLayer prefix field s =
     (case obj_get (activeLayers s) prefix of
        None \<Rightarrow> s
      | Some info \<Rightarrow>
          (let m1 = remove_layer_if (label_id prefix) (smap s) in
           if field = ''None'' then s\<lparr>smap := m1\<rparr>
           else s\<lparr>smap := addLayer \<lparr>ml_id = label_id prefix, ml_type = ''symbol'',
                                     ml_source = info_source info, ml_filter = NoFilter,
                                     ml_visible = True, ml_text = Some field\<rparr> None m1\<rparr>))"

section \<open>handleVectorToggle\<close>

text \<open>The \<open>try\<close> block after the \<open>await\<close> when the box is checked.\<close>

definition vector_activate ::
  "string \<Rightarrow> string \<Rightarrow> feature list \<Rightarrow> session \<Rightarrow> session \<times> bool" where
  "vector_activate filename displayName features s =
     (let prefix = vector_prefix filename;
          fs = tag_features prefix features;
          sourceId = source_of prefix
      in case addSource sourceId (smap s) of
           Inl _ \<Rightarrow> (s, False)
         | Inr m1 \<Rightarrow>
             (case generateVectorStyle prefix sourceId fs filename (Some displayName) (rng s) of
                Inl _ \<Rightarrow> (s\<lparr>smap := m1\<rparr>, False)
              | Inr (so, r') \<Rightarrow>
                  (let m2 = fold (\<lambda>l m. addLayer (to_mlayer l) (firstSymbolId s) m) (so_layers so) m1;
                       info = \<lparr>vi_classification = so_classification so, vi_classField = so_classField so,
                               vi_sourceId = sourceId, vi_filename = filename, vi_features = fs,
                               vi_layerIds = map ls_id (so_layers so), vi_displayName = displayName\<rparr>;
                       s2 = s\<lparr>smap := m2, rng := r',
                              activeLayers := obj_set (activeLayers s) prefix (VectorLayer info)\<rparr>
                   in (addOrUpdateLabelLayer prefix ''Name'' s2, True))))"

text \<open>The \<open>else\<close> branch: the box was unchecked.  The flag says whether the branch
  ran to its end: an entry without \<open>layerIds\<close> (a raster entry under the key) makes
  \<open>layerInfo.layerIds.forEach\<close> throw a \<open>TypeError\<close> right after the highlight is
  cleared.\<close>

definition vector_deactivate :: "string \<Rightarrow> session \<Rightarrow> session \<times> bool" where
  "vector_deactivate filename s =
     (let prefix = vector_prefix filename in
      case obj_get (activeLayers s) prefix of
        None \<Rightarrow> (s, True)
      | Some (RasterLayer _) \<Rightarrow> (clearFeatureHighlight s, False)
      | Some (VectorLayer info) \<Rightarrow>
          (let s1 = clearFeatureHighlight s;
               m1 = fold remove_layer_if (vi_layerIds info) (smap s1);
               m2 = remove_layer_if (label_id prefix) m1;
               m3 = remove_source_if (vi_sourceId info) m2
           in (s1\<lparr>smap := m3, activeLayers := obj_del (activeLayers s1) prefix\<rparr>, True)))"

text \<open>
  The \<open>try\<close> block of \<open>handleVectorToggle(checkbox)\<close> up to its last two calls
  (\<open>updateLegend(); updateLabelControl();\<close>, which need the panels of \<open>ui.js\<close> and
  are composed in \<open>Toggle\<close>): \<open>checked\<close> is the box's state when the change event
  fired, \<open>displayName\<close> the name in its \<open>layerInfo\<close>; the result is the session and
  whether the block got past the activation or deactivation without throwing.  A failed
  request, an \<open>error\<close> member of the reply and a reply without \<open>features\<close> all
  throw before anything changed.
\<close>

definition vector_toggle_try ::
  "bool \<Rightarrow> string \<Rightarrow> string \<Rightarrow> geojson reply \<Rightarrow> session \<Rightarrow> session \<times> bool" where
  "vector_toggle_try checked filename displayName reply s =
     (if checked then
        (case reply of
           FetchFailed _ \<Rightarrow> (s, False)
         | FetchOk gj \<Rightarrow>
             (if truthy (map_option JStr (gj_error gj)) then (s, False)
              else case gj_features gj of
                     None \<Rightarrow> (s, False)
                   | Some features \<Rightarrow> vector_activate filename displayName features s))
      else vector_deactivate filename s)"

section \<open>handleRasterToggle\<close>

text \<open>
  The checks of the tile-URL computation: a multi-band layer needs its band controls
  (\<open>controlsDiv.querySelector\<close> on \<open>null\<close> is a \<open>TypeError\<close>) and statistics for the
  three chosen bands (\<open>info.stats[r - 1].min\<close>); a single-band layer needs \<open>stats[0]\<close>.
  The URL itself is not part of the map model.
\<close>

definition raster_tile_ok :: "raster_meta \<Rightarrow> (nat \<times> nat \<times> nat) option \<Rightarrow> bool" where
  "raster_tile_ok info bands =
     (if 1 < rm_bands info then
        (case bands of
           None \<Rightarrow> False
         | Some (r, g, b) \<Rightarrow> (\<forall>i \<in> {r, g, b}. 1 \<le> i \<and> i \<le> length (rm_stats info)))
      else rm_stats info \<noteq> [])"

text \<open>
  \<open>handleRasterToggle(checkbox, isBandChange)\<close>: \<open>info\<close> is the parsed \<open>layerInfo\<close>,
  \<open>bands\<close> the selected (r, g, b) of the band controls if they exist.  The fly-to is
  a detached request and changes no state.
\<close>

definition handleRasterToggle ::
  "bool \<Rightarrow> string \<Rightarrow> raster_meta \<Rightarrow> (nat \<times> nat \<times> nat) option \<Rightarrow> session \<Rightarrow> session \<times> bool" where
  "handleRasterToggle checked filename info bands s =
     (let layerId = raster_layer_id filename; sourceId = source_of layerId in
      if checked then
        (if \<not> raster_tile_ok info bands then (s, False)
         else
           (let m0 = smap s;
                m1 = (if has_source m0 sourceId
                      then (let m' = remove_layer_if layerId m0 in
                            case removeSource sourceId m' of Inr m'' \<Rightarrow> m'' | Inl _ \<Rightarrow> m')
                      else m0);
                s1 = s\<lparr>smap := m1, activeLayers := obj_set (activeLayers s) layerId (RasterLayer info)\<rparr>
            in case addSource sourceId m1 of
                 Inl _ \<Rightarrow> (s1, False)
               | Inr m2 \<Rightarrow>
                   (s1\<lparr>smap := addLayer \<lparr>ml_id = layerId, ml_type = ''raster'', ml_source = Some sourceId,
                                         ml_filter = NoFilter, ml_visible = True, ml_text = None\<rparr> (firstSymbolId s) m2\<rparr>,
                    True)))
      else
        (s\<lparr>smap := remove_source_if sourceId (remove_layer_if layerId (smap s)),
           activeLayers := obj_del (activeLayers s) layerId\<rparr>, False))"

section \<open>handleDemChange\<close>

text \<open>
  \<open>handleDemChange(radio)\<close>: release the previous terrain, hillshade and DEM source,
  then install the new ones.  There is no \<open>catch\<close>: a throwing \<open>addSource\<close>
  escapes, after \<open>state.currentDEM\<close> has already been replaced.
\<close>

definition handleDemChange :: "bool \<Rightarrow> string \<Rightarrow> string \<Rightarrow> session \<Rightarrow> session outcome" where
  "handleDemChange checked demId demName s =
     (if \<not> checked then Done s
      else
        (let m0 = smap s;
             m1 = (case currentDEM s of
                     Some d \<Rightarrow>
                       (if has_source m0 (dem_source d)
                        then remove_source_if (dem_source d)
                               (remove_layer_if ''hillshade'' (setTerrain None m0))
                        else m0)
                   | None \<Rightarrow> m0);
             demSourceId = ''dem-source-'' @ demId;
             s1 = s\<lparr>smap := m1,
                    currentDEM := Some \<lparr>dem_id = demId, dem_name = demName, dem_source = demSourceId\<rparr>\<rparr>
         in case addSource demSourceId m1 of
              Inl e \<Rightarrow> Thrown e s1
            | Inr m2 \<Rightarrow>
                Done (s1\<lparr>smap := addLayer \<lparr>ml_id = ''hillshade'', ml_type = ''hillshade'',
                                           ml_source = Some demSourceId, ml_filter = NoFilter,
                                           ml_visible = True, ml_text = None\<rparr> (firstSymbolId s)
                                 (setTerrain (Some demSourceId) m2)\<rparr>)))"

section \<open>Identifier facts\<close>

lemma tag_features_geometry [simp]: "map f_geometry (tag_features p fs) = map f_geometry fs"
proof -
  have "map f_geometry (tag_features p fs) = map (\<lambda>x. f_geometry (snd x)) (zip [0..<length fs] fs)"
    by (simp add: tag_features_def case_prod_unfold)
  also have "\<dots> = map f_geometry (map snd (zip [0..<length fs] fs))"
    by (simp only: map_map comp_def)
  also have "\<dots> = map f_geometry fs" by simp
  finally show ?thesis .
qed

lemma length_tag_features [simp]: "length (tag_features p fs) = length fs"
  by (simp add: tag_features_def)

lemma tag_features_hd_geometry:
  assumes "fs = [] \<or> f_geometry (hd fs) \<noteq> None"
  shows "tag_features p fs = [] \<or> f_geometry (hd (tag_features p fs)) \<noteq> None"
proof (cases fs)
  case Nil
  then show ?thesis by (simp add: tag_features_def)
next
  case (Cons f fs')
  then have "tag_features p fs \<noteq> []" by (simp add: tag_features_def zip_eq_Nil_iff)
  then have "f_geometry (hd (tag_features p fs)) = hd (map f_geometry (tag_features p fs))"
    by (rule hd_map [symmetric])
  also have "\<dots> = f_geometry f" using Cons by simp
  finally show ?thesis using assms Cons by simp
qed

lemma label_not_style_layer [simp]: "label_id k \<notin> style_layer_ids k"
  by (simp add: label_id_def style_layer_ids_def)

lemma highlight_not_vector_layer [simp]:
  "HIGHLIGHT_LAYER \<notin> style_layer_ids (vector_prefix fn)"
  "HIGHLIGHT_LAYER \<noteq> label_id (vector_prefix fn)"
  by (simp_all add: HIGHLIGHT_LAYER_def style_layer_ids_def vector_prefix_def label_id_def)

section \<open>Activation and deactivation of a vector layer\<close>

lemma addSource_fresh:
  "\<not> has_source m s \<Longrightarrow> addSource s m = Inr (m\<lparr>m_sources := m_sources m @ [s]\<rparr>)"
  by (simp add: addSource_def)

lemma addSource_present: "has_source m s \<Longrightarrow> addSource s m = Inl (SourceExists s)"
  by (simp add: addSource_def)

text \<open>
  Activation on a map that has none of the key's ids: the source and the layers are
  added, the entry is registered, and removing exactly the entry's ids gives back the
  layer stack as it was.
\<close>

lemma vector_activate_fresh:
  assumes key: "vector_prefix fn \<notin> set (obj_keys (activeLayers s))"
    and src: "\<not> has_source (smap s) (source_of (vector_prefix fn))"
    and ids: "\<forall>i \<in> insert (label_id (vector_prefix fn)) (style_layer_ids (vector_prefix fn)).
                \<not> has_layer (smap s) i"
    and anchor: "\<forall>a. firstSymbolId s = Some a \<longrightarrow> has_layer (smap s) a"
    and geom: "fs = [] \<or> f_geometry (hd fs) \<noteq> None"
  shows "\<exists>s1 info. vector_activate fn dn fs s = (s1, True) \<and>
           activeLayers s1 = obj_set (activeLayers s) (vector_prefix fn) (VectorLayer info) \<and>
           vi_sourceId info = source_of (vector_prefix fn) \<and>
           set (vi_layerIds info) \<subseteq> style_layer_ids (vector_prefix fn) \<and>
           m_sources (smap s1) = m_sources (smap s) @ [source_of (vector_prefix fn)] \<and>
           filter (\<lambda>x. ml_id x \<notin> set (vi_layerIds info @ [label_id (vector_prefix fn)])) (m_layers (smap s1))
             = m_layers (smap s) \<and>
           set (layer_ids (smap s1)) = set (layer_ids (smap s)) \<union> set (vi_layerIds info @ [label_id (vector_prefix fn)]) \<and>
           m_terrain (smap s1) = m_terrain (smap s) \<and> m_errors (smap s1) = m_errors (smap s) \<and>
           firstSymbolId s1 = firstSymbolId s \<and>
           vi_features info = tag_features (vector_prefix fn) fs \<and> vi_displayName info = dn \<and>
           (\<exists>l \<in> set (m_layers (smap s1)). ml_id l = label_id (vector_prefix fn) \<and> ml_text l = Some ''Name'')"
proof -
  define k where "k = vector_prefix fn"
  define src where "src = source_of k"
  define tfs where "tfs = tag_features k fs"
  define m1 where "m1 = (smap s)\<lparr>m_sources := m_sources (smap s) @ [src]\<rparr>"
  have add1: "addSource src (smap s) = Inr m1"
    using src by (simp add: addSource_fresh m1_def src_def k_def)
  have "\<not> (\<exists>e. generateVectorStyle k src tfs fn (Some dn) (rng s) = Inl e)"
    using tag_features_hd_geometry [OF geom, of k] by (simp add: generateVectorStyle_Inl_iff tfs_def)
  then obtain so r' where gen: "generateVectorStyle k src tfs fn (Some dn) (rng s) = Inr (so, r')"
    by (metis sumE surj_pair)
  have lay: "\<forall>l \<in> set (so_layers so). ls_source l = src \<and> ls_id l \<in> style_layer_ids k"
    and dist: "distinct (map ls_id (so_layers so))"
    using generateVectorStyle_layers [OF gen] by auto
  define ls where "ls = map to_mlayer (so_layers so)"
  have ls_ids: "map ml_id ls = map ls_id (so_layers so)"
    by (simp add: ls_def to_mlayer_def)
  have ls_src: "\<forall>l \<in> set ls. ml_source l = Some src"
    using lay by (auto simp: ls_def to_mlayer_def)
  have has1: "has_layer m1 i = has_layer (smap s) i" "has_source m1 src" for i
    by (simp_all add: m1_def has_layer_def layer_ids_def has_source_def)
  have fresh1: "\<forall>l \<in> set ls. \<not> has_layer m1 (ml_id l)"
    using ids lay by (auto simp: has1 ls_def to_mlayer_def k_def)
  define m2 where "m2 = fold (\<lambda>l. addLayer l (firstSymbolId s)) ls m1"
  have F: "filter (\<lambda>x. ml_id x \<notin> ml_id ` set ls) (m_layers m2) = m_layers m1 \<and>
      set (layer_ids m2) = set (layer_ids m1) \<union> ml_id ` set ls \<and>
      m_sources m2 = m_sources m1 \<and> m_terrain m2 = m_terrain m1 \<and> m_errors m2 = m_errors m1"
    unfolding m2_def
    using ls_ids dist fresh1 ls_src anchor
    by (intro fold_addLayer_fresh) (auto simp: has1)
  define info where "info = \<lparr>vi_classification = so_classification so, vi_classField = so_classField so,
      vi_sourceId = src, vi_filename = fn, vi_features = tfs,
      vi_layerIds = map ls_id (so_layers so), vi_displayName = dn\<rparr>"
  define lab where "lab = \<lparr>ml_id = label_id k, ml_type = ''symbol'', ml_source = Some src,
      ml_filter = NoFilter, ml_visible = True, ml_text = Some ''Name''\<rparr>"
  have ids2: "set (layer_ids m2) = set (layer_ids (smap s)) \<union> set (map ls_id (so_layers so))"
    using F ls_ids by (simp add: m1_def layer_ids_def flip: set_map)
  have "label_id k \<notin> set (map ls_id (so_layers so))"
  proof
    assume "label_id k \<in> set (map ls_id (so_layers so))"
    then obtain x where "x \<in> set (so_layers so)" "ls_id x = label_id k" by auto
    with lay have "label_id k \<in> style_layer_ids k" by metis
    then show False by simp
  qed
  moreover have "label_id k \<notin> set (layer_ids (smap s))"
    using ids by (simp add: has_layer_def k_def)
  ultimately have lab_fresh: "\<not> has_layer m2 (label_id k)"
    by (simp add: has_layer_def ids2)
  have m3: "m_layers (addLayer lab None (remove_layer_if (label_id k) m2)) = m_layers m2 @ [lab]"
    "m_sources (addLayer lab None (remove_layer_if (label_id k) m2)) = m_sources m2"
    "m_terrain (addLayer lab None (remove_layer_if (label_id k) m2)) = m_terrain m2"
    "m_errors (addLayer lab None (remove_layer_if (label_id k) m2)) = m_errors m2"
    using lab_fresh F by (auto simp: map_defs lab_def layer_ids_def m1_def src_def)
  have act0: "vector_activate fn dn fs s = (addOrUpdateLabelLayer k ''Name''
      (s\<lparr>smap := m2, rng := r', activeLayers := obj_set (activeLayers s) k (VectorLayer info)\<rparr>), True)"
    unfolding vector_activate_def Let_def k_def [symmetric] src_def [symmetric] tfs_def [symmetric]
    by (simp add: add1 gen m2_def ls_def fold_map comp_def info_def)
  have act: "vector_activate fn dn fs s =
      (s\<lparr>smap := addLayer lab None (remove_layer_if (label_id k) m2), rng := r',
          activeLayers := obj_set (activeLayers s) k (VectorLayer info)\<rparr>, True)"
    unfolding act0 by (simp add: addOrUpdateLabelLayer_def obj_get_set lab_def info_source_def info_def)
  have ls_set: "ml_id ` set ls = set (map ls_id (so_layers so))"
    by (metis ls_ids set_map)
  then have ids_eq: "set (map ls_id (so_layers so) @ [label_id k]) = ml_id ` set ls \<union> {label_id k}"
    by auto
  have nolab: "\<forall>x \<in> set (m_layers m2). ml_id x \<noteq> label_id k"
    using lab_fresh by (force simp: has_layer_def layer_ids_def)
  have "filter (\<lambda>x. ml_id x \<notin> set (map ls_id (so_layers so) @ [label_id k])) (m_layers m2 @ [lab])
        = filter (\<lambda>x. ml_id x \<notin> ml_id ` set ls \<union> {label_id k}) (m_layers m2)"
    unfolding ids_eq by (simp add: lab_def)
  also have "\<dots> = filter (\<lambda>x. ml_id x \<notin> ml_id ` set ls) (m_layers m2)"
    using nolab by (intro filter_cong) auto
  finally have filt: "filter (\<lambda>x. ml_id x \<notin> set (map ls_id (so_layers so) @ [label_id k])) (m_layers m2 @ [lab])
        = filter (\<lambda>x. ml_id x \<notin> ml_id ` set ls) (m_layers m2)" .
  define s1 where "s1 = s\<lparr>smap := addLayer lab None (remove_layer_if (label_id k) m2), rng := r',
      activeLayers := obj_set (activeLayers s) k (VectorLayer info)\<rparr>"
  have L: "m_layers (smap s1) = m_layers m2 @ [lab]" using m3 by (simp add: s1_def)
  have h1: "vector_activate fn dn fs s = (s1, True)" using act by (simp add: s1_def)
  have h2: "activeLayers s1 = obj_set (activeLayers s) (vector_prefix fn) (VectorLayer info)"
    by (simp add: s1_def k_def)
  have h3: "vi_sourceId info = source_of (vector_prefix fn)" by (simp add: info_def src_def k_def)
  have h4: "set (vi_layerIds info) \<subseteq> style_layer_ids (vector_prefix fn)"
    using lay by (auto simp: info_def k_def)
  have h5: "m_sources (smap s1) = m_sources (smap s) @ [source_of (vector_prefix fn)]"
    using m3 F by (simp add: s1_def m1_def src_def k_def)
  have "filter (\<lambda>x. ml_id x \<notin> set (vi_layerIds info @ [label_id k])) (m_layers (smap s1))
        = filter (\<lambda>x. ml_id x \<notin> ml_id ` set ls) (m_layers m2)"
    unfolding L using filt by (simp add: info_def)
  also have "\<dots> = m_layers (smap s)" using F by (simp add: m1_def)
  finally have h6: "filter (\<lambda>x. ml_id x \<notin> set (vi_layerIds info @ [label_id (vector_prefix fn)]))
      (m_layers (smap s1)) = m_layers (smap s)" by (simp add: k_def)
  have h7: "set (layer_ids (smap s1)) = set (layer_ids (smap s)) \<union> set (vi_layerIds info @ [label_id (vector_prefix fn)])"
    using L ids2 by (auto simp: layer_ids_def info_def lab_def k_def)
  have h8: "m_terrain (smap s1) = m_terrain (smap s)" "m_errors (smap s1) = m_errors (smap s)"
    "firstSymbolId s1 = firstSymbolId s"
    using m3 F by (simp_all add: s1_def m1_def)
  have h9: "vi_features info = tag_features (vector_prefix fn) fs" "vi_displayName info = dn"
    by (simp_all add: info_def tfs_def k_def)
  have h10: "\<exists>l \<in> set (m_layers (smap s1)). ml_id l = label_id (vector_prefix fn) \<and> ml_text l = Some ''Name''"
    using L by (auto simp: lab_def k_def)
  show ?thesis using h1 h2 h3 h4 h5 h6 h7 h8 h9 h10 by blast
qed

lemma remove_layer_if_absent [simp]: "\<not> has_layer m i \<Longrightarrow> remove_layer_if i m = m"
  by (simp add: remove_layer_if_def)

text \<open>
  Deactivation of a registered vector entry removes exactly its layers and its label,
  and its source when no other layer reads it.
\<close>

lemma vector_deactivate_registered:
  assumes reg: "obj_get (activeLayers s) (vector_prefix fn) = Some (VectorLayer info)"
    and nohl: "\<not> has_layer (smap s) HIGHLIGHT_LAYER"
    and unused: "\<forall>l \<in> set (m_layers (smap s)).
        ml_id l \<notin> set (vi_layerIds info @ [label_id (vector_prefix fn)]) \<longrightarrow> ml_source l \<noteq> Some (vi_sourceId info)"
  shows "snd (vector_deactivate fn s) \<and>
         activeLayers (fst (vector_deactivate fn s)) = obj_del (activeLayers s) (vector_prefix fn) \<and>
         m_layers (smap (fst (vector_deactivate fn s))) =
           filter (\<lambda>x. ml_id x \<notin> set (vi_layerIds info @ [label_id (vector_prefix fn)])) (m_layers (smap s)) \<and>
         m_sources (smap (fst (vector_deactivate fn s))) = removeAll (vi_sourceId info) (m_sources (smap s)) \<and>
         m_terrain (smap (fst (vector_deactivate fn s))) = m_terrain (smap s) \<and>
         m_errors (smap (fst (vector_deactivate fn s))) = m_errors (smap s)"
proof -
  let ?k = "vector_prefix fn"
  let ?m2 = "remove_layer_if (label_id ?k) (fold remove_layer_if (vi_layerIds info) (smap s))"
  have clear: "clearFeatureHighlight s = s\<lparr>highlightedFeature := None\<rparr>"
    using nohl by (simp add: clearFeatureHighlight_def)
  have deact: "vector_deactivate fn s =
      (s\<lparr>highlightedFeature := None, smap := remove_source_if (vi_sourceId info) ?m2,
        activeLayers := obj_del (activeLayers s) ?k\<rparr>, True)"
    by (simp add: vector_deactivate_def Let_def reg clear)
  have L2: "m_layers ?m2 = filter (\<lambda>x. ml_id x \<notin> set (vi_layerIds info @ [label_id ?k])) (m_layers (smap s))"
    by (simp add: filter_filter conj_commute)
  have "\<forall>l \<in> set (m_layers ?m2). ml_source l \<noteq> Some (vi_sourceId info)"
    using unused unfolding L2 by auto
  note R = remove_source_if_unused [OF this]
  show ?thesis using R L2 by (simp add: deact)
qed

lemma activeLayers_label [simp]: "activeLayers (addOrUpdateLabelLayer p fld s) = activeLayers s"
  by (simp add: addOrUpdateLabelLayer_def Let_def split: option.split)

lemma tag_features_hd_null:
  assumes "fs \<noteq> []" "f_geometry (hd fs) = None"
  shows "tag_features p fs \<noteq> [] \<and> f_geometry (hd (tag_features p fs)) = None"
proof -
  have ne: "tag_features p fs \<noteq> []"
    using assms(1) length_tag_features [of p fs] by (metis length_0_conv)
  have "f_geometry (hd (tag_features p fs)) = hd (map f_geometry (tag_features p fs))"
    using ne by (rule hd_map [symmetric])
  also have "\<dots> = hd (map f_geometry fs)" by simp
  also have "\<dots> = f_geometry (hd fs)" using assms(1) by (rule hd_map)
  finally show ?thesis using ne assms(2) by simp
qed

lemma vector_deactivate_absent:
  "vector_prefix fn \<notin> set (obj_keys (activeLayers s)) \<Longrightarrow> vector_deactivate fn s = (s, True)"
  by (simp add: vector_deactivate_def obj_get_None_iff [symmetric])

text \<open>Once the source of the key is on the map, every check of the box throws at
  \<open>addSource\<close> (or earlier) and changes nothing.\<close>

lemma activation_blocked:
  assumes "has_source (smap s) (source_of (vector_prefix fn))"
  shows "vector_toggle_try True fn dn r s = (s, False)"
  using assms
  by (auto simp: vector_toggle_try_def vector_activate_def Let_def addSource_present
      split: reply.split option.split)

end
