(* ===== verification/Legend.thy ===== *)
theory Legend
  imports Layers
begin

text \<open>
  The legend of \<open>src/static/js/ui.js\<close> (\<open>updateLegend\<close>, run on every \<open>moveend\<close>
  and after every vector toggle).  The features MapLibre reports as rendered
  (\<open>map.queryRenderedFeatures\<close>) are an input: a list of property objects.  Each
  feature is attributed to a registry entry through its \<open>_uniqueId\<close>: the part before
  the first underscore, and the first registry key that starts with it.  The
  categories seen are grouped by the entry's display name, each with the entry's
  classification colour; a missing colour makes the rendering read \<open>undefined.color\<close>,
  a \<open>TypeError\<close>, which is the value \<open>None\<close>.
\<close>

section \<open>Attribution of a rendered feature\<close>

text \<open>\<open>feature.properties._uniqueId.split('_')[0]\<close>.\<close>

definition stem :: "string \<Rightarrow> string" where
  "stem uid = takeWhile (\<lambda>c. c \<noteq> CHR ''_'') uid"

text \<open>\<open>Object.keys(state.activeLayers).find(k => k.startsWith(layerPrefix))\<close>.\<close>

definition legend_key :: "layer_info jsobj \<Rightarrow> string \<Rightarrow> string option" where
  "legend_key al uid = find (\<lambda>k. starts_with k (stem uid)) (obj_keys al)"

section \<open>updateLegend\<close>

text \<open>
  \<open>visibleCategoriesByLayer\<close>: display name to a \<open>Map\<close> from category value to the
  classification entry read for it (\<open>None\<close> for \<open>undefined\<close>).
\<close>

type_synonym legend_groups = "(jval \<times> string option) list jsobj"

text \<open>One iteration of \<open>for (const feature of renderedFeatures)\<close>.\<close>

definition legend_add :: "layer_info jsobj \<Rightarrow> legend_groups \<Rightarrow> jval jsobj \<Rightarrow> legend_groups option" where
  "legend_add al acc props =
     (case obj_get props ''_uniqueId'' of
        Some (JStr uid) \<Rightarrow>
          (case legend_key al uid of
             None \<Rightarrow> Some acc
           | Some k \<Rightarrow>
               (case obj_get al k of
                  Some (VectorLayer v) \<Rightarrow>
                    (case vi_classField v of
                       Some fld \<Rightarrow>
                         (if fld = [] then Some acc
                          else
                            (case obj_get props fld of
                               Some cat \<Rightarrow>
                                 (if \<not> truthy (Some cat) then Some acc
                                  else
                                    (let d = vi_displayName v;
                                         grp = (case obj_get acc d of Some g \<Rightarrow> g | None \<Rightarrow> [])
                                     in if cat \<in> set (map fst grp) then Some acc
                                        else Some (obj_set acc d
                                               (grp @ [(cat, obj_get (vi_classification v) (js_string cat))]))))
                             | None \<Rightarrow> Some acc))
                     | None \<Rightarrow> Some acc)
                | _ \<Rightarrow> Some acc))
      | _ \<Rightarrow> None)"

fun legend_collect :: "layer_info jsobj \<Rightarrow> legend_groups \<Rightarrow> jval jsobj list \<Rightarrow> legend_groups option" where
  "legend_collect al acc [] = Some acc"
| "legend_collect al acc (p # ps) =
     (case legend_add al acc p of None \<Rightarrow> None | Some acc' \<Rightarrow> legend_collect al acc' ps)"

text \<open>
  The rendering loop: a title per display name with categories, then one item per
  category with \<open>style.color\<close>; the item text is \<open>String(name)\<close>.
\<close>

definition legend_render :: "legend_groups \<Rightarrow> (string \<times> (string \<times> string) list) list option" where
  "legend_render g =
     those (map (\<lambda>(d, cats). map_option (Pair d)
                   (those (map (\<lambda>(c, st). map_option (Pair (js_string c)) st) cats)))
                (filter (\<lambda>(d, cats). cats \<noteq> []) (obj_entries g)))"

datatype legend_view = LegendHidden | LegendShown "(string \<times> (string \<times> string) list) list"

definition has_vector_entry :: "layer_info jsobj \<Rightarrow> bool" where
  "has_vector_entry al = list_ex (\<lambda>(k, i). case i of VectorLayer _ \<Rightarrow> True | RasterLayer _ \<Rightarrow> False) al"

definition updateLegend :: "layer_info jsobj \<Rightarrow> jval jsobj list \<Rightarrow> legend_view option" where
  "updateLegend al rendered =
     (if \<not> has_vector_entry al then Some LegendHidden
      else case legend_collect al [] rendered of
             None \<Rightarrow> None
           | Some g \<Rightarrow>
               (case legend_render g of
                  None \<Rightarrow> None
                | Some [] \<Rightarrow> Some LegendHidden
                | Some h \<Rightarrow> Some (LegendShown h)))"

text \<open>
  Coherence of a vector registry entry with the data it was built from: every feature
  carries the \<open>_uniqueId\<close> \<open>k_i\<close> of its position, and every truthy value of the
  classification field has a classification entry.
\<close>

definition entry_tagged :: "string \<Rightarrow> vector_info \<Rightarrow> bool" where
  "entry_tagged k v =
     list_all (\<lambda>(i, f). obj_get (f_props f) ''_uniqueId'' = Some (JStr (k @ ''_'' @ dec_nat i)))
              (zip [0..<length (vi_features v)] (vi_features v))"

definition entry_classified :: "vector_info \<Rightarrow> bool" where
  "entry_classified v =
     (case vi_classField v of
        None \<Rightarrow> True
      | Some fld \<Rightarrow>
          list_all (\<lambda>f. case obj_get (f_props f) fld of
                          None \<Rightarrow> True
                        | Some c \<Rightarrow> truthy (Some c) \<longrightarrow> js_string c \<in> set (obj_keys (vi_classification v)))
                   (vi_features v))"

definition entries_coherent :: "layer_info jsobj \<Rightarrow> bool" where
  "entries_coherent al =
     list_all (\<lambda>(k, i). case i of VectorLayer v \<Rightarrow> entry_tagged k v \<and> entry_classified v | RasterLayer _ \<Rightarrow> True) al"

text \<open>No registry key starts with the \<open>split('_')[0]\<close> stem of another key.\<close>

definition stems_unique :: "layer_info jsobj \<Rightarrow> bool" where
  "stems_unique al =
     list_all (\<lambda>k. list_all (\<lambda>k'. starts_with k' (stem k) \<longrightarrow> k' = k) (obj_keys al)) (obj_keys al)"

definition rendered_from :: "layer_info jsobj \<Rightarrow> jval jsobj \<Rightarrow> bool" where
  "rendered_from al p =
     list_ex (\<lambda>k. case obj_get al k of Some (VectorLayer v) \<Rightarrow> p \<in> f_props ` set (vi_features v) | _ \<Rightarrow> False)
             (obj_keys al)"

definition groups_ok :: "legend_groups \<Rightarrow> bool" where
  "groups_ok g = list_all (\<lambda>(d, cats). list_all (\<lambda>(c, st). st \<noteq> None) cats) g"

section \<open>Attribution lemmas\<close>

lemma stem_tag [simp]: "stem (k @ CHR ''_'' # x) = stem k"
  unfolding stem_def by (induction k) auto

lemma starts_with_stem [simp]: "starts_with k (stem k)"
  unfolding stem_def starts_with_def by (rule takeWhile_eq_take [symmetric])

lemma is_alnum_underscore [simp]: "\<not> is_alnum CHR ''_''"
  by (simp add: is_alnum_def upper_letters_def lower_letters_def digit_chars_def)

lemma takeWhile_sanitize: "takeWhile (\<lambda>c. c \<noteq> CHR ''_'') (sanitize s) = takeWhile is_alnum s"
proof (induction s)
  case (Cons c s)
  show ?case
  proof (cases "is_alnum c")
    case True
    then have "c \<noteq> CHR ''_''" by auto
    with True Cons show ?thesis by (simp add: sanitize_def)
  qed (simp add: sanitize_def)
qed (simp add: sanitize_def)

lemma legend_key_tag:
  assumes "k \<in> set (obj_keys al)"
  shows "\<exists>k'. legend_key al (k @ ''_'' @ x) = Some k' \<and> k' \<in> set (obj_keys al) \<and> starts_with k' (stem k)"
proof -
  have "find (\<lambda>k'. starts_with k' (stem k)) (obj_keys al) \<noteq> None"
    using assms by (auto simp: find_None_iff)
  then obtain k' where "find (\<lambda>k'. starts_with k' (stem k)) (obj_keys al) = Some k'" by blast
  then show ?thesis by (auto simp: legend_key_def find_Some_iff)
qed

lemma legend_key_unique:
  assumes "k \<in> set (obj_keys al)" "stems_unique al"
  shows "legend_key al (k @ ''_'' @ x) = Some k"
  using legend_key_tag [OF assms(1), of x] assms(1,2)
  by (auto simp: stems_unique_def list_all_iff)

lemma stem_vector_prefix: "stem (vector_prefix fn) = ''vector-'' @ takeWhile is_alnum fn"
  by (simp add: stem_def vector_prefix_def takeWhile_sanitize)

lemma legend_key_first:
  assumes "obj_keys al = ks1 @ kA # ks2"
    and "starts_with kA (stem kB)" "\<forall>k \<in> set ks1. \<not> starts_with k (stem kB)"
  shows "legend_key al (kB @ ''_'' @ x) = Some kA"
proof -
  have "find (\<lambda>k. starts_with k (stem kB)) ks1 = None" using assms(3) by (simp add: find_None_iff)
  then show ?thesis using assms(1,2) by (simp add: legend_key_def find_append_cases)
qed

lemma starts_with_same_stem:
  "takeWhile is_alnum fnA = takeWhile is_alnum fnB \<Longrightarrow>
   starts_with (vector_prefix fnA) (stem (vector_prefix fnB))"
  using starts_with_stem [of "vector_prefix fnA"] by (simp add: stem_vector_prefix)

lemma rendered_fromE:
  assumes "rendered_from al p"
  obtains k v f where "obj_get al k = Some (VectorLayer v)" "f \<in> set (vi_features v)" "p = f_props f"
proof -
  from assms obtain k where
    "case obj_get al k of Some (VectorLayer v) \<Rightarrow> p \<in> f_props ` set (vi_features v) | _ \<Rightarrow> False"
    by (auto simp: rendered_from_def list_ex_iff)
  then obtain v where "obj_get al k = Some (VectorLayer v)" "p \<in> f_props ` set (vi_features v)"
    by (auto split: option.splits layer_info.splits)
  then show thesis using that by blast
qed

lemma coherent_entry:
  "entries_coherent al \<Longrightarrow> obj_get al k = Some (VectorLayer v) \<Longrightarrow> entry_tagged k v \<and> entry_classified v"
  by (auto simp: entries_coherent_def list_all_iff dest!: obj_get_in_set)

lemma tagged_uid:
  assumes "entry_tagged k v" "f \<in> set (vi_features v)"
  shows "\<exists>i. obj_get (f_props f) ''_uniqueId'' = Some (JStr (k @ ''_'' @ dec_nat i))"
proof -
  obtain i where i: "i < length (vi_features v)" "vi_features v ! i = f"
    using assms(2) by (auto simp: in_set_conv_nth)
  then have "(i, f) \<in> set (zip [0..<length (vi_features v)] (vi_features v))"
    by (auto simp: in_set_zip intro!: exI [of _ i])
  with assms(1) show ?thesis by (auto simp: entry_tagged_def list_all_iff)
qed

lemma classified_cat:
  assumes "entry_classified v" "vi_classField v = Some fld" "f \<in> set (vi_features v)"
    and "obj_get (f_props f) fld = Some c" "truthy (Some c)"
  shows "obj_get (vi_classification v) (js_string c) \<noteq> None"
proof -
  have "js_string c \<in> set (obj_keys (vi_classification v))"
    using assms by (auto simp: entry_classified_def list_all_iff)
  then show ?thesis by (simp add: obj_get_None_iff)
qed

lemma groups_ok_set:
  assumes "groups_ok acc" "list_all (\<lambda>(c, st). st \<noteq> None) g"
  shows "groups_ok (obj_set acc d g)"
  using assms by (auto simp: groups_ok_def list_all_iff dest!: obj_set_in_set)

lemma legend_add_ok:
  assumes su: "stems_unique al" and co: "entries_coherent al"
    and ent: "obj_get al k = Some (VectorLayer v)" "f \<in> set (vi_features v)"
    and ok: "groups_ok acc"
  shows "\<exists>acc'. legend_add al acc (f_props f) = Some acc' \<and> groups_ok acc'"
proof -
  from coherent_entry [OF co ent(1)] have tg: "entry_tagged k v" and cl: "entry_classified v" by auto
  from tagged_uid [OF tg ent(2)] obtain i
    where uid: "obj_get (f_props f) ''_uniqueId'' = Some (JStr (k @ ''_'' @ dec_nat i))" by blast
  have lk: "legend_key al (k @ ''_'' @ dec_nat i) = Some k"
    using legend_key_unique [OF obj_get_key [OF ent(1)] su] .
  let ?d = "vi_displayName v"
  let ?grp = "case obj_get acc ?d of Some g \<Rightarrow> g | None \<Rightarrow> []"
  have grp_ok: "list_all (\<lambda>(c, st). st \<noteq> None) ?grp"
  proof (cases "obj_get acc ?d")
    case (Some g)
    from obj_get_in_set [OF Some] ok show ?thesis by (auto simp: Some groups_ok_def list_all_iff)
  qed simp
  show ?thesis
  proof (cases "vi_classField v")
    case None
    then show ?thesis using uid lk ent ok by (simp add: legend_add_def)
  next
    case (Some fld)
    show ?thesis
    proof (cases "obj_get (f_props f) fld")
      case None
      then show ?thesis using uid lk ent ok \<open>vi_classField v = Some fld\<close> by (simp add: legend_add_def)
    next
      case (Some c)
      have new: "truthy (Some c) \<Longrightarrow> obj_get (vi_classification v) (js_string c) \<noteq> None"
        by (rule classified_cat [OF cl \<open>vi_classField v = Some fld\<close> ent(2) Some])
      have "groups_ok (obj_set acc ?d (?grp @ [(c, obj_get (vi_classification v) (js_string c))]))"
        if "truthy (Some c)"
        using groups_ok_set [OF ok] grp_ok new [OF that] by simp
      then show ?thesis using uid lk ent ok \<open>vi_classField v = Some fld\<close> Some
        by (simp add: legend_add_def Let_def)
    qed
  qed
qed

lemma legend_collect_ok:
  assumes "stems_unique al" "entries_coherent al"
    and "\<forall>p \<in> set ps. rendered_from al p"
    and "groups_ok acc"
  shows "\<exists>g. legend_collect al acc ps = Some g \<and> groups_ok g"
  using assms(3,4)
proof (induction ps arbitrary: acc)
  case (Cons p ps)
  then obtain k v f where "obj_get al k = Some (VectorLayer v)" "f \<in> set (vi_features v)" "p = f_props f"
    by (auto elim: rendered_fromE)
  with legend_add_ok [OF assms(1,2) this(1,2) Cons.prems(2)] obtain acc'
    where "legend_add al acc p = Some acc'" "groups_ok acc'" by auto
  with Cons show ?case by simp
qed simp

lemma legend_render_ok:
  assumes "groups_ok g"
  shows "legend_render g \<noteq> None"
  using assms unfolding legend_render_def
  by (fastforce simp: groups_ok_def list_all_iff set_obj_entries those_map_Some_iff)

section \<open>Coherence of activated entries\<close>

lemma tag_features_nth:
  "i < length fs \<Longrightarrow>
   tag_features p fs ! i = (fs ! i)\<lparr>f_props := obj_set (f_props (fs ! i)) ''_uniqueId'' (JStr (p @ ''_'' @ dec_nat i))\<rparr>"
  by (simp add: tag_features_def)

lemma entry_tagged_tag: "vi_features v = tag_features k fs \<Longrightarrow> entry_tagged k v"
  by (auto simp: entry_tagged_def list_all_iff set_zip tag_features_nth obj_get_set)

lemma entries_coherent_set:
  assumes "entries_coherent al"
    and "case i of VectorLayer v \<Rightarrow> entry_tagged k v \<and> entry_classified v | RasterLayer _ \<Rightarrow> True"
  shows "entries_coherent (obj_set al k i)"
  using assms by (auto simp: entries_coherent_def list_all_iff dest!: obj_set_in_set)

lemma entries_coherent_del: "entries_coherent al \<Longrightarrow> entries_coherent (obj_del al k)"
  using obj_del_subset [of al k] by (auto simp: entries_coherent_def list_all_iff)

lemma vector_activate_coherent:
  assumes co: "entries_coherent (activeLayers s)" and act: "vector_activate fn dn fs s = (s', b)"
  shows "entries_coherent (activeLayers s')"
proof -
  define k where "k = vector_prefix fn"
  define tfs where "tfs = tag_features k fs"
  show ?thesis
  proof (cases "addSource (source_of k) (smap s)")
    case (Inl e)
    then show ?thesis using act co by (simp add: vector_activate_def Let_def k_def)
  next
    case (Inr m1)
    show ?thesis
    proof (cases "generateVectorStyle k (source_of k) tfs fn (Some dn) (rng s)")
      case (Inl e)
      then show ?thesis using act co Inr by (auto simp: vector_activate_def Let_def k_def tfs_def)
    next
      case (Inr sr)
      obtain so r' where sr: "sr = (so, r')" by (cases sr)
      define info where "info = \<lparr>vi_classification = so_classification so, vi_classField = so_classField so,
          vi_sourceId = source_of k, vi_filename = fn, vi_features = tfs,
          vi_layerIds = map ls_id (so_layers so), vi_displayName = dn\<rparr>"
      have al: "activeLayers s' = obj_set (activeLayers s) k (VectorLayer info)"
        using act Inr sr \<open>addSource (source_of k) (smap s) = Inr m1\<close>
        by (auto simp: vector_activate_def Let_def k_def [symmetric] tfs_def [symmetric] info_def)
      have "entry_tagged k info" by (rule entry_tagged_tag) (simp add: info_def tfs_def)
      moreover have "entry_classified info"
        using generateVectorStyle_classified [of k "source_of k" tfs fn "Some dn" "rng s" so r'] Inr sr
        by (auto simp: entry_classified_def info_def list_all_iff split: option.split)
      ultimately show ?thesis using entries_coherent_set [OF co] by (simp add: al)
    qed
  qed
qed

lemma legend_renders:
  assumes "stems_unique al" "entries_coherent al"
    and "\<forall>p \<in> set rendered. rendered_from al p"
  shows "\<exists>lv. updateLegend al rendered = Some lv"
proof -
  obtain g where g: "legend_collect al [] rendered = Some g" "groups_ok g"
    using legend_collect_ok [OF assms, of "[]"] by (auto simp: groups_ok_def)
  then obtain h where "legend_render g = Some h" using legend_render_ok by blast
  with g show ?thesis by (simp add: updateLegend_def split: list.split)
qed

text \<open>A new key keeps the stems distinct when no key starts with its stem and it
  starts with the stem of no key.\<close>

lemma stems_unique_set:
  assumes "stems_unique al"
    and "\<forall>k' \<in> set (obj_keys al). \<not> starts_with k' (stem k) \<and> \<not> starts_with k (stem k')"
  shows "stems_unique (obj_set al k v)"
  using assms by (auto simp: stems_unique_def list_all_iff obj_keys_set)

text \<open>
  C8: the legend never throws when the registry keys have distinct stems (no key
  starts with the \<open>split('_')[0]\<close> stem of another) and every vector entry is coherent
  with its data, as activation makes it: whatever subset of the registered features
  MapLibre reports as rendered, every category found has a colour.
\<close>

theorem legend_total:
  assumes "stems_unique al" "entries_coherent al"
    and "\<forall>p \<in> set rendered. rendered_from al p"
  shows "updateLegend al rendered \<noteq> None"
  using legend_renders [OF assms] by blast

lemma obj_entries_single [simp]: "obj_entries [(k, v)] = [(k, v)]"
  by (simp add: obj_entries_def)

lemma has_vector_entry_get: "obj_get al k = Some (VectorLayer v) \<Longrightarrow> has_vector_entry al"
  by (force simp: has_vector_entry_def list_ex_iff dest!: obj_get_in_set)

text \<open>
  C7: two vector files whose names start with the same letters and digits (the part
  before the first character \<open>sanitize\<close> turns into an underscore, such as
  \<open>roads.geojson\<close> and \<open>roads_2020.geojson\<close>) share the \<open>split('_')[0]\<close> stem.  A
  rendered feature of the later one is attributed to the earlier one, its category is
  looked up in the wrong classification, and when it is missing there the rendering
  reads \<open>undefined.color\<close>: \<open>updateLegend\<close> throws.
\<close>

theorem legend_type_error:
  assumes keys: "obj_keys al = pre @ vector_prefix fnA # post"
    and later: "vector_prefix fnB \<in> set post"
    and same: "takeWhile is_alnum fnA = takeWhile is_alnum fnB"
    and first: "\<forall>k \<in> set pre. \<not> starts_with k (stem (vector_prefix fnB))"
    and A: "obj_get al (vector_prefix fnA) = Some (VectorLayer vA)"
           "vi_classField vA = Some fld" "fld \<noteq> []"
    and uid: "obj_get props ''_uniqueId'' = Some (JStr (vector_prefix fnB @ ''_'' @ dec_nat i))"
    and cat: "obj_get props fld = Some c" "truthy (Some c)"
             "js_string c \<notin> set (obj_keys (vi_classification vA))"
  shows "updateLegend al [props] = None"
proof -
  have lk: "legend_key al (vector_prefix fnB @ ''_'' @ dec_nat i) = Some (vector_prefix fnA)"
    by (rule legend_key_first [OF keys starts_with_same_stem [OF same] first])
  have miss: "obj_get (vi_classification vA) (js_string c) = None"
    using cat(3) by (simp add: obj_get_None_iff)
  have "legend_collect al [] [props] = Some [(vi_displayName vA, [(c, None)])]"
    using lk miss uid A cat(1,2) by (simp add: legend_add_def Let_def)
  then show ?thesis
    using has_vector_entry_get [OF A(1)] by (simp add: updateLegend_def legend_render_def)
qed

theorem legend_type_error_witness:
  "updateLegend [(''vector-roads_geojson'', VectorLayer \<lparr>vi_classification = [(''NH 44'', ''#bababa'')], vi_classField = Some ''Name'',
        vi_sourceId = ''source-vector-roads_geojson'', vi_filename = ''roads.geojson'',
        vi_features = [], vi_layerIds = [''vector-roads_geojson-line''], vi_displayName = ''Roads''\<rparr>),
                 (''vector-roads_2020_geojson'', VectorLayer \<lparr>vi_classification = [(''SH 17'', ''#bababa'')], vi_classField = Some ''Name'',
        vi_sourceId = ''source-vector-roads_2020_geojson'', vi_filename = ''roads_2020.geojson'',
        vi_features = [], vi_layerIds = [''vector-roads_2020_geojson-line''], vi_displayName = ''Roads 2020''\<rparr>)]
     [[(''Name'', JStr ''SH 17''), (''_uniqueId'', JStr ''vector-roads_2020_geojson_0'')]] = None"
  by (rule legend_type_error [where pre = "[]" and post = "[''vector-roads_2020_geojson'']"
        and fnA = "''roads.geojson''" and fnB = "''roads_2020.geojson''" and i = 0 and fld = "''Name''"
        and c = "JStr ''SH 17''" and vA = "\<lparr>vi_classification = [(''NH 44'', ''#bababa'')], vi_classField = Some ''Name'',
        vi_sourceId = ''source-vector-roads_geojson'', vi_filename = ''roads.geojson'',
        vi_features = [], vi_layerIds = [''vector-roads_geojson-line''], vi_displayName = ''Roads''\<rparr>"])
     (simp_all add: obj_keys_def obj_get_def vector_prefix_def sanitize_def is_alnum_def
        upper_letters_def lower_letters_def digit_chars_def js_simps)

theorem legend_total_witness:
  "updateLegend [(''vector-roads_geojson'', VectorLayer
      \<lparr>vi_classification = [(''NH 44'', ''#bababa'')], vi_classField = Some ''Name'',
       vi_sourceId = ''source-vector-roads_geojson'', vi_filename = ''roads.geojson'',
       vi_features = [\<lparr>f_geometry = Some ''LineString'', f_props = [(''Name'', JStr ''NH 44''), (''_uniqueId'', JStr ''vector-roads_geojson_0'')]\<rparr>],
       vi_layerIds = [''vector-roads_geojson-line''], vi_displayName = ''Roads''\<rparr>)]
     [[(''Name'', JStr ''NH 44''), (''_uniqueId'', JStr ''vector-roads_geojson_0'')]] \<noteq> None"
  by (rule legend_total)
     (simp_all add: stems_unique_def entries_coherent_def entry_tagged_def entry_classified_def
        rendered_from_def obj_keys_def obj_get_def stem_def starts_with_def js_simps)

end
