(* ===== verification/Panels.thy ===== *)
theory Panels
  imports Legend
begin

text \<open>
  The side panels of \<open>src/static/js/ui.js\<close> that read and write the registry and the
  map: the label controls (\<open>updateLabelControl\<close>, \<open>populateLabelFieldSelect\<close> and
  the two \<open>change\<close> listeners of \<open>setupUI\<close>), the attribute filter bridge (the
  \<open>search.dt\<close> handler of \<open>populateAttributePanel\<close> and the filter reset of
  \<open>toggleAttributePanel\<close>), and the feature highlight (\<open>highlightFeatureOnMap\<close>,
  \<open>highlightFeatureFromTable\<close>).  The state of a \<open>select\<close> element is its option list
  (value and text) and its value.
\<close>

section \<open>Label controls\<close>

text \<open>The default label fields of \<open>populateLabelFieldSelect\<close>.\<close>

definition labelFields :: "string list" where
  "labelFields = [''Name'', ''name'', ''VILGNAME1'', ''TYPE'', ''type'', ''Layer'']"

record label_ui =
  lu_layer_opts :: "(string \<times> string) list"
  lu_layer_sel :: string
  lu_field_opts :: "string list"
  lu_field_sel :: string
  lu_disabled :: bool

text \<open>
  \<open>Object.entries(state.activeLayers).filter(([_, l]) => l.type === 'vector' &&
  l.geojson?.features.length > 0)\<close>.
\<close>

definition label_vector_entries :: "layer_info jsobj \<Rightarrow> (string \<times> vector_info) list" where
  "label_vector_entries al =
     concat (map (\<lambda>(k, i). case i of
                            VectorLayer v \<Rightarrow> if vi_features v \<noteq> [] then [(k, v)] else []
                          | RasterLayer _ \<Rightarrow> []) (obj_entries al))"

text \<open>
  \<open>populateLabelFieldSelect(layerIdPrefix)\<close>: the options are \<open>None\<close> and the keys of
  the first feature's properties except \<open>_uniqueId\<close> (in \<open>for ... in\<close> order); the value
  is the first default field the properties own, else \<open>None\<close>.
\<close>

definition populateLabelFieldSelect :: "layer_info jsobj \<Rightarrow> string \<Rightarrow> string list \<times> string" where
  "populateLabelFieldSelect al prefix =
     (case obj_get al prefix of
        Some (VectorLayer v) \<Rightarrow>
          (case vi_features v of
             [] \<Rightarrow> ([''None''], ''None'')
           | f0 # _ \<Rightarrow>
               (let props = f_props f0
                in (''None'' # filter (\<lambda>k. k \<noteq> ''_uniqueId'') (obj_keys (obj_entries props)),
                    case find (\<lambda>fld. fld \<in> set (obj_keys props)) labelFields of
                      Some d \<Rightarrow> d
                    | None \<Rightarrow> ''None'')))
      | _ \<Rightarrow> ([''None''], ''None''))"

text \<open>
  \<open>updateLabelControl()\<close>; \<open>current\<close> is the layer select's value before the call.  With
  no labelled vector layer the select holds the single option whose value is its text.
\<close>

definition updateLabelControl :: "layer_info jsobj \<Rightarrow> string \<Rightarrow> label_ui" where
  "updateLabelControl al current =
     (let vecs = label_vector_entries al in
      if vecs = [] then
        \<lparr>lu_layer_opts = [(''No vector layers active'', ''No vector layers active'')],
         lu_layer_sel = ''No vector layers active'', lu_field_opts = [], lu_field_sel = [],
         lu_disabled = True\<rparr>
      else
        (let sel = (if current \<in> set (map fst vecs) then current else fst (hd vecs));
             (fopts, fsel) = populateLabelFieldSelect al sel
         in \<lparr>lu_layer_opts = map (\<lambda>(k, v). (k, vi_displayName v)) vecs, lu_layer_sel = sel,
             lu_field_opts = fopts, lu_field_sel = fsel, lu_disabled = False\<rparr>))"

text \<open>The \<open>change\<close> listener of the label layer select.\<close>

definition onLabelLayerChange :: "label_ui \<Rightarrow> string \<Rightarrow> session \<Rightarrow> label_ui \<times> session" where
  "onLabelLayerChange ui sel s =
     (let (fopts, fsel) = populateLabelFieldSelect (activeLayers s) sel
      in (ui\<lparr>lu_layer_sel := sel, lu_field_opts := fopts, lu_field_sel := fsel\<rparr>,
          addOrUpdateLabelLayer sel fsel s))"

text \<open>The \<open>change\<close> listener of the label field select.\<close>

definition onLabelFieldChange :: "label_ui \<Rightarrow> string \<Rightarrow> session \<Rightarrow> label_ui \<times> session" where
  "onLabelFieldChange ui fld s =
     (ui\<lparr>lu_field_sel := fld\<rparr>, addOrUpdateLabelLayer (lu_layer_sel ui) fld s)"

section \<open>Attribute filter bridge\<close>

text \<open>
  The filter a map layer applies to a feature's properties: \<open>['in', ['get', '_uniqueId'],
  ['literal', ids]]\<close> and \<open>['==', '_uniqueId', id]\<close>.
\<close>

fun passes :: "filter_expr \<Rightarrow> jval jsobj \<Rightarrow> bool" where
  "passes NoFilter p = True"
| "passes (InIds ids) p = (case obj_get p ''_uniqueId'' of Some (JStr u) \<Rightarrow> u \<in> set ids | _ \<Rightarrow> False)"
| "passes (EqId i) p = (obj_get p ''_uniqueId'' = Some (JStr i))"

definition is_lower :: "char \<Rightarrow> bool" where
  "is_lower c \<longleftrightarrow> c \<in> set lower_letters"

text \<open>Does the whole of \<open>t\<close> match \<open>-[a-z]+(-lod)?\<close>?\<close>

fun sfx_match :: "string \<Rightarrow> bool" where
  "sfx_match [] = False"
| "sfx_match (c # r) =
     (c = CHR ''-'' \<and> takeWhile is_lower r \<noteq> [] \<and>
      (dropWhile is_lower r = [] \<or> dropWhile is_lower r = ''-lod''))"

text \<open>\<open>s.replace(/-[a-z]+(-lod)?$/, '')\<close>: cut at the leftmost position where the rest matches.\<close>

fun strip_layer_sfx :: "string \<Rightarrow> string" where
  "strip_layer_sfx [] = []"
| "strip_layer_sfx (c # cs) = (if sfx_match (c # cs) then [] else c # strip_layer_sfx cs)"

text \<open>
  \<open>`${layerInfo.layerIds[0].replace(...)}-labels`\<close>; \<open>None\<close> is the \<open>TypeError\<close> of
  \<open>undefined.replace\<close> on an empty \<open>layerIds\<close>.
\<close>

definition label_of_layerIds :: "string list \<Rightarrow> string option" where
  "label_of_layerIds ids = (case ids of [] \<Rightarrow> None | i0 # _ \<Rightarrow> Some (strip_layer_sfx i0 @ ''-labels''))"

text \<open>\<open>if (map.getLayer(id)) map.setFilter(id, f)\<close>.\<close>

definition set_filter_if :: "filter_expr \<Rightarrow> string \<Rightarrow> mapst \<Rightarrow> mapst" where
  "set_filter_if f i m = (if has_layer m i then setFilter i f m else m)"

text \<open>The \<open>_uniqueId\<close> of a row, as \<open>pluck('_uniqueId')\<close> reads it.\<close>

definition feature_uids :: "feature list \<Rightarrow> string list" where
  "feature_uids fs =
     concat (map (\<lambda>f. case obj_get (f_props f) ''_uniqueId'' of Some (JStr u) \<Rightarrow> [u] | _ \<Rightarrow> []) fs)"

text \<open>
  The \<open>search.dt\<close> handler of the table of entry \<open>v\<close> (the entry captured when the panel
  was opened).  The rows surviving the search are the features satisfying \<open>pred\<close>, in
  table order; \<open>fl\<close> is \<open>state.filteredLayers\<close>.
\<close>

definition attr_search ::
  "vector_info \<Rightarrow> (jval jsobj \<Rightarrow> bool) \<Rightarrow> string list \<times> session \<Rightarrow> (string list \<times> session) ui_outcome" where
  "attr_search v pred st =
     (let (fl, s) = st;
          ids = feature_uids (filter (\<lambda>f. pred (f_props f)) (vi_features v));
          fl' = (if vi_sourceId v \<in> set fl then fl else fl @ [vi_sourceId v]);
          f = InIds ids;
          m1 = fold (set_filter_if f) (vi_layerIds v) (smap s)
      in case label_of_layerIds (vi_layerIds v) of
           None \<Rightarrow> UiTypeError (fl', s\<lparr>smap := m1\<rparr>)
         | Some lab \<Rightarrow> UiDone (fl', s\<lparr>smap := set_filter_if f lab m1\<rparr>))"

text \<open>
  Closing the attribute panel (\<open>toggleAttributePanel\<close> when visible): for every filtered
  source, the vector entry with that \<open>sourceId\<close> has its layers and label unfiltered;
  then the set is cleared.  Raster entries carry no \<open>sourceId\<close>.
\<close>

definition entry_of_source :: "layer_info jsobj \<Rightarrow> string \<Rightarrow> vector_info option" where
  "entry_of_source al sid =
     (case find (\<lambda>i. info_source i = Some sid) (map snd al) of
        Some (VectorLayer v) \<Rightarrow> Some v
      | _ \<Rightarrow> None)"

definition reset_filter :: "layer_info jsobj \<Rightarrow> string \<Rightarrow> mapst \<Rightarrow> mapst option" where
  "reset_filter al sid m =
     (case entry_of_source al sid of
        None \<Rightarrow> Some m
      | Some v \<Rightarrow>
          (case label_of_layerIds (vi_layerIds v) of
             None \<Rightarrow> None
           | Some lab \<Rightarrow> Some (set_filter_if NoFilter lab (fold (set_filter_if NoFilter) (vi_layerIds v) m))))"

fun reset_filters :: "layer_info jsobj \<Rightarrow> string list \<Rightarrow> mapst \<Rightarrow> mapst ui_outcome" where
  "reset_filters al [] m = UiDone m"
| "reset_filters al (sid # sids) m =
     (case reset_filter al sid m of None \<Rightarrow> UiTypeError m | Some m' \<Rightarrow> reset_filters al sids m')"

definition closeAttributePanel :: "string list \<times> session \<Rightarrow> (string list \<times> session) ui_outcome" where
  "closeAttributePanel st =
     (let (fl, s) = st in
      case reset_filters (activeLayers s) fl (smap s) of
        UiDone m \<Rightarrow> UiDone ([], s\<lparr>smap := m\<rparr>)
      | UiTypeError m \<Rightarrow> UiTypeError (fl, s\<lparr>smap := m\<rparr>))"

section \<open>Feature highlight\<close>

text \<open>
  \<open>window.highlightFeatureOnMap(layerId, featureId)\<close>: \<open>map.getLayer(layerId).source\<close>
  is a \<open>TypeError\<close> when the layer is not on the map.
\<close>

definition highlightFeatureOnMap :: "string \<Rightarrow> string \<Rightarrow> session \<Rightarrow> session ui_outcome" where
  "highlightFeatureOnMap layerId featureId s =
     (let s1 = (clearFeatureHighlight s)\<lparr>highlightedFeature := Some (layerId, featureId)\<rparr>
      in case find (\<lambda>l. ml_id l = layerId) (m_layers (smap s1)) of
           None \<Rightarrow> UiTypeError s1
         | Some l \<Rightarrow>
             UiDone (s1\<lparr>smap := addLayer \<lparr>ml_id = HIGHLIGHT_LAYER, ml_type = ''line'', ml_source = ml_source l,
                                           ml_filter = EqId featureId, ml_visible = True, ml_text = None\<rparr>
                                  None (smap s1)\<rparr>))"

text \<open>
  \<open>window.highlightFeatureFromTable(featureId)\<close>: the first registry key the id starts
  with, the feature with that id, and the entry's first layer.  A raster entry has no
  \<open>geojson\<close>: reading its features is a \<open>TypeError\<close>.
\<close>

definition highlightFeatureFromTable :: "string \<Rightarrow> session \<Rightarrow> session ui_outcome" where
  "highlightFeatureFromTable featureId s =
     (case find (\<lambda>k. starts_with featureId k) (obj_keys (activeLayers s)) of
        None \<Rightarrow> UiDone s
      | Some k \<Rightarrow>
          (case obj_get (activeLayers s) k of
             Some (VectorLayer v) \<Rightarrow>
               (if \<exists>f \<in> set (vi_features v). obj_get (f_props f) ''_uniqueId'' = Some (JStr featureId)
                then (case vi_layerIds v of
                        [] \<Rightarrow> UiTypeError ((clearFeatureHighlight s)\<lparr>highlightedFeature := Some ([], featureId)\<rparr>)
                      | l0 # _ \<Rightarrow> highlightFeatureOnMap l0 featureId s)
                else UiDone s)
           | _ \<Rightarrow> UiTypeError s))"

section \<open>Label and filter lemmas\<close>

lemma tag_features_Cons:
  "tag_features p (f # fs) = f\<lparr>f_props := obj_set (f_props f) ''_uniqueId'' (JStr (p @ ''_'' @ dec_nat 0))\<rparr> #
     tl (tag_features p (f # fs))"
  using tag_features_nth [of 0 "f # fs" p] length_tag_features [of p "f # fs"]
  by (cases "tag_features p (f # fs)") auto

lemma find_labelFields_name:
  "''Name'' \<notin> set ks \<Longrightarrow> ''name'' \<in> set ks \<Longrightarrow> find (\<lambda>fld. fld \<in> set ks) labelFields = Some ''name''"
  by (simp add: labelFields_def)

lemma is_lower_dash [simp]: "\<not> is_lower CHR ''-''"
  by (simp add: is_lower_def lower_letters_def)

lemma strip_sanitize: "strip_layer_sfx (sanitize fn @ t) = sanitize fn @ strip_layer_sfx t"
proof (induction fn)
  case (Cons c fn)
  have "sanitize (c # fn) = (if is_alnum c then c else CHR ''_'') # sanitize fn"
    by (simp add: sanitize_def)
  moreover have "(if is_alnum c then c else CHR ''_'') \<noteq> CHR ''-''"
    using sanitize_no_dash [of "[c]"] by (simp add: sanitize_def split: if_splits)
  ultimately show ?case using Cons by simp
qed (simp add: sanitize_def)

lemma sfx_dash_sanitize:
  assumes "t \<noteq> []" "t \<noteq> ''-lod''" "hd t = CHR ''-''"
  shows "\<not> sfx_match (CHR ''-'' # sanitize fn @ t)"
proof (cases "\<forall>c \<in> set (sanitize fn). is_lower c")
  case True
  have "dropWhile is_lower (sanitize fn @ t) = t"
    using True assms(1,3) by (cases t) (simp_all add: dropWhile_append2)
  then show ?thesis using assms(1,2) by simp
next
  case False
  then obtain c where c: "c \<in> set (sanitize fn)" "\<not> is_lower c" by blast
  then have d: "dropWhile is_lower (sanitize fn @ t) = dropWhile is_lower (sanitize fn) @ t"
    by (simp add: dropWhile_append1)
  have "dropWhile is_lower (sanitize fn) \<noteq> []" using c by (auto simp: dropWhile_eq_Nil_conv)
  moreover have "hd (dropWhile is_lower (sanitize fn)) \<noteq> CHR ''-''"
    using hd_dropWhile [of is_lower "sanitize fn"] sanitize_no_dash [of fn] \<open>dropWhile is_lower (sanitize fn) \<noteq> []\<close>
      set_dropWhileD [of _ is_lower "sanitize fn"] by (metis hd_in_set)
  ultimately show ?thesis using d by (cases "dropWhile is_lower (sanitize fn)") auto
qed

lemma strip_vector_prefix:
  assumes "t \<noteq> []" "t \<noteq> ''-lod''" "hd t = CHR ''-''" "strip_layer_sfx t = []"
  shows "strip_layer_sfx (vector_prefix fn @ t) = vector_prefix fn"
proof -
  have "strip_layer_sfx (CHR ''-'' # sanitize fn @ t) = CHR ''-'' # sanitize fn"
    using sfx_dash_sanitize [OF assms(1-3), of fn] assms(4) by (simp add: strip_sanitize)
  then show ?thesis by (simp add: vector_prefix_def)
qed

lemma strip_style_layer_id:
  assumes "i \<in> style_layer_ids (vector_prefix fn)"
  shows "strip_layer_sfx i = vector_prefix fn"
proof -
  obtain t where t: "i = vector_prefix fn @ t" "t \<in> {''-extrusion'', ''-fill-lod'', ''-fill'', ''-line'', ''-point''}"
    using assms by (auto simp: style_layer_ids_def)
  have "t \<noteq> []" "t \<noteq> ''-lod''" "hd t = CHR ''-''" "strip_layer_sfx t = []"
    using t(2) by (auto simp: is_lower_def lower_letters_def)
  then show ?thesis using t(1) by (simp add: strip_vector_prefix)
qed

lemma label_of_style_ids:
  "ids \<noteq> [] \<Longrightarrow> set ids \<subseteq> style_layer_ids (vector_prefix fn) \<Longrightarrow>
   label_of_layerIds ids = Some (label_id (vector_prefix fn))"
  by (cases ids) (auto simp: label_of_layerIds_def label_id_def strip_style_layer_id)

lemma set_filter_if_layers [simp]:
  "m_layers (set_filter_if f i m) = map (\<lambda>l. if ml_id l = i then l\<lparr>ml_filter := f\<rparr> else l) (m_layers m)"
proof (cases "has_layer m i")
  case False
  then have "map (\<lambda>l. if ml_id l = i then l\<lparr>ml_filter := f\<rparr> else l) (m_layers m) = m_layers m"
    by (intro map_idI) (auto simp: has_layer_def layer_ids_def)
  then show ?thesis using False by (simp add: set_filter_if_def)
qed (simp add: set_filter_if_def setFilter_def)

lemma set_filter_if_fields [simp]:
  "m_sources (set_filter_if f i m) = m_sources m"
  "m_terrain (set_filter_if f i m) = m_terrain m"
  "m_errors (set_filter_if f i m) = m_errors m"
  by (simp_all add: set_filter_if_def setFilter_def)

lemma fold_set_filter_if:
  "m_layers (fold (set_filter_if f) is m) =
     map (\<lambda>l. if ml_id l \<in> set is then l\<lparr>ml_filter := f\<rparr> else l) (m_layers m) \<and>
   m_sources (fold (set_filter_if f) is m) = m_sources m \<and>
   m_terrain (fold (set_filter_if f) is m) = m_terrain m \<and>
   m_errors (fold (set_filter_if f) is m) = m_errors m"
  by (induction "is" arbitrary: m) (auto intro!: map_cong)

text \<open>The filter the handler gives the entry's layers and its label.\<close>

lemma attr_search_layers:
  assumes "vi_layerIds v \<noteq> []" "set (vi_layerIds v) \<subseteq> style_layer_ids (vector_prefix fn)"
  shows "\<exists>fl'. attr_search v pred (fl, s) =
           UiDone (fl', s\<lparr>smap := (smap s)\<lparr>m_layers :=
              map (\<lambda>l. if ml_id l \<in> set (vi_layerIds v @ [label_id (vector_prefix fn)])
                        then l\<lparr>ml_filter := InIds (feature_uids (filter (\<lambda>f. pred (f_props f)) (vi_features v)))\<rparr>
                        else l) (m_layers (smap s))\<rparr>\<rparr>) \<and>
           vi_sourceId v \<in> set fl'"
proof -
  let ?f = "InIds (feature_uids (filter (\<lambda>f. pred (f_props f)) (vi_features v)))"
  let ?m1 = "fold (set_filter_if ?f) (vi_layerIds v) (smap s)"
  have lab: "label_of_layerIds (vi_layerIds v) = Some (label_id (vector_prefix fn))"
    using assms by (rule label_of_style_ids)
  have "set_filter_if ?f (label_id (vector_prefix fn)) ?m1 =
        (smap s)\<lparr>m_layers := map (\<lambda>l. if ml_id l \<in> set (vi_layerIds v @ [label_id (vector_prefix fn)])
                        then l\<lparr>ml_filter := ?f\<rparr> else l) (m_layers (smap s))\<rparr>"
    using fold_set_filter_if [of ?f "vi_layerIds v" "smap s"]
    by (intro mapst.equality) (auto intro!: map_cong)
  then show ?thesis using lab by (simp add: attr_search_def Let_def)
qed

lemma entry_tagged_nth:
  assumes "entry_tagged k v" "j < length (vi_features v)"
  shows "obj_get (f_props (vi_features v ! j)) ''_uniqueId'' = Some (JStr (k @ ''_'' @ dec_nat j))"
proof -
  have "(j, vi_features v ! j) \<in> set (zip [0..<length (vi_features v)] (vi_features v))"
    using assms(2) by (auto simp: in_set_zip intro!: exI [of _ j])
  with assms(1) show ?thesis by (auto simp: entry_tagged_def list_all_iff)
qed

lemma set_feature_uids:
  "u \<in> set (feature_uids fs) \<longleftrightarrow> (\<exists>f \<in> set fs. obj_get (f_props f) ''_uniqueId'' = Some (JStr u))"
  by (force simp: feature_uids_def split: option.splits jval.splits)

lemma tagged_passes:
  assumes tg: "entry_tagged k v" and f: "f \<in> set (vi_features v)"
  shows "passes (InIds (feature_uids (filter (\<lambda>g. P (f_props g)) (vi_features v)))) (f_props f) \<longleftrightarrow> P (f_props f)"
proof -
  let ?fs = "vi_features v"
  obtain i where i: "i < length ?fs" "?fs ! i = f" using f by (auto simp: in_set_conv_nth)
  have uid: "obj_get (f_props f) ''_uniqueId'' = Some (JStr (k @ ''_'' @ dec_nat i))"
    using entry_tagged_nth [OF tg i(1)] i(2) by simp
  have "(k @ ''_'' @ dec_nat i) \<in> set (feature_uids (filter (\<lambda>g. P (f_props g)) ?fs)) \<longleftrightarrow> P (f_props f)"
  proof
    assume "k @ ''_'' @ dec_nat i \<in> set (feature_uids (filter (\<lambda>g. P (f_props g)) ?fs))"
    then obtain g where g: "g \<in> set ?fs" "P (f_props g)"
      "obj_get (f_props g) ''_uniqueId'' = Some (JStr (k @ ''_'' @ dec_nat i))"
      by (auto simp: set_feature_uids)
    obtain j where j: "j < length ?fs" "?fs ! j = g" using g(1) by (auto simp: in_set_conv_nth)
    have "dec_nat j = dec_nat i" using entry_tagged_nth [OF tg j(1)] j(2) g(3) by simp
    then have "j = i" by (simp add: dec_nat_inj)
    then show "P (f_props f)" using g(2) i(2) j(2) by simp
  next
    assume "P (f_props f)"
    then show "k @ ''_'' @ dec_nat i \<in> set (feature_uids (filter (\<lambda>g. P (f_props g)) ?fs))"
      using f uid by (auto simp: set_feature_uids)
  qed
  then show ?thesis using uid by simp
qed

lemma filter_map_update:
  "filter (\<lambda>l. ml_id l \<notin> S) (map (\<lambda>l. if ml_id l \<in> S then l\<lparr>ml_filter := f\<rparr> else l) xs) =
   filter (\<lambda>l. ml_id l \<notin> S) xs"
  by (induction xs) auto

text \<open>
  C11: the attribute filter bridge keeps map and table consistent.  After the
  \<open>search.dt\<close> handler of an activated entry, every map layer of the entry and its
  label layer (found through the regular expression on the first layer id) shows
  exactly the features whose rows survive the search; the other layers and the
  sources are unchanged.
\<close>

theorem attr_filter_consistent:
  assumes tg: "entry_tagged (vector_prefix fn) v"
    and ne: "vi_layerIds v \<noteq> []" and sub: "set (vi_layerIds v) \<subseteq> style_layer_ids (vector_prefix fn)"
    and run: "attr_search v pred (fl, s) = UiDone (fl', s')"
  shows "(\<forall>l \<in> set (m_layers (smap s')). ml_id l \<in> set (vi_layerIds v @ [label_id (vector_prefix fn)]) \<longrightarrow>
            (\<forall>f \<in> set (vi_features v). passes (ml_filter l) (f_props f) \<longleftrightarrow> pred (f_props f))) \<and>
         filter (\<lambda>l. ml_id l \<notin> set (vi_layerIds v @ [label_id (vector_prefix fn)])) (m_layers (smap s')) =
           filter (\<lambda>l. ml_id l \<notin> set (vi_layerIds v @ [label_id (vector_prefix fn)])) (m_layers (smap s)) \<and>
         map ml_id (m_layers (smap s')) = map ml_id (m_layers (smap s)) \<and>
         m_sources (smap s') = m_sources (smap s) \<and> vi_sourceId v \<in> set fl'"
proof -
  let ?ids = "set (vi_layerIds v @ [label_id (vector_prefix fn)])"
  let ?f = "InIds (feature_uids (filter (\<lambda>g. pred (f_props g)) (vi_features v)))"
  obtain fl'' where eq: "attr_search v pred (fl, s) =
      UiDone (fl'', s\<lparr>smap := (smap s)\<lparr>m_layers :=
          map (\<lambda>l. if ml_id l \<in> ?ids then l\<lparr>ml_filter := ?f\<rparr> else l) (m_layers (smap s))\<rparr>\<rparr>)"
    and src: "vi_sourceId v \<in> set fl''"
    using attr_search_layers [OF ne sub, of pred fl s] by blast
  from run eq have s': "s' = s\<lparr>smap := (smap s)\<lparr>m_layers :=
          map (\<lambda>l. if ml_id l \<in> ?ids then l\<lparr>ml_filter := ?f\<rparr> else l) (m_layers (smap s))\<rparr>\<rparr>"
    and "fl' = fl''" by simp_all
  have "filter (\<lambda>l. ml_id l \<notin> ?ids) (map (\<lambda>l. if ml_id l \<in> ?ids then l\<lparr>ml_filter := ?f\<rparr> else l) (m_layers (smap s)))
        = filter (\<lambda>l. ml_id l \<notin> ?ids) (m_layers (smap s))"
    by (rule filter_map_update)
  moreover have "map ml_id (map (\<lambda>l. if ml_id l \<in> ?ids then l\<lparr>ml_filter := ?f\<rparr> else l) (m_layers (smap s)))
        = map ml_id (m_layers (smap s))" by simp
  ultimately show ?thesis
    using tagged_passes [OF tg] src \<open>fl' = fl''\<close> by (auto simp: s')
qed

text \<open>
  Clearing the search does not clear the map filter.  With every row surviving,
  the handler still installs an \<open>in\<close> filter listing every id, where the spec asks
  for no filter; on an activated entry every feature passes it, so the map shows the
  same features.
\<close>

theorem clear_search_filter:
  assumes tg: "entry_tagged (vector_prefix fn) v"
    and ne: "vi_layerIds v \<noteq> []" and sub: "set (vi_layerIds v) \<subseteq> style_layer_ids (vector_prefix fn)"
    and run: "attr_search v (\<lambda>_. True) (fl, s) = UiDone (fl', s')"
  shows "\<forall>l \<in> set (m_layers (smap s')). ml_id l \<in> set (vi_layerIds v @ [label_id (vector_prefix fn)]) \<longrightarrow>
           ml_filter l = InIds (feature_uids (vi_features v)) \<and>
           (\<forall>f \<in> set (vi_features v). passes (ml_filter l) (f_props f))"
proof -
  let ?ids = "set (vi_layerIds v @ [label_id (vector_prefix fn)])"
  have "\<exists>fl''. attr_search v (\<lambda>_. True) (fl, s) =
      UiDone (fl'', s\<lparr>smap := (smap s)\<lparr>m_layers :=
          map (\<lambda>l. if ml_id l \<in> ?ids then l\<lparr>ml_filter := InIds (feature_uids (vi_features v))\<rparr> else l)
              (m_layers (smap s))\<rparr>\<rparr>)"
    using attr_search_layers [OF ne sub, of "\<lambda>_. True" fl s] by auto
  with run show ?thesis
    using tagged_passes [OF tg, of _ "\<lambda>_. True"] by auto
qed

section \<open>Witnesses\<close>

theorem attr_filter_consistent_witness:
  "\<exists>fl' s'. attr_search
       \<lparr>vi_classification = [], vi_classField = None, vi_sourceId = ''source-vector-roads_geojson'',
        vi_filename = ''roads.geojson'',
        vi_features = [\<lparr>f_geometry = Some ''LineString'',
                         f_props = [(''Name'', JStr ''NH 44''), (''_uniqueId'', JStr ''vector-roads_geojson_0'')]\<rparr>],
        vi_layerIds = [''vector-roads_geojson-line''], vi_displayName = ''Roads''\<rparr>
       (\<lambda>p. obj_get p ''Name'' = Some (JStr ''NH 44''))
       ([], \<lparr>currentDEM = None, activeLayers = [], highlightedFeature = None, firstSymbolId = None,
             rng = (\<lambda>_. 0, 0),
             smap = \<lparr>m_sources = [''source-vector-roads_geojson''],
                     m_layers = [\<lparr>ml_id = ''vector-roads_geojson-line'', ml_type = ''line'',
                                  ml_source = Some ''source-vector-roads_geojson'', ml_filter = NoFilter,
                                  ml_visible = True, ml_text = None\<rparr>],
                     m_terrain = None, m_errors = []\<rparr>\<rparr>) = UiDone (fl', s') \<and>
     (\<forall>l \<in> set (m_layers (smap s')). ml_id l \<in> set ([''vector-roads_geojson-line''] @ [label_id (vector_prefix ''roads.geojson'')]) \<longrightarrow>
        (\<forall>f \<in> set [\<lparr>f_geometry = Some ''LineString'',
                         f_props = [(''Name'', JStr ''NH 44''), (''_uniqueId'', JStr ''vector-roads_geojson_0'')]\<rparr>].
           passes (ml_filter l) (f_props f) \<longleftrightarrow> obj_get (f_props f) ''Name'' = Some (JStr ''NH 44''))) \<and>
     (\<forall>l \<in> set (m_layers (smap s')). ml_id l \<in> set [''vector-roads_geojson-line'', ''vector-roads_geojson-labels''] \<longrightarrow>
        ml_filter l = InIds [''vector-roads_geojson_0''])"
proof -
  define v where "v = \<lparr>vi_classification = [], vi_classField = None, vi_sourceId = ''source-vector-roads_geojson'',
        vi_filename = ''roads.geojson'',
        vi_features = [\<lparr>f_geometry = Some ''LineString'',
                         f_props = [(''Name'', JStr ''NH 44''), (''_uniqueId'', JStr ''vector-roads_geojson_0'')]\<rparr>],
        vi_layerIds = [''vector-roads_geojson-line''], vi_displayName = ''Roads''\<rparr>"
  define s0 :: session where "s0 = \<lparr>currentDEM = None, activeLayers = [], highlightedFeature = None, firstSymbolId = None,
             rng = (\<lambda>_. 0, 0),
             smap = \<lparr>m_sources = [''source-vector-roads_geojson''],
                     m_layers = [\<lparr>ml_id = ''vector-roads_geojson-line'', ml_type = ''line'',
                                  ml_source = Some ''source-vector-roads_geojson'', ml_filter = NoFilter,
                                  ml_visible = True, ml_text = None\<rparr>],
                     m_terrain = None, m_errors = []\<rparr>\<rparr>"
  define P where "P = (\<lambda>p. obj_get p ''Name'' = Some (JStr ''NH 44''))"
  have vp: "vector_prefix ''roads.geojson'' = ''vector-roads_geojson''"
    by (simp add: vector_prefix_def sanitize_def is_alnum_def upper_letters_def lower_letters_def digit_chars_def)
  have tg: "entry_tagged (vector_prefix ''roads.geojson'') v"
    by (simp add: vp v_def entry_tagged_def obj_get_def js_simps)
  have ne: "vi_layerIds v \<noteq> []" by (simp add: v_def)
  have sub: "set (vi_layerIds v) \<subseteq> style_layer_ids (vector_prefix ''roads.geojson'')"
    by (simp add: vp v_def style_layer_ids_def)
  obtain fl' s' where run: "attr_search v P ([], s0) = UiDone (fl', s')"
    using attr_search_layers [OF ne sub, of P "[]" s0] by blast
  note C = attr_filter_consistent [OF tg ne sub run]
  have "\<forall>l \<in> set (m_layers (smap s')). ml_id l \<in> set [''vector-roads_geojson-line'', ''vector-roads_geojson-labels''] \<longrightarrow>
        ml_filter l = InIds [''vector-roads_geojson_0'']"
    using run by (auto simp: attr_search_def v_def s0_def P_def Let_def label_of_layerIds_def
        set_filter_if_def setFilter_def has_layer_def layer_ids_def feature_uids_def obj_get_def
        is_lower_def lower_letters_def)
  moreover have "\<forall>l \<in> set (m_layers (smap s')). ml_id l \<in> set (vi_layerIds v @ [label_id (vector_prefix ''roads.geojson'')]) \<longrightarrow>
      (\<forall>f \<in> set (vi_features v). passes (ml_filter l) (f_props f) \<longleftrightarrow> P (f_props f))"
    using C by blast
  ultimately show ?thesis using run unfolding v_def s0_def P_def by auto
qed

theorem clear_search_filter_witness:
  "\<exists>fl' s'. attr_search
       \<lparr>vi_classification = [], vi_classField = None, vi_sourceId = ''source-vector-roads_geojson'',
        vi_filename = ''roads.geojson'',
        vi_features = [\<lparr>f_geometry = Some ''LineString'',
                         f_props = [(''Name'', JStr ''NH 44''), (''_uniqueId'', JStr ''vector-roads_geojson_0'')]\<rparr>],
        vi_layerIds = [''vector-roads_geojson-line''], vi_displayName = ''Roads''\<rparr>
       (\<lambda>_. True)
       ([], \<lparr>currentDEM = None, activeLayers = [], highlightedFeature = None, firstSymbolId = None,
             rng = (\<lambda>_. 0, 0),
             smap = \<lparr>m_sources = [''source-vector-roads_geojson''],
                     m_layers = [\<lparr>ml_id = ''vector-roads_geojson-line'', ml_type = ''line'',
                                  ml_source = Some ''source-vector-roads_geojson'', ml_filter = NoFilter,
                                  ml_visible = True, ml_text = None\<rparr>],
                     m_terrain = None, m_errors = []\<rparr>\<rparr>) = UiDone (fl', s') \<and>
     (\<forall>l \<in> set (m_layers (smap s')). ml_id l \<in> set ([''vector-roads_geojson-line''] @ [label_id (vector_prefix ''roads.geojson'')]) \<longrightarrow>
        ml_filter l = InIds (feature_uids [\<lparr>f_geometry = Some ''LineString'',
                         f_props = [(''Name'', JStr ''NH 44''), (''_uniqueId'', JStr ''vector-roads_geojson_0'')]\<rparr>]) \<and>
        (\<forall>f \<in> set [\<lparr>f_geometry = Some ''LineString'',
                         f_props = [(''Name'', JStr ''NH 44''), (''_uniqueId'', JStr ''vector-roads_geojson_0'')]\<rparr>].
           passes (ml_filter l) (f_props f)))"
proof -
  define v where "v = \<lparr>vi_classification = [], vi_classField = None, vi_sourceId = ''source-vector-roads_geojson'',
        vi_filename = ''roads.geojson'',
        vi_features = [\<lparr>f_geometry = Some ''LineString'',
                         f_props = [(''Name'', JStr ''NH 44''), (''_uniqueId'', JStr ''vector-roads_geojson_0'')]\<rparr>],
        vi_layerIds = [''vector-roads_geojson-line''], vi_displayName = ''Roads''\<rparr>"
  define s0 :: session where "s0 = \<lparr>currentDEM = None, activeLayers = [], highlightedFeature = None, firstSymbolId = None,
             rng = (\<lambda>_. 0, 0),
             smap = \<lparr>m_sources = [''source-vector-roads_geojson''],
                     m_layers = [\<lparr>ml_id = ''vector-roads_geojson-line'', ml_type = ''line'',
                                  ml_source = Some ''source-vector-roads_geojson'', ml_filter = NoFilter,
                                  ml_visible = True, ml_text = None\<rparr>],
                     m_terrain = None, m_errors = []\<rparr>\<rparr>"
  have vp: "vector_prefix ''roads.geojson'' = ''vector-roads_geojson''"
    by (simp add: vector_prefix_def sanitize_def is_alnum_def upper_letters_def lower_letters_def digit_chars_def)
  have tg: "entry_tagged (vector_prefix ''roads.geojson'') v"
    by (simp add: vp v_def entry_tagged_def obj_get_def js_simps)
  have ne: "vi_layerIds v \<noteq> []" by (simp add: v_def)
  have sub: "set (vi_layerIds v) \<subseteq> style_layer_ids (vector_prefix ''roads.geojson'')"
    by (simp add: vp v_def style_layer_ids_def)
  obtain fl' s' where run: "attr_search v (\<lambda>_. True) ([], s0) = UiDone (fl', s')"
    using attr_search_layers [OF ne sub, of "\<lambda>_. True" "[]" s0] by blast
  have "\<forall>l \<in> set (m_layers (smap s')). ml_id l \<in> set (vi_layerIds v @ [label_id (vector_prefix ''roads.geojson'')]) \<longrightarrow>
           ml_filter l = InIds (feature_uids (vi_features v)) \<and>
           (\<forall>f \<in> set (vi_features v). passes (ml_filter l) (f_props f))"
    by (rule clear_search_filter [OF tg ne sub run])
  then show ?thesis using run unfolding v_def s0_def by auto
qed

end
