(* ===== verification/Toggle.thy ===== *)
theory Toggle
  imports Panels
begin

text \<open>
  \<open>handleVectorToggle(checkbox)\<close> of \<open>src/static/js/layer-handlers.js\<close> as a whole:
  the \<open>try\<close> block of \<open>Layers.vector_toggle_try\<close> followed, inside the same \<open>try\<close>,
  by \<open>updateLegend()\<close> (\<open>Legend\<close>) and \<open>updateLabelControl()\<close> (\<open>Panels\<close>) of
  \<open>ui.js\<close>; the \<open>catch\<close> unchecks the box.  The two panels the handler redraws are
  the legend and the label controls; the rendered features MapLibre reports to the
  legend's \<open>queryRenderedFeatures\<close> are an input.  The loader of \<open>finally\<close> and the
  detached \<open>flyToBounds\<close> request change no modelled state.
\<close>

section \<open>The handler\<close>

text \<open>The legend and the label controls as the handler leaves them.\<close>

record panels =
  pn_legend :: legend_view
  pn_labels :: label_ui

text \<open>
  The result is the session, the panels and the box's \<open>checked\<close> value afterwards.
  A throw in the \<open>try\<close> block or in \<open>updateLegend\<close> (a \<open>TypeError\<close>, before the legend
  is written) skips the rest of the block: the panels stay as they were and the box is
  unchecked.
\<close>

definition handleVectorToggle ::
  "bool \<Rightarrow> string \<Rightarrow> string \<Rightarrow> geojson reply \<Rightarrow> jval jsobj list \<Rightarrow> panels \<Rightarrow> session \<Rightarrow>
   session \<times> panels \<times> bool" where
  "handleVectorToggle checked filename displayName reply rendered ui s =
     (case vector_toggle_try checked filename displayName reply s of
        (s1, False) \<Rightarrow> (s1, ui, False)
      | (s1, True) \<Rightarrow>
          (case updateLegend (activeLayers s1) rendered of
             None \<Rightarrow> (s1, ui, False)
           | Some lv \<Rightarrow>
               (s1, \<lparr>pn_legend = lv,
                     pn_labels = updateLabelControl (activeLayers s1) (lu_layer_sel (pn_labels ui))\<rparr>,
                checked)))"

text \<open>The panels of a page with no layer: the legend hidden and the label select
  holding its placeholder option.\<close>

definition panels_start :: panels where
  "panels_start =
     \<lparr>pn_legend = LegendHidden,
      pn_labels = \<lparr>lu_layer_opts = [(''No vector layers active'', ''No vector layers active'')],
                   lu_layer_sel = ''No vector layers active'', lu_field_opts = [], lu_field_sel = [],
                   lu_disabled = True\<rparr>\<rparr>"

definition session_start :: session where
  "session_start =
     \<lparr>currentDEM = None, activeLayers = [], highlightedFeature = None, firstSymbolId = None,
      rng = (\<lambda>_. 0, 0), smap = \<lparr>m_sources = [], m_layers = [], m_terrain = None, m_errors = []\<rparr>\<rparr>"


section \<open>Composition lemmas\<close>

lemma toggle_session:
  "vector_toggle_try c fn dn r s = (s1, b) \<Longrightarrow> fst (handleVectorToggle c fn dn r rd ui s) = s1"
  by (cases b) (simp_all add: handleVectorToggle_def split: option.split)

lemma toggle_box:
  "vector_toggle_try c fn dn r s = (s1, b) \<Longrightarrow>
   snd (snd (handleVectorToggle c fn dn r rd ui s)) \<longleftrightarrow> b \<and> c \<and> updateLegend (activeLayers s1) rd \<noteq> None"
  by (cases b) (simp_all add: handleVectorToggle_def split: option.split)

lemma toggle_fail:
  "vector_toggle_try c fn dn r s = (s1, False) \<Longrightarrow> handleVectorToggle c fn dn r rd ui s = (s1, ui, False)"
  by (simp add: handleVectorToggle_def)

lemma toggle_renders:
  "vector_toggle_try c fn dn r s = (s1, True) \<Longrightarrow> updateLegend (activeLayers s1) rd = Some lv \<Longrightarrow>
   handleVectorToggle c fn dn r rd ui s =
     (s1, \<lparr>pn_legend = lv, pn_labels = updateLabelControl (activeLayers s1) (lu_layer_sel (pn_labels ui))\<rparr>, c)"
  by (simp add: handleVectorToggle_def)

lemma toggle_blocked:
  "has_source (smap s) (source_of (vector_prefix fn)) \<Longrightarrow> handleVectorToggle True fn dn r rd ui s = (s, ui, False)"
  by (rule toggle_fail [OF activation_blocked])

lemma toggle_activate:
  "vector_toggle_try True fn dn (FetchOk \<lparr>gj_error = None, gj_features = Some fs\<rparr>) s = vector_activate fn dn fs s"
  by (simp add: vector_toggle_try_def)

lemma entries_coherent_Nil [simp]: "entries_coherent []"
  by (simp add: entries_coherent_def)

text \<open>A feature MapLibre reports after the activation belongs to a layer registered
  before it or to the new one.\<close>

lemma rendered_from_set:
  assumes "k \<notin> set (obj_keys al)" "rendered_from al p \<or> p \<in> f_props ` set (vi_features v)"
  shows "rendered_from (obj_set al k (VectorLayer v)) p"
proof -
  have old: "obj_get (obj_set al k (VectorLayer v)) k' = obj_get al k'" if "k' \<in> set (obj_keys al)" for k'
    using that assms(1) by (auto simp: obj_get_set)
  show ?thesis
    using assms(2)
  proof
    assume "rendered_from al p"
    then show ?thesis
      by (auto simp: rendered_from_def list_ex_iff obj_keys_set old split: option.splits)
  next
    assume "p \<in> f_props ` set (vi_features v)"
    then show ?thesis by (auto simp: rendered_from_def list_ex_iff obj_keys_set obj_get_set)
  qed
qed

lemma stems_unique_single [simp]: "stems_unique [(k, v)]"
  by (simp add: stems_unique_def obj_keys_def)


section \<open>Activation and deactivation\<close>

text \<open>
  C1: activating a vector layer and deactivating it again (\<open>handleVectorToggle\<close> with
  the box checked, then unchecked) leaves the registry and the whole map as they were:
  no source, layer or label of the key survives, and the unchecked box stays unchecked.
  The box stays checked after the activation exactly when the legend redrawn inside the
  \<open>try\<close> renders; when \<open>updateLegend\<close> throws, the \<open>catch\<close> unchecks the box of a
  layer that is registered and drawn.  The hypotheses say the key is new to the map and
  to the registry, no feature highlight is shown (deactivation clears it), the
  insertion anchor exists, and the payload's first geometry is not \<open>null\<close>.
\<close>

theorem vector_toggle_roundtrip:
  assumes wf: "map_wf (smap s)"
    and key: "vector_prefix fn \<notin> set (obj_keys (activeLayers s))"
    and src: "\<not> has_source (smap s) (source_of (vector_prefix fn))"
    and ids: "\<forall>i \<in> insert (label_id (vector_prefix fn)) (style_layer_ids (vector_prefix fn)).
                \<not> has_layer (smap s) i"
    and nohl: "\<not> has_layer (smap s) HIGHLIGHT_LAYER"
    and anchor: "\<forall>a. firstSymbolId s = Some a \<longrightarrow> has_layer (smap s) a"
    and geom: "fs = [] \<or> f_geometry (hd fs) \<noteq> None"
    and on: "handleVectorToggle True fn dn (FetchOk \<lparr>gj_error = None, gj_features = Some fs\<rparr>) rd_on ui s
               = (s_on, ui_on, c_on)"
    and off: "handleVectorToggle False fn dn reply rd_off ui_on s_on = (s_off, ui2, c_off)"
  shows "(c_on \<longleftrightarrow> updateLegend (activeLayers s_on) rd_on \<noteq> None) \<and> \<not> c_off \<and>
         activeLayers s_off = activeLayers s \<and> smap s_off = smap s"
proof -
  let ?k = "vector_prefix fn"
  obtain s1' info where act: "vector_activate fn dn fs s = (s1', True)"
    and al: "activeLayers s1' = obj_set (activeLayers s) ?k (VectorLayer info)"
    and sq: "vi_sourceId info = source_of ?k"
    and sub: "set (vi_layerIds info) \<subseteq> style_layer_ids ?k"
    and srcs: "m_sources (smap s1') = m_sources (smap s) @ [source_of ?k]"
    and filt: "filter (\<lambda>x. ml_id x \<notin> set (vi_layerIds info @ [label_id ?k])) (m_layers (smap s1'))
               = m_layers (smap s)"
    and lids: "set (layer_ids (smap s1')) = set (layer_ids (smap s)) \<union> set (vi_layerIds info @ [label_id ?k])"
    and same: "m_terrain (smap s1') = m_terrain (smap s)" "m_errors (smap s1') = m_errors (smap s)"
    using vector_activate_fresh [OF key src ids anchor geom, of dn] by blast
  have try_on: "vector_toggle_try True fn dn (FetchOk \<lparr>gj_error = None, gj_features = Some fs\<rparr>) s = (s1', True)"
    using act by (simp add: toggle_activate)
  have s_on: "s_on = s1'" using toggle_session [OF try_on, of rd_on ui] on by simp
  have c_on: "c_on \<longleftrightarrow> updateLegend (activeLayers s_on) rd_on \<noteq> None"
    using toggle_box [OF try_on, of rd_on ui] on s_on by simp
  have reg: "obj_get (activeLayers s_on) ?k = Some (VectorLayer info)" by (simp add: s_on al obj_get_set)
  have "HIGHLIGHT_LAYER \<notin> set (vi_layerIds info @ [label_id ?k])"
    using sub highlight_not_vector_layer [of fn] by auto
  then have nohl1: "\<not> has_layer (smap s_on) HIGHLIGHT_LAYER"
    using nohl lids by (simp add: s_on has_layer_def)
  have unused: "\<forall>l \<in> set (m_layers (smap s_on)).
      ml_id l \<notin> set (vi_layerIds info @ [label_id ?k]) \<longrightarrow> ml_source l \<noteq> Some (vi_sourceId info)"
  proof (intro ballI impI)
    fix l assume l: "l \<in> set (m_layers (smap s_on))" "ml_id l \<notin> set (vi_layerIds info @ [label_id ?k])"
    then have "l \<in> set (m_layers (smap s))" using filt by (auto simp: s_on simp flip: filt)
    then show "ml_source l \<noteq> Some (vi_sourceId info)"
      using wf src sq by (auto simp: map_wf_def has_source_def)
  qed
  note D = vector_deactivate_registered [OF reg nohl1 unused]
  obtain s_d where dd: "vector_deactivate fn s_on = (s_d, True)"
    using D by (cases "vector_deactivate fn s_on") auto
  have try_off: "vector_toggle_try False fn dn reply s_on = (s_d, True)"
    using dd by (simp add: vector_toggle_try_def)
  have s_off: "s_off = s_d" using toggle_session [OF try_off, of rd_off ui_on] off by simp
  have c_off: "\<not> c_off" using toggle_box [OF try_off, of rd_off ui_on] off by simp
  have "activeLayers s_off = activeLayers s"
    using D key dd by (simp add: s_off s_on al obj_del_set_new)
  moreover have "smap s_off = smap s"
  proof (rule mapst.equality)
    show "m_sources (smap s_off) = m_sources (smap s)"
      using D dd srcs src sq by (simp add: s_off s_on has_source_def)
    show "m_layers (smap s_off) = m_layers (smap s)" using D dd filt by (simp add: s_off s_on)
    show "m_terrain (smap s_off) = m_terrain (smap s)" using D dd same by (simp add: s_off s_on)
    show "m_errors (smap s_off) = m_errors (smap s)" using D dd same by (simp add: s_off s_on)
  qed simp
  ultimately show ?thesis using c_on c_off by blast
qed

text \<open>
  C2: rapid double toggling of one vector layer locks it.  The box is checked (a fetch
  starts), unchecked (nothing is registered yet, so nothing happens) and checked again
  (a second fetch starts).  The first reply activates the layer (the box stays checked
  when the legend renders); the second reply's \<open>addSource\<close> throws because the source
  exists, and the \<open>catch\<close> unchecks the box while the layer stays registered and
  drawn.  From then on every check of the box, whatever the server replies and whatever
  is rendered, fails the same way and changes nothing, so the layer can no longer be
  removed through its checkbox.
\<close>

theorem double_toggle_locks_layer:
  assumes key: "vector_prefix fn \<notin> set (obj_keys (activeLayers s))"
    and src: "\<not> has_source (smap s) (source_of (vector_prefix fn))"
    and ids: "\<forall>i \<in> insert (label_id (vector_prefix fn)) (style_layer_ids (vector_prefix fn)).
                \<not> has_layer (smap s) i"
    and anchor: "\<forall>a. firstSymbolId s = Some a \<longrightarrow> has_layer (smap s) a"
    and geom: "fs = [] \<or> f_geometry (hd fs) \<noteq> None"
    and first: "handleVectorToggle True fn dn (FetchOk \<lparr>gj_error = None, gj_features = Some fs\<rparr>) rd_on u_on
                  (fst (handleVectorToggle False fn dn r_off rd_off u_off s)) = (s_first, u_first, c_first)"
    and second: "handleVectorToggle True fn dn r_again rd_again u_first s_first = (s_second, u_second, c_second)"
  shows "(c_first \<longleftrightarrow> updateLegend (activeLayers s_first) rd_on \<noteq> None) \<and> \<not> c_second \<and>
         s_second = s_first \<and> u_second = u_first \<and> vector_prefix fn \<in> set (obj_keys (activeLayers s_second)) \<and>
         (\<forall>r rd u. handleVectorToggle True fn dn r rd u s_second = (s_second, u, False))"
proof -
  let ?k = "vector_prefix fn"
  have t0: "vector_toggle_try False fn dn r_off s = (s, True)"
    using key by (simp add: vector_toggle_try_def vector_deactivate_absent)
  have s0: "fst (handleVectorToggle False fn dn r_off rd_off u_off s) = s" by (rule toggle_session [OF t0])
  obtain s1' info where act: "vector_activate fn dn fs s = (s1', True)"
    and al: "activeLayers s1' = obj_set (activeLayers s) ?k (VectorLayer info)"
    and srcs: "m_sources (smap s1') = m_sources (smap s) @ [source_of ?k]"
    using vector_activate_fresh [OF key src ids anchor geom, of dn] by blast
  have try1: "vector_toggle_try True fn dn (FetchOk \<lparr>gj_error = None, gj_features = Some fs\<rparr>) s = (s1', True)"
    using act by (simp add: toggle_activate)
  have s_first: "s_first = s1'" using toggle_session [OF try1, of rd_on u_on] first s0 by simp
  have c_first: "c_first \<longleftrightarrow> updateLegend (activeLayers s_first) rd_on \<noteq> None"
    using toggle_box [OF try1, of rd_on u_on] first s0 s_first by simp
  have blocked: "has_source (smap s_first) (source_of ?k)" by (simp add: s_first srcs has_source_def)
  from second toggle_blocked [OF blocked] have s_second: "s_second = s_first" "u_second = u_first"
    and "\<not> c_second" by simp_all
  have "?k \<in> set (obj_keys (activeLayers s_second))" by (simp add: s_second s_first al obj_keys_set)
  with blocked s_second c_first \<open>\<not> c_second\<close> show ?thesis by (simp add: toggle_blocked)
qed

text \<open>
  C3: a vector reply whose first feature has a \<open>null\<close> geometry leaves an orphan
  source.  \<open>addSource\<close> has already run when \<open>generateVectorStyle\<close> reads
  \<open>features[0].geometry.type\<close> and throws; the \<open>catch\<close> unchecks the box (the legend
  and the label controls are not redrawn) but the source stays on the map, nothing is
  registered, and every later activation of the same file fails on the duplicate
  source.
\<close>

theorem null_geometry_orphan_source:
  assumes src: "\<not> has_source (smap s) (source_of (vector_prefix fn))"
    and ne: "fs \<noteq> []" and null: "f_geometry (hd fs) = None"
    and step: "handleVectorToggle True fn dn (FetchOk \<lparr>gj_error = None, gj_features = Some fs\<rparr>) rd ui s
                 = (s_after, ui', c)"
  shows "\<not> c \<and> ui' = ui \<and> activeLayers s_after = activeLayers s \<and>
         m_sources (smap s_after) = m_sources (smap s) @ [source_of (vector_prefix fn)] \<and>
         (\<forall>r rd' u. handleVectorToggle True fn dn r rd' u s_after = (s_after, u, False))"
proof -
  let ?k = "vector_prefix fn"
  let ?s1 = "s\<lparr>smap := smap s\<lparr>m_sources := m_sources (smap s) @ [source_of ?k]\<rparr>\<rparr>"
  obtain e where gen: "generateVectorStyle ?k (source_of ?k) (tag_features ?k fs) fn (Some dn) (rng s) = Inl e"
    using generateVectorStyle_Inl_iff tag_features_hd_null [OF ne null] by blast
  have "vector_toggle_try True fn dn (FetchOk \<lparr>gj_error = None, gj_features = Some fs\<rparr>) s = (?s1, False)"
    by (simp add: toggle_activate vector_activate_def Let_def addSource_fresh [OF src] gen)
  from toggle_fail [OF this, of rd ui] step have s_after: "s_after = ?s1" and "\<not> c" "ui' = ui"
    by simp_all
  have "has_source (smap s_after) (source_of ?k)" by (simp add: s_after has_source_def)
  with s_after \<open>\<not> c\<close> \<open>ui' = ui\<close> show ?thesis by (simp add: toggle_blocked)
qed

text \<open>
  An empty feature collection is registered with no layers.  The reply passes
  every check of the handler, \<open>generateVectorStyle\<close> returns no layer for an empty
  \<open>features\<close> array, and the entry is stored with an empty \<open>layerIds\<close>, whether or not
  the legend then renders; the spec's descriptor invariant says \<open>layerIds\<close> is never
  empty while registered.
\<close>

theorem empty_collection_no_layers:
  assumes src: "\<not> has_source (smap s) (source_of (vector_prefix fn))"
    and step: "handleVectorToggle True fn dn (FetchOk \<lparr>gj_error = None, gj_features = Some []\<rparr>) rd ui s = (s', ui', c)"
  shows "\<exists>info. obj_get (activeLayers s') (vector_prefix fn) = Some (VectorLayer info) \<and>
                vi_layerIds info = [] \<and> vi_sourceId info = source_of (vector_prefix fn)"
proof -
  obtain s1 b where t: "vector_toggle_try True fn dn (FetchOk \<lparr>gj_error = None, gj_features = Some []\<rparr>) s = (s1, b)"
    by fastforce
  have "s' = s1" using toggle_session [OF t, of rd ui] step by simp
  with t show ?thesis
    by (auto simp: toggle_activate vector_activate_def Let_def addSource_fresh [OF src]
        generateVectorStyle_def tag_features_def obj_get_set)
qed

section \<open>The panels after an activation\<close>

text \<open>
  C10: the label field select and the label layer disagree.  Activation calls
  \<open>addOrUpdateLabelLayer(prefix)\<close> with the default field \<open>Name\<close>, but the
  \<open>updateLabelControl\<close> that the handler runs next shows the first of its own
  default fields the data has.  For data with a \<open>name\<close> property and no \<open>Name\<close>, on a
  page with no other layer (so the features the legend is fed with are features of
  the new layer, and the legend renders), the box stays checked and the select shows \<open>name\<close> while the map's label
  layer reads the missing \<open>Name\<close>, so no label is drawn.
\<close>

theorem label_field_mismatch:
  assumes empty: "activeLayers s = []"
    and src: "\<not> has_source (smap s) (source_of (vector_prefix fn))"
    and ids: "\<forall>i \<in> insert (label_id (vector_prefix fn)) (style_layer_ids (vector_prefix fn)).
                \<not> has_layer (smap s) i"
    and anchor: "\<forall>a. firstSymbolId s = Some a \<longrightarrow> has_layer (smap s) a"
    and geom: "f_geometry f0 \<noteq> None"
    and props: "''Name'' \<notin> set (obj_keys (f_props f0))" "''name'' \<in> set (obj_keys (f_props f0))"
    and rend: "\<forall>p \<in> set rd. p \<in> f_props ` set (tag_features (vector_prefix fn) (f0 # fs))"
    and step: "handleVectorToggle True fn dn (FetchOk \<lparr>gj_error = None, gj_features = Some (f0 # fs)\<rparr>) rd ui s
                 = (s_on, ui', c)"
  shows "c \<and> lu_field_sel (pn_labels ui') = ''name'' \<and>
         (\<exists>l \<in> set (m_layers (smap s_on)). ml_id l = label_id (vector_prefix fn) \<and> ml_text l = Some ''Name'')"
proof -
  let ?k = "vector_prefix fn"
  have key: "?k \<notin> set (obj_keys (activeLayers s))" by (simp add: empty obj_keys_def)
  obtain s1 info where act: "vector_activate fn dn (f0 # fs) s = (s1, True)"
    and al: "activeLayers s1 = obj_set (activeLayers s) ?k (VectorLayer info)"
    and feats: "vi_features info = tag_features ?k (f0 # fs)"
    and lab: "\<exists>l \<in> set (m_layers (smap s1)). ml_id l = label_id ?k \<and> ml_text l = Some ''Name''"
    using vector_activate_fresh [OF key src ids anchor, of "f0 # fs" dn] geom by auto
  have try1: "vector_toggle_try True fn dn (FetchOk \<lparr>gj_error = None, gj_features = Some (f0 # fs)\<rparr>) s = (s1, True)"
    using act by (simp add: toggle_activate)
  have s1: "s_on = s1" using toggle_session [OF try1, of rd ui] step by simp
  have one: "activeLayers s1 = [(?k, VectorLayer info)]" by (simp add: al empty)
  have "entries_coherent (activeLayers s1)"
    using vector_activate_coherent [OF _ act] empty by simp
  moreover have "\<forall>p \<in> set rd. rendered_from (activeLayers s1) p"
    using rend rendered_from_set [OF key, of _ info] feats by (simp add: al)
  ultimately obtain lv where lv: "updateLegend (activeLayers s1) rd = Some lv"
    using legend_renders [of "activeLayers s1" rd] one by auto
  have ui': "ui' = \<lparr>pn_legend = lv, pn_labels = updateLabelControl (activeLayers s1) (lu_layer_sel (pn_labels ui))\<rparr>"
    and c using toggle_renders [OF try1 lv, of ui] step by simp_all
  define t0 where "t0 = f0\<lparr>f_props := obj_set (f_props f0) ''_uniqueId'' (JStr (?k @ ''_'' @ dec_nat 0))\<rparr>"
  have hd: "vi_features info = t0 # tl (tag_features ?k (f0 # fs))"
    unfolding feats t0_def by (rule tag_features_Cons)
  have ks: "''Name'' \<notin> set (obj_keys (f_props t0))" "''name'' \<in> set (obj_keys (f_props t0))"
    using props by (auto simp: t0_def obj_keys_set)
  have "lu_field_sel (pn_labels ui') = ''name''"
    using find_labelFields_name [OF ks] one
    by (simp add: ui' updateLabelControl_def label_vector_entries_def populateLabelFieldSelect_def hd
        Let_def obj_get_def)
  with \<open>c\<close> lab s1 show ?thesis by blast
qed

text \<open>
  C40: activation keeps the legend total.  When the registry's entries are coherent
  with their data, its keys have distinct stems, and the new key's stem is distinct
  from theirs (no key starts with the other's \<open>split('_')[0]\<close> stem), a successful
  reply keeps the box checked, the legend shows what \<open>updateLegend\<close> renders from
  the features MapLibre reports (features of the layers registered before and of the
  new one), and the registry keeps both properties, so the next
  \<open>updateLegend\<close> (on \<open>moveend\<close> or at the next toggle) cannot throw either.
\<close>

theorem vector_toggle_keeps_legend:
  assumes co: "entries_coherent (activeLayers s)" and su: "stems_unique (activeLayers s)"
    and fresh: "\<forall>k' \<in> set (obj_keys (activeLayers s)).
                  \<not> starts_with k' (stem (vector_prefix fn)) \<and> \<not> starts_with (vector_prefix fn) (stem k')"
    and src: "\<not> has_source (smap s) (source_of (vector_prefix fn))"
    and ids: "\<forall>i \<in> insert (label_id (vector_prefix fn)) (style_layer_ids (vector_prefix fn)).
                \<not> has_layer (smap s) i"
    and anchor: "\<forall>a. firstSymbolId s = Some a \<longrightarrow> has_layer (smap s) a"
    and geom: "fs = [] \<or> f_geometry (hd fs) \<noteq> None"
    and rend: "\<forall>p \<in> set rd. rendered_from (activeLayers s) p \<or> p \<in> f_props ` set (tag_features (vector_prefix fn) fs)"
    and step: "handleVectorToggle True fn dn (FetchOk \<lparr>gj_error = None, gj_features = Some fs\<rparr>) rd ui s
                 = (s_on, ui', c)"
  shows "c \<and> updateLegend (activeLayers s_on) rd = Some (pn_legend ui') \<and>
         entries_coherent (activeLayers s_on) \<and> stems_unique (activeLayers s_on)"
proof -
  let ?k = "vector_prefix fn"
  have key: "?k \<notin> set (obj_keys (activeLayers s))" using fresh starts_with_stem by blast
  obtain s1 info where act: "vector_activate fn dn fs s = (s1, True)"
    and al: "activeLayers s1 = obj_set (activeLayers s) ?k (VectorLayer info)"
    and feats: "vi_features info = tag_features ?k fs"
    using vector_activate_fresh [OF key src ids anchor geom, of dn] by blast
  have try1: "vector_toggle_try True fn dn (FetchOk \<lparr>gj_error = None, gj_features = Some fs\<rparr>) s = (s1, True)"
    using act by (simp add: toggle_activate)
  have s1: "s_on = s1" using toggle_session [OF try1, of rd ui] step by simp
  have rend1: "\<forall>p \<in> set rd. rendered_from (activeLayers s1) p"
    using rend rendered_from_set [OF key, of _ info] feats by (simp add: al)
  have co1: "entries_coherent (activeLayers s1)" by (rule vector_activate_coherent [OF co act])
  have su1: "stems_unique (activeLayers s1)" unfolding al by (rule stems_unique_set [OF su fresh])
  obtain lv where lv: "updateLegend (activeLayers s1) rd = Some lv"
    using legend_renders [OF su1 co1 rend1] by blast
  have "ui' = \<lparr>pn_legend = lv, pn_labels = updateLabelControl (activeLayers s1) (lu_layer_sel (pn_labels ui))\<rparr>"
    and c using toggle_renders [OF try1 lv, of ui] step by simp_all
  with lv co1 su1 s1 show ?thesis by simp
qed

section \<open>Witnesses\<close>

lemma toggle_keys [simp]:
  "vector_prefix ''parks.geojson'' = ''vector-parks_geojson''"
  "vector_prefix ''roads.geojson'' = ''vector-roads_geojson''"
  "vector_prefix ''wells.geojson'' = ''vector-wells_geojson''"
  by (simp_all add: vector_prefix_def sanitize_def is_alnum_def upper_letters_def lower_letters_def digit_chars_def)

theorem vector_toggle_roundtrip_witness:
  "let H1 = handleVectorToggle True ''parks.geojson'' ''Parks''
              (FetchOk \<lparr>gj_error = None, gj_features = Some [\<lparr>f_geometry = Some ''Polygon'', f_props = []\<rparr>]\<rparr>)
              [] panels_start session_start;
       H2 = handleVectorToggle False ''parks.geojson'' ''Parks'' (FetchFailed []) [] (fst (snd H1)) (fst H1)
   in (snd (snd H1) \<longleftrightarrow> updateLegend (activeLayers (fst H1)) [] \<noteq> None) \<and> \<not> snd (snd H2) \<and>
      activeLayers (fst H2) = activeLayers session_start \<and> smap (fst H2) = smap session_start"
proof -
  obtain s_on ui_on c_on where h1: "handleVectorToggle True ''parks.geojson'' ''Parks''
      (FetchOk \<lparr>gj_error = None, gj_features = Some [\<lparr>f_geometry = Some ''Polygon'', f_props = []\<rparr>]\<rparr>)
      [] panels_start session_start = (s_on, ui_on, c_on)" by (metis prod_cases3)
  obtain s_off ui_off c_off where h2: "handleVectorToggle False ''parks.geojson'' ''Parks'' (FetchFailed []) [] ui_on s_on
      = (s_off, ui_off, c_off)" by (metis prod_cases3)
  have "(c_on \<longleftrightarrow> updateLegend (activeLayers s_on) [] \<noteq> None) \<and> \<not> c_off \<and>
        activeLayers s_off = activeLayers session_start \<and> smap s_off = smap session_start"
    by (rule vector_toggle_roundtrip [OF _ _ _ _ _ _ _ h1 h2])
       (simp_all add: session_start_def map_wf_def has_layer_def has_source_def layer_ids_def obj_keys_def)
  with h1 h2 show ?thesis by (simp add: Let_def)
qed

theorem double_toggle_locks_layer_witness:
  "let H0 = handleVectorToggle False ''parks.geojson'' ''Parks'' (FetchFailed []) [] panels_start session_start;
       H1 = handleVectorToggle True ''parks.geojson'' ''Parks''
              (FetchOk \<lparr>gj_error = None, gj_features = Some [\<lparr>f_geometry = Some ''Polygon'', f_props = []\<rparr>]\<rparr>)
              [] panels_start (fst H0);
       H2 = handleVectorToggle True ''parks.geojson'' ''Parks''
              (FetchOk \<lparr>gj_error = None, gj_features = Some [\<lparr>f_geometry = Some ''Polygon'', f_props = []\<rparr>]\<rparr>)
              [] (fst (snd H1)) (fst H1)
   in (snd (snd H1) \<longleftrightarrow> updateLegend (activeLayers (fst H1)) [] \<noteq> None) \<and> \<not> snd (snd H2) \<and>
      fst H2 = fst H1 \<and> fst (snd H2) = fst (snd H1) \<and>
      vector_prefix ''parks.geojson'' \<in> set (obj_keys (activeLayers (fst H2))) \<and>
      (\<forall>r rd u. handleVectorToggle True ''parks.geojson'' ''Parks'' r rd u (fst H2) = (fst H2, u, False))"
proof -
  obtain s_first u_first c_first where h1: "handleVectorToggle True ''parks.geojson'' ''Parks''
      (FetchOk \<lparr>gj_error = None, gj_features = Some [\<lparr>f_geometry = Some ''Polygon'', f_props = []\<rparr>]\<rparr>)
      [] panels_start (fst (handleVectorToggle False ''parks.geojson'' ''Parks'' (FetchFailed []) [] panels_start session_start))
      = (s_first, u_first, c_first)" by (metis prod_cases3)
  obtain s_second u_second c_second where h2: "handleVectorToggle True ''parks.geojson'' ''Parks''
      (FetchOk \<lparr>gj_error = None, gj_features = Some [\<lparr>f_geometry = Some ''Polygon'', f_props = []\<rparr>]\<rparr>)
      [] u_first s_first = (s_second, u_second, c_second)" by (metis prod_cases3)
  have "(c_first \<longleftrightarrow> updateLegend (activeLayers s_first) [] \<noteq> None) \<and> \<not> c_second \<and>
        s_second = s_first \<and> u_second = u_first \<and> vector_prefix ''parks.geojson'' \<in> set (obj_keys (activeLayers s_second)) \<and>
        (\<forall>r rd u. handleVectorToggle True ''parks.geojson'' ''Parks'' r rd u s_second = (s_second, u, False))"
    (is ?w)
    by (rule double_toggle_locks_layer [OF _ _ _ _ _ h1 h2])
       (simp_all add: session_start_def has_layer_def has_source_def layer_ids_def obj_keys_def)
  then show ?thesis unfolding Let_def h1 h2 fst_conv snd_conv .
qed

theorem null_geometry_orphan_source_witness:
  "let H = handleVectorToggle True ''roads.geojson'' ''Roads''
             (FetchOk \<lparr>gj_error = None, gj_features = Some [\<lparr>f_geometry = None, f_props = []\<rparr>]\<rparr>) [] panels_start
             session_start
   in \<not> snd (snd H) \<and> fst (snd H) = panels_start \<and> activeLayers (fst H) = activeLayers session_start \<and>
      m_sources (smap (fst H)) = m_sources (smap session_start) @ [source_of (vector_prefix ''roads.geojson'')] \<and>
      (\<forall>r rd' u. handleVectorToggle True ''roads.geojson'' ''Roads'' r rd' u (fst H) = (fst H, u, False))"
  unfolding Let_def
  by (rule null_geometry_orphan_source) (simp_all add: session_start_def has_source_def)

theorem label_field_mismatch_witness:
  "let H = handleVectorToggle True ''wells.geojson'' ''Wells''
             (FetchOk \<lparr>gj_error = None,
                       gj_features = Some [\<lparr>f_geometry = Some ''Point'', f_props = [(''name'', JStr ''Well 1'')]\<rparr>]\<rparr>)
             [[(''name'', JStr ''Well 1''), (''_uniqueId'', JStr ''vector-wells_geojson_0'')]] panels_start session_start
   in snd (snd H) \<and> lu_field_sel (pn_labels (fst (snd H))) = ''name'' \<and>
      (\<exists>l \<in> set (m_layers (smap (fst H))). ml_id l = label_id (vector_prefix ''wells.geojson'') \<and>
                                           ml_text l = Some ''Name'')"
proof -
  obtain s_on ui' c where h: "handleVectorToggle True ''wells.geojson'' ''Wells''
      (FetchOk \<lparr>gj_error = None,
                gj_features = Some [\<lparr>f_geometry = Some ''Point'', f_props = [(''name'', JStr ''Well 1'')]\<rparr>]\<rparr>)
      [[(''name'', JStr ''Well 1''), (''_uniqueId'', JStr ''vector-wells_geojson_0'')]] panels_start session_start
      = (s_on, ui', c)" by (metis prod_cases3)
  have "c \<and> lu_field_sel (pn_labels ui') = ''name'' \<and>
        (\<exists>l \<in> set (m_layers (smap s_on)). ml_id l = label_id (vector_prefix ''wells.geojson'') \<and> ml_text l = Some ''Name'')"
    by (rule label_field_mismatch [OF _ _ _ _ _ _ _ _ h])
       (simp_all add: session_start_def has_source_def has_layer_def layer_ids_def obj_keys_def
          tag_features_def js_simps)
  then show ?thesis unfolding Let_def h fst_conv snd_conv .
qed

definition roads_entry :: vector_info where
  "roads_entry = \<lparr>vi_classification = [(''Roads'', ''#bababa'')], vi_classField = None,
     vi_sourceId = ''source-vector-roads_geojson'', vi_filename = ''roads.geojson'', vi_features = [],
     vi_layerIds = [''vector-roads_geojson-line''], vi_displayName = ''Roads''\<rparr>"

theorem vector_toggle_keeps_legend_witness:
  "let s = session_start\<lparr>activeLayers := [(''vector-roads_geojson'', VectorLayer roads_entry)]\<rparr>;
       H = handleVectorToggle True ''parks.geojson'' ''Parks''
             (FetchOk \<lparr>gj_error = None,
                       gj_features = Some [\<lparr>f_geometry = Some ''Polygon'', f_props = [(''type'', JStr ''garden'')]\<rparr>]\<rparr>)
             [[(''type'', JStr ''garden''), (''_uniqueId'', JStr ''vector-parks_geojson_0'')]] panels_start s
   in snd (snd H) \<and>
      updateLegend (activeLayers (fst H)) [[(''type'', JStr ''garden''), (''_uniqueId'', JStr ''vector-parks_geojson_0'')]]
        = Some (pn_legend (fst (snd H))) \<and>
      entries_coherent (activeLayers (fst H)) \<and> stems_unique (activeLayers (fst H))"
proof -
  obtain s_on ui' c where h: "handleVectorToggle True ''parks.geojson'' ''Parks''
      (FetchOk \<lparr>gj_error = None,
                gj_features = Some [\<lparr>f_geometry = Some ''Polygon'', f_props = [(''type'', JStr ''garden'')]\<rparr>]\<rparr>)
      [[(''type'', JStr ''garden''), (''_uniqueId'', JStr ''vector-parks_geojson_0'')]] panels_start
      (session_start\<lparr>activeLayers := [(''vector-roads_geojson'', VectorLayer roads_entry)]\<rparr>)
      = (s_on, ui', c)" by (metis prod_cases3)
  have "c \<and> updateLegend (activeLayers s_on) [[(''type'', JStr ''garden''), (''_uniqueId'', JStr ''vector-parks_geojson_0'')]]
          = Some (pn_legend ui') \<and> entries_coherent (activeLayers s_on) \<and> stems_unique (activeLayers s_on)"
    by (rule vector_toggle_keeps_legend [OF _ _ _ _ _ _ _ _ h])
       (simp_all add: session_start_def roads_entry_def has_source_def has_layer_def layer_ids_def obj_keys_def
          entries_coherent_def entry_tagged_def entry_classified_def stem_def starts_with_def
          tag_features_def js_simps)
  then show ?thesis unfolding Let_def h fst_conv snd_conv .
qed

end
