(* ===== verification/Profile.thy ===== *)
theory Profile
  imports Prelude
begin

text \<open>
  Elevation-profile statistics, in the two versions the client has:
  \<open>calculateProfileStats(profileData, distances)\<close> of
  \<open>src/static/js/analysis-tools.js\<close> (2D, samples from the DEM service, elevations may
  be \<open>null\<close>) and \<open>calculateProfileStats(profileData)\<close> of \<open>src/static/js/point.js\<close>
  (3D, picked points of a point cloud), with \<open>generateProfile\<close> of \<open>point.js\<close>, which
  computes the cumulative horizontal distances.  A sample is its elevation and its
  cumulative distance.  The statistics are the numbers before \<open>toFixed\<close>: the 2D
  version prints them with 0 decimals (slope 1, distance 2, in km), the 3D version
  with 1 decimal (distance 2, in m); the printing is not modelled.
\<close>

record pstats =
  ps_min :: real
  ps_max :: real
  ps_avg :: real
  ps_gain :: real
  ps_loss :: real
  ps_maxSlope :: real
  ps_totalDistance :: real

text \<open>Running totals of the loop: gain, loss, maximal slope.\<close>

type_synonym acc = "real \<times> real \<times> real"

text \<open>\<open>(elevDiff > 0) ? totalGain += elevDiff : totalLoss += Math.abs(elevDiff)\<close>.\<close>

definition gain_loss :: "real \<Rightarrow> real \<times> real \<Rightarrow> real \<times> real" where
  "gain_loss ed gl = (if ed > 0 then (fst gl + ed, snd gl) else (fst gl, snd gl + \<bar>ed\<bar>))"

text \<open>One iteration of the 2D loop: pairs with a \<open>null\<close> elevation are skipped.\<close>

definition step2d :: "real option \<times> real \<Rightarrow> real option \<times> real \<Rightarrow> acc \<Rightarrow> acc" where
  "step2d p1 p2 a =
     (case (fst p1, fst p2) of
        (Some e1, Some e2) \<Rightarrow>
          (let ed = e2 - e1; gl = gain_loss ed (fst a, fst (snd a)); dd = snd p2 - snd p1
           in (fst gl, snd gl, if dd > 0 then max (snd (snd a)) (\<bar>ed / dd\<bar> * 100) else snd (snd a)))
      | _ \<Rightarrow> a)"

fun loop2d :: "(real option \<times> real) list \<Rightarrow> acc \<Rightarrow> acc" where
  "loop2d (p1 # p2 # ps) a = loop2d (p2 # ps) (step2d p1 p2 a)"
| "loop2d _ a = a"

text \<open>\<open>Math.min(...xs)\<close> and \<open>Math.max(...xs)\<close> of a non-empty list.\<close>

definition list_min :: "real list \<Rightarrow> real" where
  "list_min xs = fold min (tl xs) (hd xs)"

definition list_max :: "real list \<Rightarrow> real" where
  "list_max xs = fold max (tl xs) (hd xs)"

definition calculateProfileStats2D :: "(real option \<times> real) list \<Rightarrow> pstats option" where
  "calculateProfileStats2D ps =
     (if length ps < 2 then None
      else
        (let elevs = List.map_filter fst ps
         in if elevs = [] then None
            else
              (let (g, l, ms) = loop2d ps (0, 0, 0)
               in Some \<lparr>ps_min = list_min elevs, ps_max = list_max elevs,
                        ps_avg = sum_list elevs / real (length elevs),
                        ps_gain = g, ps_loss = l, ps_maxSlope = ms,
                        ps_totalDistance = snd (last ps) / 1000\<rparr>)))"

text \<open>One iteration of the 3D loop: a slope is only taken over more than a millimetre.\<close>

definition step3d :: "real \<times> real \<Rightarrow> real \<times> real \<Rightarrow> acc \<Rightarrow> acc" where
  "step3d p1 p2 a =
     (let ed = fst p2 - fst p1; gl = gain_loss ed (fst a, fst (snd a)); dd = snd p2 - snd p1
      in (fst gl, snd gl, if dd > 0.001 then max (snd (snd a)) (\<bar>ed / dd\<bar> * 100) else snd (snd a)))"

fun loop3d :: "(real \<times> real) list \<Rightarrow> acc \<Rightarrow> acc" where
  "loop3d (p1 # p2 # ps) a = loop3d (p2 # ps) (step3d p1 p2 a)"
| "loop3d _ a = a"

definition calculateProfileStats3D :: "(real \<times> real) list \<Rightarrow> pstats option" where
  "calculateProfileStats3D ps =
     (if length ps < 2 then None
      else
        (let elevs = map fst ps; (g, l, ms) = loop3d ps (0, 0, 0)
         in Some \<lparr>ps_min = list_min elevs, ps_max = list_max elevs,
                  ps_avg = sum_list elevs / real (length elevs),
                  ps_gain = g, ps_loss = l, ps_maxSlope = ms,
                  ps_totalDistance = snd (last ps)\<rparr>))"

text \<open>
  \<open>generateProfile\<close> of \<open>point.js\<close>: cumulative \<open>Math.hypot\<close> of the horizontal steps
  between the picked points \<open>(x, y, z)\<close>; the samples are (z, distance).
\<close>

fun cumul3d :: "real \<Rightarrow> (real \<times> real \<times> real) \<Rightarrow> (real \<times> real \<times> real) list \<Rightarrow> (real \<times> real) list" where
  "cumul3d d p [] = []"
| "cumul3d d p (q # qs) =
     (let d' = d + sqrt ((fst q - fst p)\<^sup>2 + (fst (snd q) - fst (snd p))\<^sup>2)
      in (snd (snd q), d') # cumul3d d' q qs)"

definition profile_samples3d :: "(real \<times> real \<times> real) list \<Rightarrow> (real \<times> real) list" where
  "profile_samples3d pts = (case pts of [] \<Rightarrow> [] | p0 # qs \<Rightarrow> (snd (snd p0), 0) # cumul3d 0 p0 qs)"

section \<open>Properties\<close>


text \<open>
  The worked example of the spec: samples at 0, 1000 and 2000 m with elevations
  10, 20 and 15 give minimum 10, maximum 20, average 15, gain 10, loss 5, maximal
  slope 1 %, and a total distance of 2 km.
\<close>

theorem profile_spec_example:
  "calculateProfileStats2D [(Some 10, 0), (Some 20, 1000), (Some 15, 2000)] =
     Some \<lparr>ps_min = 10, ps_max = 20, ps_avg = 15, ps_gain = 10, ps_loss = 5, ps_maxSlope = 1,
           ps_totalDistance = 2\<rparr>"
  by (simp add: calculateProfileStats2D_def step2d_def gain_loss_def list_min_def list_max_def
      List.map_filter_def Let_def)

text \<open>
  With two samples of which only one has an elevation, the statistics are still
  computed (gain and loss 0); the spec says the result is null with fewer than two
  valid samples.
\<close>

theorem profile_one_valid:
  "\<exists>st. calculateProfileStats2D [(Some e, 0), (None, d)] = Some st"
  by (simp add: calculateProfileStats2D_def List.map_filter_def Let_def step2d_def)

text \<open>
  A \<open>null\<close> elevation between two valid samples breaks the gain/loss identity:
  both pairs around it are skipped, so gain minus loss is 0 while the last valid
  elevation minus the first is 10.
\<close>

theorem profile_null_gap:
  "map_option (\<lambda>st. ps_gain st - ps_loss st) (calculateProfileStats2D [(Some 10, 0), (None, 1000), (Some 20, 2000)]) = Some 0"
  by (simp add: calculateProfileStats2D_def step2d_def gain_loss_def List.map_filter_def Let_def)
lemma gain_loss_diff: "fst (gain_loss ed gl) - snd (gain_loss ed gl) = fst gl - snd gl + ed"
  by (simp add: gain_loss_def)

lemma gain_loss_nonneg: "0 \<le> fst gl \<Longrightarrow> 0 \<le> snd gl \<Longrightarrow> 0 \<le> fst (gain_loss ed gl) \<and> 0 \<le> snd (gain_loss ed gl)"
  by (simp add: gain_loss_def)

lemma loop2d_telescope:
  "\<forall>p \<in> set ps. fst p \<noteq> None \<Longrightarrow> ps \<noteq> [] \<Longrightarrow>
   fst (loop2d ps a) - fst (snd (loop2d ps a)) =
     fst a - fst (snd a) + (the (fst (last ps)) - the (fst (hd ps)))"
proof (induction ps a rule: loop2d.induct)
  case (1 p1 p2 ps a)
  obtain e1 e2 where e: "fst p1 = Some e1" "fst p2 = Some e2" using "1.prems"(1) by auto
  have "fst (step2d p1 p2 a) - fst (snd (step2d p1 p2 a)) = fst a - fst (snd a) + (e2 - e1)"
    using gain_loss_diff [of "e2 - e1" "(fst a, fst (snd a))"]
    by (simp add: step2d_def e Let_def)
  with "1.IH" "1.prems" e show ?case by simp
qed auto

lemma loop3d_telescope:
  "ps \<noteq> [] \<Longrightarrow>
   fst (loop3d ps a) - fst (snd (loop3d ps a)) = fst a - fst (snd a) + (fst (last ps) - fst (hd ps))"
proof (induction ps a rule: loop3d.induct)
  case (1 p1 p2 ps a)
  have "fst (step3d p1 p2 a) - fst (snd (step3d p1 p2 a)) = fst a - fst (snd a) + (fst p2 - fst p1)"
    using gain_loss_diff [of "fst p2 - fst p1" "(fst a, fst (snd a))"]
    by (simp add: step3d_def Let_def)
  with "1.IH" show ?case by simp
qed auto

lemma loop2d_nonneg:
  "0 \<le> fst a \<Longrightarrow> 0 \<le> fst (snd a) \<Longrightarrow> 0 \<le> snd (snd a) \<Longrightarrow>
   0 \<le> fst (loop2d ps a) \<and> 0 \<le> fst (snd (loop2d ps a)) \<and> 0 \<le> snd (snd (loop2d ps a))"
proof (induction ps a rule: loop2d.induct)
  case (1 p1 p2 ps a)
  have "0 \<le> fst (step2d p1 p2 a) \<and> 0 \<le> fst (snd (step2d p1 p2 a)) \<and> 0 \<le> snd (snd (step2d p1 p2 a))"
    using "1.prems" gain_loss_nonneg [of "(fst a, fst (snd a))"]
    by (auto simp: step2d_def Let_def max_def split: option.split)
  with "1.IH" show ?case by simp
qed auto

lemma fold_min_le_init: "fold min xs m \<le> (m::real)"
  by (induction xs arbitrary: m) (auto intro: order_trans min.cobounded2)

lemma fold_min_le: "x \<in> set xs \<Longrightarrow> fold min xs m \<le> (x::real)"
  by (induction xs arbitrary: m) (auto intro: order_trans [OF fold_min_le_init])

lemma list_min_le: "x \<in> set xs \<Longrightarrow> list_min xs \<le> x"
  by (cases xs) (auto simp: list_min_def fold_min_le fold_min_le_init)

lemma fold_max_ge_init: "(m::real) \<le> fold max xs m"
  by (induction xs arbitrary: m) (auto intro: order_trans [rotated] max.cobounded2)

lemma fold_max_ge: "x \<in> set xs \<Longrightarrow> (x::real) \<le> fold max xs m"
  by (induction xs arbitrary: m) (auto intro: order_trans [OF _ fold_max_ge_init])

lemma list_max_ge: "x \<in> set xs \<Longrightarrow> x \<le> list_max xs"
  by (cases xs) (auto simp: list_max_def fold_max_ge fold_max_ge_init)

lemma list_min_le_avg:
  assumes "xs \<noteq> []"
  shows "list_min xs \<le> sum_list xs / real (length xs)"
proof -
  have "sum_list (map (\<lambda>_. list_min xs) xs) \<le> sum_list (map (\<lambda>x. x) xs)"
    by (rule sum_list_mono) (rule list_min_le)
  then have "real (length xs) * list_min xs \<le> sum_list xs" by (simp add: sum_list_triv)
  then show ?thesis using assms by (simp add: pos_le_divide_eq mult.commute)
qed

lemma avg_le_list_max:
  assumes "xs \<noteq> []"
  shows "sum_list xs / real (length xs) \<le> list_max xs"
proof -
  have "sum_list (map (\<lambda>x. x) xs) \<le> sum_list (map (\<lambda>_. list_max xs) xs)"
    by (rule sum_list_mono) (rule list_max_ge)
  then have "sum_list xs \<le> real (length xs) * list_max xs" by (simp add: sum_list_triv)
  then show ?thesis using assms by (simp add: pos_divide_le_eq mult.commute)
qed

lemma stats2d_fields:
  assumes "calculateProfileStats2D ps = Some st"
  shows "2 \<le> length ps \<and> List.map_filter fst ps \<noteq> [] \<and>
         ps_gain st = fst (loop2d ps (0, 0, 0)) \<and> ps_loss st = fst (snd (loop2d ps (0, 0, 0))) \<and>
         ps_maxSlope st = snd (snd (loop2d ps (0, 0, 0))) \<and>
         ps_min st = list_min (List.map_filter fst ps) \<and> ps_max st = list_max (List.map_filter fst ps) \<and>
         ps_avg st = sum_list (List.map_filter fst ps) / real (length (List.map_filter fst ps))"
  using assms by (auto simp: calculateProfileStats2D_def Let_def split: if_splits prod.splits)

text \<open>
  C14: on samples without \<open>null\<close> elevations, the total gain minus the total loss is
  the last elevation minus the first.
\<close>

theorem profile_telescoping:
  assumes "\<forall>p \<in> set ps. fst p \<noteq> None" and "calculateProfileStats2D ps = Some st"
  shows "ps_gain st - ps_loss st = the (fst (last ps)) - the (fst (hd ps))"
proof -
  have "ps \<noteq> []" using stats2d_fields [OF assms(2)] by auto
  with loop2d_telescope [OF assms(1) this, of "(0, 0, 0)"] stats2d_fields [OF assms(2)]
  show ?thesis by simp
qed

text \<open>The 2D loop over samples that all have an elevation and the 3D loop over the
  same samples: gain and loss agree, and the 2D slope is at least the 3D one, since the
  2D loop takes a slope over every positive distance and the 3D loop only over more
  than 0.001.\<close>

definition lift2d :: "(real \<times> real) list \<Rightarrow> (real option \<times> real) list" where
  "lift2d ps = map (\<lambda>p. (Some (fst p), snd p)) ps"

lemma loop_2d_3d:
  "fst a = fst b \<Longrightarrow> fst (snd a) = fst (snd b) \<Longrightarrow> snd (snd b) \<le> snd (snd a) \<Longrightarrow>
   fst (loop2d (lift2d ps) a) = fst (loop3d ps b) \<and> fst (snd (loop2d (lift2d ps) a)) = fst (snd (loop3d ps b)) \<and>
   snd (snd (loop3d ps b)) \<le> snd (snd (loop2d (lift2d ps) a))"
proof (induction ps b arbitrary: a rule: loop3d.induct)
  case (1 p1 p2 ps b)
  have "fst (step2d (Some (fst p1), snd p1) (Some (fst p2), snd p2) a) = fst (step3d p1 p2 b) \<and>
        fst (snd (step2d (Some (fst p1), snd p1) (Some (fst p2), snd p2) a)) = fst (snd (step3d p1 p2 b)) \<and>
        snd (snd (step3d p1 p2 b)) \<le> snd (snd (step2d (Some (fst p1), snd p1) (Some (fst p2), snd p2) a))"
    using "1.prems" by (auto simp: step2d_def step3d_def Let_def max_def)
  with "1.IH" show ?case by (simp add: lift2d_def)
qed (auto simp: lift2d_def)

lemma loop_2d_3d_eq:
  "\<forall>(p, q) \<in> set (zip ps (tl ps)). snd q - snd p \<le> 0 \<or> 0.001 < snd q - snd p \<Longrightarrow>
   loop2d (lift2d ps) a = loop3d ps a"
proof (induction ps a rule: loop3d.induct)
  case (1 p1 p2 ps a)
  have "step2d (Some (fst p1), snd p1) (Some (fst p2), snd p2) a = step3d p1 p2 a"
    using "1.prems" by (auto simp: step2d_def step3d_def Let_def)
  with "1.IH" "1.prems" show ?case by (simp add: lift2d_def)
qed (auto simp: lift2d_def)

lemma stats3d_fields:
  assumes "calculateProfileStats3D ps = Some st"
  shows "2 \<le> length ps \<and>
         ps_gain st = fst (loop3d ps (0, 0, 0)) \<and> ps_loss st = fst (snd (loop3d ps (0, 0, 0))) \<and>
         ps_maxSlope st = snd (snd (loop3d ps (0, 0, 0))) \<and>
         ps_min st = list_min (map fst ps) \<and> ps_max st = list_max (map fst ps) \<and>
         ps_avg st = sum_list (map fst ps) / real (length ps) \<and> ps_totalDistance st = snd (last ps)"
  using assms by (auto simp: calculateProfileStats3D_def Let_def split: if_splits prod.splits)

lemma map_filter_lift2d [simp]: "List.map_filter fst (lift2d ps) = map fst ps"
  by (induction ps) (simp_all add: lift2d_def List.map_filter_def)

text \<open>
  C17: the 2D statistics of \<open>analysis-tools.js\<close> and the 3D statistics of
  \<open>point.js\<close> agree on the same samples (all with an elevation) in everything but
  the unit of the distance and the slope: minimum, maximum, average, gain and loss are
  equal, the 2D total distance is the 3D one in km, and the 2D maximal slope is at least
  the 3D one, equal to it when no step between consecutive samples covers a positive
  distance of at most 0.001; the spec asks for identical figures, and a shorter step
  counts only in 2D.
\<close>

theorem profile_slope_2d_3d:
  assumes "calculateProfileStats3D ps = Some st3"
  shows "\<exists>st2. calculateProfileStats2D (lift2d ps) = Some st2 \<and>
           ps_min st2 = ps_min st3 \<and> ps_max st2 = ps_max st3 \<and> ps_avg st2 = ps_avg st3 \<and>
           ps_gain st2 = ps_gain st3 \<and> ps_loss st2 = ps_loss st3 \<and>
           ps_totalDistance st2 = ps_totalDistance st3 / 1000 \<and> ps_maxSlope st3 \<le> ps_maxSlope st2 \<and>
           ((\<forall>(p, q) \<in> set (zip ps (tl ps)). snd q - snd p \<le> 0 \<or> 0.001 < snd q - snd p) \<longrightarrow>
              ps_maxSlope st3 = ps_maxSlope st2)"
proof -
  note F = stats3d_fields [OF assms]
  have ne: "map fst ps \<noteq> []" and len: "\<not> length (lift2d ps) < 2" using F by (auto simp: lift2d_def)
  obtain g l ms where L: "loop2d (lift2d ps) (0, 0, 0) = (g, l, ms)" by (metis prod_cases3)
  define st2 where "st2 = \<lparr>ps_min = list_min (map fst ps), ps_max = list_max (map fst ps),
      ps_avg = sum_list (map fst ps) / real (length (map fst ps)), ps_gain = g, ps_loss = l, ps_maxSlope = ms,
      ps_totalDistance = snd (last (lift2d ps)) / 1000\<rparr>"
  have st2: "calculateProfileStats2D (lift2d ps) = Some st2"
    using ne len L by (simp add: calculateProfileStats2D_def st2_def Let_def)
  have last: "snd (last (lift2d ps)) = snd (last ps)"
    using F by (cases ps rule: rev_cases) (auto simp: lift2d_def)
  have le: "g = fst (loop3d ps (0, 0, 0)) \<and> l = fst (snd (loop3d ps (0, 0, 0))) \<and> snd (snd (loop3d ps (0, 0, 0))) \<le> ms"
    using loop_2d_3d [of "(0, 0, 0)" "(0, 0, 0)" ps] L by simp
  have eq: "(\<forall>(p, q) \<in> set (zip ps (tl ps)). snd q - snd p \<le> 0 \<or> 0.001 < snd q - snd p) \<longrightarrow>
      snd (snd (loop3d ps (0, 0, 0))) = ms"
  proof
    assume "\<forall>(p, q) \<in> set (zip ps (tl ps)). snd q - snd p \<le> 0 \<or> 0.001 < snd q - snd p"
    from loop_2d_3d_eq [OF this, of "(0, 0, 0)"] L show "snd (snd (loop3d ps (0, 0, 0))) = ms" by (metis snd_conv)
  qed
  show ?thesis using F le eq last by (intro exI [of _ st2]) (simp add: st2 st2_def)
qed

text \<open>
  The statistics are in range: gain, loss and maximal slope are non-negative and
  the average elevation lies between the minimum and the maximum.
\<close>

theorem profile_bounds:
  assumes "calculateProfileStats2D ps = Some st"
  shows "0 \<le> ps_gain st \<and> 0 \<le> ps_loss st \<and> 0 \<le> ps_maxSlope st \<and>
         ps_min st \<le> ps_avg st \<and> ps_avg st \<le> ps_max st"
  using stats2d_fields [OF assms] loop2d_nonneg [of "(0, 0, 0)" ps]
    list_min_le_avg [of "List.map_filter fst ps"] avg_le_list_max [of "List.map_filter fst ps"]
  by simp

theorem profile_telescoping_witness:
  "\<exists>st. calculateProfileStats2D [(Some 10, 0), (Some 20, 1000), (Some 15, 2000)] = Some st \<and>
        ps_gain st - ps_loss st = the (fst (last [(Some (10::real), 0::real), (Some 20, 1000), (Some 15, 2000)])) -
                                  the (fst (hd [(Some (10::real), 0::real), (Some 20, 1000), (Some 15, 2000)]))"
proof -
  have "\<exists>st. calculateProfileStats2D [(Some 10, 0), (Some 20, 1000), (Some 15, 2000)] = Some st"
    by (simp add: calculateProfileStats2D_def Let_def List.map_filter_def split: prod.split)
  then obtain st where st: "calculateProfileStats2D [(Some 10, 0), (Some 20, 1000), (Some 15, 2000)] = Some st" by blast
  have "ps_gain st - ps_loss st = the (fst (last [(Some (10::real), 0::real), (Some 20, 1000), (Some 15, 2000)])) -
                                  the (fst (hd [(Some (10::real), 0::real), (Some 20, 1000), (Some 15, 2000)]))"
    by (rule profile_telescoping [OF _ st]) simp
  with st show ?thesis by blast
qed

theorem profile_bounds_witness:
  "\<exists>st. calculateProfileStats2D [(Some 10, 0), (None, 500), (Some 20, 1000), (Some 15, 2000)] = Some st \<and>
        0 \<le> ps_gain st \<and> 0 \<le> ps_loss st \<and> 0 \<le> ps_maxSlope st \<and>
        ps_min st \<le> ps_avg st \<and> ps_avg st \<le> ps_max st"
proof -
  have "\<exists>st. calculateProfileStats2D [(Some 10, 0), (None, 500), (Some 20, 1000), (Some 15, 2000)] = Some st"
    by (simp add: calculateProfileStats2D_def Let_def List.map_filter_def split: prod.split)
  then obtain st where st: "calculateProfileStats2D [(Some 10, 0), (None, 500), (Some 20, 1000), (Some 15, 2000)] = Some st" by blast
  with profile_bounds [OF st] show ?thesis by blast
qed

theorem profile_slope_2d_3d_witness:
  "\<exists>st3 st2. calculateProfileStats3D [(10, 0), (20, 1000), (15, 2000)] = Some st3 \<and>
     calculateProfileStats2D (lift2d [(10, 0), (20, 1000), (15, 2000)]) = Some st2 \<and>
     ps_gain st2 = ps_gain st3 \<and> ps_loss st2 = ps_loss st3 \<and> ps_maxSlope st3 = ps_maxSlope st2 \<and>
     ps_totalDistance st2 = ps_totalDistance st3 / 1000"
proof -
  have "\<exists>st. calculateProfileStats3D [(10, 0), (20, 1000), (15, 2000)] = Some st"
    by (simp add: calculateProfileStats3D_def Let_def split: prod.split)
  then obtain st3 where st3: "calculateProfileStats3D [(10, 0), (20, 1000), (15, 2000)] = Some st3" by blast
  have "\<forall>(p, q) \<in> set (zip [(10::real, 0::real), (20, 1000), (15, 2000)] (tl [(10::real, 0::real), (20, 1000), (15, 2000)])).
          snd q - snd p \<le> 0 \<or> 0.001 < snd q - snd p" by simp
  with profile_slope_2d_3d [OF st3] st3 show ?thesis by blast
qed

end
