(* ===== verification/Tools.thy ===== *)
theory Tools
  imports MapEngine "HOL-Library.Monad_Syntax"
begin

text \<open>
  The measure and profile tools of the map view, \<open>src/static/js/analysis-tools.js\<close>:
  \<open>toggleMeasureTool\<close> and \<open>toggleProfileTool\<close>, which switch each other off, the
  click and double-click handlers, and the asynchronous \<open>generateProfile\<close>.  The state
  is the two flags and point lists of \<open>state\<close>, whether the profile chart is shown,
  the map, and the listener lists MapLibre keeps per event type.  \<open>map.on\<close> adds a
  listener unless the same function is registered already, \<open>map.off\<close> removes it; the
  arrow function \<open>(e) => { e.preventDefault(); toggleMeasureTool(); }\<close> is a new
  function object at each call, so each one gets its own number.  An event calls the
  listeners registered when it fires, in order.

  The two toggles call each other when both flags are set; that recursion does not
  end, so the toggle is a \<open>partial_function\<close> in the option monad and not ending is
  the value \<open>None\<close>.
\<close>

datatype tool = Measure | Profile

datatype listener = MeasureClick | ProfileClick | ProfileDblClick | MeasureDbl nat

record tstate =
  isMeasuring :: bool
  isProfiling :: bool
  measurePoints :: "(real \<times> real \<times> real) list"
  profilePoints :: "(real \<times> real) list"
  chartShown :: bool
  hasDEM :: bool
  clickL :: "listener list"
  dblL :: "listener list"
  nextFn :: nat
  tmap :: mapst

definition map_on :: "listener \<Rightarrow> listener list \<Rightarrow> listener list" where
  "map_on l ls = (if l \<in> set ls then ls else ls @ [l])"

definition map_off :: "listener \<Rightarrow> listener list \<Rightarrow> listener list" where
  "map_off l ls = removeAll l ls"

definition draw_layer :: "string \<Rightarrow> string \<Rightarrow> string \<Rightarrow> mlayer" where
  "draw_layer i ty src = \<lparr>ml_id = i, ml_type = ty, ml_source = Some src, ml_filter = NoFilter,
                          ml_visible = True, ml_text = None\<rparr>"

text \<open>
  \<open>if (!map.getSource(src)) { map.addSource(src, ...); map.addLayer(l); ... }\<close>: the
  source is absent, so \<open>addSource\<close> does not throw.
\<close>

definition add_draw_source :: "string \<Rightarrow> mlayer list \<Rightarrow> mapst \<Rightarrow> mapst" where
  "add_draw_source src ls m =
     (if has_source m src then m
      else case addSource src m of Inr m' \<Rightarrow> fold (\<lambda>l. addLayer l None) ls m' | Inl _ \<Rightarrow> m)"

text \<open>\<open>hideProfileChart()\<close>.\<close>

definition hideProfileChart :: "tstate \<Rightarrow> tstate" where
  "hideProfileChart s =
     s\<lparr>chartShown := False,
       tmap := remove_source_if ''profile-marker-source'' (remove_layer_if ''profile-marker''
                 (remove_source_if ''profile-line-source'' (remove_layer_if ''profile-line-final'' (tmap s))))\<rparr>"

text \<open>The branches of \<open>toggleMeasureTool\<close> after the flag is flipped.\<close>

definition measure_on :: "tstate \<Rightarrow> tstate" where
  "measure_on s =
     s\<lparr>clickL := map_on MeasureClick (clickL s),
       dblL := dblL s @ [MeasureDbl (nextFn s)], nextFn := Suc (nextFn s),
       tmap := add_draw_source ''measure-source'' [draw_layer ''measure-path'' ''line'' ''measure-source'',
                 draw_layer ''measure-points'' ''circle'' ''measure-source''] (tmap s)\<rparr>"

definition measure_off :: "tstate \<Rightarrow> tstate" where
  "measure_off s = s\<lparr>clickL := map_off MeasureClick (clickL s), measurePoints := []\<rparr>"

text \<open>The branches of \<open>toggleProfileTool\<close> after the flag is flipped and \<open>resetProfileState()\<close>.\<close>

definition profile_on :: "tstate \<Rightarrow> tstate" where
  "profile_on s =
     (let s1 = hideProfileChart s
      in s1\<lparr>clickL := map_on ProfileClick (clickL s1), dblL := map_on ProfileDblClick (dblL s1),
            tmap := add_draw_source ''profile-draw-source'' [draw_layer ''profile-draw-line'' ''line'' ''profile-draw-source'',
                      draw_layer ''profile-draw-points'' ''circle'' ''profile-draw-source''] (tmap s1)\<rparr>)"

definition profile_off :: "tstate \<Rightarrow> tstate" where
  "profile_off s = s\<lparr>clickL := map_off ProfileClick (clickL s), dblL := map_off ProfileDblClick (dblL s)\<rparr>"

partial_function (option) toggle :: "tool \<Rightarrow> tstate \<Rightarrow> tstate option" where
  "toggle t s =
     (case t of
        Measure \<Rightarrow>
          do { s1 \<leftarrow> (if isProfiling s then toggle Profile s else Some s);
               let s2 = s1\<lparr>isMeasuring := \<not> isMeasuring s1\<rparr>;
               Some (if isMeasuring s2 then measure_on s2 else measure_off s2) }
      | Profile \<Rightarrow>
          do { s1 \<leftarrow> (if isMeasuring s then toggle Measure s else Some s);
               let s2 = s1\<lparr>isProfiling := \<not> isProfiling s1, profilePoints := []\<rparr>;
               Some (if isProfiling s2 then profile_on s2 else profile_off s2) })"

section \<open>Events\<close>

text \<open>
  \<open>handleMeasureClick\<close> (\<open>elev\<close> is \<open>map.queryTerrainElevation\<close>) and \<open>handleProfileClick\<close>.
\<close>

fun click_listener :: "real \<times> real \<Rightarrow> real option \<Rightarrow> listener \<Rightarrow> tstate \<Rightarrow> tstate" where
  "click_listener (lng, lat) elev MeasureClick s =
     (if \<not> isMeasuring s then s
      else case elev of None \<Rightarrow> s | Some z \<Rightarrow> s\<lparr>measurePoints := measurePoints s @ [(lng, lat, z)]\<rparr>)"
| "click_listener (lng, lat) elev ProfileClick s =
     (if \<not> isProfiling s then s else s\<lparr>profilePoints := profilePoints s @ [(lng, lat)]\<rparr>)"
| "click_listener _ _ _ s = s"

definition map_click :: "real \<times> real \<Rightarrow> real option \<Rightarrow> tstate \<Rightarrow> tstate" where
  "map_click p elev s = fold (click_listener p elev) (clickL s) s"

text \<open>
  \<open>handleProfileDoubleClick\<close>, with \<open>generateProfile\<close> up to its \<open>await\<close>: too few
  points or no DEM turn the tool off; otherwise a request is sent.
\<close>

definition profile_dbl :: "tstate \<Rightarrow> (tstate \<times> nat) option" where
  "profile_dbl s =
     (if \<not> isProfiling s then Some (s, 0)
      else if length (profilePoints s) < 2 \<or> \<not> hasDEM s
      then map_option (\<lambda>s'. (s', 0)) (toggle Profile s)
      else Some (s, 1))"

text \<open>
  One listener of a \<open>dblclick\<close>: the state and the number of profile requests sent.
\<close>

fun dbl_listener :: "listener \<Rightarrow> tstate \<times> nat \<Rightarrow> (tstate \<times> nat) option" where
  "dbl_listener (MeasureDbl _) (s, n) = map_option (\<lambda>s'. (s', n)) (toggle Measure s)"
| "dbl_listener ProfileDblClick (s, n) = map_option (\<lambda>(s', k). (s', n + k)) (profile_dbl s)"
| "dbl_listener _ (s, n) = Some (s, n)"

fun dbl_run :: "listener list \<Rightarrow> tstate \<times> nat \<Rightarrow> (tstate \<times> nat) option" where
  "dbl_run [] sn = Some sn"
| "dbl_run (l # ls) sn = do { sn' \<leftarrow> dbl_listener l sn; dbl_run ls sn' }"

definition map_dblclick :: "tstate \<Rightarrow> (tstate \<times> nat) option" where
  "map_dblclick s = dbl_run (dblL s) (s, 0)"

text \<open>
  The continuation of \<open>generateProfile\<close> after the server answered: on success the
  chart is shown and the final line drawn, on failure the chart is hidden; in both
  cases the \<open>finally\<close> block calls \<open>toggleProfileTool()\<close> (commented
  \<open>Turn off the tool after generating\<close>).
\<close>

definition profile_finish :: "bool \<Rightarrow> tstate \<Rightarrow> tstate option" where
  "profile_finish ok s =
     (let s1 = (if ok then s\<lparr>chartShown := True,
                           tmap := add_draw_source ''profile-line-source''
                                     [draw_layer ''profile-line-final'' ''line'' ''profile-line-source''] (tmap s)\<rparr>
                else hideProfileChart s)
      in toggle Profile s1)"

section \<open>The tool invariant\<close>

text \<open>
  At most one tool is on, and the click and double-click listeners of the profile
  tool and the click listener of the measure tool are registered exactly while their
  tool is on.
\<close>

definition tools_ok :: "tstate \<Rightarrow> bool" where
  "tools_ok s \<longleftrightarrow> \<not> (isMeasuring s \<and> isProfiling s) \<and>
     (MeasureClick \<in> set (clickL s) \<longleftrightarrow> isMeasuring s) \<and>
     (ProfileClick \<in> set (clickL s) \<longleftrightarrow> isProfiling s) \<and>
     (ProfileDblClick \<in> set (dblL s) \<longleftrightarrow> isProfiling s)"

text \<open>The tools at page load: both off, no points, no tool listener.\<close>

definition tools_init :: "bool \<Rightarrow> mapst \<Rightarrow> tstate" where
  "tools_init dem m = \<lparr>isMeasuring = False, isProfiling = False, measurePoints = [], profilePoints = [],
                       chartShown = False, hasDEM = dem, clickL = [], dblL = [], nextFn = 0, tmap = m\<rparr>"

text \<open>
  The states the tools reach, with the number of profile requests in flight: the
  tool buttons (\<open>dom.measureTool.onclick\<close>, \<open>dom.profileTool.onclick\<close>), the chart's
  close button, map clicks and double clicks, and the arrival of an answer to a
  pending request, in any interleaving.
\<close>

inductive tools_reach :: "tstate \<times> nat \<Rightarrow> bool" where
  init: "tools_reach (tools_init dem m, 0)"
| button: "tools_reach (s, n) \<Longrightarrow> toggle t s = Some s' \<Longrightarrow> tools_reach (s', n)"
| close_chart: "tools_reach (s, n) \<Longrightarrow> tools_reach (hideProfileChart s, n)"
| click: "tools_reach (s, n) \<Longrightarrow> tools_reach (map_click p e s, n)"
| dblclick: "tools_reach (s, n) \<Longrightarrow> map_dblclick s = Some (s', k) \<Longrightarrow> tools_reach (s', n + k)"
| answer: "tools_reach (s, Suc n) \<Longrightarrow> profile_finish ok s = Some s' \<Longrightarrow> tools_reach (s', n)"

text \<open>The number of anonymous double-click listeners of the measure tool.\<close>

definition measure_dbls :: "listener list \<Rightarrow> nat" where
  "measure_dbls ls = length (filter (\<lambda>l. case l of MeasureDbl _ \<Rightarrow> True | _ \<Rightarrow> False) ls)"

section \<open>Properties\<close>

lemma toggle_diverges_aux: "toggle t s = Some y \<Longrightarrow> \<not> (isMeasuring s \<and> isProfiling s)"
  by (erule toggle.raw_induct [where P = "\<lambda>t s y. \<not> (isMeasuring s \<and> isProfiling s)", rotated])
     (auto split: tool.splits if_splits bind_splits)

lemma toggle_measure_plain:
  "\<not> isProfiling s \<Longrightarrow>
   toggle Measure s = Some (if isMeasuring s then measure_off (s\<lparr>isMeasuring := False\<rparr>)
                            else measure_on (s\<lparr>isMeasuring := True\<rparr>))"
  by (subst toggle.simps) simp

lemma toggle_profile_plain:
  "\<not> isMeasuring s \<Longrightarrow>
   toggle Profile s = Some (if isProfiling s then profile_off (s\<lparr>isProfiling := False, profilePoints := []\<rparr>)
                            else profile_on (s\<lparr>isProfiling := True, profilePoints := []\<rparr>))"
  by (subst toggle.simps) simp

lemma toggle_measure_from_profile:
  "\<not> isMeasuring s \<Longrightarrow> isProfiling s \<Longrightarrow>
   toggle Measure s = Some (measure_on ((profile_off (s\<lparr>isProfiling := False, profilePoints := []\<rparr>))\<lparr>isMeasuring := True\<rparr>))"
  by (subst toggle.simps) (simp add: toggle_profile_plain profile_off_def)

lemma toggle_profile_from_measure:
  "isMeasuring s \<Longrightarrow> \<not> isProfiling s \<Longrightarrow>
   toggle Profile s = Some (profile_on ((measure_off (s\<lparr>isMeasuring := False\<rparr>))\<lparr>isProfiling := True, profilePoints := []\<rparr>))"
  by (subst toggle.simps) (simp add: toggle_measure_plain measure_off_def)

lemma listener_fields [simp]:
  "clickL (measure_on s) = map_on MeasureClick (clickL s)"
  "dblL (measure_on s) = dblL s @ [MeasureDbl (nextFn s)]"
  "isMeasuring (measure_on s) = isMeasuring s" "isProfiling (measure_on s) = isProfiling s"
  "clickL (measure_off s) = map_off MeasureClick (clickL s)" "dblL (measure_off s) = dblL s"
  "isMeasuring (measure_off s) = isMeasuring s" "isProfiling (measure_off s) = isProfiling s"
  "clickL (profile_on s) = map_on ProfileClick (clickL s)"
  "dblL (profile_on s) = map_on ProfileDblClick (dblL s)"
  "isMeasuring (profile_on s) = isMeasuring s" "isProfiling (profile_on s) = isProfiling s"
  "clickL (profile_off s) = map_off ProfileClick (clickL s)"
  "dblL (profile_off s) = map_off ProfileDblClick (dblL s)"
  "isMeasuring (profile_off s) = isMeasuring s" "isProfiling (profile_off s) = isProfiling s"
  by (simp_all add: measure_on_def measure_off_def profile_on_def profile_off_def hideProfileChart_def Let_def)

lemma set_map_on [simp]: "set (map_on l ls) = insert l (set ls)"
  by (auto simp: map_on_def)

lemma set_map_off [simp]: "set (map_off l ls) = set ls - {l}"
  by (auto simp: map_off_def)

lemma toggle_ok:
  assumes "tools_ok s"
  shows "\<exists>s'. toggle t s = Some s' \<and> tools_ok s' \<and>
           (t = Measure \<longrightarrow> isMeasuring s' = (\<not> isMeasuring s) \<and> \<not> isProfiling s') \<and>
           (t = Profile \<longrightarrow> isProfiling s' = (\<not> isProfiling s) \<and> \<not> isMeasuring s')"
  using assms
  by (cases t; cases "isMeasuring s"; cases "isProfiling s")
     (auto simp: tools_ok_def toggle_measure_plain toggle_profile_plain toggle_measure_from_profile
        toggle_profile_from_measure)

lemma click_listener_flags [simp]:
  "isMeasuring (click_listener p e l s) = isMeasuring s" "isProfiling (click_listener p e l s) = isProfiling s"
  "clickL (click_listener p e l s) = clickL s" "dblL (click_listener p e l s) = dblL s"
  by (cases "(p, e, l, s)" rule: click_listener.cases; simp split: option.split)+

lemma map_click_flags [simp]:
  "isMeasuring (map_click p e s) = isMeasuring s" "isProfiling (map_click p e s) = isProfiling s"
  "clickL (map_click p e s) = clickL s" "dblL (map_click p e s) = dblL s"
proof -
  have "\<forall>s. isMeasuring (fold (click_listener p e) ls s) = isMeasuring s \<and>
            isProfiling (fold (click_listener p e) ls s) = isProfiling s \<and>
            clickL (fold (click_listener p e) ls s) = clickL s \<and> dblL (fold (click_listener p e) ls s) = dblL s" for ls
    by (induction ls) auto
  then show "isMeasuring (map_click p e s) = isMeasuring s" "isProfiling (map_click p e s) = isProfiling s"
    "clickL (map_click p e s) = clickL s" "dblL (map_click p e s) = dblL s"
    by (simp_all add: map_click_def)
qed

lemma hideProfileChart_flags [simp]:
  "isMeasuring (hideProfileChart s) = isMeasuring s" "isProfiling (hideProfileChart s) = isProfiling s"
  "clickL (hideProfileChart s) = clickL s" "dblL (hideProfileChart s) = dblL s"
  by (simp_all add: hideProfileChart_def)

lemma tools_ok_click: "tools_ok s \<Longrightarrow> tools_ok (map_click p e s)"
  by (simp add: tools_ok_def)

lemma tools_ok_hide: "tools_ok s \<Longrightarrow> tools_ok (hideProfileChart s)"
  by (simp add: tools_ok_def)

lemma dbl_listener_ok:
  assumes "tools_ok s"
  shows "\<exists>s' k. dbl_listener l (s, n) = Some (s', k) \<and> tools_ok s'"
proof (cases l)
  case (MeasureDbl i)
  then show ?thesis using toggle_ok [OF assms, of Measure] by auto
next
  case ProfileDblClick
  then show ?thesis using toggle_ok [OF assms, of Profile] assms by (auto simp: profile_dbl_def)
qed (use assms in auto)

lemma dbl_run_ok: "tools_ok s \<Longrightarrow> \<exists>s' k. dbl_run ls (s, n) = Some (s', k) \<and> tools_ok s'"
proof (induction ls arbitrary: s n)
  case (Cons l ls)
  from dbl_listener_ok [OF Cons.prems, of l n] obtain s1 k1
    where "dbl_listener l (s, n) = Some (s1, k1)" "tools_ok s1" by blast
  with Cons.IH [OF this(2), of k1] show ?case by auto
qed simp

lemma profile_finish_ok:
  assumes "tools_ok s"
  shows "\<exists>s'. profile_finish ok s = Some s' \<and> tools_ok s' \<and> isProfiling s' = (\<not> isProfiling s) \<and>
              \<not> isMeasuring s'"
proof -
  define s1 where "s1 = (if ok then s\<lparr>chartShown := True,
                           tmap := add_draw_source ''profile-line-source''
                                     [draw_layer ''profile-line-final'' ''line'' ''profile-line-source''] (tmap s)\<rparr>
                else hideProfileChart s)"
  have ok1: "tools_ok s1" and fl: "isProfiling s1 = isProfiling s"
    using assms by (simp_all add: s1_def tools_ok_def)
  show ?thesis using toggle_ok [OF ok1, of Profile] fl by (simp add: profile_finish_def s1_def [symmetric] Let_def)
qed

lemma tools_reach_ok: "tools_reach sn \<Longrightarrow> tools_ok (fst sn)"
proof (induction sn rule: tools_reach.induct)
  case (init dem m)
  then show ?case by (simp add: tools_ok_def tools_init_def)
next
  case (button s n t s')
  then show ?case using toggle_ok [of s t] by auto
next
  case (dblclick s n s' k)
  then show ?case using dbl_run_ok [of s "dblL s" 0] by (auto simp: map_dblclick_def)
next
  case (answer s n ok s')
  then show ?case using profile_finish_ok [of s ok] by auto
qed (simp_all add: tools_ok_click tools_ok_hide)

lemma dbl_run_measure_only:
  assumes "\<not> isProfiling s" "ProfileDblClick \<notin> set ls" "dbl_run ls (s, n) = Some (s', k)"
  shows "\<not> isProfiling s' \<and> k = n \<and> isMeasuring s' = (isMeasuring s \<noteq> odd (measure_dbls ls))"
  using assms
proof (induction ls arbitrary: s n)
  case Nil
  then show ?case by (simp add: measure_dbls_def)
next
  case (Cons l ls)
  show ?case
  proof (cases l)
    case (MeasureDbl i)
    define s1 where "s1 = (if isMeasuring s then measure_off (s\<lparr>isMeasuring := False\<rparr>)
                           else measure_on (s\<lparr>isMeasuring := True\<rparr>))"
    have "dbl_run ls (s1, n) = Some (s', k)"
      using Cons.prems MeasureDbl by (simp add: toggle_measure_plain s1_def)
    moreover have "\<not> isProfiling s1" "isMeasuring s1 = (\<not> isMeasuring s)"
      using Cons.prems(1) by (simp_all add: s1_def)
    ultimately show ?thesis using Cons.IH [of s1 n] Cons.prems(2) MeasureDbl
      by (auto simp: measure_dbls_def)
  next
    case ProfileDblClick
    then show ?thesis using Cons.prems(2) by simp
  qed (use Cons in \<open>auto simp: measure_dbls_def\<close>)
qed

text \<open>
  C19: in every reachable state at most one tool is on and its listeners are the
  registered ones, so the two toggles, which call each other, always return.
\<close>

theorem tools_toggles_return:
  assumes "tools_reach (s, n)"
  shows "tools_ok s \<and> toggle Measure s \<noteq> None \<and> toggle Profile s \<noteq> None"
  using tools_reach_ok [OF assms] toggle_ok [of s Measure] toggle_ok [of s Profile] by auto

text \<open>
  With both tools on, \<open>toggleMeasureTool\<close> and \<open>toggleProfileTool\<close> call each
  other for ever; the state is unreachable (C19), so this recursion never happens.
\<close>

theorem toggle_both_diverges:
  assumes "isMeasuring s" "isProfiling s"
  shows "toggle t s = None"
  using toggle_diverges_aux [of t s] assms by (cases "toggle t s") auto

text \<open>
  C21: the anonymous double-click listener of the measure tool is added at every
  activation and never removed.  A double click runs \<open>toggleMeasureTool\<close> once per
  listener, so while the profile tool is off the measure tool ends on exactly when it
  was off and the number of such listeners is odd: after one use of the tool, a
  double click on the map switches it back on; after two, a double click no longer
  switches it off.
\<close>

theorem dblclick_measure_parity:
  assumes "tools_ok s" "\<not> isProfiling s" "map_dblclick s = Some (s', k)"
  shows "isMeasuring s' = (isMeasuring s \<noteq> odd (measure_dbls (dblL s)))"
proof -
  have "ProfileDblClick \<notin> set (dblL s)" using assms(1,2) by (simp add: tools_ok_def)
  then show ?thesis using dbl_run_measure_only [OF assms(2)] assms(3) by (simp add: map_dblclick_def)
qed

text \<open>
  C22: the \<open>finally\<close> of \<open>generateProfile\<close> toggles the profile tool instead of
  turning it off.  If the user switched the tool off (or switched to the measure tool)
  while the request was in flight, the answer switches the profile tool back on, with
  its listeners, and switches the measure tool off.
\<close>

theorem profile_answer_reenables:
  assumes "tools_ok s" "\<not> isProfiling s" "profile_finish ok s = Some s'"
  shows "isProfiling s' \<and> ProfileClick \<in> set (clickL s') \<and> ProfileDblClick \<in> set (dblL s') \<and>
         \<not> isMeasuring s'"
  using profile_finish_ok [OF assms(1), of ok] assms(2,3) by (auto simp: tools_ok_def)

section \<open>Witnesses\<close>

theorem tools_toggles_return_witness:
  "tools_ok (measure_on ((tools_init True \<lparr>m_sources = [], m_layers = [], m_terrain = None, m_errors = []\<rparr>)
                \<lparr>isMeasuring := True\<rparr>)) \<and>
   toggle Measure (measure_on ((tools_init True \<lparr>m_sources = [], m_layers = [], m_terrain = None, m_errors = []\<rparr>)
                \<lparr>isMeasuring := True\<rparr>)) \<noteq> None \<and>
   toggle Profile (measure_on ((tools_init True \<lparr>m_sources = [], m_layers = [], m_terrain = None, m_errors = []\<rparr>)
                \<lparr>isMeasuring := True\<rparr>)) \<noteq> None"
proof -
  have "tools_reach (measure_on ((tools_init True \<lparr>m_sources = [], m_layers = [], m_terrain = None, m_errors = []\<rparr>)
                \<lparr>isMeasuring := True\<rparr>), 0)"
    by (rule tools_reach.button [OF tools_reach.init, where t = Measure])
       (simp add: toggle_measure_plain tools_init_def)
  then show ?thesis by (rule tools_toggles_return)
qed

theorem toggle_both_diverges_witness:
  "toggle Measure ((tools_init True \<lparr>m_sources = [], m_layers = [], m_terrain = None, m_errors = []\<rparr>)
                     \<lparr>isMeasuring := True, isProfiling := True\<rparr>) = None"
  by (rule toggle_both_diverges) simp_all

theorem dblclick_measure_parity_witness:
  "\<exists>s' k. map_dblclick (measure_off ((measure_on ((tools_init True \<lparr>m_sources = [], m_layers = [], m_terrain = None, m_errors = []\<rparr>)
             \<lparr>isMeasuring := True\<rparr>))\<lparr>isMeasuring := False\<rparr>)) = Some (s', k) \<and> isMeasuring s'"
proof -
  define s where "s = measure_off ((measure_on ((tools_init True \<lparr>m_sources = [], m_layers = [], m_terrain = None, m_errors = []\<rparr>)
             \<lparr>isMeasuring := True\<rparr>))\<lparr>isMeasuring := False\<rparr>)"
  have ok: "tools_ok s"
    by (simp add: s_def tools_ok_def tools_init_def map_on_def map_off_def)
  have np: "\<not> isProfiling s" and nm: "\<not> isMeasuring s" by (simp_all add: s_def tools_init_def)
  have cnt: "measure_dbls (dblL s) = 1" by (simp add: s_def tools_init_def measure_dbls_def)
  obtain s' k where run: "map_dblclick s = Some (s', k)"
    using dbl_run_ok [OF ok, of "dblL s" 0] by (auto simp: map_dblclick_def)
  have "isMeasuring s' = (isMeasuring s \<noteq> odd (measure_dbls (dblL s)))"
    by (rule dblclick_measure_parity [OF ok np run])
  with nm cnt run show ?thesis unfolding s_def [symmetric] by auto
qed

theorem profile_answer_reenables_witness:
  "\<exists>s'. profile_finish True (tools_init True \<lparr>m_sources = [], m_layers = [], m_terrain = None, m_errors = []\<rparr>) = Some s' \<and>
        isProfiling s' \<and> ProfileClick \<in> set (clickL s') \<and> ProfileDblClick \<in> set (dblL s') \<and> \<not> isMeasuring s'"
proof -
  have ok: "tools_ok (tools_init True \<lparr>m_sources = [], m_layers = [], m_terrain = None, m_errors = []\<rparr>)"
    by (simp add: tools_ok_def tools_init_def)
  obtain s' where run: "profile_finish True (tools_init True \<lparr>m_sources = [], m_layers = [], m_terrain = None, m_errors = []\<rparr>) = Some s'"
    using profile_finish_ok [OF ok, of True] by blast
  have "isProfiling s' \<and> ProfileClick \<in> set (clickL s') \<and> ProfileDblClick \<in> set (dblL s') \<and> \<not> isMeasuring s'"
    by (rule profile_answer_reenables [OF ok _ run]) (simp add: tools_init_def)
  with run show ?thesis by blast
qed

end
