(* ===== verification/Flood.thy ===== *)
theory Flood
  imports MapEngine
begin

text \<open>
  The flood viewer of \<open>src/static/js/flood-viewer.js\<close>: its \<open>state\<close> object
  (\<open>selectedDem\<close>, \<open>activeTool\<close>, \<open>points\<close>, \<open>channelFloodCacheId\<close> and the
  \<open>animation\<close> sub-object), the map it draws on, the browser's animation-frame
  queue and the DOM flags the handlers set.  The animation loop
  (\<open>togglePlayPause\<close>, \<open>animateFrame\<close>, \<open>stopAnimation\<close>, \<open>seekAnimation\<close>,
  \<open>changeSpeed\<close>) is modelled completely; each asynchronous handler is split at its
  \<open>await\<close> into the synchronous click step and the continuation that runs when the
  reply settles.  \<open>requestAnimationFrame\<close> returns the handle \<open>rafNext\<close> (handles
  start at 1, as in browsers) and queues it in \<open>rafPending\<close>;
  \<open>cancelAnimationFrame\<close> removes it; a frame event runs the callback of a queued
  handle with the frame's timestamp.  Tile URLs, colours, alerts, the loader text
  and the rain effect have no model; \<open>raster-opacity\<close> of the water layer is the
  field \<open>waterOpacity\<close>.
\<close>

section \<open>State\<close>

record animation =
  lastTimestamp :: real
  animationFrameId :: "nat option"
  duration :: real
  progress :: real
  speed :: real
  isPlaying :: bool

record fpoint =
  pt_lon :: real
  pt_lat :: real
  pt_rate :: real

datatype active_tool = Inflow | Outflow

text \<open>The \<open>disabled\<close> flags \<open>updateControlsState\<close> writes.\<close>

record controls =
  gisDisabled :: bool
  animateDisabled :: bool
  projectDisabled :: bool
  traceDisabled :: bool
  accumDisabled :: bool
  channelDisabled :: bool
  downloadDisabled :: bool

record fstate =
  fmap :: mapst
  fv_firstSymbolId :: "string option"
  selectedDem :: "string option"
  activeTool :: "active_tool option"
  points :: "fpoint list"
  channelFloodCacheId :: "string option"
  anim :: animation
  rafPending :: "nat list"
  rafNext :: nat
  ctl :: controls
  loaderShown :: bool
  loadRiverDisabled :: bool
  simulationControlsShown :: bool
  animationControlsShown :: bool
  animateBtnStop :: bool
  playPauseShowsPause :: bool
  progressBarWidth :: real
  waterOpacity :: real
  pointsData :: "fpoint list"
  liveWeatherOn :: bool
  traceChecked :: bool
  accumChecked :: bool
  channelChecked :: bool
  zonesChecked :: bool

text \<open>The answer to \<open>prompt\<close> in \<open>onMapClick\<close>: cancelled (\<open>null\<close>), or the text
  read by \<open>parseFloat\<close> (\<open>None\<close> is \<open>NaN\<close>).\<close>

datatype prompt_reply = Cancelled | Entered "real option"

section \<open>Identifiers\<close>

definition TERRAIN_SOURCE_ID :: string where "TERRAIN_SOURCE_ID = ''terrain-source-ground''"
definition GIS_FLOOD_RESULT_SOURCE_ID :: string where "GIS_FLOOD_RESULT_SOURCE_ID = ''gis-flood-result-source''"
definition GIS_FLOOD_RESULT_LAYER_ID :: string where "GIS_FLOOD_RESULT_LAYER_ID = ''gis-flood-result-layer''"
definition GENERAL_FLOOD_SOURCE_ID :: string where "GENERAL_FLOOD_SOURCE_ID = ''general-flood-source''"
definition GENERAL_FLOOD_LAYER_ID :: string where "GENERAL_FLOOD_LAYER_ID = ''general-flood-layer''"
definition FLOW_TRACE_SOURCE_ID :: string where "FLOW_TRACE_SOURCE_ID = ''flow-trace-dem-source''"
definition FLOW_TRACE_LAYER_ID :: string where "FLOW_TRACE_LAYER_ID = ''flow-trace-layer''"
definition FLOW_ACCUMULATION_SOURCE_ID :: string where "FLOW_ACCUMULATION_SOURCE_ID = ''flow-accumulation-source''"
definition FLOW_ACCUMULATION_LAYER_ID :: string where "FLOW_ACCUMULATION_LAYER_ID = ''flow-accumulation-layer''"
definition CHANNEL_FLOOD_SOURCE_ID :: string where "CHANNEL_FLOOD_SOURCE_ID = ''channel-flood-dem-source''"
definition CHANNEL_FLOOD_LAYER_ID :: string where "CHANNEL_FLOOD_LAYER_ID = ''channel-flood-layer''"
definition WATER_ANIMATION_SOURCE_ID :: string where "WATER_ANIMATION_SOURCE_ID = ''water-animation-source''"
definition WATER_ANIMATION_LAYER_ID :: string where "WATER_ANIMATION_LAYER_ID = ''water-animation-layer''"
definition RIVER_SOURCE_ID :: string where "RIVER_SOURCE_ID = ''river-source''"
definition RIVER_LAYER_ID :: string where "RIVER_LAYER_ID = ''river-layer''"
definition POINTS_SOURCE_ID :: string where "POINTS_SOURCE_ID = ''points-source''"
definition POINTS_LAYER_ID :: string where "POINTS_LAYER_ID = ''points-layer''"
definition PRECALC_FLOOD_SOURCE_ID :: string where "PRECALC_FLOOD_SOURCE_ID = ''precalc-flood-zones-source''"
definition PRECALC_FLOOD_LAYER_ID :: string where "PRECALC_FLOOD_LAYER_ID = ''precalc-flood-zones-layer''"

lemmas flood_ids = TERRAIN_SOURCE_ID_def GIS_FLOOD_RESULT_SOURCE_ID_def GIS_FLOOD_RESULT_LAYER_ID_def
  GENERAL_FLOOD_SOURCE_ID_def GENERAL_FLOOD_LAYER_ID_def FLOW_TRACE_SOURCE_ID_def
  FLOW_TRACE_LAYER_ID_def FLOW_ACCUMULATION_SOURCE_ID_def FLOW_ACCUMULATION_LAYER_ID_def
  CHANNEL_FLOOD_SOURCE_ID_def CHANNEL_FLOOD_LAYER_ID_def WATER_ANIMATION_SOURCE_ID_def
  WATER_ANIMATION_LAYER_ID_def RIVER_SOURCE_ID_def RIVER_LAYER_ID_def POINTS_SOURCE_ID_def
  POINTS_LAYER_ID_def PRECALC_FLOOD_SOURCE_ID_def PRECALC_FLOOD_LAYER_ID_def

section \<open>Controls\<close>

definition falsy_str :: "string option \<Rightarrow> bool" where
  "falsy_str v = (case v of None \<Rightarrow> True | Some x \<Rightarrow> x = [])"

definition inflow :: "fpoint list \<Rightarrow> fpoint list" where
  "inflow ps = filter (\<lambda>p. 0 < pt_rate p) ps"

definition outflow :: "fpoint list \<Rightarrow> fpoint list" where
  "outflow ps = filter (\<lambda>p. pt_rate p < 0) ps"

definition updateControlsState :: "fstate \<Rightarrow> fstate" where
  "updateControlsState s =
     (let ps = points s; inf = inflow ps; outf = outflow ps in
      s\<lparr>ctl := \<lparr>gisDisabled = \<not> 0 < length inf,
                 animateDisabled = \<not> 0 < length ps,
                 projectDisabled = \<not> 0 < length ps,
                 traceDisabled = \<not> (0 < length inf \<and> 0 < length outf),
                 accumDisabled = falsy_str (selectedDem s),
                 channelDisabled = \<not> 0 < length inf,
                 downloadDisabled = falsy_str (channelFloodCacheId s)\<rparr>\<rparr>)"

section \<open>Visualisation helpers\<close>

definition hideLayer :: "string \<Rightarrow> string \<Rightarrow> mapst \<Rightarrow> mapst" where
  "hideLayer layerId sourceId m = remove_source_if sourceId (remove_layer_if layerId m)"

text \<open>\<open>RIVER_LAYER_ID || firstSymbolId\<close>: a non-empty string is truthy.\<close>

definition river_anchor :: "string option \<Rightarrow> string option" where
  "river_anchor fsym = (if RIVER_LAYER_ID \<noteq> [] then Some RIVER_LAYER_ID else fsym)"

definition raster_layer :: "string \<Rightarrow> string \<Rightarrow> string \<Rightarrow> mlayer" where
  "raster_layer i ty src = \<lparr>ml_id = i, ml_type = ty, ml_source = Some src,
                            ml_filter = NoFilter, ml_visible = True, ml_text = None\<rparr>"

definition addOrUpdate3DLayer :: "string \<Rightarrow> string \<Rightarrow> string option \<Rightarrow> mapst \<Rightarrow> mapst outcome" where
  "addOrUpdate3DLayer layerId sourceId fsym m =
     (let m1 = hideLayer layerId sourceId m in
      case addSource sourceId m1 of
        Inl e \<Rightarrow> Thrown e m1
      | Inr m2 \<Rightarrow> Done (addLayer (raster_layer layerId ''hillshade'' sourceId) (river_anchor fsym) m2))"

definition addOrUpdate2DLayer :: "string \<Rightarrow> string \<Rightarrow> string option \<Rightarrow> mapst \<Rightarrow> mapst outcome" where
  "addOrUpdate2DLayer layerId sourceId fsym m =
     (let m1 = hideLayer layerId sourceId m in
      case addSource sourceId m1 of
        Inl e \<Rightarrow> Thrown e m1
      | Inr m2 \<Rightarrow> Done (addLayer (raster_layer layerId ''raster'' sourceId) (river_anchor fsym) m2))"

section \<open>Animation\<close>

definition requestAnimationFrame :: "fstate \<Rightarrow> fstate" where
  "requestAnimationFrame s = s\<lparr>rafPending := rafPending s @ [rafNext s], rafNext := Suc (rafNext s)\<rparr>"

definition cancelAnimationFrame :: "nat option \<Rightarrow> fstate \<Rightarrow> fstate" where
  "cancelAnimationFrame h s =
     (case h of None \<Rightarrow> s | Some i \<Rightarrow> s\<lparr>rafPending := removeAll i (rafPending s)\<rparr>)"

text \<open>\<open>if (state.animation.animationFrameId)\<close>: a handle is truthy unless it is 0.\<close>

definition frame_truthy :: "nat option \<Rightarrow> bool" where
  "frame_truthy h = (case h of None \<Rightarrow> False | Some i \<Rightarrow> i \<noteq> 0)"

definition updateAnimationVisuals :: "real \<Rightarrow> fstate \<Rightarrow> fstate" where
  "updateAnimationVisuals p s =
     (let s1 = (if has_layer (fmap s) WATER_ANIMATION_LAYER_ID then s\<lparr>waterOpacity := p * 0.8\<rparr> else s) in
      s1\<lparr>progressBarWidth := p * 100\<rparr>)"

definition stopAnimation :: "fstate \<Rightarrow> fstate" where
  "stopAnimation s =
     (let s1 = (if frame_truthy (animationFrameId (anim s))
                then cancelAnimationFrame (animationFrameId (anim s)) s else s);
          s2 = s1\<lparr>anim := (anim s1)\<lparr>animationFrameId := None, isPlaying := False, progress := 0\<rparr>,
                  animationControlsShown := False, animateBtnStop := False,
                  playPauseShowsPause := False, progressBarWidth := 0\<rparr> in
      s2\<lparr>fmap := hideLayer WATER_ANIMATION_LAYER_ID WATER_ANIMATION_SOURCE_ID (fmap s2)\<rparr>)"

text \<open>\<open>togglePlayPause\<close>; \<open>now\<close> is \<open>performance.now()\<close>.\<close>

definition togglePlayPause :: "real \<Rightarrow> fstate \<Rightarrow> fstate" where
  "togglePlayPause now s =
     (let s1 = s\<lparr>anim := (anim s)\<lparr>isPlaying := \<not> isPlaying (anim s)\<rparr>\<rparr> in
      if isPlaying (anim s1) then
        (let s2 = s1\<lparr>playPauseShowsPause := True\<rparr>;
             s3 = (if 1 \<le> progress (anim s2) then s2\<lparr>anim := (anim s2)\<lparr>progress := 0\<rparr>\<rparr> else s2);
             s4 = s3\<lparr>anim := (anim s3)\<lparr>lastTimestamp := now\<rparr>\<rparr>;
             h = rafNext s4;
             s5 = requestAnimationFrame s4 in
         s5\<lparr>anim := (anim s5)\<lparr>animationFrameId := Some h\<rparr>\<rparr>)
      else
        (let s2 = s1\<lparr>playPauseShowsPause := False\<rparr>;
             s3 = cancelAnimationFrame (animationFrameId (anim s2)) s2 in
         s3\<lparr>anim := (anim s3)\<lparr>animationFrameId := None\<rparr>\<rparr>))"

definition changeSpeed :: "real \<Rightarrow> fstate \<Rightarrow> fstate" where
  "changeSpeed v s = s\<lparr>anim := (anim s)\<lparr>speed := v\<rparr>\<rparr>"

text \<open>\<open>seekAnimation\<close>; \<open>x\<close> is \<open>clickX / bounds.width\<close>.\<close>

definition seekAnimation :: "real \<Rightarrow> fstate \<Rightarrow> fstate" where
  "seekAnimation x s =
     (let s1 = s\<lparr>anim := (anim s)\<lparr>progress := max 0 (min 1 x)\<rparr>\<rparr> in
      updateAnimationVisuals (progress (anim s1)) s1)"

text \<open>\<open>animateFrame(timestamp)\<close>, the frame callback.\<close>

definition animateFrame :: "real \<Rightarrow> fstate \<Rightarrow> fstate" where
  "animateFrame t s =
     (if \<not> isPlaying (anim s) then s
      else
        let a = anim s;
            delta = (t - lastTimestamp a) * speed a;
            s1 = s\<lparr>anim := a\<lparr>lastTimestamp := t, progress := progress a + delta / duration a\<rparr>\<rparr> in
        if 1 \<le> progress (anim s1) then
          togglePlayPause t (updateAnimationVisuals 1 (s1\<lparr>anim := (anim s1)\<lparr>progress := 1\<rparr>\<rparr>))
        else
          (let s2 = updateAnimationVisuals (progress (anim s1)) s1;
               h = rafNext s2;
               s3 = requestAnimationFrame s2 in
           s3\<lparr>anim := (anim s3)\<lparr>animationFrameId := Some h\<rparr>\<rparr>))"

text \<open>The browser runs the callback of a queued handle \<open>h\<close> at timestamp \<open>t\<close>,
  dequeuing it first; a handle not queued never runs.\<close>

definition run_frame :: "nat \<Rightarrow> real \<Rightarrow> fstate \<Rightarrow> fstate option" where
  "run_frame h t s =
     (if h \<in> set (rafPending s)
      then Some (animateFrame t (s\<lparr>rafPending := removeAll h (rafPending s)\<rparr>))
      else None)"

definition addAnimatedWaterSurface :: "fstate \<Rightarrow> fstate outcome" where
  "addAnimatedWaterSurface s =
     (let m1 = hideLayer WATER_ANIMATION_LAYER_ID WATER_ANIMATION_SOURCE_ID (fmap s) in
      case addSource WATER_ANIMATION_SOURCE_ID m1 of
        Inl e \<Rightarrow> Thrown e (s\<lparr>fmap := m1\<rparr>)
      | Inr m2 \<Rightarrow> Done (s\<lparr>fmap := addLayer (raster_layer WATER_ANIMATION_LAYER_ID ''raster''
                                              WATER_ANIMATION_SOURCE_ID)
                                   (river_anchor (fv_firstSymbolId s)) m2,
                          waterOpacity := 0\<rparr>))"

text \<open>\<open>handleAnimateFlood\<close> up to its first \<open>await\<close>: the new state and whether a
  projection request was sent.\<close>

definition handleAnimateFlood :: "fstate \<Rightarrow> fstate \<times> bool" where
  "handleAnimateFlood s =
     (if frame_truthy (animationFrameId (anim s)) then (stopAnimation s, False)
      else (s\<lparr>loaderShown := True\<rparr>, True))"

text \<open>The rest of \<open>handleAnimateFlood\<close> once the projection settles; an exception
  inside the \<open>try\<close> is caught and stops the animation.\<close>

definition animate_answer :: "unit reply \<Rightarrow> real \<Rightarrow> fstate \<Rightarrow> fstate" where
  "animate_answer r now s =
     (let s1 = s\<lparr>loaderShown := False\<rparr> in
      case r of
        FetchFailed _ \<Rightarrow> stopAnimation s1
      | FetchOk _ \<Rightarrow>
          (case addAnimatedWaterSurface s1 of
             Thrown _ s2 \<Rightarrow> stopAnimation s2
           | Done s2 \<Rightarrow> togglePlayPause now (s2\<lparr>animationControlsShown := True, animateBtnStop := True\<rparr>)))"

section \<open>Simulation handlers\<close>

text \<open>\<open>handleGisFloodSimulation\<close> before its \<open>await\<close>, and the rest once the
  reply settles (every error is caught and alerted).\<close>

definition handleGisFloodSimulation :: "fstate \<Rightarrow> fstate" where
  "handleGisFloodSimulation s =
     s\<lparr>fmap := hideLayer GIS_FLOOD_RESULT_LAYER_ID GIS_FLOOD_RESULT_SOURCE_ID (fmap s), loaderShown := True\<rparr>"

definition gis_answer :: "unit reply \<Rightarrow> fstate \<Rightarrow> fstate" where
  "gis_answer r s =
     (let s1 = (case r of
                  FetchFailed _ \<Rightarrow> s
                | FetchOk _ \<Rightarrow> s\<lparr>fmap := outcome_state (addOrUpdate3DLayer GIS_FLOOD_RESULT_LAYER_ID
                                     GIS_FLOOD_RESULT_SOURCE_ID (fv_firstSymbolId s) (fmap s))\<rparr>) in
      s1\<lparr>loaderShown := False\<rparr>)"

definition handleProjectFlood :: "fstate \<Rightarrow> fstate" where
  "handleProjectFlood s =
     s\<lparr>fmap := hideLayer GENERAL_FLOOD_LAYER_ID GENERAL_FLOOD_SOURCE_ID (fmap s), loaderShown := True\<rparr>"

definition project_answer :: "unit reply \<Rightarrow> fstate \<Rightarrow> fstate" where
  "project_answer r s =
     (let s1 = (case r of
                  FetchFailed _ \<Rightarrow> s
                | FetchOk _ \<Rightarrow> s\<lparr>fmap := outcome_state (addOrUpdate2DLayer GENERAL_FLOOD_LAYER_ID
                                     GENERAL_FLOOD_SOURCE_ID (fv_firstSymbolId s) (fmap s))\<rparr>) in
      s1\<lparr>loaderShown := False\<rparr>)"

text \<open>\<open>handleToggleFlowTrace\<close>: the state and whether a request was sent.\<close>

definition handleToggleFlowTrace :: "bool \<Rightarrow> fstate \<Rightarrow> fstate \<times> bool" where
  "handleToggleFlowTrace show s =
     (let s0 = s\<lparr>traceChecked := show\<rparr> in
      if \<not> show then
        ((if has_layer (fmap s0) FLOW_TRACE_LAYER_ID
          then s0\<lparr>fmap := setVisibility FLOW_TRACE_LAYER_ID False (fmap s0)\<rparr> else s0), False)
      else if has_layer (fmap s0) FLOW_TRACE_LAYER_ID then
        (s0\<lparr>fmap := setVisibility FLOW_TRACE_LAYER_ID True (fmap s0)\<rparr>, False)
      else (s0\<lparr>loaderShown := True\<rparr>, True))"

definition trace_answer :: "unit reply \<Rightarrow> fstate \<Rightarrow> fstate" where
  "trace_answer r s =
     (let s1 = (case r of
                  FetchFailed _ \<Rightarrow> s\<lparr>traceChecked := False\<rparr>
                | FetchOk _ \<Rightarrow>
                    (case addOrUpdate2DLayer FLOW_TRACE_LAYER_ID FLOW_TRACE_SOURCE_ID
                            (fv_firstSymbolId s) (fmap s) of
                       Done m \<Rightarrow> s\<lparr>fmap := m\<rparr>
                     | Thrown _ m \<Rightarrow> s\<lparr>fmap := m, traceChecked := False\<rparr>)) in
      s1\<lparr>loaderShown := False\<rparr>)"

definition handleToggleFlowAccumulation :: "bool \<Rightarrow> fstate \<Rightarrow> fstate \<times> bool" where
  "handleToggleFlowAccumulation show s =
     (let s0 = s\<lparr>accumChecked := show\<rparr> in
      if \<not> show then
        ((if has_layer (fmap s0) FLOW_ACCUMULATION_LAYER_ID
          then s0\<lparr>fmap := setVisibility FLOW_ACCUMULATION_LAYER_ID False (fmap s0)\<rparr> else s0), False)
      else if has_layer (fmap s0) FLOW_ACCUMULATION_LAYER_ID then
        (s0\<lparr>fmap := setVisibility FLOW_ACCUMULATION_LAYER_ID True (fmap s0)\<rparr>, False)
      else (s0\<lparr>loaderShown := True\<rparr>, True))"

definition accum_answer :: "unit reply \<Rightarrow> fstate \<Rightarrow> fstate" where
  "accum_answer r s =
     (let s1 = (case r of
                  FetchFailed _ \<Rightarrow> s\<lparr>accumChecked := False\<rparr>
                | FetchOk _ \<Rightarrow>
                    (case addOrUpdate2DLayer FLOW_ACCUMULATION_LAYER_ID FLOW_ACCUMULATION_SOURCE_ID
                            (fv_firstSymbolId s) (fmap s) of
                       Done m \<Rightarrow> s\<lparr>fmap := m\<rparr>
                     | Thrown _ m \<Rightarrow> s\<lparr>fmap := m, accumChecked := False\<rparr>)) in
      s1\<lparr>loaderShown := False\<rparr>)"

definition handleToggleChannelFlood :: "bool \<Rightarrow> fstate \<Rightarrow> fstate \<times> bool" where
  "handleToggleChannelFlood show s =
     (let s0 = s\<lparr>channelChecked := show\<rparr> in
      if \<not> show then
        ((let s1 = (if has_layer (fmap s0) CHANNEL_FLOOD_LAYER_ID
                    then s0\<lparr>fmap := setVisibility CHANNEL_FLOOD_LAYER_ID False (fmap s0)\<rparr> else s0) in
          s1\<lparr>ctl := (ctl s1)\<lparr>downloadDisabled := True\<rparr>\<rparr>), False)
      else if has_layer (fmap s0) CHANNEL_FLOOD_LAYER_ID then
        (s0\<lparr>fmap := setVisibility CHANNEL_FLOOD_LAYER_ID True (fmap s0),
            ctl := (ctl s0)\<lparr>downloadDisabled := False\<rparr>\<rparr>, False)
      else (s0\<lparr>loaderShown := True\<rparr>, True))"

text \<open>The reply carries \<open>result.cache_filename\<close>.\<close>

definition channel_answer :: "string reply \<Rightarrow> fstate \<Rightarrow> fstate" where
  "channel_answer r s =
     (let fail = (\<lambda>s'. updateControlsState (s'\<lparr>channelChecked := False, channelFloodCacheId := None\<rparr>));
          s1 = (case r of
                  FetchFailed _ \<Rightarrow> fail s
                | FetchOk cache \<Rightarrow>
                    (let s2 = updateControlsState (s\<lparr>channelFloodCacheId := Some cache\<rparr>) in
                     case addOrUpdate3DLayer CHANNEL_FLOOD_LAYER_ID CHANNEL_FLOOD_SOURCE_ID
                            (fv_firstSymbolId s2) (fmap s2) of
                       Done m \<Rightarrow> s2\<lparr>fmap := m\<rparr>
                     | Thrown _ m \<Rightarrow> fail (s2\<lparr>fmap := m\<rparr>))) in
      s1\<lparr>loaderShown := False\<rparr>)"

section \<open>DEM selection, cleanup, river network\<close>

definition stopLiveWeatherUpdates :: "fstate \<Rightarrow> fstate" where
  "stopLiveWeatherUpdates s = s\<lparr>liveWeatherOn := False\<rparr>"

definition startLiveWeatherUpdates :: "fstate \<Rightarrow> fstate" where
  "startLiveWeatherUpdates s = (stopLiveWeatherUpdates s)\<lparr>liveWeatherOn := True\<rparr>"

definition cleanup_layers :: "string list" where
  "cleanup_layers = [RIVER_LAYER_ID, POINTS_LAYER_ID, WATER_ANIMATION_LAYER_ID, GENERAL_FLOOD_LAYER_ID,
     FLOW_TRACE_LAYER_ID, FLOW_ACCUMULATION_LAYER_ID, CHANNEL_FLOOD_LAYER_ID, PRECALC_FLOOD_LAYER_ID,
     GIS_FLOOD_RESULT_LAYER_ID]"

definition cleanup_sources :: "string list" where
  "cleanup_sources = [RIVER_SOURCE_ID, POINTS_SOURCE_ID, WATER_ANIMATION_SOURCE_ID, GENERAL_FLOOD_SOURCE_ID,
     FLOW_TRACE_SOURCE_ID, FLOW_ACCUMULATION_SOURCE_ID, CHANNEL_FLOOD_SOURCE_ID, PRECALC_FLOOD_SOURCE_ID,
     GIS_FLOOD_RESULT_SOURCE_ID]"

definition cleanupMapLayers :: "bool \<Rightarrow> fstate \<Rightarrow> fstate" where
  "cleanupMapLayers fullCleanup s =
     (let s1 = stopAnimation s;
          m1 = fold remove_source_if cleanup_sources (fold remove_layer_if cleanup_layers (fmap s1));
          m2 = (if fullCleanup then
                  (let m3 = remove_source_if TERRAIN_SOURCE_ID (remove_layer_if ''hillshade'' m1) in
                   if m_terrain m3 \<noteq> None then setTerrain None m3 else m3)
                else m1);
          s2 = s1\<lparr>fmap := m2, points := [], channelFloodCacheId := None,
                  traceChecked := False, accumChecked := False, channelChecked := False,
                  zonesChecked := False\<rparr> in
      updateControlsState s2)"

definition clearAllPoints :: "fstate \<Rightarrow> fstate" where
  "clearAllPoints s = updateControlsState (cleanupMapLayers False s)"

text \<open>\<open>handleDemSelection\<close> up to its \<open>await\<close>, for the selected option's value:
  an exception of \<open>addSource\<close> escapes the handler (it is outside the \<open>try\<close>), and
  the flag says whether the bounds request was sent.\<close>

definition handleDemSelection :: "string \<Rightarrow> fstate \<Rightarrow> fstate outcome \<times> bool" where
  "handleDemSelection v s =
     (let s1 = stopLiveWeatherUpdates (stopAnimation s) in
      if v = [] then (Done (cleanupMapLayers True (s1\<lparr>simulationControlsShown := False\<rparr>)), False)
      else
        (let s2 = cleanupMapLayers True (s1\<lparr>loaderShown := True, selectedDem := Some v\<rparr>) in
         case addSource TERRAIN_SOURCE_ID (fmap s2) of
           Inl e \<Rightarrow> (Thrown e s2, False)
         | Inr m \<Rightarrow>
             (let m' = addLayer (raster_layer ''hillshade'' ''hillshade'' TERRAIN_SOURCE_ID)
                         (fv_firstSymbolId s2) (setTerrain (Some TERRAIN_SOURCE_ID) m) in
              (Done (updateControlsState (s2\<lparr>fmap := m', loadRiverDisabled := False,
                                             simulationControlsShown := True\<rparr>)), True))))"

definition bounds_answer :: "unit reply \<Rightarrow> fstate \<Rightarrow> fstate" where
  "bounds_answer r s =
     (let s1 = (case r of FetchFailed _ \<Rightarrow> s | FetchOk _ \<Rightarrow> startLiveWeatherUpdates s) in
      s1\<lparr>loaderShown := False\<rparr>)"

text \<open>\<open>loadRiverNetwork\<close> before and after its \<open>await\<close>.\<close>

definition loadRiverNetwork :: "fstate \<Rightarrow> fstate" where
  "loadRiverNetwork s =
     s\<lparr>loaderShown := True, loadRiverDisabled := True,
       fmap := remove_source_if RIVER_SOURCE_ID (remove_layer_if RIVER_LAYER_ID (fmap s))\<rparr>"

definition river_answer :: "unit reply \<Rightarrow> fstate \<Rightarrow> fstate" where
  "river_answer r s =
     (let s1 = (case r of
                  FetchFailed _ \<Rightarrow> s\<lparr>loadRiverDisabled := False\<rparr>
                | FetchOk _ \<Rightarrow>
                    (case addSource RIVER_SOURCE_ID (fmap s) of
                       Inl _ \<Rightarrow> s\<lparr>loadRiverDisabled := False\<rparr>
                     | Inr m \<Rightarrow> s\<lparr>fmap := addLayer (raster_layer RIVER_LAYER_ID ''line'' RIVER_SOURCE_ID)
                                               (fv_firstSymbolId s) m\<rparr>)) in
      s1\<lparr>loaderShown := False\<rparr>)"

section \<open>Points\<close>

definition setActiveTool :: "active_tool option \<Rightarrow> fstate \<Rightarrow> fstate" where
  "setActiveTool tool s = s\<lparr>activeTool := (if activeTool s = tool then None else tool)\<rparr>"

definition updatePointsLayer :: "fstate \<Rightarrow> fstate" where
  "updatePointsLayer s =
     (if has_source (fmap s) POINTS_SOURCE_ID then s\<lparr>pointsData := points s\<rparr>
      else case addSource POINTS_SOURCE_ID (fmap s) of
             Inl _ \<Rightarrow> s
           | Inr m \<Rightarrow> s\<lparr>fmap := addLayer (raster_layer POINTS_LAYER_ID ''circle'' POINTS_SOURCE_ID) None m,
                         pointsData := points s\<rparr>)"

definition onMapClick :: "prompt_reply \<Rightarrow> real \<Rightarrow> real \<Rightarrow> fstate \<Rightarrow> fstate" where
  "onMapClick r lng lat s =
     (case activeTool s of
        None \<Rightarrow> s
      | Some rateType \<Rightarrow>
          (case r of
             Cancelled \<Rightarrow> setActiveTool None s
           | Entered None \<Rightarrow> s
           | Entered (Some rate) \<Rightarrow>
               (if rate < 0 then s
                else
                  (let rate' = (if rateType = Outflow then - rate else rate);
                       s1 = s\<lparr>points := points s @ [\<lparr>pt_lon = lng, pt_lat = lat, pt_rate = rate'\<rparr>]\<rparr> in
                   setActiveTool None (updateControlsState (updatePointsLayer s1))))))"

section \<open>Pre-calculated flood zones\<close>

definition togglePrecalculatedFloodZones :: "bool \<Rightarrow> fstate \<Rightarrow> fstate \<times> bool" where
  "togglePrecalculatedFloodZones isVisible s =
     (let s0 = s\<lparr>zonesChecked := isVisible\<rparr> in
      if has_layer (fmap s0) PRECALC_FLOOD_LAYER_ID
      then (s0\<lparr>fmap := setVisibility PRECALC_FLOOD_LAYER_ID isVisible (fmap s0)\<rparr>, False)
      else if isVisible then (s0\<lparr>loaderShown := True\<rparr>, True)
      else (s0, False))"

definition zones_answer :: "unit reply \<Rightarrow> fstate \<Rightarrow> fstate" where
  "zones_answer r s =
     (let s1 = (case r of
                  FetchFailed _ \<Rightarrow> s\<lparr>zonesChecked := False\<rparr>
                | FetchOk _ \<Rightarrow>
                    (let m1 = (if has_source (fmap s) PRECALC_FLOOD_SOURCE_ID then Inr (fmap s)
                               else addSource PRECALC_FLOOD_SOURCE_ID (fmap s)) in
                     case m1 of
                       Inl _ \<Rightarrow> s\<lparr>zonesChecked := False\<rparr>
                     | Inr m \<Rightarrow> s\<lparr>fmap := addLayer (raster_layer PRECALC_FLOOD_LAYER_ID ''fill''
                                                   PRECALC_FLOOD_SOURCE_ID) None m\<rparr>)) in
      s1\<lparr>loaderShown := False\<rparr>)"

section \<open>Invariants\<close>

text \<open>The animation state: progress at most 1, the frame queue holding exactly the
  handle \<open>animationFrameId\<close> names, a handle named exactly while playing, and handles
  never 0.\<close>

definition anim_inv :: "fstate \<Rightarrow> bool" where
  "anim_inv s \<longleftrightarrow>
     progress (anim s) \<le> 1 \<and>
     rafPending s = (case animationFrameId (anim s) of None \<Rightarrow> [] | Some h \<Rightarrow> [h]) \<and>
     (isPlaying (anim s) \<longleftrightarrow> animationFrameId (anim s) \<noteq> None) \<and>
     0 < rafNext s \<and> (\<forall>h. animationFrameId (anim s) = Some h \<longrightarrow> 0 < h)"

section \<open>The animation loop\<close>

lemma frame_truthy_pos [simp]: "0 < h \<Longrightarrow> frame_truthy (Some h)"
  by (simp add: frame_truthy_def)

lemma anim_visuals [simp]:
  "anim (updateAnimationVisuals p s) = anim s" "rafPending (updateAnimationVisuals p s) = rafPending s"
  "rafNext (updateAnimationVisuals p s) = rafNext s" "fmap (updateAnimationVisuals p s) = fmap s"
  by (simp_all add: updateAnimationVisuals_def Let_def)

lemma anim_controls [simp]:
  "anim (updateControlsState s) = anim s" "rafPending (updateControlsState s) = rafPending s"
  "rafNext (updateControlsState s) = rafNext s" "fmap (updateControlsState s) = fmap s"
  "points (updateControlsState s) = points s" "loadRiverDisabled (updateControlsState s) = loadRiverDisabled s"
  by (simp_all add: updateControlsState_def Let_def)

text \<open>A handler that leaves the animation, the frame queue and the handle counter
  alone keeps the invariant.\<close>

lemma anim_inv_frame:
  "anim s' = anim s \<Longrightarrow> rafPending s' = rafPending s \<Longrightarrow> rafNext s' = rafNext s \<Longrightarrow> anim_inv s' = anim_inv s"
  by (simp add: anim_inv_def)

lemma stopAnimation_inv:
  assumes "anim_inv s"
  shows "anim_inv (stopAnimation s)" and "rafPending (stopAnimation s) = []"
    and "anim (stopAnimation s) = (anim s)\<lparr>animationFrameId := None, isPlaying := False, progress := 0\<rparr>"
  using assms by (auto simp: anim_inv_def stopAnimation_def cancelAnimationFrame_def frame_truthy_def
      split: option.splits)

lemma togglePlayPause_inv: "anim_inv s \<Longrightarrow> anim_inv (togglePlayPause now s)"
  by (auto simp: anim_inv_def togglePlayPause_def Let_def requestAnimationFrame_def
      cancelAnimationFrame_def split: option.splits)

text \<open>A queued frame belongs to a playing animation, and it is the only one queued.\<close>

lemma run_frame_queued:
  assumes "anim_inv s" and "run_frame h t s = Some s'"
  shows "isPlaying (anim s)" "animationFrameId (anim s) = Some h" "rafPending s = [h]"
    and "s' = animateFrame t (s\<lparr>rafPending := []\<rparr>)"
proof -
  have "h \<in> set (rafPending s)" using assms(2) by (simp add: run_frame_def split: if_splits)
  with assms(1) show "isPlaying (anim s)" "animationFrameId (anim s) = Some h" "rafPending s = [h]"
    by (auto simp: anim_inv_def split: option.splits)
  with assms(2) show "s' = animateFrame t (s\<lparr>rafPending := []\<rparr>)" by (simp add: run_frame_def)
qed

lemma run_frame_inv:
  assumes "anim_inv s" and "run_frame h t s = Some s'"
  shows "anim_inv s'"
  using assms(1) run_frame_queued[OF assms]
  by (auto simp: anim_inv_def animateFrame_def togglePlayPause_def Let_def requestAnimationFrame_def
      cancelAnimationFrame_def)

lemma seekAnimation_inv: "anim_inv s \<Longrightarrow> anim_inv (seekAnimation x s)"
  by (simp add: anim_inv_def seekAnimation_def Let_def)

lemma changeSpeed_inv: "anim_inv (changeSpeed v s) = anim_inv s"
  by (simp add: anim_inv_def changeSpeed_def)

lemma cleanupMapLayers_inv:
  assumes "anim_inv s"
  shows "anim_inv (cleanupMapLayers b s)" and "rafPending (cleanupMapLayers b s) = []"
  using stopAnimation_inv[OF assms] by (simp_all add: cleanupMapLayers_def Let_def anim_inv_def)

lemma addAnimatedWaterSurface_anim:
  "anim (outcome_state (addAnimatedWaterSurface s)) = anim s"
  "rafPending (outcome_state (addAnimatedWaterSurface s)) = rafPending s"
  "rafNext (outcome_state (addAnimatedWaterSurface s)) = rafNext s"
  by (simp_all add: addAnimatedWaterSurface_def Let_def split: sum.split)

lemma animate_answer_inv:
  assumes "anim_inv s"
  shows "anim_inv (animate_answer r now s)"
proof -
  let ?s1 = "s\<lparr>loaderShown := False\<rparr>"
  have i1: "anim_inv ?s1" using assms by (simp add: anim_inv_def)
  then have i2: "anim_inv (outcome_state (addAnimatedWaterSurface ?s1))"
    by (simp add: anim_inv_def addAnimatedWaterSurface_anim)
  show ?thesis
  proof (cases r)
    case (FetchFailed x)
    with i1 show ?thesis by (simp add: animate_answer_def stopAnimation_inv)
  next
    case (FetchOk x)
    show ?thesis
    proof (cases "addAnimatedWaterSurface ?s1")
      case (Done s2)
      with i2 have "anim_inv (s2\<lparr>animationControlsShown := True, animateBtnStop := True\<rparr>)"
        by (simp add: anim_inv_def)
      with Done FetchOk show ?thesis by (simp add: animate_answer_def togglePlayPause_inv)
    next
      case (Thrown e s2)
      with i2 FetchOk show ?thesis by (simp add: animate_answer_def stopAnimation_inv)
    qed
  qed
qed

text \<open>One frame of a playing animation, with \<open>p'\<close> the progress it computes: at
  \<open>p' \<ge> 1\<close> the loop stops with progress 1 and nothing queued; below, it goes on
  with exactly one new frame queued.\<close>

lemma frame_finish:
  assumes "anim_inv s" and "run_frame h t s = Some s'"
    and "1 \<le> progress (anim s) + (t - lastTimestamp (anim s)) * speed (anim s) / duration (anim s)"
  shows "progress (anim s') = 1 \<and> \<not> isPlaying (anim s') \<and> animationFrameId (anim s') = None \<and>
         rafPending s' = [] \<and> rafNext s' = rafNext s \<and> progressBarWidth s' = 100 \<and>
         anim_inv s'"
  using run_frame_queued[OF assms(1,2)] run_frame_inv[OF assms(1,2)] assms(3)
  by (simp add: animateFrame_def togglePlayPause_def Let_def cancelAnimationFrame_def
      updateAnimationVisuals_def)

lemma frame_continue:
  assumes "anim_inv s" and "run_frame h t s = Some s'"
    and "progress (anim s) + (t - lastTimestamp (anim s)) * speed (anim s) / duration (anim s) < 1"
  shows "anim s' = (anim s)\<lparr>lastTimestamp := t, animationFrameId := Some (rafNext s),
            progress := progress (anim s) + (t - lastTimestamp (anim s)) * speed (anim s) / duration (anim s)\<rparr> \<and>
         rafPending s' = [rafNext s] \<and> rafNext s' = Suc (rafNext s) \<and> isPlaying (anim s') \<and>
         anim_inv s'"
  using run_frame_queued[OF assms(1,2)] run_frame_inv[OF assms(1,2)] assms(3)
  by (simp add: animateFrame_def Let_def requestAnimationFrame_def)

section \<open>Well-formed maps\<close>

lemma ml_id_visibility_update:
  "map (\<lambda>x. ml_id (if ml_id x = i then x\<lparr>ml_visible := v\<rparr> else x)) xs = map ml_id xs"
  by (induction xs) auto

lemma setVisibility_wf: "map_wf m \<Longrightarrow> map_wf (setVisibility i v m)"
  unfolding map_wf_def setVisibility_def layer_ids_def
  by (auto simp: comp_def ml_id_visibility_update)

lemma hideLayer_wf: "map_wf m \<Longrightarrow> map_wf (hideLayer l src m)"
  by (simp add: hideLayer_def remove_layer_if_wf remove_source_if_wf)

lemma fold_remove_wf:
  "map_wf m \<Longrightarrow> map_wf (fold remove_layer_if ls m)"
  "map_wf m \<Longrightarrow> map_wf (fold remove_source_if ss m)"
  by (induction ls arbitrary: m) (auto simp: remove_layer_if_wf,
      induction ss arbitrary: m, auto simp: remove_source_if_wf)

lemma addSource_outcome_wf:
  "map_wf m \<Longrightarrow> (case addSource s m of Inl e \<Rightarrow> Thrown e m | Inr m' \<Rightarrow> Done (f m')) = r \<Longrightarrow>
   (\<And>m'. map_wf m' \<Longrightarrow> map_wf (f m')) \<Longrightarrow> map_wf (outcome_state r)"
  by (auto split: sum.splits dest: addSource_wf)

lemma addOrUpdate_wf:
  "map_wf m \<Longrightarrow> map_wf (outcome_state (addOrUpdate2DLayer l src fsym m))"
  "map_wf m \<Longrightarrow> map_wf (outcome_state (addOrUpdate3DLayer l src fsym m))"
  unfolding addOrUpdate2DLayer_def addOrUpdate3DLayer_def Let_def
  by (auto intro: hideLayer_wf addLayer_wf addSource_outcome_wf [OF hideLayer_wf])

lemma addOrUpdate_result_wf:
  "addOrUpdate2DLayer l src fsym m = Done m' \<Longrightarrow> map_wf m \<Longrightarrow> map_wf m'"
  "addOrUpdate2DLayer l src fsym m = Thrown e m' \<Longrightarrow> map_wf m \<Longrightarrow> map_wf m'"
  "addOrUpdate3DLayer l src fsym m = Done m' \<Longrightarrow> map_wf m \<Longrightarrow> map_wf m'"
  "addOrUpdate3DLayer l src fsym m = Thrown e m' \<Longrightarrow> map_wf m \<Longrightarrow> map_wf m'"
  by (metis addOrUpdate_wf outcome_state.simps)+

lemmas flood_map_wf = setVisibility_wf hideLayer_wf fold_remove_wf addOrUpdate_wf
  addLayer_wf removeLayer_wf remove_layer_if_wf remove_source_if_wf setTerrain_wf

end
