(* ===== verification/Flood_Events.thy ===== *)
theory Flood_Events
  imports Flood
begin

text \<open>
  The flood viewer as an event system: every control of the page, every animation
  frame and every settled request of \<open>src/static/js/flood-viewer.js\<close> is an
  event, \<open>flood_step\<close> applies the handler the page registers for it
  (\<open>setupEventListeners\<close>), and \<open>flood_reach\<close> collects the states reachable from
  the page after the map's \<open>load\<close> handler.  The lemmas show that the animation
  invariant and the well-formedness of the map hold in every reachable state.
\<close>

section \<open>The page as an event system\<close>

text \<open>
  The events the page reacts to: clicks and inputs on its controls, animation
  frames, and the settling of a request a handler sent.  A reply may arrive at any
  time, also one that no request is waiting for: the reachable states below
  over-approximate the page, so an invariant of them holds of every real run.
\<close>

datatype fevent =
    AnimateClick | AnimateAnswer "unit reply" real | PlayPauseClick real | Frame nat real
  | SpeedInput real | ProgressClick real
  | GisClick | GisAnswer "unit reply" | ProjectClick | ProjectAnswer "unit reply"
  | TraceChange bool | TraceAnswer "unit reply" | AccumChange bool | AccumAnswer "unit reply"
  | ChannelChange bool | ChannelAnswer "string reply"
  | DemChange string | BoundsAnswer "unit reply" | RiverClick | RiverAnswer "unit reply"
  | ToolClick active_tool | MapClick prompt_reply real real | ClearClick
  | ZonesChange bool | ZonesAnswer "unit reply"

fun flood_step :: "fevent \<Rightarrow> fstate \<Rightarrow> fstate option" where
  "flood_step AnimateClick s = Some (fst (handleAnimateFlood s))"
| "flood_step (AnimateAnswer r now) s = Some (animate_answer r now s)"
| "flood_step (PlayPauseClick now) s = Some (togglePlayPause now s)"
| "flood_step (Frame h t) s = run_frame h t s"
| "flood_step (SpeedInput v) s = Some (changeSpeed v s)"
| "flood_step (ProgressClick x) s = Some (seekAnimation x s)"
| "flood_step GisClick s = Some (handleGisFloodSimulation s)"
| "flood_step (GisAnswer r) s = Some (gis_answer r s)"
| "flood_step ProjectClick s = Some (handleProjectFlood s)"
| "flood_step (ProjectAnswer r) s = Some (project_answer r s)"
| "flood_step (TraceChange b) s = Some (fst (handleToggleFlowTrace b s))"
| "flood_step (TraceAnswer r) s = Some (trace_answer r s)"
| "flood_step (AccumChange b) s = Some (fst (handleToggleFlowAccumulation b s))"
| "flood_step (AccumAnswer r) s = Some (accum_answer r s)"
| "flood_step (ChannelChange b) s = Some (fst (handleToggleChannelFlood b s))"
| "flood_step (ChannelAnswer r) s = Some (channel_answer r s)"
| "flood_step (DemChange v) s = Some (outcome_state (fst (handleDemSelection v s)))"
| "flood_step (BoundsAnswer r) s = Some (bounds_answer r s)"
| "flood_step RiverClick s = Some (loadRiverNetwork s)"
| "flood_step (RiverAnswer r) s = Some (river_answer r s)"
| "flood_step (ToolClick t) s = Some (setActiveTool (Some t) s)"
| "flood_step (MapClick r lng lat) s = Some (onMapClick r lng lat s)"
| "flood_step ClearClick s = Some (clearAllPoints s)"
| "flood_step (ZonesChange b) s = Some (fst (togglePrecalculatedFloodZones b s))"
| "flood_step (ZonesAnswer r) s = Some (zones_answer r s)"

fun flood_run :: "fevent list \<Rightarrow> fstate \<Rightarrow> fstate option" where
  "flood_run [] s = Some s"
| "flood_run (e # es) s = (case flood_step e s of None \<Rightarrow> None | Some s' \<Rightarrow> flood_run es s')"

text \<open>The page once the map's \<open>load\<close> handler has run without a preselected DEM:
  the \<open>state\<close> literal of the source, the basemap \<open>m\<close> with its first symbol layer,
  and the controls as the page's markup leaves them (\<open>c\<close>, \<open>riverOff\<close>).\<close>

definition flood_init :: "mapst \<Rightarrow> controls \<Rightarrow> bool \<Rightarrow> fstate" where
  "flood_init m c riverOff =
     \<lparr>fmap = m, fv_firstSymbolId = first_symbol_id m, selectedDem = None, activeTool = None,
      points = [], channelFloodCacheId = None,
      anim = \<lparr>lastTimestamp = 0, animationFrameId = None, duration = 15 * 1000, progress = 0,
              speed = 1, isPlaying = False\<rparr>,
      rafPending = [], rafNext = 1, ctl = c, loaderShown = False, loadRiverDisabled = riverOff,
      simulationControlsShown = False, animationControlsShown = False, animateBtnStop = False,
      playPauseShowsPause = False, progressBarWidth = 0, waterOpacity = 0, pointsData = [],
      liveWeatherOn = False, traceChecked = False, accumChecked = False, channelChecked = False,
      zonesChecked = False\<rparr>"

inductive flood_reach :: "fstate \<Rightarrow> bool" where
  init: "map_wf m \<Longrightarrow> flood_reach (flood_init m c riverOff)"
| step: "flood_reach s \<Longrightarrow> flood_step e s = Some s' \<Longrightarrow> flood_reach s'"

text \<open>The browser's display refresh: every \<open>dt\<close> milliseconds it runs the queued
  frame callback, with the timestamp \<open>dt\<close> after the last one the animation saw; at
  most \<open>n\<close> refreshes, and none once nothing is queued.\<close>

fun play_frames :: "nat \<Rightarrow> real \<Rightarrow> fstate \<Rightarrow> fstate option" where
  "play_frames 0 dt s = Some s"
| "play_frames (Suc n) dt s =
     (case rafPending s of
        [] \<Rightarrow> Some s
      | h # _ \<Rightarrow> (case run_frame h (lastTimestamp (anim s) + dt) s of
                   None \<Rightarrow> None
                 | Some s' \<Rightarrow> play_frames n dt s'))"

text \<open>A basemap with no layers and the page loaded on it, for the examples.\<close>

definition empty_style :: mapst where
  "empty_style = \<lparr>m_sources = [], m_layers = [], m_terrain = None, m_errors = []\<rparr>"

definition page0 :: fstate where
  "page0 = flood_init empty_style
     \<lparr>gisDisabled = True, animateDisabled = True, projectDisabled = True, traceDisabled = True,
      accumDisabled = True, channelDisabled = True, downloadDisabled = True\<rparr> True"

text \<open>The page after \<open>Animate Flood\<close> and the projection's answer at time 0, and the
  same page after a frame at 20 s has finished the 15 s animation.\<close>

definition playing_page :: fstate where
  "playing_page = the (flood_run [AnimateClick, AnimateAnswer (FetchOk ()) 0] page0)"

definition finished_page :: fstate where
  "finished_page = the (run_frame 1 20000 playing_page)"

section \<open>The animation invariant in every reachable state\<close>

lemma handlers_keep_anim_inv:
  "anim_inv (handleGisFloodSimulation s) = anim_inv s" "anim_inv (gis_answer r s) = anim_inv s"
  "anim_inv (handleProjectFlood s) = anim_inv s" "anim_inv (project_answer r s) = anim_inv s"
  "anim_inv (fst (handleToggleFlowTrace b s)) = anim_inv s" "anim_inv (trace_answer r s) = anim_inv s"
  "anim_inv (fst (handleToggleFlowAccumulation b s)) = anim_inv s" "anim_inv (accum_answer r s) = anim_inv s"
  "anim_inv (fst (handleToggleChannelFlood b s)) = anim_inv s" "anim_inv (channel_answer q s) = anim_inv s"
  "anim_inv (bounds_answer r s) = anim_inv s" "anim_inv (loadRiverNetwork s) = anim_inv s"
  "anim_inv (river_answer r s) = anim_inv s" "anim_inv (setActiveTool t s) = anim_inv s"
  "anim_inv (onMapClick p x y s) = anim_inv s"
  "anim_inv (fst (togglePrecalculatedFloodZones b s)) = anim_inv s" "anim_inv (zones_answer r s) = anim_inv s"
  by (simp_all add: anim_inv_def handleGisFloodSimulation_def gis_answer_def handleProjectFlood_def
      project_answer_def handleToggleFlowTrace_def trace_answer_def handleToggleFlowAccumulation_def
      accum_answer_def handleToggleChannelFlood_def channel_answer_def bounds_answer_def
      startLiveWeatherUpdates_def stopLiveWeatherUpdates_def loadRiverNetwork_def river_answer_def
      setActiveTool_def onMapClick_def updatePointsLayer_def togglePrecalculatedFloodZones_def
      zones_answer_def Let_def
      split: reply.split outcome.split sum.split option.split prompt_reply.split)

lemma handleDemSelection_inv:
  assumes "anim_inv s"
  shows "anim_inv (outcome_state (fst (handleDemSelection v s)))"
proof -
  let ?s1 = "stopLiveWeatherUpdates (stopAnimation s)"
  have i1: "anim_inv ?s1"
    using stopAnimation_inv(1)[OF assms] by (simp add: anim_inv_def stopLiveWeatherUpdates_def)
  consider "v = []" | "v \<noteq> []" by blast
  then show ?thesis
  proof cases
    case 1
    have "anim_inv (cleanupMapLayers True (?s1\<lparr>simulationControlsShown := False\<rparr>))"
      using i1 by (intro cleanupMapLayers_inv) (simp add: anim_inv_def)
    with 1 show ?thesis by (simp add: handleDemSelection_def)
  next
    case 2
    let ?s2 = "cleanupMapLayers True (?s1\<lparr>loaderShown := True, selectedDem := Some v\<rparr>)"
    have "anim_inv ?s2" using i1 by (intro cleanupMapLayers_inv) (simp add: anim_inv_def)
    with 2 show ?thesis by (auto simp: handleDemSelection_def Let_def anim_inv_def split: sum.split)
  qed
qed

lemma flood_step_inv: "anim_inv s \<Longrightarrow> flood_step e s = Some s' \<Longrightarrow> anim_inv s'"
proof (induction e)
  case AnimateClick
  with stopAnimation_inv(1)[OF AnimateClick.prems(1)] show ?case
    by (auto simp: handleAnimateFlood_def anim_inv_def split: if_splits)
next
  case ClearClick
  with cleanupMapLayers_inv(1)[OF ClearClick.prems(1), of False] show ?case
    by (auto simp: clearAllPoints_def anim_inv_def)
qed (auto simp: handlers_keep_anim_inv animate_answer_inv togglePlayPause_inv run_frame_inv
       changeSpeed_inv seekAnimation_inv handleDemSelection_inv)

lemma flood_init_inv: "anim_inv (flood_init m c riverOff)"
  by (simp add: anim_inv_def flood_init_def)

lemma flood_reach_anim_inv: "flood_reach s \<Longrightarrow> anim_inv s"
  by (induction rule: flood_reach.induct) (auto intro: flood_init_inv flood_step_inv)

section \<open>Well-formed maps in every reachable state\<close>

lemma stopAnimation_wf: "map_wf (fmap s) \<Longrightarrow> map_wf (fmap (stopAnimation s))"
  by (simp add: stopAnimation_def Let_def cancelAnimationFrame_def hideLayer_wf split: option.split)

lemma cleanupMapLayers_wf: "map_wf (fmap s) \<Longrightarrow> map_wf (fmap (cleanupMapLayers b s))"
  by (simp add: cleanupMapLayers_def Let_def flood_map_wf stopAnimation_wf)

lemma water_surface_wf: "map_wf (fmap s) \<Longrightarrow> map_wf (fmap (outcome_state (addAnimatedWaterSurface s)))"
  using hideLayer_wf[of "fmap s" WATER_ANIMATION_LAYER_ID WATER_ANIMATION_SOURCE_ID]
  by (auto simp: addAnimatedWaterSurface_def Let_def addLayer_wf split: sum.split dest: addSource_wf)

lemma animate_answer_wf: "map_wf (fmap s) \<Longrightarrow> map_wf (fmap (animate_answer r now s))"
proof -
  assume wf: "map_wf (fmap s)"
  let ?s1 = "s\<lparr>loaderShown := False\<rparr>"
  have "map_wf (fmap (outcome_state (addAnimatedWaterSurface ?s1)))"
    using wf by (intro water_surface_wf) simp
  moreover have "fmap (togglePlayPause now s') = fmap s'" for s'
    by (simp add: togglePlayPause_def Let_def requestAnimationFrame_def cancelAnimationFrame_def
        split: option.split)
  ultimately show ?thesis
    using wf by (auto simp: animate_answer_def Let_def stopAnimation_wf split: reply.split outcome.split)
qed

lemma handlers_keep_wf:
  assumes "map_wf (fmap s)"
  shows "map_wf (fmap (handleGisFloodSimulation s))" "map_wf (fmap (gis_answer r s))"
    "map_wf (fmap (handleProjectFlood s))" "map_wf (fmap (project_answer r s))"
    "map_wf (fmap (fst (handleToggleFlowTrace b s)))" "map_wf (fmap (trace_answer r s))"
    "map_wf (fmap (fst (handleToggleFlowAccumulation b s)))" "map_wf (fmap (accum_answer r s))"
    "map_wf (fmap (fst (handleToggleChannelFlood b s)))" "map_wf (fmap (channel_answer q s))"
    "map_wf (fmap (bounds_answer r s))" "map_wf (fmap (loadRiverNetwork s))"
    "map_wf (fmap (river_answer r s))" "map_wf (fmap (setActiveTool t s))"
    "map_wf (fmap (fst (togglePrecalculatedFloodZones b s)))" "map_wf (fmap (zones_answer r s))"
  using assms
  by (auto simp: handleGisFloodSimulation_def gis_answer_def handleProjectFlood_def
      project_answer_def handleToggleFlowTrace_def trace_answer_def handleToggleFlowAccumulation_def
      accum_answer_def handleToggleChannelFlood_def channel_answer_def bounds_answer_def
      startLiveWeatherUpdates_def stopLiveWeatherUpdates_def loadRiverNetwork_def river_answer_def
      setActiveTool_def togglePrecalculatedFloodZones_def zones_answer_def Let_def flood_map_wf
      split: reply.split outcome.split sum.split
      dest: addSource_wf addOrUpdate_result_wf)

lemma fmap_anim_ops:
  "fmap (togglePlayPause now s) = fmap s" "fmap (animateFrame t s) = fmap s"
  "fmap (seekAnimation x s) = fmap s" "fmap (changeSpeed v s) = fmap s"
  by (simp_all add: togglePlayPause_def animateFrame_def seekAnimation_def changeSpeed_def Let_def
      requestAnimationFrame_def cancelAnimationFrame_def split: option.split)

lemma onMapClick_wf: "map_wf (fmap s) \<Longrightarrow> map_wf (fmap (onMapClick p x y s))"
  by (auto simp: onMapClick_def updatePointsLayer_def setActiveTool_def Let_def addLayer_wf
      split: option.split prompt_reply.split sum.split dest: addSource_wf)

lemma handleDemSelection_wf:
  assumes "map_wf (fmap s)"
  shows "map_wf (fmap (outcome_state (fst (handleDemSelection v s))))"
proof -
  let ?s1 = "stopLiveWeatherUpdates (stopAnimation s)"
  have i1: "map_wf (fmap ?s1)" using stopAnimation_wf[OF assms] by (simp add: stopLiveWeatherUpdates_def)
  let ?s2 = "cleanupMapLayers True (?s1\<lparr>loaderShown := True, selectedDem := Some v\<rparr>)"
  have "map_wf (fmap ?s2)" using i1 by (intro cleanupMapLayers_wf) simp
  moreover have "map_wf (fmap (cleanupMapLayers True (?s1\<lparr>simulationControlsShown := False\<rparr>)))"
    using i1 by (intro cleanupMapLayers_wf) simp
  ultimately show ?thesis
    by (auto simp: handleDemSelection_def Let_def addLayer_wf setTerrain_wf split: sum.split
        dest: addSource_wf)
qed

lemma flood_step_wf: "map_wf (fmap s) \<Longrightarrow> flood_step e s = Some s' \<Longrightarrow> map_wf (fmap s')"
proof (induction e)
  case AnimateClick
  then show ?case by (auto simp: handleAnimateFlood_def stopAnimation_wf)
next
  case (Frame h t)
  then show ?case by (auto simp: run_frame_def fmap_anim_ops split: if_splits)
next
  case ClearClick
  then show ?case by (auto simp: clearAllPoints_def dest: cleanupMapLayers_wf[where b = False])
qed (auto simp: handlers_keep_wf animate_answer_wf fmap_anim_ops onMapClick_wf handleDemSelection_wf)

lemma flood_reach_wf: "flood_reach s \<Longrightarrow> map_wf (fmap s)"
  by (induction rule: flood_reach.induct) (auto simp: flood_init_def intro: flood_step_wf)

section \<open>Runs and refreshes\<close>

lemma flood_run_reach: "flood_reach s \<Longrightarrow> flood_run es s = Some s' \<Longrightarrow> flood_reach s'"
proof (induction es arbitrary: s)
  case (Cons e es)
  then show ?case by (auto split: option.splits intro: flood_reach.step)
qed simp

lemma play_frames_idle: "rafPending s = [] \<Longrightarrow> play_frames n dt s = Some s"
  by (cases n) simp_all

lemma play_frames_finish:
  assumes "anim_inv s" "isPlaying (anim s)" "0 < dt" "0 < speed (anim s)" "0 < duration (anim s)"
    "1 - progress (anim s) \<le> real n * (dt * speed (anim s) / duration (anim s))"
  shows "\<exists>s'. play_frames (Suc n) dt s = Some s' \<and> progress (anim s') = 1 \<and>
              \<not> isPlaying (anim s') \<and> rafPending s' = []"
  using assms
proof (induction n arbitrary: s)
  case n: (0 s)
  from n.prems(1,2) obtain h where pend: "rafPending s = [h]"
    by (auto simp: anim_inv_def split: option.splits)
  let ?t = "lastTimestamp (anim s) + dt"
  have run: "run_frame h ?t s = Some (animateFrame ?t (s\<lparr>rafPending := []\<rparr>))"
    using pend by (simp add: run_frame_def)
  have "1 \<le> progress (anim s)" using n.prems(6) by simp
  moreover have "0 \<le> dt * speed (anim s) / duration (anim s)" using n.prems(3-5) by simp
  ultimately have "1 \<le> progress (anim s) + (?t - lastTimestamp (anim s)) * speed (anim s) / duration (anim s)"
    by simp
  from frame_finish[OF n.prems(1) run this] pend run show ?case by simp
next
  case n: (Suc m s)
  from n.prems(1,2) obtain h where pend: "rafPending s = [h]"
    by (auto simp: anim_inv_def split: option.splits)
  let ?t = "lastTimestamp (anim s) + dt"
  let ?d = "dt * speed (anim s) / duration (anim s)"
  let ?s1 = "animateFrame ?t (s\<lparr>rafPending := []\<rparr>)"
  have run: "run_frame h ?t s = Some ?s1" using pend by (simp add: run_frame_def)
  have step: "play_frames (Suc (Suc m)) dt s = play_frames (Suc m) dt ?s1" using run pend by simp
  have delta: "(?t - lastTimestamp (anim s)) * speed (anim s) / duration (anim s) = ?d" by simp
  show ?case
  proof (cases "1 \<le> progress (anim s) + ?d")
    case True
    with frame_finish[OF n.prems(1) run] delta have "rafPending ?s1 = [] \<and> progress (anim ?s1) = 1 \<and>
        \<not> isPlaying (anim ?s1)" by simp
    with step play_frames_idle show ?thesis by auto
  next
    case False
    with frame_continue[OF n.prems(1) run] delta n.prems(2)
    have c: "anim ?s1 = (anim s)\<lparr>lastTimestamp := ?t, animationFrameId := Some (rafNext s),
                                 progress := progress (anim s) + ?d\<rparr>"
      and i: "anim_inv ?s1" "isPlaying (anim ?s1)" by simp_all
    have "1 - progress (anim s) \<le> ?d + real m * ?d" using n.prems(6) by (simp add: distrib_right add_divide_distrib)
    then have "1 - progress (anim ?s1) \<le> real m * (dt * speed (anim ?s1) / duration (anim ?s1))"
      using c by simp
    with n.IH[OF i] n.prems(3-5) c step show ?thesis by simp
  qed
qed

section \<open>Result layers without the river network\<close>

lemma has_layer_hideLayer [simp]: "has_layer (hideLayer l src m) j = (has_layer m j \<and> j \<noteq> l)"
  by (auto simp: hideLayer_def has_layer_def layer_ids_def)

lemma fold_remove_source_if_layers [simp]: "m_layers (fold remove_source_if ss m) = m_layers m"
  by (induction ss arbitrary: m) auto

lemma addSource_layers: "addSource s m = Inr m' \<Longrightarrow> has_layer m' j = has_layer m j"
  by (auto simp: addSource_def has_layer_def layer_ids_def split: if_splits)

lemma add_before_river:
  "\<not> has_layer m RIVER_LAYER_ID \<Longrightarrow> has_layer (addLayer ly (river_anchor fsym) m) j = has_layer m j"
  by (auto simp: has_layer_addLayer river_anchor_def RIVER_LAYER_ID_def)

lemma no_river_no_result:
  assumes "\<not> has_layer m RIVER_LAYER_ID"
  shows "\<not> has_layer (outcome_state (addOrUpdate2DLayer l src fsym m)) l"
    "\<not> has_layer (outcome_state (addOrUpdate3DLayer l src fsym m)) l"
    "fmap s = m \<Longrightarrow> \<not> has_layer (fmap (outcome_state (addAnimatedWaterSurface s))) WATER_ANIMATION_LAYER_ID"
  using assms
  by (auto simp: addOrUpdate2DLayer_def addOrUpdate3DLayer_def addAnimatedWaterSurface_def Let_def
      add_before_river addSource_layers split: sum.split)

lemma clear_points_river:
  "\<not> has_layer (fmap (clearAllPoints s)) RIVER_LAYER_ID \<and>
   loadRiverDisabled (clearAllPoints s) = loadRiverDisabled s"
proof -
  have "RIVER_LAYER_ID \<in> set cleanup_layers" by (simp add: cleanup_layers_def)
  then show ?thesis
    by (auto simp: clearAllPoints_def cleanupMapLayers_def Let_def has_layer_def layer_ids_def
        stopAnimation_def cancelAnimationFrame_def split: option.split)
qed

section \<open>The example pages\<close>

lemmas page_simps = page0_def flood_init_def empty_style_def first_symbol_id_def handleAnimateFlood_def
  animate_answer_def addAnimatedWaterSurface_def hideLayer_def map_defs layer_ids_def river_anchor_def
  raster_layer_def togglePlayPause_def requestAnimationFrame_def frame_truthy_def flood_ids Let_def
  run_frame_def animateFrame_def updateAnimationVisuals_def cancelAnimationFrame_def

lemma page0_reach: "flood_reach page0"
  unfolding page0_def by (rule flood_reach.init) (simp add: empty_style_def map_wf_def layer_ids_def)

lemma playing_page_run: "flood_run [AnimateClick, AnimateAnswer (FetchOk ()) 0] page0 = Some playing_page"
  by (simp add: playing_page_def page_simps)

lemma playing_page_reach: "flood_reach playing_page"
  by (rule flood_run_reach [OF page0_reach playing_page_run])

lemma playing_page_fields:
  "isPlaying (anim playing_page)" "progress (anim playing_page) = 0" "speed (anim playing_page) = 1"
  "lastTimestamp (anim playing_page) = 0" "duration (anim playing_page) = 15000"
  "rafPending playing_page = [1]" "rafNext playing_page = 2"
  by (simp_all add: playing_page_def page_simps)

lemma finished_page_run: "run_frame 1 20000 playing_page = Some finished_page"
  by (simp add: finished_page_def playing_page_def page_simps)

lemma finished_page_reach: "flood_reach finished_page"
  by (rule flood_reach.step [OF playing_page_reach, of "Frame 1 20000"]) (use finished_page_run in simp)

lemma finished_page_fields:
  "\<not> isPlaying (anim finished_page)" "animateBtnStop finished_page" "animationFrameId (anim finished_page) = None"
  by (simp_all add: finished_page_def playing_page_def page_simps)

section \<open>Properties of the flood animation\<close>

text \<open>
  In every reachable state of the flood viewer the animation's progress is at
  most 1, whatever the frame timestamps, speeds and seek positions were.
\<close>

theorem flood_progress_at_most_one: "flood_reach s \<Longrightarrow> progress (anim s) \<le> 1"
  using flood_reach_anim_inv by (simp add: anim_inv_def)

text \<open>
  In every reachable state at most one animation frame is queued, and one is
  queued exactly while the animation plays: no stale frame survives a pause or a stop.
\<close>

theorem single_frame_queued:
  "flood_reach s \<Longrightarrow> length (rafPending s) \<le> 1 \<and> (isPlaying (anim s) \<longleftrightarrow> rafPending s \<noteq> [])"
  by (drule flood_reach_anim_inv) (auto simp: anim_inv_def split: option.splits)

text \<open>
  C25: a frame whose advance reaches progress 1 sets the progress to exactly 1, stops
  playing and leaves no frame queued, so no later frame callback runs: one stop signal.
\<close>

theorem finishing_frame_stops:
  assumes "flood_reach s" and "run_frame h t s = Some s'"
    and "1 \<le> progress (anim s) + (t - lastTimestamp (anim s)) * speed (anim s) / duration (anim s)"
  shows "progress (anim s') = 1 \<and> \<not> isPlaying (anim s') \<and> rafPending s' = [] \<and>
         (\<forall>h' t'. run_frame h' t' s' = None)"
  using frame_finish [OF flood_reach_anim_inv [OF assms(1)] assms(2,3)] by (simp add: run_frame_def)

text \<open>
  A frame that does not reach 1 advances the progress by
  \<open>(timestamp - lastTimestamp) * speed / duration\<close> (monotonically when time moves
  forward at a non-negative speed), records the timestamp and queues the next frame.
\<close>

theorem frame_advances:
  assumes "flood_reach s" and "run_frame h t s = Some s'"
    and "progress (anim s) + (t - lastTimestamp (anim s)) * speed (anim s) / duration (anim s) < 1"
  shows "progress (anim s') = progress (anim s) + (t - lastTimestamp (anim s)) * speed (anim s) / duration (anim s) \<and>
         lastTimestamp (anim s') = t \<and> isPlaying (anim s') \<and> rafPending s' = [rafNext s] \<and>
         (0 \<le> speed (anim s) \<and> 0 < duration (anim s) \<and> lastTimestamp (anim s) \<le> t \<longrightarrow>
            progress (anim s) \<le> progress (anim s'))"
  using frame_continue [OF flood_reach_anim_inv [OF assms(1)] assms(2,3)]
    run_frame_queued(1) [OF flood_reach_anim_inv [OF assms(1)] assms(2)] by simp

text \<open>
  C27: an animation that plays at a positive speed finishes: if the display refreshes
  every \<open>dt > 0\<close> ms, at most \<open>n + 1\<close> refreshes bring it to progress 1, stopped with no
  frame queued, for any \<open>n\<close> with \<open>1 - progress \<le> n * dt * speed / duration\<close>.
\<close>

theorem animation_finishes:
  assumes "flood_reach s" "isPlaying (anim s)" "0 < dt" "0 < speed (anim s)" "0 < duration (anim s)"
    "1 - progress (anim s) \<le> real n * (dt * speed (anim s) / duration (anim s))"
  shows "\<exists>s'. play_frames (Suc n) dt s = Some s' \<and> progress (anim s') = 1 \<and>
              \<not> isPlaying (anim s') \<and> rafPending s' = []"
  using play_frames_finish [OF flood_reach_anim_inv [OF assms(1)] assms(2-6)] .

text \<open>
  C28: \<open>handleAnimateFlood\<close> decides between stopping and starting by
  \<open>animationFrameId\<close>, which is \<open>null\<close> whenever the animation is paused or has
  finished.  In those states the button still reads \<open>Stop Animation\<close>, yet a click
  sends a new projection request instead of stopping.
\<close>

theorem stop_button_restarts:
  assumes "flood_reach s" and "\<not> isPlaying (anim s)"
  shows "handleAnimateFlood s = (s\<lparr>loaderShown := True\<rparr>, True)"
  using flood_reach_anim_inv [OF assms(1)] assms(2)
  by (simp add: anim_inv_def handleAnimateFlood_def frame_truthy_def)

section \<open>Properties of the result layers\<close>

text \<open>
  C29: every result layer is added before \<open>RIVER_LAYER_ID || firstSymbolId\<close>, which
  is always \<open>river-layer\<close>.  Without the river network on the map, the 2D and 3D
  result layers and the water surface of the animation are never added (MapLibre
  refuses a layer before a missing one), and a previous result is removed.
\<close>

theorem results_need_river:
  assumes "\<not> has_layer (fmap s) RIVER_LAYER_ID"
  shows "\<not> has_layer (outcome_state (addOrUpdate2DLayer l src fsym (fmap s))) l \<and>
         \<not> has_layer (outcome_state (addOrUpdate3DLayer l src fsym (fmap s))) l \<and>
         \<not> has_layer (fmap (outcome_state (addAnimatedWaterSurface s))) WATER_ANIMATION_LAYER_ID"
  using no_river_no_result [OF assms] by simp

text \<open>
  C30: \<open>Clear Points\<close> calls \<open>cleanupMapLayers(false)\<close>, which also removes the river
  network, while \<open>Load River Network\<close> stays disabled; after it a projection's
  answer never shows the flood layer.
\<close>

theorem clear_points_drops_river:
  "\<not> has_layer (fmap (clearAllPoints s)) RIVER_LAYER_ID \<and>
   loadRiverDisabled (clearAllPoints s) = loadRiverDisabled s \<and>
   \<not> has_layer (fmap (project_answer r (handleProjectFlood (clearAllPoints s)))) GENERAL_FLOOD_LAYER_ID"
proof -
  have "\<not> has_layer (fmap (handleProjectFlood (clearAllPoints s))) RIVER_LAYER_ID"
    using clear_points_river by (simp add: handleProjectFlood_def)
  then show ?thesis
    using clear_points_river no_river_no_result(1)
    by (auto simp: project_answer_def handleProjectFlood_def Let_def split: reply.split)
qed

text \<open>
  Seeking puts the progress in [0, 1] and the progress bar at the same fraction.
\<close>

theorem seek_clamps:
  "0 \<le> progress (anim (seekAnimation x s)) \<and> progress (anim (seekAnimation x s)) \<le> 1 \<and>
   progressBarWidth (seekAnimation x s) = progress (anim (seekAnimation x s)) * 100"
  by (simp add: seekAnimation_def updateAnimationVisuals_def Let_def)

text \<open>
  A map click with a tool active records a point for a non-negative rate (negated
  for an outflow) and turns the tool off; a negative or unreadable rate is refused with
  the tool left on; cancelling the prompt turns the tool off.  A rate of 0 is accepted,
  although the alert asks for a positive number.
\<close>

theorem map_click_points:
  assumes "activeTool s = Some t"
  shows "points (onMapClick p x y s) =
           (case p of Entered (Some r) \<Rightarrow>
              if r < 0 then points s
              else points s @ [\<lparr>pt_lon = x, pt_lat = y, pt_rate = (if t = Outflow then - r else r)\<rparr>]
            | _ \<Rightarrow> points s) \<and>
         activeTool (onMapClick p x y s) =
           (case p of Cancelled \<Rightarrow> None | Entered None \<Rightarrow> Some t
            | Entered (Some r) \<Rightarrow> if r < 0 then Some t else None)"
  using assms
  by (auto simp: onMapClick_def setActiveTool_def updatePointsLayer_def Let_def
      split: prompt_reply.split option.split sum.split)

text \<open>
  The flood viewer's map stays well formed in every reachable state: distinct
  source and layer ids, every layer's source present.
\<close>

theorem flood_map_well_formed: "flood_reach s \<Longrightarrow> map_wf (fmap s)"
  by (rule flood_reach_wf)

section \<open>Witnesses\<close>

theorem flood_progress_at_most_one_witness:
  "flood_reach finished_page \<and> progress (anim finished_page) \<le> 1"
  using flood_progress_at_most_one [OF finished_page_reach] finished_page_reach by simp

theorem single_frame_queued_witness:
  "flood_reach playing_page \<and> length (rafPending playing_page) \<le> 1 \<and> rafPending playing_page \<noteq> []"
  using single_frame_queued [OF playing_page_reach] playing_page_reach playing_page_fields by simp

theorem finishing_frame_stops_witness:
  "flood_reach playing_page \<and> run_frame 1 20000 playing_page = Some finished_page \<and>
   progress (anim finished_page) = 1 \<and> \<not> isPlaying (anim finished_page) \<and> rafPending finished_page = []"
proof -
  have "1 \<le> progress (anim playing_page) + (20000 - lastTimestamp (anim playing_page)) *
          speed (anim playing_page) / duration (anim playing_page)"
    by (simp add: playing_page_fields)
  from finishing_frame_stops [OF playing_page_reach finished_page_run this]
  show ?thesis using playing_page_reach finished_page_run by simp
qed

theorem frame_advances_witness:
  "flood_reach playing_page \<and> run_frame 1 7500 playing_page = Some (the (run_frame 1 7500 playing_page)) \<and>
   progress (anim (the (run_frame 1 7500 playing_page))) = 1 / 2"
proof -
  have run: "run_frame 1 7500 playing_page = Some (the (run_frame 1 7500 playing_page))"
    by (simp add: playing_page_def page_simps)
  have "progress (anim playing_page) + (7500 - lastTimestamp (anim playing_page)) *
          speed (anim playing_page) / duration (anim playing_page) < 1"
    by (simp add: playing_page_fields)
  from frame_advances [OF playing_page_reach run this] playing_page_fields playing_page_reach run
  show ?thesis by simp
qed

theorem animation_finishes_witness:
  "\<exists>s'. play_frames 4 5000 playing_page = Some s' \<and> progress (anim s') = 1 \<and> \<not> isPlaying (anim s')"
proof -
  have "1 - progress (anim playing_page) \<le> real 3 * (5000 * speed (anim playing_page) / duration (anim playing_page))"
    by (simp add: playing_page_fields)
  from animation_finishes [OF playing_page_reach playing_page_fields(1) _ _ _ this]
  show ?thesis by (auto simp: playing_page_fields)
qed

theorem stop_button_restarts_witness:
  "flood_reach finished_page \<and> animateBtnStop finished_page \<and> \<not> isPlaying (anim finished_page) \<and>
   snd (handleAnimateFlood finished_page) \<and> animateBtnStop (fst (handleAnimateFlood finished_page))"
  using stop_button_restarts [OF finished_page_reach finished_page_fields(1)]
    finished_page_reach finished_page_fields by simp

theorem results_need_river_witness:
  "\<not> has_layer (fmap page0) RIVER_LAYER_ID \<and>
   \<not> has_layer (outcome_state (addOrUpdate2DLayer GENERAL_FLOOD_LAYER_ID GENERAL_FLOOD_SOURCE_ID None (fmap page0)))
      GENERAL_FLOOD_LAYER_ID"
proof -
  have "\<not> has_layer (fmap page0) RIVER_LAYER_ID" by (simp add: page_simps)
  with results_need_river [OF this] show ?thesis by simp
qed

theorem map_click_points_witness:
  "points (onMapClick (Entered (Some 150)) 1 2 (page0\<lparr>activeTool := Some Outflow\<rparr>)) =
     [\<lparr>pt_lon = 1, pt_lat = 2, pt_rate = - 150\<rparr>] \<and>
   activeTool (onMapClick (Entered (Some 150)) 1 2 (page0\<lparr>activeTool := Some Outflow\<rparr>)) = None"
  using map_click_points [of "page0\<lparr>activeTool := Some Outflow\<rparr>" Outflow "Entered (Some 150)" 1 2]
  by (simp add: page0_def flood_init_def)

theorem flood_map_well_formed_witness:
  "flood_reach finished_page \<and> map_wf (fmap finished_page)"
  using flood_map_well_formed [OF finished_page_reach] finished_page_reach by simp

end
