(* ===== verification/PointTools.thy ===== *)
theory PointTools
  imports Profile
begin

text \<open>
  The point-cloud inspector of \<open>src/static/js/point.js\<close>: the Three.js scene as a
  store of numbered objects (markers, lines and point clouds; the camera, lights, the
  snap indicator and the hover marker are fixed and kept as flags), the variables
  \<open>activeTool\<close>, \<open>measurementState\<close>, \<open>profileState\<close>, \<open>pointCloud\<close> and
  \<open>currentPointCloudData\<close>, and the DOM flags the handlers set.  The tool handlers
  (\<open>toggleTool\<close>, the canvas click, double-click and mouse-move handlers, the clear
  functions and \<open>generateProfile\<close>) are modelled completely;
  \<open>handleLayerChange\<close> is split at its awaits into the change step, the step that
  adds the cloud once the positions arrive, and the step after the colour buffers.
  The raycast is an input (the point hit, if any); camera moves, materials, colours
  and the chart's drawing are rendering.
\<close>

section \<open>State\<close>

datatype ptool = PMeasure | PProfile

type_synonym vec3 = "real \<times> real \<times> real"

datatype sobj = Marker ptool vec3 | Line ptool "vec3 list" | Cloud string

record pcstate =
  pc_activeTool :: "ptool option"
  pointCloud :: "nat option"
  pc_meta :: "string option"
  ms_points :: "vec3 list"
  ms_markers :: "nat list"
  ms_line :: "nat option"
  pr_points :: "vec3 list"
  pr_markers :: "nat list"
  pr_line :: "nat option"
  scene :: "(nat \<times> sobj) list"
  nextObj :: nat
  snapVisible :: bool
  snapPos :: vec3
  orbitEnabled :: bool
  hintShown :: bool
  infoShown :: bool
  infoValues :: "(real \<times> real \<times> real) option"
  popupShown :: bool
  statsShown :: "pstats option"
  chartData :: "(real \<times> real) list option"
  probeVisible :: bool
  controlsEnabled :: bool
  infoPanelShown :: bool
  pc_loader :: bool

section \<open>The scene\<close>

text \<open>\<open>scene.add(obj)\<close>: the new object gets the next number.\<close>

definition scene_add :: "sobj \<Rightarrow> pcstate \<Rightarrow> pcstate" where
  "scene_add obj s = s\<lparr>scene := scene s @ [(nextObj s, obj)], nextObj := Suc (nextObj s)\<rparr>"

definition scene_remove :: "nat \<Rightarrow> pcstate \<Rightarrow> pcstate" where
  "scene_remove i s = s\<lparr>scene := filter (\<lambda>e. fst e \<noteq> i) (scene s)\<rparr>"

text \<open>\<open>addMarker(position, markerArray)\<close>, with the array named by the tool.\<close>

definition addMarker :: "ptool \<Rightarrow> vec3 \<Rightarrow> pcstate \<Rightarrow> pcstate" where
  "addMarker t p s =
     (let i = nextObj s; s1 = scene_add (Marker t p) s in
      case t of PMeasure \<Rightarrow> s1\<lparr>ms_markers := ms_markers s1 @ [i]\<rparr>
              | PProfile \<Rightarrow> s1\<lparr>pr_markers := pr_markers s1 @ [i]\<rparr>)"

text \<open>\<open>drawLine(points)\<close> adds the line; the caller stores the number.\<close>

definition drawLine :: "ptool \<Rightarrow> vec3 list \<Rightarrow> pcstate \<Rightarrow> pcstate \<times> nat" where
  "drawLine t pts s = (scene_add (Line t pts) s, nextObj s)"

section \<open>Clearing\<close>

definition clearMeasurement :: "pcstate \<Rightarrow> pcstate" where
  "clearMeasurement s =
     (let s1 = fold scene_remove (ms_markers s) s;
          s2 = (case ms_line s1 of Some l \<Rightarrow> scene_remove l s1 | None \<Rightarrow> s1);
          s3 = s2\<lparr>ms_points := [], ms_markers := [], ms_line := None\<rparr> in
      if pc_activeTool s3 \<noteq> Some PProfile then s3\<lparr>infoShown := False\<rparr> else s3)"

definition clearProfile :: "pcstate \<Rightarrow> pcstate" where
  "clearProfile s =
     (let s1 = fold scene_remove (pr_markers s) s;
          s2 = (case pr_line s1 of Some l \<Rightarrow> scene_remove l s1 | None \<Rightarrow> s1);
          s3 = s2\<lparr>probeVisible := False, pr_points := [], pr_markers := [], pr_line := None\<rparr> in
      if pc_activeTool s3 \<noteq> Some PMeasure then s3\<lparr>infoShown := False\<rparr> else s3)"

definition clearAllToolMarkings :: "pcstate \<Rightarrow> pcstate" where
  "clearAllToolMarkings s = clearProfile (clearMeasurement s)"

section \<open>Tools\<close>

text \<open>\<open>toggleTool(toolName)\<close>, \<open>None\<close> being \<open>null\<close>; \<open>updateToolButtons\<close> only
  sets CSS classes.\<close>

definition toggleTool :: "ptool option \<Rightarrow> pcstate \<Rightarrow> pcstate" where
  "toggleTool t s =
     (let s1 = (if pc_activeTool s = t then s\<lparr>pc_activeTool := None\<rparr>
                else (let s' = (if pc_activeTool s \<noteq> None then clearAllToolMarkings s else s) in
                      s'\<lparr>pc_activeTool := t\<rparr>));
          s2 = (if pc_activeTool s1 = None then s1\<lparr>snapVisible := False\<rparr> else s1);
          act = (pc_activeTool s2 \<noteq> None);
          s3 = s2\<lparr>orbitEnabled := \<not> act\<rparr> in
      if act then s3\<lparr>hintShown := True\<rparr> else s3\<lparr>hintShown := False, infoShown := False\<rparr>)"

text \<open>\<open>onCanvasMouseMove\<close>, with the first point the raycast hits.\<close>

definition onCanvasMouseMove :: "vec3 option \<Rightarrow> pcstate \<Rightarrow> pcstate" where
  "onCanvasMouseMove hit s =
     (if pc_activeTool s = None \<or> pointCloud s = None then s\<lparr>snapVisible := False\<rparr>
      else case hit of
             Some p \<Rightarrow> s\<lparr>snapPos := p, snapVisible := True\<rparr>
           | None \<Rightarrow> s\<lparr>snapVisible := False\<rparr>)"

definition dist3 :: "vec3 \<Rightarrow> vec3 \<Rightarrow> real" where
  "dist3 p q = sqrt ((fst q - fst p)\<^sup>2 + (fst (snd q) - fst (snd p))\<^sup>2 + (snd (snd q) - snd (snd p))\<^sup>2)"

definition hdist :: "vec3 \<Rightarrow> vec3 \<Rightarrow> real" where
  "hdist p q = sqrt ((fst q - fst p)\<^sup>2 + (fst (snd q) - fst (snd p))\<^sup>2)"

definition updateMeasurementDisplay :: "pcstate \<Rightarrow> pcstate" where
  "updateMeasurementDisplay s =
     (let p1 = ms_points s ! 0; p2 = ms_points s ! 1 in
      s\<lparr>infoShown := True,
        infoValues := Some (dist3 p1 p2, hdist p1 p2, \<bar>snd (snd p2) - snd (snd p1)\<bar>)\<rparr>)"

definition handleMeasureClick :: "vec3 \<Rightarrow> pcstate \<Rightarrow> pcstate" where
  "handleMeasureClick p s =
     (let s1 = (if 2 \<le> length (ms_points s) then clearMeasurement s else s);
          s2 = addMarker PMeasure p s1;
          s3 = s2\<lparr>ms_points := ms_points s2 @ [p]\<rparr> in
      if length (ms_points s3) = 2 then
        (let r = drawLine PMeasure (ms_points s3) s3;
             s4 = (fst r)\<lparr>ms_line := Some (snd r)\<rparr> in
         toggleTool None (updateMeasurementDisplay s4))
      else s3)"

definition handleProfileClick :: "vec3 \<Rightarrow> pcstate \<Rightarrow> pcstate" where
  "handleProfileClick p s =
     (let s1 = addMarker PProfile p s;
          s2 = s1\<lparr>pr_points := pr_points s1 @ [p]\<rparr>;
          s3 = (case pr_line s2 of Some l \<Rightarrow> scene_remove l s2 | None \<Rightarrow> s2) in
      if 2 \<le> length (pr_points s3) then
        (let r = drawLine PProfile (pr_points s3) s3 in (fst r)\<lparr>pr_line := Some (snd r)\<rparr>)
      else s3)"

text \<open>\<open>onCanvasClick\<close>, for the mouse button pressed (0 is the main button).\<close>

definition onCanvasClick :: "nat \<Rightarrow> pcstate \<Rightarrow> pcstate" where
  "onCanvasClick button s =
     (if button \<noteq> 0 \<or> pc_activeTool s = None \<or> pointCloud s = None \<or> \<not> snapVisible s then s
      else case pc_activeTool s of
             Some PMeasure \<Rightarrow> handleMeasureClick (snapPos s) s
           | Some PProfile \<Rightarrow> handleProfileClick (snapPos s) s
           | None \<Rightarrow> s)"

text \<open>\<open>displayProfileChart\<close>: the popup, the statistics of \<open>calculateProfileStats\<close>
  (\<open>Profile.calculateProfileStats3D\<close>, on (elevation, distance) samples) and the
  chart's data.\<close>

definition displayProfileChart :: "(real \<times> real) list \<Rightarrow> pcstate \<Rightarrow> pcstate" where
  "displayProfileChart data s =
     (let s1 = s\<lparr>popupShown := True\<rparr>;
          s2 = (case calculateProfileStats3D data of Some st \<Rightarrow> s1\<lparr>statsShown := Some st\<rparr> | None \<Rightarrow> s1) in
      s2\<lparr>chartData := Some data\<rparr>)"

definition generateProfile :: "pcstate \<Rightarrow> pcstate" where
  "generateProfile s =
     (if length (pr_points s) < 2 then s
      else toggleTool None (clearProfile (displayProfileChart (profile_samples3d (pr_points s)) s)))"

definition onCanvasDoubleClick :: "pcstate \<Rightarrow> pcstate" where
  "onCanvasDoubleClick s =
     (if pc_activeTool s = None then s
      else if pc_activeTool s = Some PProfile \<and> 2 \<le> length (pr_points s) then generateProfile s
      else s)"

text \<open>The close button of the profile popup.\<close>

definition closeProfilePopup :: "pcstate \<Rightarrow> pcstate" where
  "closeProfilePopup s = s\<lparr>popupShown := False, probeVisible := False, chartData := None\<rparr>"

section \<open>Loading a point cloud\<close>

definition clearScene :: "pcstate \<Rightarrow> pcstate" where
  "clearScene s =
     (let s1 = (case pointCloud s of
                  Some c \<Rightarrow> (scene_remove c s)\<lparr>pointCloud := None, pc_meta := None\<rparr>
                | None \<Rightarrow> s);
          s2 = (clearAllToolMarkings s1)\<lparr>controlsEnabled := False, infoPanelShown := False\<rparr> in
      if pc_activeTool s2 \<noteq> None then toggleTool None s2 else s2)"

text \<open>\<open>handleLayerChange\<close> up to its first \<open>await\<close>: the state and whether the
  metadata request was sent.\<close>

definition handleLayerChange :: "string \<Rightarrow> pcstate \<Rightarrow> pcstate \<times> bool" where
  "handleLayerChange filename s =
     (let s1 = clearScene s in
      if filename = [] then (s1, False) else (s1\<lparr>pc_loader := True\<rparr>, True))"

text \<open>Metadata and position buffer of \<open>filename\<close> settled: on success
  \<open>createPointCloudFromStream\<close> adds the cloud; a failure is caught and clears the
  scene.\<close>

definition cloud_answer :: "string \<Rightarrow> unit reply \<Rightarrow> pcstate \<Rightarrow> pcstate" where
  "cloud_answer filename r s =
     (case r of
        FetchFailed _ \<Rightarrow> (clearScene s)\<lparr>pc_loader := False\<rparr>
      | FetchOk _ \<Rightarrow> (let i = nextObj s in (scene_add (Cloud filename) s)\<lparr>pointCloud := Some i,
                                                                         pc_meta := Some filename\<rparr>))"

text \<open>The colour buffers settled: on success \<open>updateUIOnLoad\<close> enables the controls.\<close>

definition colors_answer :: "bool \<Rightarrow> pcstate \<Rightarrow> pcstate" where
  "colors_answer ok s =
     (if ok then s\<lparr>controlsEnabled := True, infoPanelShown := True, pc_loader := False\<rparr>
      else (clearScene s)\<lparr>pc_loader := False\<rparr>)"

section \<open>The inspector as an event system\<close>

datatype pcevent =
    ToolButton ptool | ClearToolsButton | MouseMove "vec3 option" | CanvasClick nat
  | CanvasDblClick | ClosePopup | LayerSelect string | CloudReply string "unit reply"
  | ColorsReply bool

fun pc_step :: "pcevent \<Rightarrow> pcstate \<Rightarrow> pcstate" where
  "pc_step (ToolButton t) s = toggleTool (Some t) s"
| "pc_step ClearToolsButton s = clearAllToolMarkings s"
| "pc_step (MouseMove h) s = onCanvasMouseMove h s"
| "pc_step (CanvasClick b) s = onCanvasClick b s"
| "pc_step CanvasDblClick s = onCanvasDoubleClick s"
| "pc_step ClosePopup s = closeProfilePopup s"
| "pc_step (LayerSelect f) s = fst (handleLayerChange f s)"
| "pc_step (CloudReply f r) s = cloud_answer f r s"
| "pc_step (ColorsReply ok) s = colors_answer ok s"

definition pc_init :: pcstate where
  "pc_init = \<lparr>pc_activeTool = None, pointCloud = None, pc_meta = None,
     ms_points = [], ms_markers = [], ms_line = None, pr_points = [], pr_markers = [], pr_line = None,
     scene = [], nextObj = 0, snapVisible = False, snapPos = (0, 0, 0), orbitEnabled = True,
     hintShown = False, infoShown = False, infoValues = None, popupShown = False, statsShown = None,
     chartData = None, probeVisible = False, controlsEnabled = False, infoPanelShown = False,
     pc_loader = False\<rparr>"

inductive pc_reach :: "pcstate \<Rightarrow> bool" where
  init: "pc_reach pc_init"
| step: "pc_reach s \<Longrightarrow> pc_reach (pc_step e s)"

fun pc_run :: "pcevent list \<Rightarrow> pcstate \<Rightarrow> pcstate" where
  "pc_run [] s = s"
| "pc_run (e # es) s = pc_run es (pc_step e s)"

text \<open>No measurement of two points is kept and the measurement panel is hidden.\<close>

definition ms_inv :: "pcstate \<Rightarrow> bool" where
  "ms_inv s \<longleftrightarrow> length (ms_points s) \<le> 1 \<and> \<not> infoShown s"

text \<open>A loaded cloud on which the measure tool picked (0, 0, 0) and (3, 4, 12).\<close>

definition measured_page :: pcstate where
  "measured_page = pc_run [LayerSelect ''a.las'', CloudReply ''a.las'' (FetchOk ()), ColorsReply True,
     ToolButton PMeasure, MouseMove (Some (0, 0, 0)), CanvasClick 0, MouseMove (Some (3, 4, 12)),
     CanvasClick 0] pc_init"

text \<open>An object of the scene that no variable of the page refers to (an id below the
  next one, not the cloud, not a marker or line of a tool): no handler can remove it.\<close>

definition unreferenced :: "nat \<Rightarrow> pcstate \<Rightarrow> bool" where
  "unreferenced i s \<longleftrightarrow> i < nextObj s \<and> pointCloud s \<noteq> Some i \<and> i \<notin> set (ms_markers s) \<and>
     ms_line s \<noteq> Some i \<and> i \<notin> set (pr_markers s) \<and> pr_line s \<noteq> Some i"

definition kept :: "nat \<Rightarrow> sobj \<Rightarrow> pcstate \<Rightarrow> bool" where
  "kept i ob s \<longleftrightarrow> unreferenced i s \<and> (i, ob) \<in> set (scene s)"

section \<open>The measurement panel\<close>

lemma fold_scene_remove [simp]:
  "fold scene_remove is s = s\<lparr>scene := filter (\<lambda>e. fst e \<notin> set is) (scene s)\<rparr>"
  by (induction "is" arbitrary: s) (simp_all add: scene_remove_def filter_filter conj_commute)

lemma clear_fields:
  "ms_points (clearMeasurement s) = []" "pr_points (clearProfile s) = []"
  "ms_points (clearProfile s) = ms_points s"
  "pc_activeTool (clearMeasurement s) = pc_activeTool s" "pc_activeTool (clearProfile s) = pc_activeTool s"
  "infoShown (clearMeasurement s) = (infoShown s \<and> pc_activeTool s = Some PProfile)"
  "infoShown (clearProfile s) = (infoShown s \<and> pc_activeTool s = Some PMeasure)"
  by (auto simp: clearMeasurement_def clearProfile_def Let_def scene_remove_def split: option.splits if_splits)

lemma clearAll_fields [simp]:
  "ms_points (clearAllToolMarkings s) = []" "pr_points (clearAllToolMarkings s) = []"
  "\<not> infoShown (clearAllToolMarkings s)"
  "pc_activeTool (clearAllToolMarkings s) = pc_activeTool s"
  by (auto simp: clearAllToolMarkings_def clear_fields)

lemma toggleTool_fields:
  "\<not> infoShown (toggleTool t s) \<or> infoShown s"
  "ms_points (toggleTool t s) = ms_points s \<or> ms_points (toggleTool t s) = []"
  by (simp_all add: toggleTool_def Let_def)

lemma toggleTool_off_clears:
  "pc_activeTool s \<noteq> None \<Longrightarrow> ms_points (toggleTool None s) = [] \<and> \<not> infoShown (toggleTool None s) \<and>
     pc_activeTool (toggleTool None s) = None"
  by (auto simp: toggleTool_def Let_def)

lemma toggleTool_ms_inv: "ms_inv s \<Longrightarrow> ms_inv (toggleTool t s)"
  using toggleTool_fields [of t s] by (auto simp: ms_inv_def)

lemma addMarker_fields [simp]:
  "ms_points (addMarker k p s) = ms_points s" "pr_points (addMarker k p s) = pr_points s"
  "infoShown (addMarker k p s) = infoShown s" "pc_activeTool (addMarker k p s) = pc_activeTool s"
  by (simp_all add: addMarker_def scene_add_def Let_def split: ptool.split)

lemma handleMeasureClick_ms_inv:
  assumes "ms_inv s" and "pc_activeTool s = Some PMeasure"
  shows "ms_inv (handleMeasureClick p s)"
proof -
  let ?s3 = "(addMarker PMeasure p s)\<lparr>ms_points := ms_points s @ [p]\<rparr>"
  have pre: "\<not> 2 \<le> length (ms_points s)" using assms(1) by (simp add: ms_inv_def)
  show ?thesis
  proof (cases "length (ms_points ?s3) = 2")
    case True
    let ?s4 = "(fst (drawLine PMeasure (ms_points ?s3) ?s3))\<lparr>ms_line := Some (snd (drawLine PMeasure (ms_points ?s3) ?s3))\<rparr>"
    have "pc_activeTool (updateMeasurementDisplay ?s4) = Some PMeasure"
      using assms(2) by (simp add: updateMeasurementDisplay_def drawLine_def scene_add_def Let_def)
    then have "ms_inv (toggleTool None (updateMeasurementDisplay ?s4))"
      using toggleTool_off_clears by (simp add: ms_inv_def)
    with True pre show ?thesis by (simp add: handleMeasureClick_def Let_def)
  next
    case False
    with pre assms(1) show ?thesis
      by (cases "ms_points s") (auto simp: handleMeasureClick_def Let_def ms_inv_def)
  qed
qed

lemma handleProfileClick_fields [simp]:
  "ms_points (handleProfileClick p s) = ms_points s" "infoShown (handleProfileClick p s) = infoShown s"
  "pc_activeTool (handleProfileClick p s) = pc_activeTool s"
  by (simp_all add: handleProfileClick_def Let_def drawLine_def scene_add_def scene_remove_def split: option.split)

lemma onCanvasClick_ms_inv:
  assumes "ms_inv s"
  shows "ms_inv (onCanvasClick b s)"
proof (cases "pc_activeTool s")
  case (Some k)
  then show ?thesis
    using assms handleMeasureClick_ms_inv [OF assms]
    by (cases k) (auto simp: onCanvasClick_def ms_inv_def)
qed (use assms in \<open>simp add: onCanvasClick_def\<close>)

lemma generateProfile_ms_inv:
  assumes "ms_inv s"
  shows "ms_inv (generateProfile s)"
proof -
  have "ms_inv (clearProfile (displayProfileChart d s))" for d
    using assms by (simp add: ms_inv_def clear_fields displayProfileChart_def Let_def split: option.split)
  then show ?thesis using assms by (simp add: generateProfile_def toggleTool_ms_inv)
qed

lemma clearScene_ms_inv: "ms_inv (clearScene s)"
proof -
  have "ms_inv ((clearAllToolMarkings s')\<lparr>controlsEnabled := False, infoPanelShown := False\<rparr>)" for s'
    by (simp add: ms_inv_def)
  then show ?thesis by (simp add: clearScene_def Let_def toggleTool_ms_inv)
qed

lemma pc_step_ms_inv: "ms_inv s \<Longrightarrow> ms_inv (pc_step e s)"
proof (induction e)
  case CanvasDblClick
  then show ?case by (simp add: onCanvasDoubleClick_def generateProfile_ms_inv)
next
  case (LayerSelect f)
  then show ?case using clearScene_ms_inv [of s]
    by (simp add: handleLayerChange_def Let_def ms_inv_def)
next
  case (CloudReply f r)
  then show ?case using clearScene_ms_inv [of s]
    by (auto simp: cloud_answer_def ms_inv_def scene_add_def Let_def split: reply.split)
next
  case (ColorsReply ok)
  then show ?case using clearScene_ms_inv [of s] by (simp add: colors_answer_def ms_inv_def)
next
  case (MouseMove h)
  then show ?case by (simp add: ms_inv_def onCanvasMouseMove_def split: option.split)
next
  case ClosePopup
  then show ?case by (simp add: ms_inv_def closeProfilePopup_def)
next
  case ClearToolsButton
  then show ?case by (simp add: ms_inv_def)
qed (simp_all add: toggleTool_ms_inv onCanvasClick_ms_inv)

lemma pc_init_ms_inv: "ms_inv pc_init"
  by (simp add: pc_init_def ms_inv_def)

lemma pc_reach_ms_inv: "pc_reach s \<Longrightarrow> ms_inv s"
  by (induction rule: pc_reach.induct) (simp_all add: pc_init_ms_inv pc_step_ms_inv)

section \<open>Runs and the example pages\<close>

lemma pc_run_reach: "pc_reach s \<Longrightarrow> pc_reach (pc_run es s)"
  by (induction es arbitrary: s) (auto intro: pc_reach.step)

lemmas pc_page_simps = pc_init_def toggleTool_def onCanvasMouseMove_def onCanvasClick_def
  handleMeasureClick_def addMarker_def drawLine_def scene_add_def scene_remove_def
  updateMeasurementDisplay_def clearAllToolMarkings_def clearMeasurement_def clearProfile_def
  handleLayerChange_def clearScene_def cloud_answer_def colors_answer_def Let_def

lemma measured_page_reach: "pc_reach measured_page"
  unfolding measured_page_def by (rule pc_run_reach [OF pc_reach.init])

lemma measured_page_fields: "infoValues measured_page \<noteq> None" "pc_activeTool measured_page = None"
  by (simp_all add: measured_page_def pc_page_simps)

lemma length_cumul3d [simp]: "length (cumul3d d p qs) = length qs"
  by (induction qs arbitrary: d p) (simp_all add: Let_def)

lemma length_profile_samples3d [simp]: "length (profile_samples3d pts) = length pts"
  by (simp add: profile_samples3d_def split: list.split)

lemma stats3d_Some: "2 \<le> length ps \<Longrightarrow> calculateProfileStats3D ps \<noteq> None"
  by (simp add: calculateProfileStats3D_def Let_def split: prod.split)

lemma clear_toggle_chart [simp]:
  "chartData (toggleTool t s) = chartData s" "statsShown (toggleTool t s) = statsShown s"
  "popupShown (toggleTool t s) = popupShown s"
  "chartData (clearProfile s) = chartData s" "statsShown (clearProfile s) = statsShown s"
  "popupShown (clearProfile s) = popupShown s"
  by (simp_all add: toggleTool_def clearAllToolMarkings_def clearMeasurement_def clearProfile_def Let_def
      scene_remove_def split: option.split)

section \<open>Properties of the inspector\<close>

text \<open>
  C34: in every reachable state of the inspector no two-point measurement is kept and
  the measurement panel is hidden: \<open>handleMeasureClick\<close> draws the measurement and
  fills the panel, then its \<open>toggleTool(null)\<close> clears the markings and hides the
  panel again, so a finished measurement is never seen.
\<close>

theorem measurement_never_shown: "pc_reach s \<Longrightarrow> \<not> infoShown s \<and> length (ms_points s) \<le> 1"
  using pc_reach_ms_inv by (simp add: ms_inv_def)

text \<open>
  The second click of a measurement computes the 3D, horizontal and vertical
  distances between the two points, and in the same handler removes both points, the
  markers and the line, hides the panel and switches the tool off.
\<close>

theorem measurement_erased:
  assumes "pc_activeTool s = Some PMeasure" and "ms_points s = [p]"
  shows "infoValues (handleMeasureClick q s) = Some (dist3 p q, hdist p q, \<bar>snd (snd q) - snd (snd p)\<bar>) \<and>
         \<not> infoShown (handleMeasureClick q s) \<and> ms_points (handleMeasureClick q s) = [] \<and>
         ms_markers (handleMeasureClick q s) = [] \<and> ms_line (handleMeasureClick q s) = None \<and>
         pc_activeTool (handleMeasureClick q s) = None"
  using assms by (simp add: pc_page_simps split: option.split)

text \<open>
  C36: a double click with the profile tool and at least two picked points shows the
  popup with the chart of \<open>Profile.profile_samples3d\<close> of the points and, always, the
  statistics \<open>Profile.calculateProfileStats3D\<close> of those samples; the points are then
  cleared and the tool switched off.
\<close>

theorem profile_chart_stats:
  assumes "pc_activeTool s = Some PProfile" and "2 \<le> length (pr_points s)"
  shows "chartData (onCanvasDoubleClick s) = Some (profile_samples3d (pr_points s)) \<and>
         statsShown (onCanvasDoubleClick s) = calculateProfileStats3D (profile_samples3d (pr_points s)) \<and>
         statsShown (onCanvasDoubleClick s) \<noteq> None \<and> popupShown (onCanvasDoubleClick s) \<and>
         pr_points (onCanvasDoubleClick s) = [] \<and> pc_activeTool (onCanvasDoubleClick s) = None"
proof -
  let ?d = "profile_samples3d (pr_points s)"
  obtain st where st: "calculateProfileStats3D ?d = Some st"
    using stats3d_Some [of ?d] assms(2) by auto
  have "pc_activeTool (clearProfile (displayProfileChart ?d s)) = Some PProfile"
    using assms(1) by (simp add: clear_fields displayProfileChart_def Let_def st)
  then have off: "pr_points (toggleTool None (clearProfile (displayProfileChart ?d s))) = [] \<and>
                  pc_activeTool (toggleTool None (clearProfile (displayProfileChart ?d s))) = None"
    by (simp add: toggleTool_def Let_def clear_fields)
  show ?thesis
    using assms st off
    by (simp add: onCanvasDoubleClick_def generateProfile_def displayProfileChart_def Let_def)
qed

lemma kept_scene_add [simp]: "kept i ob s \<Longrightarrow> kept i ob (scene_add x s)"
  by (auto simp: kept_def unreferenced_def scene_add_def)

lemma kept_toggleTool: "kept i ob s \<Longrightarrow> kept i ob (toggleTool t s)"
  by (auto simp: kept_def unreferenced_def toggleTool_def clearAllToolMarkings_def clearMeasurement_def clearProfile_def
      Let_def scene_remove_def split: option.splits)

lemma kept_clearAll: "kept i ob s \<Longrightarrow> kept i ob (clearAllToolMarkings s)"
  by (auto simp: kept_def unreferenced_def clearAllToolMarkings_def clearMeasurement_def clearProfile_def
      Let_def scene_remove_def split: option.splits)

lemma kept_clearMeasurement: "kept i ob s \<Longrightarrow> kept i ob (clearMeasurement s)"
  by (auto simp: kept_def unreferenced_def clearMeasurement_def Let_def scene_remove_def split: option.splits)

lemma kept_clearProfile: "kept i ob s \<Longrightarrow> kept i ob (clearProfile s)"
  by (auto simp: kept_def unreferenced_def clearProfile_def Let_def scene_remove_def split: option.splits)

lemma kept_measure:
  assumes k: "kept i ob s"
  shows "kept i ob (handleMeasureClick p s)"
proof -
  define s1 where "s1 = (if 2 \<le> length (ms_points s) then clearMeasurement s else s)"
  define s3 where "s3 = (addMarker PMeasure p s1)\<lparr>ms_points := ms_points (addMarker PMeasure p s1) @ [p]\<rparr>"
  have k1: "kept i ob s1" using k kept_clearMeasurement by (simp add: s1_def)
  have k3: "kept i ob s3"
    using k1 by (auto simp: s3_def kept_def unreferenced_def addMarker_def scene_add_def Let_def)
  have k4: "kept i ob (updateMeasurementDisplay ((fst (drawLine PMeasure (ms_points s3) s3))\<lparr>ms_line := Some (snd (drawLine PMeasure (ms_points s3) s3))\<rparr>))"
    using k3 by (auto simp: kept_def unreferenced_def drawLine_def scene_add_def updateMeasurementDisplay_def Let_def)
  show ?thesis
    using k3 kept_toggleTool [OF k4]
    unfolding handleMeasureClick_def Let_def s1_def [symmetric] s3_def [symmetric] by simp
qed

lemma kept_profile: "kept i ob s \<Longrightarrow> kept i ob (handleProfileClick p s)"
  by (auto simp: kept_def unreferenced_def handleProfileClick_def addMarker_def drawLine_def
      scene_add_def scene_remove_def Let_def split: option.splits)

lemma kept_click: "kept i ob s \<Longrightarrow> kept i ob (onCanvasClick b s)"
  by (simp add: onCanvasClick_def kept_measure kept_profile split: option.split ptool.split)

lemma kept_dbl: "kept i ob s \<Longrightarrow> kept i ob (onCanvasDoubleClick s)"
proof -
  assume k: "kept i ob s"
  have "kept i ob (displayProfileChart d s)" for d
    using k by (simp add: kept_def unreferenced_def displayProfileChart_def Let_def split: option.split)
  then show ?thesis
    using k by (simp add: onCanvasDoubleClick_def generateProfile_def kept_toggleTool kept_clearProfile)
qed

lemma kept_clearScene:
  assumes k: "kept i ob s"
  shows "kept i ob (clearScene s)"
proof -
  define s1 where "s1 = (case pointCloud s of Some c \<Rightarrow> (scene_remove c s)\<lparr>pointCloud := None, pc_meta := None\<rparr> | None \<Rightarrow> s)"
  have k1: "kept i ob s1"
    using k by (auto simp: s1_def kept_def unreferenced_def scene_remove_def split: option.split)
  have k2: "kept i ob ((clearAllToolMarkings s1)\<lparr>controlsEnabled := False, infoPanelShown := False\<rparr>)"
    using kept_clearAll [OF k1] by (simp add: kept_def unreferenced_def)
  show ?thesis
    using k2 kept_toggleTool [OF k2] unfolding clearScene_def Let_def s1_def [symmetric] by simp
qed

lemma kept_mouse: "kept i ob s \<Longrightarrow> kept i ob (onCanvasMouseMove h s)"
  by (simp add: onCanvasMouseMove_def kept_def unreferenced_def split: option.split)

lemma kept_close: "kept i ob s \<Longrightarrow> kept i ob (closeProfilePopup s)"
  by (simp add: closeProfilePopup_def kept_def unreferenced_def)

lemma kept_step: "kept i ob s \<Longrightarrow> kept i ob (pc_step e s)"
proof (cases e)
  case (LayerSelect f)
  assume "kept i ob s"
  then show ?thesis using kept_clearScene [of i ob s] LayerSelect
    by (simp add: handleLayerChange_def Let_def kept_def unreferenced_def)
next
  case (CloudReply f r)
  assume "kept i ob s"
  then show ?thesis using kept_clearScene [of i ob s] CloudReply
    by (auto simp: cloud_answer_def Let_def kept_def unreferenced_def scene_add_def split: reply.split)
next
  case (ColorsReply ok)
  assume "kept i ob s"
  then show ?thesis using kept_clearScene [of i ob s] ColorsReply
    by (auto simp: colors_answer_def kept_def unreferenced_def)
qed (simp_all add: kept_toggleTool kept_clearAll kept_click kept_dbl kept_mouse kept_close)

lemma kept_run: "kept i ob s \<Longrightarrow> kept i ob (pc_run es s)"
  by (induction es arbitrary: s) (simp_all add: kept_step)

lemma clearMeasurement_refs:
  "ms_markers (clearMeasurement s) = [] \<and> ms_line (clearMeasurement s) = None \<and>
   pr_markers (clearMeasurement s) = pr_markers s \<and> pr_line (clearMeasurement s) = pr_line s \<and>
   pointCloud (clearMeasurement s) = pointCloud s \<and> nextObj (clearMeasurement s) = nextObj s"
  by (simp add: clearMeasurement_def Let_def scene_remove_def split: option.split)

lemma clearProfile_refs:
  "pr_markers (clearProfile s) = [] \<and> pr_line (clearProfile s) = None \<and>
   ms_markers (clearProfile s) = ms_markers s \<and> ms_line (clearProfile s) = ms_line s \<and>
   pointCloud (clearProfile s) = pointCloud s \<and> nextObj (clearProfile s) = nextObj s"
  by (simp add: clearProfile_def Let_def scene_remove_def split: option.split)

lemma clearAll_refs:
  "ms_markers (clearAllToolMarkings s) = [] \<and> ms_line (clearAllToolMarkings s) = None \<and>
   pr_markers (clearAllToolMarkings s) = [] \<and> pr_line (clearAllToolMarkings s) = None \<and>
   pointCloud (clearAllToolMarkings s) = pointCloud s \<and> nextObj (clearAllToolMarkings s) = nextObj s"
  using clearMeasurement_refs [of s] clearProfile_refs [of "clearMeasurement s"]
  by (simp add: clearAllToolMarkings_def)

lemma toggleTool_refs:
  assumes "ms_markers s = [] \<and> ms_line s = None \<and> pr_markers s = [] \<and> pr_line s = None"
  shows "ms_markers (toggleTool t s) = [] \<and> ms_line (toggleTool t s) = None \<and>
         pr_markers (toggleTool t s) = [] \<and> pr_line (toggleTool t s) = None \<and>
         pointCloud (toggleTool t s) = pointCloud s \<and> nextObj (toggleTool t s) = nextObj s"
  using assms clearAll_refs [of s] by (simp add: toggleTool_def Let_def)

lemma clearScene_refs:
  "ms_markers (clearScene s) = [] \<and> ms_line (clearScene s) = None \<and> pr_markers (clearScene s) = [] \<and>
   pr_line (clearScene s) = None \<and> pointCloud (clearScene s) = None \<and> nextObj (clearScene s) = nextObj s"
proof -
  define s1 where "s1 = (case pointCloud s of Some c \<Rightarrow> (scene_remove c s)\<lparr>pointCloud := None, pc_meta := None\<rparr> | None \<Rightarrow> s)"
  have p1: "pointCloud s1 = None" "nextObj s1 = nextObj s"
    by (simp_all add: s1_def scene_remove_def split: option.split)
  define s2 where "s2 = (clearAllToolMarkings s1)\<lparr>controlsEnabled := False, infoPanelShown := False\<rparr>"
  have r2: "ms_markers s2 = [] \<and> ms_line s2 = None \<and> pr_markers s2 = [] \<and> pr_line s2 = None \<and>
      pointCloud s2 = None \<and> nextObj s2 = nextObj s"
    using clearAll_refs [of s1] p1 by (simp add: s2_def)
  have "clearScene s = (if pc_activeTool s2 \<noteq> None then toggleTool None s2 else s2)"
    unfolding clearScene_def Let_def s1_def [symmetric] s2_def [symmetric] ..
  then show ?thesis using r2 toggleTool_refs [of s2 None] by simp
qed

text \<open>
  C37: two layer selections whose requests overlap both add their cloud, and
  \<open>pointCloud\<close> only remembers the second.  Deselecting the layer removes the second
  cloud; the first stays in the scene with nothing referring to it, and no later event
  of the page (tools, clicks, further layer selections and replies) ever removes it.
\<close>

theorem layer_race_orphan_cloud:
  assumes "a \<noteq> []" "b \<noteq> []"
  shows "\<exists>i. \<forall>es. (i, Cloud a) \<in> set (scene (pc_run es (pc_run [LayerSelect a, LayerSelect b,
                    CloudReply a (FetchOk ()), CloudReply b (FetchOk ()), LayerSelect []] s))) \<and>
                 pointCloud (pc_run es (pc_run [LayerSelect a, LayerSelect b,
                    CloudReply a (FetchOk ()), CloudReply b (FetchOk ()), LayerSelect []] s)) \<noteq> Some i"
proof -
  define s2 where "s2 = pc_run [LayerSelect a, LayerSelect b] s"
  have s2: "s2 = (clearScene ((clearScene s)\<lparr>pc_loader := True\<rparr>))\<lparr>pc_loader := True\<rparr>"
    using assms by (simp add: s2_def handleLayerChange_def Let_def)
  have r2: "ms_markers s2 = [] \<and> ms_line s2 = None \<and> pr_markers s2 = [] \<and> pr_line s2 = None \<and> pointCloud s2 = None"
    using clearScene_refs [of "(clearScene s)\<lparr>pc_loader := True\<rparr>"] by (simp add: s2)
  define n where "n = nextObj s2"
  have "kept n (Cloud a) (pc_run [CloudReply a (FetchOk ()), CloudReply b (FetchOk ())] s2)"
    using r2 by (simp add: n_def kept_def unreferenced_def cloud_answer_def scene_add_def)
  then have "kept n (Cloud a) (pc_run [LayerSelect []] (pc_run [CloudReply a (FetchOk ()), CloudReply b (FetchOk ())] s2))"
    by (rule kept_run)
  then have k: "kept n (Cloud a) (pc_run [LayerSelect a, LayerSelect b, CloudReply a (FetchOk ()),
      CloudReply b (FetchOk ()), LayerSelect []] s)"
    unfolding s2_def by simp
  show ?thesis
    using kept_run [OF k] unfolding kept_def unreferenced_def by blast
qed


section \<open>Witnesses of the inspector\<close>

theorem measurement_never_shown_witness:
  "pc_reach measured_page \<and> \<not> infoShown measured_page \<and> length (ms_points measured_page) \<le> 1 \<and>
   infoValues measured_page \<noteq> None"
  using measurement_never_shown [OF measured_page_reach] measured_page_reach measured_page_fields by simp

theorem measurement_erased_witness:
  "ms_points (handleMeasureClick (3, 4, 12) (pc_init\<lparr>pc_activeTool := Some PMeasure, ms_points := [(0, 0, 0)]\<rparr>)) = [] \<and>
   infoValues (handleMeasureClick (3, 4, 12) (pc_init\<lparr>pc_activeTool := Some PMeasure, ms_points := [(0, 0, 0)]\<rparr>)) =
     Some (dist3 (0, 0, 0) (3, 4, 12), hdist (0, 0, 0) (3, 4, 12), 12)"
  using measurement_erased [of "pc_init\<lparr>pc_activeTool := Some PMeasure, ms_points := [(0, 0, 0)]\<rparr>" "(0, 0, 0)" "(3, 4, 12)"]
  by simp

theorem profile_chart_stats_witness:
  "chartData (onCanvasDoubleClick (pc_init\<lparr>pc_activeTool := Some PProfile, pr_points := [(0, 0, 10), (3, 4, 12)]\<rparr>)) =
     Some [(10, 0), (12, 5)] \<and>
   statsShown (onCanvasDoubleClick (pc_init\<lparr>pc_activeTool := Some PProfile, pr_points := [(0, 0, 10), (3, 4, 12)]\<rparr>)) =
     calculateProfileStats3D [(10, 0), (12, 5)]"
proof -
  have "profile_samples3d [(0, 0, 10), (3, 4, 12)] = [(10, 0), (12, 5)]"
  proof -
    have "sqrt ((3 - 0)\<^sup>2 + (4 - 0)\<^sup>2) = (5::real)"
      by (simp add: real_sqrt_eq_iff [symmetric] power2_eq_square)
    then show ?thesis by (simp add: profile_samples3d_def Let_def)
  qed
  with profile_chart_stats [of "pc_init\<lparr>pc_activeTool := Some PProfile, pr_points := [(0, 0, 10), (3, 4, 12)]\<rparr>"]
  show ?thesis by simp
qed

theorem layer_race_orphan_cloud_witness:
  "\<exists>i. \<forall>es. (i, Cloud ''a.las'') \<in> set (scene (pc_run es (pc_run [LayerSelect ''a.las'', LayerSelect ''b.las'',
                    CloudReply ''a.las'' (FetchOk ()), CloudReply ''b.las'' (FetchOk ()), LayerSelect []] pc_init))) \<and>
                 pointCloud (pc_run es (pc_run [LayerSelect ''a.las'', LayerSelect ''b.las'',
                    CloudReply ''a.las'' (FetchOk ()), CloudReply ''b.las'' (FetchOk ()), LayerSelect []] pc_init)) \<noteq> Some i"
  using layer_race_orphan_cloud [of "''a.las''" "''b.las''" pc_init] by simp

end
