(* ===== verification/Basemap.thy ===== *)
theory Basemap
  imports Toggle
begin

text \<open>
  Basemap re-synchronisation: the basemap radios of \<open>src/static/js/ui.js\<close> call
  \<open>map.setStyle\<close>, which discards every source and layer the client added, and the
  \<open>style.load\<close> listener \<open>reapplyAllLayers\<close> replays the session against the new
  style: it refreshes \<open>firstSymbolId\<close> (\<open>window.updateFirstSymbolId\<close> of
  \<open>main.js\<close>), re-clicks the radio of the current DEM, and for every key of
  \<open>state.activeLayers\<close> deletes the entry and re-clicks its checkbox, found by value
  in the vector, analysis or raster list.  A click runs the checkbox's handler of
  \<open>Layers\<close>: the raster and DEM handlers are synchronous and run inside the loop; the
  vector handler sends a new request, whose answer is a later \<open>handleVectorToggle\<close>
  step (of \<open>Toggle\<close>).  The DOM lists are an input (the checkbox values each list holds).
\<close>

section \<open>Definitions\<close>

record dom_lists =
  vectorBoxes :: "string list"
  rasterBoxes :: "string list"
  analysisBoxes :: "string list"
  demRadios :: "string list"

text \<open>A basemap radio: \<open>map.setStyle(styles[value])\<close> with the style's own sources
  and layers.\<close>

definition basemap_change :: "string list \<Rightarrow> mlayer list \<Rightarrow> session \<Rightarrow> session" where
  "basemap_change srcs lys s = s\<lparr>smap := setStyle srcs lys (smap s)\<rparr>"

definition updateFirstSymbolId :: "session \<Rightarrow> session" where
  "updateFirstSymbolId s = s\<lparr>firstSymbolId := first_symbol_id (smap s)\<rparr>"

text \<open>\<open>if (layerInfo.colormap)\<close>: the test that takes a raster entry for an analysis
  layer.\<close>

definition colormap_truthy :: "raster_meta \<Rightarrow> bool" where
  "colormap_truthy r = (case rm_colormap r of None \<Rightarrow> False | Some c \<Rightarrow> c \<noteq> [])"

text \<open>The DEM radio is unchecked and clicked again; an exception of its handler is
  reported by the event dispatch and does not stop the replay.\<close>

definition replay_dem :: "dom_lists \<Rightarrow> session \<Rightarrow> session" where
  "replay_dem dl s =
     (case currentDEM s of
        None \<Rightarrow> s
      | Some d \<Rightarrow>
          (if dem_id d \<in> set (demRadios dl)
           then outcome_state (handleDemChange True (dem_id d) (dem_name d) s) else s))"

text \<open>
  The loop over \<open>Object.keys(state.activeLayers)\<close>; \<open>bands k\<close> is the selection of
  the band controls of a multi-band raster.  The result lists the vector requests sent
  (file name and display name), in key order; \<open>None\<close> is the \<open>TypeError\<close> of
  \<open>layerInfo.type\<close> on a key whose entry is gone, which ends the callback.
\<close>

fun replay_keys ::
  "dom_lists \<Rightarrow> (string \<Rightarrow> (nat \<times> nat \<times> nat) option) \<Rightarrow> string list \<Rightarrow> session \<Rightarrow>
   (session \<times> (string \<times> string) list) option" where
  "replay_keys dl bands [] s = Some (s, [])"
| "replay_keys dl bands (k # ks) s =
     (case obj_get (activeLayers s) k of
        None \<Rightarrow> None
      | Some (VectorLayer v) \<Rightarrow>
          (if vi_filename v \<in> set (vectorBoxes dl)
           then map_option (\<lambda>(s', p). (s', (vi_filename v, vi_displayName v) # p))
                  (replay_keys dl bands ks (s\<lparr>activeLayers := obj_del (activeLayers s) k\<rparr>))
           else replay_keys dl bands ks s)
      | Some (RasterLayer r) \<Rightarrow>
          (let boxes = (if colormap_truthy r then analysisBoxes dl else rasterBoxes dl) in
           if rm_id r \<in> set boxes
           then replay_keys dl bands ks
                  (fst (handleRasterToggle True (rm_id r) r (bands (rm_id r))
                          (s\<lparr>activeLayers := obj_del (activeLayers s) k\<rparr>)))
           else replay_keys dl bands ks s))"

definition reapplyAllLayers ::
  "dom_lists \<Rightarrow> (string \<Rightarrow> (nat \<times> nat \<times> nat) option) \<Rightarrow> session \<Rightarrow>
   (session \<times> (string \<times> string) list) option" where
  "reapplyAllLayers dl bands s =
     (let s1 = replay_dem dl (updateFirstSymbolId s) in
      replay_keys dl bands (obj_keys (activeLayers s1)) s1)"

text \<open>Each registry entry sits under the key its handler derives from its file name,
  and keys are unique.\<close>

definition entry_key :: "layer_info \<Rightarrow> string" where
  "entry_key i = (case i of VectorLayer v \<Rightarrow> vector_prefix (vi_filename v)
                           | RasterLayer r \<Rightarrow> raster_layer_id (rm_id r))"

definition reg_ok :: "session \<Rightarrow> bool" where
  "reg_ok s \<longleftrightarrow> distinct (obj_keys (activeLayers s)) \<and>
     (\<forall>e \<in> set (activeLayers s). fst e = entry_key (snd e))"

section \<open>A session for the examples\<close>

text \<open>A colormapped single-band raster and a vector layer registered, a basemap with one
  raster layer of its own, and checkbox lists holding the vector and the raster file.\<close>

definition bm_raster :: raster_meta where
  "bm_raster = \<lparr>rm_id = ''ndvi.tif'', rm_name = ''NDVI'', rm_bands = 1, rm_stats = [(0, 1)],
                rm_colormap = Some ''viridis''\<rparr>"

definition bm_vector :: vector_info where
  "bm_vector = \<lparr>vi_classification = [], vi_classField = None, vi_sourceId = ''source-vector-roads'',
                vi_filename = ''roads'', vi_features = [], vi_layerIds = [''vector-roads-line''],
                vi_displayName = ''Roads''\<rparr>"

definition bm_session :: session where
  "bm_session = \<lparr>currentDEM = None,
     activeLayers = [(''raster-ndvi_tif'', RasterLayer bm_raster), (''vector-roads'', VectorLayer bm_vector)],
     highlightedFeature = None, firstSymbolId = None, rng = (\<lambda>_. 0, 0),
     smap = \<lparr>m_sources = [], m_layers = [], m_terrain = None, m_errors = []\<rparr>\<rparr>"

definition bm_dom :: dom_lists where
  "bm_dom = \<lparr>vectorBoxes = [''roads''], rasterBoxes = [''ndvi.tif''], analysisBoxes = [], demRadios = []\<rparr>"

definition bm_style :: "mlayer list" where
  "bm_style = [\<lparr>ml_id = ''osm-tiles'', ml_type = ''raster'', ml_source = Some ''osm'', ml_filter = NoFilter,
                ml_visible = True, ml_text = None\<rparr>]"

definition bm_after :: "session \<times> (string \<times> string) list" where
  "bm_after = the (reapplyAllLayers bm_dom (\<lambda>_. None) (basemap_change [''osm''] bm_style bm_session))"

section \<open>The replay of the registry\<close>

lemma addSource_Inr_layers: "addSource src m = Inr m' \<Longrightarrow> m_layers m' = m_layers m"
  by (auto simp: addSource_def split: if_splits)

lemma removeSource_Inr_layers: "removeSource src m = Inr m' \<Longrightarrow> m_layers m' = m_layers m"
  by (auto simp: removeSource_def split: if_splits option.splits)

lemma raster_toggle_frame:
  assumes "j \<noteq> raster_layer_id f"
  shows "has_layer (smap (fst (handleRasterToggle True f r b s))) j = has_layer (smap s) j"
proof -
  let ?m1 = "if has_source (smap s) (source_of (raster_layer_id f))
             then (case removeSource (source_of (raster_layer_id f)) (remove_layer_if (raster_layer_id f) (smap s)) of
                     Inr m'' \<Rightarrow> m'' | Inl _ \<Rightarrow> remove_layer_if (raster_layer_id f) (smap s))
             else smap s"
  have m1: "has_layer ?m1 j = has_layer (smap s) j"
    using assms by (auto simp: has_layer_def layer_ids_def split: sum.split dest!: removeSource_Inr_layers)
  show ?thesis
    using assms m1 by (auto simp: handleRasterToggle_def Let_def has_layer_addLayer split: sum.split
        dest!: addSource_Inr_layers) (auto simp: has_layer_def layer_ids_def)
qed

lemma raster_toggle_registry:
  "activeLayers (fst (handleRasterToggle True f r b s)) = activeLayers s \<or>
   activeLayers (fst (handleRasterToggle True f r b s)) = obj_set (activeLayers s) (raster_layer_id f) (RasterLayer r)"
  by (auto simp: handleRasterToggle_def Let_def split: sum.split)

lemma reg_ok_del: "reg_ok s \<Longrightarrow> reg_ok (s\<lparr>activeLayers := obj_del (activeLayers s) k\<rparr>)"
  using obj_del_subset by (fastforce simp: reg_ok_def js_simps)

lemma reg_ok_raster:
  assumes "reg_ok s"
  shows "reg_ok (fst (handleRasterToggle True (rm_id r) r b s))"
proof -
  have "distinct (obj_keys (obj_set (activeLayers s) (raster_layer_id (rm_id r)) (RasterLayer r)))"
    using assms by (simp add: reg_ok_def js_simps)
  moreover have "\<forall>e \<in> set (obj_set (activeLayers s) (raster_layer_id (rm_id r)) (RasterLayer r)). fst e = entry_key (snd e)"
    using assms by (auto simp: reg_ok_def entry_key_def dest: obj_set_in_set)
  ultimately show ?thesis
    using assms raster_toggle_registry [of "rm_id r" r b s] by (auto simp: reg_ok_def)
qed

lemma reg_ok_smap [simp]: "reg_ok (s\<lparr>smap := m\<rparr>) = reg_ok s"
  by (simp add: reg_ok_def)

lemma map_option_prepend_Nil [simp]: "map_option (\<lambda>(s2, p2). (s2, [] @ p2)) x = x"
  by (cases x) auto

lemma map_option_id' [simp]: "map_option id x = x"
  by (simp add: option.map_id)

lemma replay_keys_Cons_Some:
  assumes "obj_get (activeLayers s) k' = Some i" and "reg_ok s"
  obtains s1 q where
    "replay_keys dl bands (k' # ks) s = map_option (\<lambda>(s2, p2). (s2, q @ p2)) (replay_keys dl bands ks s1)"
    "reg_ok s1"
    "\<forall>k. k \<noteq> k' \<longrightarrow> obj_get (activeLayers s1) k = obj_get (activeLayers s) k \<and>
                      has_layer (smap s1) k = has_layer (smap s) k"
proof (cases i)
  case (VectorLayer v)
  let ?s0 = "s\<lparr>activeLayers := obj_del (activeLayers s) k'\<rparr>"
  show ?thesis
  proof (cases "vi_filename v \<in> set (vectorBoxes dl)")
    case True
    show ?thesis
      by (rule that [of "[(vi_filename v, vi_displayName v)]" ?s0])
         (use True assms VectorLayer reg_ok_del in \<open>auto simp: js_simps intro: option.map_cong\<close>)
  next
    case False
    show ?thesis
      by (rule that [of "[]" s]) (use False assms VectorLayer in \<open>simp_all\<close>)
  qed
next
  case (RasterLayer r)
  have key: "k' = raster_layer_id (rm_id r)"
    using assms obj_get_in_set [OF assms(1)] RasterLayer by (auto simp: reg_ok_def entry_key_def)
  let ?s0 = "s\<lparr>activeLayers := obj_del (activeLayers s) k'\<rparr>"
  let ?t1 = "fst (handleRasterToggle True (rm_id r) r (bands (rm_id r)) ?s0)"
  show ?thesis
  proof (cases "rm_id r \<in> set (if colormap_truthy r then analysisBoxes dl else rasterBoxes dl)")
    case True
    have "\<forall>k. k \<noteq> k' \<longrightarrow> obj_get (activeLayers ?t1) k = obj_get (activeLayers s) k \<and>
                         has_layer (smap ?t1) k = has_layer (smap s) k"
      using raster_toggle_registry [of "rm_id r" r "bands (rm_id r)" ?s0]
        raster_toggle_frame [of _ "rm_id r" r "bands (rm_id r)" ?s0] key
      by (auto simp: js_simps)
    moreover have "reg_ok ?t1" using reg_ok_raster reg_ok_del assms(2) by blast
    ultimately show ?thesis
      by (intro that [of "[]" ?t1]) (use True assms RasterLayer in \<open>simp_all add: Let_def\<close>)
  next
    case False
    show ?thesis
      by (rule that [of "[]" s]) (use False assms RasterLayer in \<open>simp_all add: Let_def\<close>)
  qed
qed

lemma replay_keys_frame:
  assumes "replay_keys dl bands ks s = Some (s', p)" and "k \<notin> set ks" and "reg_ok s"
  shows "obj_get (activeLayers s') k = obj_get (activeLayers s) k \<and>
         has_layer (smap s') k = has_layer (smap s) k \<and> reg_ok s'"
  using assms
proof (induction ks arbitrary: s p)
  case Nil
  then show ?case by simp
next
  case (Cons k' ks)
  show ?case
  proof (cases "obj_get (activeLayers s) k'")
    case None
    with Cons.prems show ?thesis by simp
  next
    case (Some i)
    from replay_keys_Cons_Some [OF Some Cons.prems(3), of dl bands ks] obtain s1 q where
      r: "replay_keys dl bands (k' # ks) s = map_option (\<lambda>(s2, p2). (s2, q @ p2)) (replay_keys dl bands ks s1)"
      and ok: "reg_ok s1"
      and fr: "\<forall>k. k \<noteq> k' \<longrightarrow> obj_get (activeLayers s1) k = obj_get (activeLayers s) k \<and>
                      has_layer (smap s1) k = has_layer (smap s) k" by blast
    have "map_option (\<lambda>(s2, p2). (s2, q @ p2)) (replay_keys dl bands ks s1) = Some (s', p)"
      using Cons.prems(1) by (simp only: r)
    then obtain p1 where "replay_keys dl bands ks s1 = Some (s', p1)" by auto
    with Cons.IH [of s1] Cons.prems(2) ok fr show ?thesis by auto
  qed
qed

lemma replay_keys_total:
  assumes "distinct ks" and "set ks \<subseteq> set (obj_keys (activeLayers s))" and "reg_ok s"
  shows "\<exists>s' p. replay_keys dl bands ks s = Some (s', p) \<and> reg_ok s'"
  using assms
proof (induction ks arbitrary: s)
  case Nil
  then show ?case by simp
next
  case (Cons k' ks)
  from Cons.prems(2) obtain i where Some: "obj_get (activeLayers s) k' = Some i"
    by (cases "obj_get (activeLayers s) k'") (auto simp: js_simps)
  from replay_keys_Cons_Some [OF Some Cons.prems(3), of dl bands ks] obtain s1 q where
    r: "replay_keys dl bands (k' # ks) s = map_option (\<lambda>(s2, p2). (s2, q @ p2)) (replay_keys dl bands ks s1)"
    and ok: "reg_ok s1"
    and fr: "\<forall>k. k \<noteq> k' \<longrightarrow> obj_get (activeLayers s1) k = obj_get (activeLayers s) k \<and>
                    has_layer (smap s1) k = has_layer (smap s) k" by blast
  have "set ks \<subseteq> set (obj_keys (activeLayers s1))"
  proof
    fix k assume "k \<in> set ks"
    with Cons.prems(1,2) fr show "k \<in> set (obj_keys (activeLayers s1))"
      by (metis (no_types) distinct.simps(2) js_simps(7) subsetD list.set_intros(2))
  qed
  with Cons.IH [of s1] Cons.prems(1) ok r show ?case by auto
qed


lemma replay_keys_append_Some:
  assumes "replay_keys dl bands (xs @ ys) s = Some (s', p)"
  shows "\<exists>s1 p1 p2. replay_keys dl bands xs s = Some (s1, p1) \<and>
                   replay_keys dl bands ys s1 = Some (s', p2) \<and> p = p1 @ p2"
  using assms
proof (induction xs arbitrary: s p)
  case Nil
  then show ?case by simp
next
  case (Cons k xs)
  then show ?case
    by (auto simp: Let_def split: option.splits layer_info.splits if_splits) (metis append_Cons)
qed

lemma handleDemChange_registry [simp]:
  "activeLayers (outcome_state (handleDemChange c i n s)) = activeLayers s"
  by (auto simp: handleDemChange_def Let_def split: sum.split)

lemma handleDemChange_other_layer:
  assumes "j \<noteq> ''hillshade''"
  shows "has_layer (smap (outcome_state (handleDemChange True i n s))) j = has_layer (smap s) j"
  using assms
  by (auto simp: handleDemChange_def Let_def has_layer_addLayer setTerrain_def split: sum.split option.split
      dest!: addSource_Inr_layers) (auto simp: has_layer_def layer_ids_def setTerrain_def)

lemma replay_dem_registry [simp]: "activeLayers (replay_dem dl s) = activeLayers s"
  by (simp add: replay_dem_def split: option.split)

lemma replay_dem_other_layer:
  "j \<noteq> ''hillshade'' \<Longrightarrow> has_layer (smap (replay_dem dl s)) j = has_layer (smap s) j"
  by (simp add: replay_dem_def handleDemChange_other_layer split: option.split)

lemma reg_ok_registry: "activeLayers s' = activeLayers s \<Longrightarrow> reg_ok s' = reg_ok s"
  by (simp add: reg_ok_def)

lemma restyled_fields [simp]:
  "activeLayers (updateFirstSymbolId (basemap_change srcs lys s)) = activeLayers s"
  "has_layer (smap (updateFirstSymbolId (basemap_change srcs lys s))) j = (j \<in> set (map ml_id lys))"
  by (simp_all add: updateFirstSymbolId_def basemap_change_def setStyle_def has_layer_def layer_ids_def)

lemma raster_key_not_hillshade [simp]: "raster_layer_id f \<noteq> ''hillshade''"
  by (simp add: raster_layer_id_def)

lemma reapply_split:
  assumes "reg_ok s" and "obj_get (activeLayers s) k = Some i"
    and "reapplyAllLayers dl bands (basemap_change srcs lys s) = Some (s', p)"
  obtains ys s2 p1 p2 where
    "replay_keys dl bands (k # ys) s2 = Some (s', p2)" "p = p1 @ p2" "reg_ok s2" "k \<notin> set ys"
    "obj_get (activeLayers s2) k = Some i"
    "k \<noteq> ''hillshade'' \<Longrightarrow> has_layer (smap s2) k = (k \<in> set (map ml_id lys))"
proof -
  let ?s1 = "replay_dem dl (updateFirstSymbolId (basemap_change srcs lys s))"
  have reg: "activeLayers ?s1 = activeLayers s" by simp
  have ok1: "reg_ok ?s1" using assms(1) reg_ok_registry [OF reg] by simp
  have "k \<in> set (obj_keys (activeLayers s))" using assms(2) by (rule obj_get_key)
  then obtain xs ys where ks: "obj_keys (activeLayers s) = xs @ k # ys" by (meson split_list)
  with assms(1) have nxs: "k \<notin> set xs" and nys: "k \<notin> set ys" by (auto simp: reg_ok_def)
  from assms(3) ks obtain s2 p1 p2 where
    r1: "replay_keys dl bands xs ?s1 = Some (s2, p1)" and r2: "replay_keys dl bands (k # ys) s2 = Some (s', p2)"
    and pp: "p = p1 @ p2"
    using replay_keys_append_Some [of dl bands xs "k # ys" ?s1 s' p]
    by (auto simp: reapplyAllLayers_def Let_def)
  from replay_keys_frame [OF r1 nxs ok1] have
    "obj_get (activeLayers s2) k = Some i" "reg_ok s2"
    "k \<noteq> ''hillshade'' \<Longrightarrow> has_layer (smap s2) k = (k \<in> set (map ml_id lys))"
    using assms(2) replay_dem_other_layer by auto
  with r2 pp nys show ?thesis by (intro that) auto
qed

section \<open>Properties\<close>

text \<open>
  C38: a standard raster whose \<open>layerInfo\<close> carries a colormap is looked up among
  the analysis checkboxes; when it is not there, \<open>reapplyAllLayers\<close> skips it, so after
  the basemap change it is still registered in \<open>state.activeLayers\<close> while the new
  style has no layer for it: the layer vanishes from the map, its checkbox stays checked.
\<close>
theorem colormap_raster_left_stale:
  assumes "reg_ok s" and "obj_get (activeLayers s) k = Some (RasterLayer r)"
    and "colormap_truthy r" and "rm_id r \<notin> set (analysisBoxes dl)" and "k \<notin> set (map ml_id lys)"
    and "reapplyAllLayers dl bands (basemap_change srcs lys s) = Some (s', p)"
  shows "obj_get (activeLayers s') k = Some (RasterLayer r) \<and> \<not> has_layer (smap s') k"
proof -
  have key: "k = raster_layer_id (rm_id r)"
    using assms(1) obj_get_in_set [OF assms(2)] by (auto simp: reg_ok_def entry_key_def)
  obtain ys s2 p1 p2 where r: "replay_keys dl bands (k # ys) s2 = Some (s', p2)" and ok: "reg_ok s2"
    and nys: "k \<notin> set ys" and g: "obj_get (activeLayers s2) k = Some (RasterLayer r)"
    and h: "\<not> has_layer (smap s2) k"
    using reapply_split [OF assms(1,2,6)] assms(5) key by (metis raster_key_not_hillshade)
  have "replay_keys dl bands ys s2 = Some (s', p2)"
    using r g assms(3,4) by (simp add: Let_def)
  from replay_keys_frame [OF this nys ok] g h show ?thesis by simp
qed

text \<open>
  C39: a registered vector layer whose checkbox exists is not restored from the GeoJSON
  cached in its entry: the entry is deleted and a new request for the file is sent; if
  that request fails, the layer is gone from the registry for good.
\<close>
theorem vector_refetched_not_replayed:
  assumes "reg_ok s" and "obj_get (activeLayers s) k = Some (VectorLayer v)"
    and "vi_filename v \<in> set (vectorBoxes dl)"
    and "reapplyAllLayers dl bands (basemap_change srcs lys s) = Some (s', p)"
  shows "obj_get (activeLayers s') k = None \<and> (vi_filename v, vi_displayName v) \<in> set p \<and>
         obj_get (activeLayers (fst (handleVectorToggle True (vi_filename v) (vi_displayName v)
                                       (FetchFailed e) rd ui s'))) k = None"
proof -
  obtain ys s2 p1 p2 where r: "replay_keys dl bands (k # ys) s2 = Some (s', p2)" and pp: "p = p1 @ p2"
    and ok: "reg_ok s2" and nys: "k \<notin> set ys" and g: "obj_get (activeLayers s2) k = Some (VectorLayer v)"
    using reapply_split [OF assms(1,2,4)] by metis
  let ?s3 = "s2\<lparr>activeLayers := obj_del (activeLayers s2) k\<rparr>"
  from r g assms(3) obtain p3 where
    r3: "replay_keys dl bands ys ?s3 = Some (s', p3)" and p2: "p2 = (vi_filename v, vi_displayName v) # p3"
    by auto
  from replay_keys_frame [OF r3 nys reg_ok_del [OF ok]] have "obj_get (activeLayers s') k = None"
    by (simp add: js_simps)
  then show ?thesis using pp p2 by (simp add: handleVectorToggle_def vector_toggle_try_def)
qed

text \<open>
  On a well-formed registry (unique keys, each entry under the key its handler
  derives) the replay never reaches the \<open>TypeError\<close> of a missing entry: it returns,
  and leaves a well-formed registry.
\<close>
theorem reapply_total:
  assumes "reg_ok s"
  shows "\<exists>s' p. reapplyAllLayers dl bands s = Some (s', p) \<and> reg_ok s'"
proof -
  let ?s1 = "replay_dem dl (updateFirstSymbolId s)"
  have ok1: "reg_ok ?s1" using assms reg_ok_registry [of ?s1 s] by (simp add: updateFirstSymbolId_def)
  then have "distinct (obj_keys (activeLayers ?s1))" by (simp add: reg_ok_def)
  from replay_keys_total [OF this _ ok1] show ?thesis by (simp add: reapplyAllLayers_def)
qed

section \<open>Examples\<close>

lemma bm_keys [simp]:
  "raster_layer_id ''ndvi.tif'' = ''raster-ndvi_tif''" "vector_prefix ''roads'' = ''vector-roads''"
  by (simp_all add: raster_layer_id_def vector_prefix_def sanitize_def is_alnum_def upper_letters_def
      lower_letters_def digit_chars_def)

lemma bm_reg_ok: "reg_ok bm_session"
  by (simp add: reg_ok_def bm_session_def obj_keys_def entry_key_def bm_raster_def bm_vector_def)

lemma bm_replay: "reapplyAllLayers bm_dom (\<lambda>_. None) (basemap_change [''osm''] bm_style bm_session) = Some bm_after"
  by (simp add: bm_after_def reapplyAllLayers_def replay_dem_def updateFirstSymbolId_def basemap_change_def
      bm_session_def bm_dom_def obj_keys_def obj_get_def bm_raster_def bm_vector_def colormap_truthy_def)

theorem colormap_raster_left_stale_witness:
  "obj_get (activeLayers (fst bm_after)) ''raster-ndvi_tif'' = Some (RasterLayer bm_raster) \<and>
   \<not> has_layer (smap (fst bm_after)) ''raster-ndvi_tif''"
  using colormap_raster_left_stale [of bm_session "''raster-ndvi_tif''" bm_raster bm_dom bm_style
      "\<lambda>_. None" "[''osm'']" "fst bm_after" "snd bm_after"] bm_reg_ok bm_replay
  by (simp add: bm_session_def obj_get_def bm_raster_def colormap_truthy_def bm_dom_def bm_style_def)

theorem vector_refetched_not_replayed_witness:
  "obj_get (activeLayers (fst bm_after)) ''vector-roads'' = None \<and> (''roads'', ''Roads'') \<in> set (snd bm_after) \<and>
   obj_get (activeLayers (fst (handleVectorToggle True ''roads'' ''Roads'' (FetchFailed ''timeout'') [] panels_start
                                (fst bm_after))))
     ''vector-roads'' = None"
  using vector_refetched_not_replayed [of bm_session "''vector-roads''" bm_vector bm_dom "\<lambda>_. None"
      "[''osm'']" bm_style "fst bm_after" "snd bm_after" "''timeout''" "[]" panels_start] bm_reg_ok bm_replay
  by (simp add: bm_session_def obj_get_def bm_vector_def bm_dom_def)

theorem reapply_total_witness:
  "\<exists>s' p. reapplyAllLayers bm_dom (\<lambda>_. None) bm_session = Some (s', p) \<and> reg_ok s'"
  using reapply_total [of bm_session bm_dom "\<lambda>_. None"] bm_reg_ok by simp

end
