(* ===== verification/ObjViewer.thy ===== *)
theory ObjViewer
  imports PointTools
begin

text \<open>
  The OBJ inspector page of \<open>src/static/js/obj-viewer.js\<close>: the loaded model as a list
  of meshes (uuid, material, vertex positions), the map \<open>originalMaterials\<close>, the
  texture switch, the clipping planes, the snap search and the measuring tool.  The
  Three.js scene is a store of numbered objects as in \<open>PointTools\<close>.  JavaScript
  arrays that the code shares by reference (\<open>currentMeasurement.points\<close> and
  \<open>.markers\<close>, copied into \<open>allMeasurements\<close> by the spread \<open>{...currentMeasurement}\<close>)
  live in an explicit store: a variable or field holds the array's address, \<open>push\<close>
  updates the store, and the literal \<open>[]\<close> allocates a fresh address.  The camera
  projection of a vertex, the pointer position and the ray-cast hit are inputs of the
  pointer events; lights, renderer, camera clipping distances and labels' text are
  rendering.  JavaScript numbers are reals: a model whose vertices all coincide makes
  \<open>5 / maxDim\<close> the JavaScript \<open>Infinity\<close>, which HOL's division does not give; the
  properties below exclude it by their hypotheses.
\<close>

section \<open>State\<close>

datatype material = MtlMaterial string | Clay

record mesh =
  mesh_uuid :: nat
  mesh_material :: "material option"
  mesh_vertices :: "vec3 list"

datatype snap_type = SnapVertex | SnapMidpoint

datatype ovobj = OModel | OSnap | OPlaneHelper nat | OMarker vec3 | OLine "vec3 list" | OLabel vec3 real

text \<open>The object \<open>currentMeasurement\<close> and its copies: addresses of the points and
  markers arrays, and the scene ids of the line and the label.\<close>

record meas =
  om_points :: nat
  om_markers :: nat
  om_line :: "nat option"
  om_label :: "nat option"

record ovstate =
  ov_model :: "mesh list option"
  origMats :: "nat \<Rightarrow> material option"
  texturesVisible :: bool
  textureBtnText :: "string option"
  isMeasuring :: bool
  ov_controlsEnabled :: bool
  measureBtnActive :: bool
  cur :: meas
  allMeasurements :: "meas list"
  pts_heap :: "nat \<Rightarrow> vec3 list"
  mk_heap :: "nat \<Rightarrow> nat list"
  nextArr :: nat
  ov_scene :: "(nat \<times> ovobj) list"
  ov_next :: nat
  ov_mouse :: "real \<times> real"
  ov_snapVisible :: bool
  ov_snapPos :: vec3
  ov_snapType :: "snap_type option"
  ov_loading :: bool
  ov_alerts :: "string list"
  allModelVertices :: "vec3 list"
  dimsShown :: "vec3 option"
  clipSize :: "vec3 option"
  clipConst :: "real list"

section \<open>The store and the scene\<close>

definition alloc_pts :: "ovstate \<Rightarrow> nat \<times> ovstate" where
  "alloc_pts s = (nextArr s, s\<lparr>pts_heap := (pts_heap s)(nextArr s := []), nextArr := Suc (nextArr s)\<rparr>)"

definition alloc_mk :: "ovstate \<Rightarrow> nat \<times> ovstate" where
  "alloc_mk s = (nextArr s, s\<lparr>mk_heap := (mk_heap s)(nextArr s := []), nextArr := Suc (nextArr s)\<rparr>)"

definition ov_add :: "ovobj \<Rightarrow> ovstate \<Rightarrow> nat \<times> ovstate" where
  "ov_add obj s = (ov_next s, s\<lparr>ov_scene := ov_scene s @ [(ov_next s, obj)], ov_next := Suc (ov_next s)\<rparr>)"

definition ov_remove :: "nat \<Rightarrow> ovstate \<Rightarrow> ovstate" where
  "ov_remove i s = s\<lparr>ov_scene := filter (\<lambda>e. fst e \<noteq> i) (ov_scene s)\<rparr>"

definition ov_remove_opt :: "nat option \<Rightarrow> ovstate \<Rightarrow> ovstate" where
  "ov_remove_opt oi s = (case oi of Some i \<Rightarrow> ov_remove i s | None \<Rightarrow> s)"

section \<open>Loading the model\<close>

text \<open>\<open>loadModel\<close>: the default material is forced unless an MTL file is given and
  loads.\<close>

definition load_forces_default :: "bool \<Rightarrow> bool \<Rightarrow> bool" where
  "load_forces_default hasMtl mtlLoaded = (\<not> hasMtl \<or> \<not> mtlLoaded)"

definition vxs :: "vec3 list \<Rightarrow> real list" where "vxs vs = map fst vs"
definition vys :: "vec3 list \<Rightarrow> real list" where "vys vs = map (\<lambda>v. fst (snd v)) vs"
definition vzs :: "vec3 list \<Rightarrow> real list" where "vzs vs = map (\<lambda>v. snd (snd v)) vs"

text \<open>\<open>new THREE.Box3().setFromObject(model)\<close>: \<open>None\<close> is the empty box.\<close>

definition bbox :: "vec3 list \<Rightarrow> (vec3 \<times> vec3) option" where
  "bbox vs = (if vs = [] then None
              else Some ((list_min (vxs vs), list_min (vys vs), list_min (vzs vs)),
                         (list_max (vxs vs), list_max (vys vs), list_max (vzs vs))))"

definition box_center :: "vec3 \<times> vec3 \<Rightarrow> vec3" where
  "box_center b = (case b of ((x0, y0, z0), (x1, y1, z1)) \<Rightarrow> ((x0 + x1) / 2, (y0 + y1) / 2, (z0 + z1) / 2))"

definition box_size :: "vec3 \<times> vec3 \<Rightarrow> vec3" where
  "box_size b = (case b of ((x0, y0, z0), (x1, y1, z1)) \<Rightarrow> (x1 - x0, y1 - y0, z1 - z0))"

definition max3 :: "vec3 \<Rightarrow> real" where
  "max3 v = max (fst v) (max (fst (snd v)) (snd (snd v)))"

text \<open>The world matrix after \<open>model.position.sub(center)\<close> and
  \<open>model.scale.set(k, k, k)\<close>: scale first, then translate.\<close>

definition world :: "real \<Rightarrow> vec3 \<Rightarrow> vec3 \<Rightarrow> vec3" where
  "world k c v = (k * fst v - fst c, k * fst (snd v) - fst (snd c), k * snd (snd v) - snd (snd c))"

definition onModelLoadError :: "string \<Rightarrow> ovstate \<Rightarrow> ovstate" where
  "onModelLoadError msg s =
     s\<lparr>ov_loading := False,
       ov_alerts := ov_alerts s @ [''Error: Could not load the model. '' @ msg @ ''. Check console for details.'']\<rparr>"

definition setupClippingControls :: "vec3 \<Rightarrow> ovstate \<Rightarrow> ovstate" where
  "setupClippingControls sz s =
     (let s1 = snd (ov_add (OPlaneHelper 2) (snd (ov_add (OPlaneHelper 1) (snd (ov_add (OPlaneHelper 0) s)))))
      in s1\<lparr>clipSize := Some sz, clipConst := [fst sz / 2, fst (snd sz) / 2, snd (snd sz) / 2]\<rparr>)"

text \<open>The first \<open>model.traverse\<close>: a mesh gets the clay material when the default is
  forced or it has none.\<close>

definition loaded_meshes :: "bool \<Rightarrow> mesh list \<Rightarrow> mesh list" where
  "loaded_meshes force ms =
     map (\<lambda>m. if force \<or> mesh_material m = None then m\<lparr>mesh_material := Some Clay\<rparr> else m) ms"

definition onModelLoaded :: "mesh list \<Rightarrow> bool \<Rightarrow> ovstate \<Rightarrow> ovstate" where
  "onModelLoaded ms force s =
     (let ms' = loaded_meshes force ms;
          s1 = s\<lparr>ov_loading := False, ov_model := Some ms',
                 origMats := fold (\<lambda>m f. f(mesh_uuid m := mesh_material m)) ms' (origMats s)\<rparr>;
          vs = concat (map mesh_vertices ms')
      in case bbox vs of
           None \<Rightarrow> onModelLoadError ''Could not compute bounding box. Model may be empty.'' s1
         | Some b \<Rightarrow>
             (let c = box_center b; k = 5 / max3 (box_size b);
                  wvs = map (world k c) vs;
                  scaled = box_size (the (bbox wvs));
                  s2 = s1\<lparr>allModelVertices := wvs, dimsShown := Some scaled\<rparr>
              in setupClippingControls scaled (snd (ov_add OModel s2))))"

text \<open>The \<open>input\<close> listener of clipping slider \<open>i\<close>, installed by
  \<open>setupClippingControls\<close>.\<close>

definition onClipInput :: "nat \<Rightarrow> real \<Rightarrow> ovstate \<Rightarrow> ovstate" where
  "onClipInput i v s =
     (case clipSize s of
        None \<Rightarrow> s
      | Some sz \<Rightarrow> s\<lparr>clipConst := (clipConst s)[i := [fst sz, fst (snd sz), snd (snd sz)] ! i / 2 * v]\<rparr>)"

section \<open>Textures\<close>

definition toggleTextures :: "ovstate \<Rightarrow> ovstate ui_outcome" where
  "toggleTextures s =
     (let tv = \<not> texturesVisible s; s1 = s\<lparr>texturesVisible := tv\<rparr> in
      case ov_model s1 of
        None \<Rightarrow> UiTypeError s1
      | Some ms \<Rightarrow>
          UiDone (s1\<lparr>ov_model := Some (map (\<lambda>m. m\<lparr>mesh_material := (if tv then origMats s1 (mesh_uuid m) else Some Clay)\<rparr>) ms),
                     textureBtnText := Some (if tv then ''Hide Textures'' else ''Show Textures'')\<rparr>))"

section \<open>Snapping\<close>

definition SNAP_RADIUS :: real where "SNAP_RADIUS = 0.15"

definition dist2 :: "real \<times> real \<Rightarrow> real \<times> real \<Rightarrow> real" where
  "dist2 p q = sqrt ((fst p - fst q)\<^sup>2 + (snd p - snd q)\<^sup>2)"

text \<open>\<open>dist < closestVertex.dist\<close>, with \<open>None\<close> for the initial \<open>Infinity\<close>.\<close>

fun below :: "real \<Rightarrow> real option \<Rightarrow> bool" where
  "below d None = True"
| "below d (Some c) = (d < c)"

definition snap_step ::
  "(vec3 \<Rightarrow> real \<times> real) \<Rightarrow> real \<times> real \<Rightarrow> vec3 \<Rightarrow> real option \<times> vec3 option \<Rightarrow> real option \<times> vec3 option" where
  "snap_step proj mouse v cl =
     (let d = dist2 (proj v) mouse in
      if d < SNAP_RADIUS \<and> below d (fst cl) then (Some d, Some v) else cl)"

definition getSnapPoint ::
  "(vec3 \<Rightarrow> real \<times> real) \<Rightarrow> vec3 option \<Rightarrow> real \<times> real \<Rightarrow> vec3 list \<Rightarrow> (vec3 \<times> snap_type) option" where
  "getSnapPoint proj hit mouse vs =
     (case snd (fold (snap_step proj mouse) vs (None, None)) of
        Some p \<Rightarrow> Some (p, SnapVertex)
      | None \<Rightarrow> (case hit of Some p \<Rightarrow> Some (p, SnapMidpoint) | None \<Rightarrow> None))"

text \<open>What the vertex loop is meant to find: among the vertices within the snap radius
  of the pointer, the first one whose projection is nearest (the library's
  \<open>arg_min_list\<close>).\<close>

definition nearest_vertex :: "(vec3 \<Rightarrow> real \<times> real) \<Rightarrow> real \<times> real \<Rightarrow> vec3 list \<Rightarrow> vec3 option" where
  "nearest_vertex proj mouse vs =
     (case filter (\<lambda>v. dist2 (proj v) mouse < SNAP_RADIUS) vs of
        [] \<Rightarrow> None
      | cs \<Rightarrow> Some (arg_min_list (\<lambda>v. dist2 (proj v) mouse) cs))"

section \<open>Measuring\<close>

definition clearCurrentMeasurement :: "bool \<Rightarrow> ovstate \<Rightarrow> ovstate" where
  "clearCurrentMeasurement resetPoints s =
     (let s1 = (if resetPoints then (let (a, t) = alloc_pts s in t\<lparr>cur := (cur t)\<lparr>om_points := a\<rparr>\<rparr>) else s);
          s2 = fold ov_remove (mk_heap s1 (om_markers (cur s1))) s1;
          (a, s3) = alloc_mk s2;
          s4 = s3\<lparr>cur := (cur s3)\<lparr>om_markers := a\<rparr>\<rparr>;
          s5 = ov_remove_opt (om_line (cur s4)) s4;
          s6 = s5\<lparr>cur := (cur s5)\<lparr>om_line := None\<rparr>\<rparr>;
          s7 = ov_remove_opt (om_label (cur s6)) s6
      in s7\<lparr>cur := (cur s7)\<lparr>om_label := None\<rparr>\<rparr>)"

definition clear_meas :: "meas \<Rightarrow> ovstate \<Rightarrow> ovstate" where
  "clear_meas m s = ov_remove_opt (om_label m) (ov_remove_opt (om_line m) (fold ov_remove (mk_heap s (om_markers m)) s))"

definition clearAllMeasurements :: "ovstate \<Rightarrow> ovstate" where
  "clearAllMeasurements s =
     clearCurrentMeasurement True ((fold clear_meas (allMeasurements s) s)\<lparr>allMeasurements := []\<rparr>)"

definition toggleMeasurementMode :: "ovstate \<Rightarrow> ovstate" where
  "toggleMeasurementMode s =
     (let m = \<not> isMeasuring s;
          s1 = s\<lparr>isMeasuring := m, measureBtnActive := m, ov_controlsEnabled := \<not> m\<rparr>
      in if \<not> m then (clearCurrentMeasurement True s1)\<lparr>ov_snapVisible := False\<rparr> else s1)"

definition onCanvasMouseMoveOv ::
  "(vec3 \<Rightarrow> real \<times> real) \<Rightarrow> vec3 option \<Rightarrow> real \<times> real \<Rightarrow> ovstate \<Rightarrow> ovstate" where
  "onCanvasMouseMoveOv proj hit mouse s =
     (if \<not> isMeasuring s \<or> ov_model s = None then s
      else
        (let s1 = s\<lparr>ov_mouse := mouse\<rparr> in
         case getSnapPoint proj hit mouse (allModelVertices s1) of
           Some (p, t) \<Rightarrow> s1\<lparr>ov_snapVisible := True, ov_snapPos := p, ov_snapType := Some t\<rparr>
         | None \<Rightarrow> s1\<lparr>ov_snapVisible := False\<rparr>))"

definition addMeasurementMarker :: "vec3 \<Rightarrow> ovstate \<Rightarrow> ovstate" where
  "addMeasurementMarker p s =
     (let (i, s1) = ov_add (OMarker p) s; a = om_markers (cur s1) in
      s1\<lparr>mk_heap := (mk_heap s1)(a := mk_heap s1 a @ [i])\<rparr>)"

definition drawMeasurementLine :: "ovstate \<Rightarrow> ovstate" where
  "drawMeasurementLine s =
     (let (i, s1) = ov_add (OLine (pts_heap s (om_points (cur s)))) s in
      s1\<lparr>cur := (cur s1)\<lparr>om_line := Some i\<rparr>\<rparr>)"

definition midpoint :: "vec3 \<Rightarrow> vec3 \<Rightarrow> vec3" where
  "midpoint p q = ((fst p + fst q) / 2, (fst (snd p) + fst (snd q)) / 2, (snd (snd p) + snd (snd q)) / 2)"

definition addMeasurementLabel :: "real \<Rightarrow> ovstate \<Rightarrow> ovstate" where
  "addMeasurementLabel d s =
     (let ps = pts_heap s (om_points (cur s));
          (i, s1) = ov_add (OLabel (midpoint (ps ! 0) (ps ! 1)) d) s in
      s1\<lparr>cur := (cur s1)\<lparr>om_label := Some i\<rparr>\<rparr>)"

text \<open>\<open>onCanvasMouseDown\<close>: the snap uses the pointer position stored by the last
  mouse move.  The second point draws the line and the label, stores a copy of
  \<open>currentMeasurement\<close> (the copy shares its arrays) and clears the current measurement
  without resetting its points.\<close>

definition onCanvasMouseDownOv ::
  "(vec3 \<Rightarrow> real \<times> real) \<Rightarrow> vec3 option \<Rightarrow> nat \<Rightarrow> ovstate \<Rightarrow> ovstate" where
  "onCanvasMouseDownOv proj hit button s =
     (if \<not> isMeasuring s \<or> ov_model s = None \<or> button \<noteq> 0 then s
      else
        (case getSnapPoint proj hit (ov_mouse s) (allModelVertices s) of
           None \<Rightarrow> s
         | Some (p, _) \<Rightarrow>
             (let a = om_points (cur s);
                  s1 = s\<lparr>pts_heap := (pts_heap s)(a := pts_heap s a @ [p])\<rparr>;
                  s2 = addMeasurementMarker p s1
              in if length (pts_heap s2 (om_points (cur s2))) = 2 then
                   (let ps = pts_heap s2 (om_points (cur s2));
                        s3 = drawMeasurementLine s2;
                        s4 = addMeasurementLabel (dist3 (ps ! 0) (ps ! 1)) s3;
                        s5 = s4\<lparr>allMeasurements := allMeasurements s4 @ [cur s4]\<rparr>
                    in clearCurrentMeasurement False s5)
                 else s2)))"

section \<open>The page as an event system\<close>

datatype ovevent =
    OvLoaded "mesh list" bool bool
  | OvLoadFailed string
  | OvMove "vec3 \<Rightarrow> real \<times> real" "vec3 option" "real \<times> real"
  | OvDown "vec3 \<Rightarrow> real \<times> real" "vec3 option" nat
  | OvMeasureBtn
  | OvClearBtn
  | OvTextureBtn
  | OvClip nat real

fun ui_state :: "'s ui_outcome \<Rightarrow> 's" where
  "ui_state (UiDone s) = s"
| "ui_state (UiTypeError s) = s"

fun ov_step :: "ovevent \<Rightarrow> ovstate \<Rightarrow> ovstate" where
  "ov_step (OvLoaded ms hasMtl mtlOk) s = onModelLoaded ms (load_forces_default hasMtl mtlOk) s"
| "ov_step (OvLoadFailed e) s = onModelLoadError e s"
| "ov_step (OvMove proj hit mouse) s = onCanvasMouseMoveOv proj hit mouse s"
| "ov_step (OvDown proj hit b) s = onCanvasMouseDownOv proj hit b s"
| "ov_step OvMeasureBtn s = toggleMeasurementMode s"
| "ov_step OvClearBtn s = clearAllMeasurements s"
| "ov_step OvTextureBtn s = ui_state (toggleTextures s)"
| "ov_step (OvClip i v) s = (if i < 3 then onClipInput i v s else s)"

text \<open>The page after \<open>init()\<close>: \<open>currentMeasurement\<close> holds two fresh arrays, the
  snap indicator is the first object of the scene, the model is loading.\<close>

definition ov_init :: ovstate where
  "ov_init =
     \<lparr>ov_model = None, origMats = (\<lambda>_. None), texturesVisible = True, textureBtnText = None,
      isMeasuring = False, ov_controlsEnabled = True, measureBtnActive = False,
      cur = \<lparr>om_points = 0, om_markers = 1, om_line = None, om_label = None\<rparr>,
      allMeasurements = [], pts_heap = (\<lambda>_. []), mk_heap = (\<lambda>_. []), nextArr = 2,
      ov_scene = [(0, OSnap)], ov_next = 1, ov_mouse = (0, 0), ov_snapVisible = False,
      ov_snapPos = (0, 0, 0), ov_snapType = None, ov_loading = True, ov_alerts = [],
      allModelVertices = [], dimsShown = None, clipSize = None, clipConst = [0, 0, 0]\<rparr>"

inductive ov_reach :: "ovstate \<Rightarrow> bool" where
  init: "ov_reach ov_init"
| step: "ov_reach s \<Longrightarrow> ov_reach (ov_step e s)"

definition ov_run :: "ovevent list \<Rightarrow> ovstate \<Rightarrow> ovstate" where
  "ov_run evs s = fold ov_step evs s"

fun pointer_event :: "ovevent \<Rightarrow> bool" where
  "pointer_event (OvMove _ _ _) = True"
| "pointer_event (OvDown _ _ _) = True"
| "pointer_event _ = False"

section \<open>Invariant\<close>

fun meas_drawing :: "ovobj \<Rightarrow> bool" where
  "meas_drawing (OLine _) = True"
| "meas_drawing (OLabel _ _) = True"
| "meas_drawing _ = False"

text \<open>No measurement line or label is in the scene and the current measurement refers
  to none.\<close>

definition ov_inv :: "ovstate \<Rightarrow> bool" where
  "ov_inv s \<longleftrightarrow> (\<forall>e \<in> set (ov_scene s). \<not> meas_drawing (snd e)) \<and>
     om_line (cur s) = None \<and> om_label (cur s) = None"

section \<open>A model for the examples\<close>

text \<open>One mesh with an MTL material and two vertices, a camera that projects every
  vertex onto the pointer, and the page after loading the model without an MTL file,
  switching the tool on and one press.\<close>

definition ov_mesh_ex :: mesh where
  "ov_mesh_ex = \<lparr>mesh_uuid = 7, mesh_material = Some (MtlMaterial ''wood''), mesh_vertices = [(0, 0, 0), (2, 1, 0)]\<rparr>"

definition ov_proj0 :: "vec3 \<Rightarrow> real \<times> real" where "ov_proj0 v = (0, 0)"

definition ov_first_click :: ovstate where
  "ov_first_click = ov_run [OvLoaded [ov_mesh_ex] False False, OvMeasureBtn, OvDown ov_proj0 None 0] ov_init"

section \<open>Properties\<close>

lemma ov_add_fields [simp]:
  "fst (ov_add obj s) = ov_next s"
  "ov_scene (snd (ov_add obj s)) = ov_scene s @ [(ov_next s, obj)]"
  "ov_next (snd (ov_add obj s)) = Suc (ov_next s)"
  "cur (snd (ov_add obj s)) = cur s"
  "allMeasurements (snd (ov_add obj s)) = allMeasurements s"
  "pts_heap (snd (ov_add obj s)) = pts_heap s"
  "mk_heap (snd (ov_add obj s)) = mk_heap s"
  "isMeasuring (snd (ov_add obj s)) = isMeasuring s"
  "ov_model (snd (ov_add obj s)) = ov_model s"
  by (simp_all add: ov_add_def)

lemma fold_ov_remove [simp]:
  "fold ov_remove is s = s\<lparr>ov_scene := filter (\<lambda>e. fst e \<notin> set is) (ov_scene s)\<rparr>"
  by (induction "is" arbitrary: s) (auto simp: ov_remove_def intro: filter_cong)

lemma ov_remove_opt_scene [simp]:
  "ov_remove_opt oi s = s\<lparr>ov_scene := filter (\<lambda>e. oi \<noteq> Some (fst e)) (ov_scene s)\<rparr>"
  by (cases oi) (auto simp: ov_remove_opt_def ov_remove_def eq_commute)

lemma clearCurrent_fields [simp]:
  "ov_scene (clearCurrentMeasurement r s) =
     filter (\<lambda>e. fst e \<notin> set (mk_heap s (om_markers (cur s))) \<and> om_line (cur s) \<noteq> Some (fst e) \<and>
                 om_label (cur s) \<noteq> Some (fst e)) (ov_scene s)"
  "om_line (cur (clearCurrentMeasurement r s)) = None"
  "om_label (cur (clearCurrentMeasurement r s)) = None"
  "om_points (cur (clearCurrentMeasurement False s)) = om_points (cur s)"
  "pts_heap (clearCurrentMeasurement False s) = pts_heap s"
  "allMeasurements (clearCurrentMeasurement r s) = allMeasurements s"
  "isMeasuring (clearCurrentMeasurement r s) = isMeasuring s"
  "ov_model (clearCurrentMeasurement r s) = ov_model s"
  "allModelVertices (clearCurrentMeasurement r s) = allModelVertices s"
  "ov_mouse (clearCurrentMeasurement r s) = ov_mouse s"
  by (auto simp: clearCurrentMeasurement_def alloc_pts_def alloc_mk_def Let_def split: prod.split intro: filter_cong)


lemma measMarker_fields [simp]:
  "ov_scene (addMeasurementMarker p s) = ov_scene s @ [(ov_next s, OMarker p)]"
  "cur (addMeasurementMarker p s) = cur s"
  "pts_heap (addMeasurementMarker p s) = pts_heap s"
  "allMeasurements (addMeasurementMarker p s) = allMeasurements s"
  "isMeasuring (addMeasurementMarker p s) = isMeasuring s"
  "ov_model (addMeasurementMarker p s) = ov_model s"
  by (simp_all add: addMeasurementMarker_def ov_add_def Let_def)

lemma drawLine_fields [simp]:
  "ov_scene (drawMeasurementLine s) = ov_scene s @ [(ov_next s, OLine (pts_heap s (om_points (cur s))))]"
  "cur (drawMeasurementLine s) = (cur s)\<lparr>om_line := Some (ov_next s)\<rparr>"
  "ov_next (drawMeasurementLine s) = Suc (ov_next s)"
  "pts_heap (drawMeasurementLine s) = pts_heap s"
  "mk_heap (drawMeasurementLine s) = mk_heap s"
  "allMeasurements (drawMeasurementLine s) = allMeasurements s"
  by (simp_all add: drawMeasurementLine_def ov_add_def)

lemma addLabel_fields [simp]:
  "ov_scene (addMeasurementLabel d s) =
     ov_scene s @ [(ov_next s, OLabel (midpoint (pts_heap s (om_points (cur s)) ! 0) (pts_heap s (om_points (cur s)) ! 1)) d)]"
  "cur (addMeasurementLabel d s) = (cur s)\<lparr>om_label := Some (ov_next s)\<rparr>"
  "pts_heap (addMeasurementLabel d s) = pts_heap s"
  "mk_heap (addMeasurementLabel d s) = mk_heap s"
  "allMeasurements (addMeasurementLabel d s) = allMeasurements s"
  by (simp_all add: addMeasurementLabel_def Let_def ov_add_def)

text \<open>The two outcomes of a press that snaps: the point is added, and either the
  measurement is still open or it is completed, stored and cleared.\<close>

lemma mouseDown_cases:
  obtains (skip) "onCanvasMouseDownOv proj hit b s = s"
  | (pending) p where "onCanvasMouseDownOv proj hit b s =
        addMeasurementMarker p (s\<lparr>pts_heap := (pts_heap s)(om_points (cur s) := pts_heap s (om_points (cur s)) @ [p])\<rparr>)"
      "length (pts_heap s (om_points (cur s))) \<noteq> 1"
  | (complete) p where "length (pts_heap s (om_points (cur s))) = 1"
      "onCanvasMouseDownOv proj hit b s =
        (let s2 = addMeasurementMarker p (s\<lparr>pts_heap := (pts_heap s)(om_points (cur s) := pts_heap s (om_points (cur s)) @ [p])\<rparr>);
             ps = pts_heap s2 (om_points (cur s2));
             s4 = addMeasurementLabel (dist3 (ps ! 0) (ps ! 1)) (drawMeasurementLine s2)
         in clearCurrentMeasurement False (s4\<lparr>allMeasurements := allMeasurements s4 @ [cur s4]\<rparr>))"
proof (cases "\<not> isMeasuring s \<or> ov_model s = None \<or> b \<noteq> 0")
  case True
  then show ?thesis by (intro skip) (simp add: onCanvasMouseDownOv_def)
next
  case False
  show ?thesis
  proof (cases "getSnapPoint proj hit (ov_mouse s) (allModelVertices s)")
    case None
    with False show ?thesis by (intro skip) (simp add: onCanvasMouseDownOv_def)
  next
    case (Some pt)
    obtain p t where pt: "pt = (p, t)" by (cases pt)
    show ?thesis
    proof (cases "length (pts_heap s (om_points (cur s))) = 1")
      case True
      with False Some pt show ?thesis
        by (intro complete [of p]) (auto simp: onCanvasMouseDownOv_def Let_def)
    next
      case f2: False
      with False Some pt show ?thesis
        by (intro pending [of p]) (auto simp: onCanvasMouseDownOv_def Let_def)
    qed
  qed
qed

lemma mouseDown_inv:
  assumes "ov_inv s"
  shows "ov_inv (onCanvasMouseDownOv proj hit b s)"
proof (cases rule: mouseDown_cases [of proj hit b s])
  case skip
  then show ?thesis using assms by simp
next
  case (pending p)
  then show ?thesis using assms by (auto simp: ov_inv_def)
next
  case (complete p)
  then show ?thesis using assms by (auto simp: ov_inv_def Let_def)
qed


lemma clear_meas_fields [simp]:
  "ov_scene (clear_meas m s) =
     filter (\<lambda>e. om_label m \<noteq> Some (fst e) \<and> om_line m \<noteq> Some (fst e) \<and> fst e \<notin> set (mk_heap s (om_markers m))) (ov_scene s)"
  "cur (clear_meas m s) = cur s"
  "mk_heap (clear_meas m s) = mk_heap s"
  by (auto simp: clear_meas_def intro: filter_cong)

lemma fold_clear_meas:
  "set (ov_scene (fold clear_meas ms s)) \<subseteq> set (ov_scene s) \<and> cur (fold clear_meas ms s) = cur s"
proof (induction ms arbitrary: s)
  case Nil
  then show ?case by simp
next
  case (Cons m ms)
  have "set (ov_scene (clear_meas m s)) \<subseteq> set (ov_scene s)" by auto
  with Cons.IH [of "clear_meas m s"] show ?case by auto
qed

lemma setupClipping_fields [simp]:
  "ov_scene (setupClippingControls sz s) =
     ov_scene s @ [(ov_next s, OPlaneHelper 0), (Suc (ov_next s), OPlaneHelper 1), (Suc (Suc (ov_next s)), OPlaneHelper 2)]"
  "cur (setupClippingControls sz s) = cur s"
  by (simp_all add: setupClippingControls_def Let_def ov_add_def)

lemma loadError_fields [simp]:
  "ov_scene (onModelLoadError e s) = ov_scene s" "cur (onModelLoadError e s) = cur s"
  by (simp_all add: onModelLoadError_def)

lemma onModelLoaded_inv: "ov_inv s \<Longrightarrow> ov_inv (onModelLoaded ms f s)"
  by (auto simp: onModelLoaded_def Let_def ov_inv_def ov_add_def split: option.split)

lemma toggleTextures_inv: "ov_inv s \<Longrightarrow> ov_inv (ui_state (toggleTextures s))"
  by (auto simp: toggleTextures_def Let_def ov_inv_def split: option.split)

lemma mouseMove_inv: "ov_inv s \<Longrightarrow> ov_inv (onCanvasMouseMoveOv proj hit mouse s)"
  by (auto simp: onCanvasMouseMoveOv_def Let_def ov_inv_def split: option.split prod.split)

lemma clearAll_inv: "ov_inv s \<Longrightarrow> ov_inv (clearAllMeasurements s)"
  using fold_clear_meas [of "allMeasurements s" s]
  by (fastforce simp: clearAllMeasurements_def ov_inv_def)

lemma toggleMeasurementMode_inv: "ov_inv s \<Longrightarrow> ov_inv (toggleMeasurementMode s)"
  by (auto simp: toggleMeasurementMode_def Let_def ov_inv_def)

lemma onClipInput_inv: "ov_inv s \<Longrightarrow> ov_inv (onClipInput i v s)"
  by (auto simp: onClipInput_def ov_inv_def split: option.split)

lemma onModelLoadError_inv: "ov_inv s \<Longrightarrow> ov_inv (onModelLoadError e s)"
  by (simp add: ov_inv_def)

lemma ov_step_inv: "ov_inv s \<Longrightarrow> ov_inv (ov_step e s)"
  by (cases e) (simp_all add: onModelLoaded_inv toggleTextures_inv mouseMove_inv clearAll_inv
      toggleMeasurementMode_inv onClipInput_inv mouseDown_inv onModelLoadError_inv)

lemma ov_init_inv: "ov_inv ov_init"
  by (simp add: ov_inv_def ov_init_def)

text \<open>
  C6: in every reachable state of the OBJ inspector no measurement line or distance label
  is in the scene: the press that completes a measurement draws them and, through
  \<open>clearCurrentMeasurement(false)\<close>, removes them again in the same handler, so a
  finished measurement is never shown.
\<close>

theorem ov_measurement_never_shown:
  assumes "ov_reach s"
  shows "\<forall>e \<in> set (ov_scene s). \<not> meas_drawing (snd e)"
proof -
  from assms have "ov_inv s" by induction (simp_all add: ov_init_inv ov_step_inv)
  then show ?thesis by (simp add: ov_inv_def)
qed


lemma mouseMove_fields [simp]:
  "cur (onCanvasMouseMoveOv proj hit mouse s) = cur s"
  "pts_heap (onCanvasMouseMoveOv proj hit mouse s) = pts_heap s"
  "allMeasurements (onCanvasMouseMoveOv proj hit mouse s) = allMeasurements s"
  by (auto simp: onCanvasMouseMoveOv_def Let_def split: option.split prod.split)

text \<open>Once the current points array holds two points, a press only lengthens it.\<close>

lemma mouseDown_stuck:
  assumes "2 \<le> length (pts_heap s (om_points (cur s)))"
  shows "allMeasurements (onCanvasMouseDownOv proj hit b s) = allMeasurements s \<and>
         2 \<le> length (pts_heap (onCanvasMouseDownOv proj hit b s) (om_points (cur (onCanvasMouseDownOv proj hit b s))))"
  using assms by (cases rule: mouseDown_cases [of proj hit b s]) auto

lemma pointer_run_stuck:
  assumes "2 \<le> length (pts_heap s (om_points (cur s)))" and "list_all pointer_event evs"
  shows "allMeasurements (ov_run evs s) = allMeasurements s"
  using assms
proof (induction evs arbitrary: s)
  case Nil
  then show ?case by (simp add: ov_run_def)
next
  case (Cons e evs)
  from Cons.prems(2) have pe: "pointer_event e" and rest: "list_all pointer_event evs" by simp_all
  have "allMeasurements (ov_step e s) = allMeasurements s \<and>
        2 \<le> length (pts_heap (ov_step e s) (om_points (cur (ov_step e s))))"
    using pe Cons.prems(1) mouseDown_stuck by (cases e) auto
  with Cons.IH [OF _ rest] show ?case by (simp add: ov_run_def)
qed

text \<open>
  C26: the press that completes a measurement stores a copy of \<open>currentMeasurement\<close>
  that shares its points array with the current measurement, which keeps its two points;
  from then on pointer events never record another measurement (the array only grows
  past length 2) until Clear All or switching the tool off allocates a new array.
\<close>

theorem measurement_points_shared:
  assumes "allMeasurements (onCanvasMouseDownOv proj hit b s) = allMeasurements s @ [m]"
  shows "om_points m = om_points (cur (onCanvasMouseDownOv proj hit b s)) \<and>
         length (pts_heap (onCanvasMouseDownOv proj hit b s) (om_points m)) = 2 \<and>
         (\<forall>evs. list_all pointer_event evs \<longrightarrow>
            allMeasurements (ov_run evs (onCanvasMouseDownOv proj hit b s)) = allMeasurements s @ [m])"
proof (cases rule: mouseDown_cases [of proj hit b s])
  case skip
  with assms show ?thesis by simp
next
  case (pending p)
  with assms show ?thesis by simp
next
  case (complete p)
  with assms have m: "om_points m = om_points (cur s)" and
    len: "length (pts_heap (onCanvasMouseDownOv proj hit b s) (om_points m)) = 2"
    by (auto simp: Let_def)
  moreover have "om_points (cur (onCanvasMouseDownOv proj hit b s)) = om_points (cur s)"
    using complete by (simp add: Let_def)
  ultimately show ?thesis
    using pointer_run_stuck [of "onCanvasMouseDownOv proj hit b s"] assms by simp
qed


lemma arg_min_list_snoc:
  assumes "xs \<noteq> []"
  shows "arg_min_list f (xs @ [x]) = (if f x < f (arg_min_list f xs) then x else arg_min_list f xs)"
  using assms
proof (induction f xs rule: arg_min_list.induct)
  case (1 f a)
  then show ?case by auto
next
  case (2 f a b zs)
  then show ?case by (auto simp: Let_def)
next
  case 3
  then show ?case by simp
qed

lemma arg_min_list_snoc_Cons:
  "arg_min_list f (y # ys @ [x]) = (if f x < f (arg_min_list f (y # ys)) then x else arg_min_list f (y # ys))"
  using arg_min_list_snoc [of "y # ys" f x] by simp

lemma snap_fold:
  "fold (snap_step proj mouse) vs (None, None) =
     (case filter (\<lambda>v. dist2 (proj v) mouse < SNAP_RADIUS) vs of
        [] \<Rightarrow> (None, None)
      | cs \<Rightarrow> (Some (dist2 (proj (arg_min_list (\<lambda>v. dist2 (proj v) mouse) cs)) mouse),
              Some (arg_min_list (\<lambda>v. dist2 (proj v) mouse) cs)))"
proof (induction vs rule: rev_induct)
  case Nil
  then show ?case by simp
next
  case (snoc x xs)
  then show ?case
    by (cases "filter (\<lambda>v. dist2 (proj v) mouse < SNAP_RADIUS) xs")
       (auto simp: snap_step_def arg_min_list_snoc_Cons Let_def simp del: arg_min_list.simps(2))
qed

text \<open>
  C13: the vertex loop of \<open>getSnapPoint\<close> returns the first vertex, among those whose
  projection lies within \<open>SNAP_RADIUS\<close> of the pointer, with the smallest distance:
  it agrees with the library's \<open>arg_min_list\<close> over the vertices in range.
\<close>

theorem snap_loop_nearest:
  "snd (fold (snap_step proj mouse) vs (None, None)) = nearest_vertex proj mouse vs"
  by (simp add: snap_fold nearest_vertex_def split: list.split)


lemma fold_min_mono: "mono (f :: real \<Rightarrow> real) \<Longrightarrow> fold min (map f ys) (f a) = f (fold min ys a)"
  by (induction ys arbitrary: a) (simp_all add: min_of_mono)

lemma fold_max_mono: "mono (f :: real \<Rightarrow> real) \<Longrightarrow> fold max (map f ys) (f a) = f (fold max ys a)"
  by (induction ys arbitrary: a) (simp_all add: max_of_mono)

lemma list_min_mono: "mono f \<Longrightarrow> xs \<noteq> [] \<Longrightarrow> list_min (map f xs) = f (list_min xs)"
  by (cases xs) (simp_all add: list_min_def fold_min_mono)

lemma list_max_mono: "mono f \<Longrightarrow> xs \<noteq> [] \<Longrightarrow> list_max (map f xs) = f (list_max xs)"
  by (cases xs) (simp_all add: list_max_def fold_max_mono)

lemma mono_affine: "0 < (k::real) \<Longrightarrow> mono (\<lambda>x. k * x - c)"
  by (auto intro: monoI)

lemma bbox_world:
  assumes "bbox vs = Some ((x0, y0, z0), (x1, y1, z1))" and "0 < k"
  shows "bbox (map (world k c) vs) =
           Some ((k * x0 - fst c, k * y0 - fst (snd c), k * z0 - snd (snd c)),
                 (k * x1 - fst c, k * y1 - fst (snd c), k * z1 - snd (snd c)))"
proof -
  have ne: "vs \<noteq> []" using assms(1) by (auto simp: bbox_def)
  have "vxs (map (world k c) vs) = map (\<lambda>x. k * x - fst c) (vxs vs)"
    "vys (map (world k c) vs) = map (\<lambda>x. k * x - fst (snd c)) (vys vs)"
    "vzs (map (world k c) vs) = map (\<lambda>x. k * x - snd (snd c)) (vzs vs)"
    by (simp_all add: vxs_def vys_def vzs_def world_def)
  moreover have "vxs vs \<noteq> []" "vys vs \<noteq> []" "vzs vs \<noteq> []"
    using ne by (simp_all add: vxs_def vys_def vzs_def)
  ultimately show ?thesis
    using assms ne by (auto simp: bbox_def list_min_mono list_max_mono mono_affine)
qed

lemma loaded_vertices [simp]: "concat (map mesh_vertices (loaded_meshes f ms)) = concat (map mesh_vertices ms)"
  by (induction ms) (auto simp: loaded_meshes_def)

lemma loaded_uuids [simp]: "map mesh_uuid (loaded_meshes f ms) = map mesh_uuid ms"
  by (induction ms) (auto simp: loaded_meshes_def)

lemma max3_scale: "0 < (k::real) \<Longrightarrow> max3 (k * a, k * b, k * c) = k * max3 (a, b, c)"
  by (simp add: max3_def max_mult_distrib_left)

lemma onModelLoaded_box:
  assumes "bbox (concat (map mesh_vertices ms)) = Some b"
  shows "allModelVertices (onModelLoaded ms f s) =
           map (world (5 / max3 (box_size b)) (box_center b)) (concat (map mesh_vertices ms))"
    and "dimsShown (onModelLoaded ms f s) = Some (box_size (the (bbox (allModelVertices (onModelLoaded ms f s)))))"
  using assms
  unfolding onModelLoaded_def Let_def
  by (simp_all add: setupClippingControls_def ov_add_def)

text \<open>
  C31: for a model whose bounding box \<open>b\<close> has a positive extent, the loaded model's
  largest dimension is exactly 5 units, but its centre lies at \<open>k * c - c\<close> for the
  scale \<open>k\<close> and the original centre \<open>c\<close>: \<open>position.sub(center)\<close> is applied
  after scaling, so the model is centred on the origin only when \<open>k = 1\<close> or
  \<open>c = 0\<close>.
\<close>

theorem model_scaled_off_centre:
  assumes "bbox (concat (map mesh_vertices ms)) = Some b" and "0 < max3 (box_size b)"
  shows "max3 (the (dimsShown (onModelLoaded ms f s))) = 5 \<and>
         box_center (the (bbox (allModelVertices (onModelLoaded ms f s)))) =
           world (5 / max3 (box_size b)) (box_center b) (box_center b)"
proof -
  obtain x0 y0 z0 x1 y1 z1 where b: "b = ((x0, y0, z0), (x1, y1, z1))" by (cases b) auto
  define k where "k = 5 / max3 (box_size b)"
  define c where "c = box_center b"
  have k: "0 < k" using assms(2) by (simp add: k_def)
  have verts: "allModelVertices (onModelLoaded ms f s) = map (world k c) (concat (map mesh_vertices ms))"
    using onModelLoaded_box(1) [OF assms(1)] by (simp add: k_def c_def)
  have bw: "bbox (allModelVertices (onModelLoaded ms f s)) =
           Some ((k * x0 - fst c, k * y0 - fst (snd c), k * z0 - snd (snd c)),
                 (k * x1 - fst c, k * y1 - fst (snd c), k * z1 - snd (snd c)))"
    using bbox_world [OF assms(1) [unfolded b] k] verts by simp
  have dims: "the (dimsShown (onModelLoaded ms f s)) = (k * x1 - k * x0, k * y1 - k * y0, k * z1 - k * z0)"
    using onModelLoaded_box(2) [OF assms(1), of f s] bw by (simp add: box_size_def)
  have "k * max3 (box_size b) = 5" using assms(2) by (simp add: k_def)
  then have "max3 (k * (x1 - x0), k * (y1 - y0), k * (z1 - z0)) = 5"
    using max3_scale [OF k] b by (simp add: box_size_def)
  moreover have "(k * x1 - k * x0, k * y1 - k * y0, k * z1 - k * z0) = (k * (x1 - x0), k * (y1 - y0), k * (z1 - z0))"
    by (simp add: right_diff_distrib)
  ultimately have "max3 (the (dimsShown (onModelLoaded ms f s))) = 5" using dims by simp
  moreover have "box_center (the (bbox (allModelVertices (onModelLoaded ms f s)))) = world k c c"
    using bw by (simp add: box_center_def world_def c_def b field_simps)
  ultimately show ?thesis by (simp add: k_def c_def)
qed

lemma onModelLoaded_common [simp]:
  "ov_model (onModelLoaded ms f s) = Some (loaded_meshes f ms)"
  "origMats (onModelLoaded ms f s) = fold (\<lambda>m g. g(mesh_uuid m := mesh_material m)) (loaded_meshes f ms) (origMats s)"
  "texturesVisible (onModelLoaded ms f s) = texturesVisible s"
  by (simp_all add: onModelLoaded_def Let_def onModelLoadError_def setupClippingControls_def ov_add_def
      split: option.split)

lemma fold_mats:
  "distinct (map mesh_uuid ms) \<Longrightarrow> m \<in> set ms \<Longrightarrow>
     fold (\<lambda>m g. g(mesh_uuid m := mesh_material m)) ms g (mesh_uuid m) = mesh_material m"
proof (induction ms arbitrary: g)
  case Nil
  then show ?case by simp
next
  case (Cons m' ms)
  show ?case
  proof (cases "m \<in> set ms")
    case True
    with Cons show ?thesis by simp
  next
    case False
    with Cons.prems have "m = m'" by simp
    moreover have "fold (\<lambda>m g. g(mesh_uuid m := mesh_material m)) ms h (mesh_uuid m') = h (mesh_uuid m')" for h
      using Cons.prems(1) by (induction ms arbitrary: h) auto
    ultimately show ?thesis by (simp del: fun_upd_apply add: fun_upd_same)
  qed
qed

lemma restore_materials:
  assumes "distinct (map mesh_uuid ms)"
  shows "map (\<lambda>m. m\<lparr>mesh_material := fold (\<lambda>m g. g(mesh_uuid m := mesh_material m)) ms g (mesh_uuid m)\<rparr>) ms = ms"
proof -
  have "\<forall>m \<in> set ms. m\<lparr>mesh_material := fold (\<lambda>m g. g(mesh_uuid m := mesh_material m)) ms g (mesh_uuid m)\<rparr> = m"
    using fold_mats [OF assms] by simp
  then show ?thesis by (simp add: map_idI)
qed

text \<open>
  A click on the texture button before the model has loaded flips
  \<open>texturesVisible\<close> and throws on \<open>model.traverse\<close>; once the model is loaded, the next
  click restores the original materials the model already shows and relabels the button
  \<open>Hide Textures\<close>, so it changes nothing visible.
\<close>

theorem texture_toggle_before_load:
  assumes "ov_model s = None" and "texturesVisible s" and "distinct (map mesh_uuid ms)"
  shows "toggleTextures s = UiTypeError (s\<lparr>texturesVisible := False\<rparr>) \<and>
         toggleTextures (onModelLoaded ms f (s\<lparr>texturesVisible := False\<rparr>)) =
           UiDone ((onModelLoaded ms f (s\<lparr>texturesVisible := False\<rparr>))
                     \<lparr>texturesVisible := True, textureBtnText := Some ''Hide Textures''\<rparr>)"
proof -
  let ?s2 = "onModelLoaded ms f (s\<lparr>texturesVisible := False\<rparr>)"
  have "distinct (map mesh_uuid (loaded_meshes f ms))" using assms(3) by simp
  from restore_materials [OF this] have
    "map (\<lambda>m. m\<lparr>mesh_material := origMats ?s2 (mesh_uuid m)\<rparr>) (loaded_meshes f ms) = loaded_meshes f ms"
    by simp
  then have "toggleTextures ?s2 = UiDone (?s2\<lparr>texturesVisible := True, textureBtnText := Some ''Hide Textures''\<rparr>)"
    by (simp add: toggleTextures_def)
  moreover have "toggleTextures s = UiTypeError (s\<lparr>texturesVisible := False\<rparr>)"
    using assms(1,2) by (simp add: toggleTextures_def)
  ultimately show ?thesis by simp
qed


section \<open>Examples\<close>

lemma bbox_ex: "bbox (concat (map mesh_vertices [ov_mesh_ex])) = Some ((0, 0, 0), (2, 1, 0))"
  by (simp add: bbox_def ov_mesh_ex_def vxs_def vys_def vzs_def list_min_def list_max_def)

lemma ov_first_click_fields:
  "allMeasurements ov_first_click = []"
  "length (pts_heap ov_first_click (om_points (cur ov_first_click))) = 1"
  by (simp_all add: ov_first_click_def ov_run_def ov_init_def onModelLoaded_def Let_def
      ov_mesh_ex_def loaded_meshes_def load_forces_default_def bbox_def vxs_def vys_def vzs_def
      list_min_def list_max_def box_center_def box_size_def max3_def world_def
      setupClippingControls_def ov_add_def addMeasurementMarker_def
      toggleMeasurementMode_def onCanvasMouseDownOv_def getSnapPoint_def snap_step_def ov_proj0_def
      dist2_def SNAP_RADIUS_def)

lemma ov_second_click:
  "allMeasurements (onCanvasMouseDownOv ov_proj0 None 0 ov_first_click) =
     [\<lparr>om_points = 0, om_markers = 1, om_line = Some 7, om_label = Some 8\<rparr>]"
  by (simp add: ov_first_click_def ov_run_def ov_init_def onModelLoaded_def Let_def
      ov_mesh_ex_def loaded_meshes_def load_forces_default_def bbox_def vxs_def vys_def vzs_def
      list_min_def list_max_def box_center_def box_size_def max3_def world_def
      setupClippingControls_def ov_add_def addMeasurementMarker_def drawMeasurementLine_def addMeasurementLabel_def
      clearCurrentMeasurement_def alloc_mk_def
      toggleMeasurementMode_def onCanvasMouseDownOv_def getSnapPoint_def snap_step_def ov_proj0_def
      dist2_def SNAP_RADIUS_def)


lemma ov_run_reach: "ov_reach s \<Longrightarrow> ov_reach (ov_run evs s)"
  by (induction evs arbitrary: s) (simp_all add: ov_run_def ov_reach.step)

theorem ov_measurement_never_shown_witness:
  "allMeasurements (onCanvasMouseDownOv ov_proj0 None 0 ov_first_click) =
     [\<lparr>om_points = 0, om_markers = 1, om_line = Some 7, om_label = Some 8\<rparr>] \<and>
   list_all (\<lambda>e. \<not> meas_drawing (snd e)) (ov_scene (onCanvasMouseDownOv ov_proj0 None 0 ov_first_click))"
proof -
  have "ov_reach ov_first_click" unfolding ov_first_click_def by (rule ov_run_reach [OF ov_reach.init])
  then have "ov_reach (ov_step (OvDown ov_proj0 None 0) ov_first_click)" by (rule ov_reach.step)
  then show ?thesis using ov_measurement_never_shown ov_second_click by (simp add: list_all_iff)
qed

theorem measurement_points_shared_witness:
  "om_points \<lparr>om_points = 0, om_markers = 1, om_line = Some 7, om_label = Some 8\<rparr> =
     om_points (cur (onCanvasMouseDownOv ov_proj0 None 0 ov_first_click)) \<and>
   length (pts_heap (onCanvasMouseDownOv ov_proj0 None 0 ov_first_click) 0) = 2 \<and>
   allMeasurements (ov_run [OvDown ov_proj0 None 0, OvMove ov_proj0 None (0, 0), OvDown ov_proj0 None 0]
                      (onCanvasMouseDownOv ov_proj0 None 0 ov_first_click)) =
     [\<lparr>om_points = 0, om_markers = 1, om_line = Some 7, om_label = Some 8\<rparr>]"
  using measurement_points_shared [of ov_proj0 None 0 ov_first_click
      "\<lparr>om_points = 0, om_markers = 1, om_line = Some 7, om_label = Some 8\<rparr>"]
    ov_second_click ov_first_click_fields(1)
  by simp

theorem model_scaled_off_centre_witness:
  "max3 (the (dimsShown (onModelLoaded [ov_mesh_ex] False ov_init))) = 5 \<and>
   box_center (the (bbox (allModelVertices (onModelLoaded [ov_mesh_ex] False ov_init)))) = (3 / 2, 3 / 4, 0)"
  using model_scaled_off_centre [OF bbox_ex, of False ov_init]
  by (simp add: box_size_def box_center_def max3_def world_def)

theorem texture_toggle_before_load_witness:
  "toggleTextures ov_init = UiTypeError (ov_init\<lparr>texturesVisible := False\<rparr>) \<and>
   toggleTextures (onModelLoaded [ov_mesh_ex] False (ov_init\<lparr>texturesVisible := False\<rparr>)) =
     UiDone ((onModelLoaded [ov_mesh_ex] False (ov_init\<lparr>texturesVisible := False\<rparr>))
               \<lparr>texturesVisible := True, textureBtnText := Some ''Hide Textures''\<rparr>)"
  using texture_toggle_before_load [of ov_init "[ov_mesh_ex]" False]
  by (simp add: ov_init_def ov_mesh_ex_def)

end
