(* ===== verification/ModelImport.thy ===== *)
theory ModelImport
  imports Basemap
begin

text \<open>
  The 3D model import of \<open>src/static/js/model-importer.js\<close> and the list of imported
  models of \<open>src/static/js/main-model-manager.js\<close>, on the session of \<open>main.js\<close> whose
  map they share with the layer handlers.  \<open>handleModelImport\<close> awaits three times (the
  OBJ parse, the upload and its JSON body) and \<open>renderAsCustomLayer\<close> once more when an
  MTL file is among the files (its failure is caught); each import in flight is a job with the stage it
  has reached, and each continuation is a step that takes the settled value as an
  argument.  The parse delivers the vertex counts of the meshes; \<open>Date.now()\<close> is an
  argument of the step that draws.  The custom layer's Three.js scene, the camera fly-to and
  the object URLs are rendering and browser resources.  A list item is identified by the
  DOM element it creates (a number), since several items may carry the same layer id.
\<close>

section \<open>State\<close>

record imp_item =
  it_name :: string
  it_layerId :: string
  it_sourceId :: "string option"
  it_modelId :: string

text \<open>The three alerts of the import, by their cause.\<close>

datatype imp_alert = NoObjFile | ImportFailed string | TooLarge nat

datatype imp_stage = ObjLoading | Uploading nat | Rendering string

record imp_job =
  job_obj :: string
  job_mtl :: "string option"
  job_stage :: imp_stage

text \<open>The JSON body of \<open>/upload-model\<close>.\<close>

record upload_result =
  up_success :: bool
  up_modelId :: "string option"
  up_message :: "string option"

record impstate =
  imp_sess :: session
  imp_items :: "(nat \<times> imp_item) list"
  imp_nextItem :: nat
  imp_placeholder :: bool
  imp_loader :: "string option"
  imp_alerts :: "imp_alert list"
  objInput :: "string option"
  mtlInput :: "string option"
  imp_jobs :: "(nat \<times> imp_job) list"
  imp_nextJob :: nat

definition MAX_VERTICES_FOR_MAP :: nat where "MAX_VERTICES_FOR_MAP = 1500000"

section \<open>The list of imported models\<close>

definition addImportedModelToList :: "string \<Rightarrow> string \<Rightarrow> string option \<Rightarrow> string \<Rightarrow> impstate \<Rightarrow> impstate" where
  "addImportedModelToList name layerId sourceId modelId s =
     s\<lparr>imp_placeholder := False,
       imp_items := imp_items s @ [(imp_nextItem s, \<lparr>it_name = name, it_layerId = layerId,
                                                  it_sourceId = sourceId, it_modelId = modelId\<rparr>)],
       imp_nextItem := Suc (imp_nextItem s)\<rparr>"

text \<open>The remove button of item \<open>k\<close>: its closure holds the item's layer and source id.\<close>

definition removeImportedModel :: "nat \<Rightarrow> impstate \<Rightarrow> impstate" where
  "removeImportedModel k s =
     (case map_of (imp_items s) k of
        None \<Rightarrow> s
      | Some it \<Rightarrow>
          (let m1 = remove_layer_if (it_layerId it) (smap (imp_sess s));
               m2 = (case it_sourceId it of Some sid \<Rightarrow> remove_source_if sid m1 | None \<Rightarrow> m1);
               items' = filter (\<lambda>e. fst e \<noteq> k) (imp_items s)
           in s\<lparr>imp_sess := (imp_sess s)\<lparr>smap := m2\<rparr>, imp_items := items',
                imp_placeholder := (if items' = [] then True else imp_placeholder s)\<rparr>))"

section \<open>The import\<close>

definition job_of :: "nat \<Rightarrow> impstate \<Rightarrow> imp_job option" where
  "job_of j s = map_of (imp_jobs s) j"

definition set_stage :: "nat \<Rightarrow> imp_stage \<Rightarrow> impstate \<Rightarrow> impstate" where
  "set_stage j st s = s\<lparr>imp_jobs := map (\<lambda>e. if fst e = j then (j, (snd e)\<lparr>job_stage := st\<rparr>) else e) (imp_jobs s)\<rparr>"

text \<open>The click on the import button, up to the first \<open>await\<close>.  Without an OBJ file
  the handler returns before its \<open>try\<close>, so the \<open>finally\<close> does not clear the inputs.\<close>

definition handleModelImport :: "impstate \<Rightarrow> impstate" where
  "handleModelImport s =
     (let s1 = s\<lparr>imp_loader := Some ''Analyzing model file...''\<rparr> in
      case objInput s1 of
        None \<Rightarrow> s1\<lparr>imp_loader := None, imp_alerts := imp_alerts s1 @ [NoObjFile]\<rparr>
      | Some f \<Rightarrow>
          s1\<lparr>imp_jobs := imp_jobs s1 @ [(imp_nextJob s1, \<lparr>job_obj = f, job_mtl = mtlInput s1, job_stage = ObjLoading\<rparr>)],
             imp_nextJob := Suc (imp_nextJob s1)\<rparr>)"

text \<open>The \<open>finally\<close> block, at the end of the job.\<close>

definition import_end :: "nat \<Rightarrow> impstate \<Rightarrow> impstate" where
  "import_end j s = s\<lparr>objInput := None, mtlInput := None, imp_jobs := filter (\<lambda>e. fst e \<noteq> j) (imp_jobs s)\<rparr>"

text \<open>The \<open>catch\<close> block.\<close>

definition import_fail :: "nat \<Rightarrow> string \<Rightarrow> impstate \<Rightarrow> impstate" where
  "import_fail j msg s = import_end j (s\<lparr>imp_alerts := imp_alerts s @ [ImportFailed msg], imp_loader := None\<rparr>)"

text \<open>After \<open>objLoader.loadAsync\<close>: the vertex counts of the meshes, summed by the
  traversal.\<close>

definition obj_loaded :: "nat \<Rightarrow> nat list reply \<Rightarrow> impstate \<Rightarrow> impstate" where
  "obj_loaded j r s =
     (case job_of j s of
        Some job \<Rightarrow>
          (if job_stage job = ObjLoading then
             (case r of
                FetchFailed e \<Rightarrow> import_fail j e s
              | FetchOk counts \<Rightarrow>
                  set_stage j (Uploading (sum_list counts)) (s\<lparr>imp_loader := Some ''Uploading model files...''\<rparr>))
           else s)
      | None \<Rightarrow> s)"

definition id_truthy :: "string option \<Rightarrow> bool" where
  "id_truthy x = (case x of Some v \<Rightarrow> v \<noteq> [] | None \<Rightarrow> False)"

text \<open>\<open>s.endsWith(t)\<close>.\<close>

definition js_ends_with :: "string \<Rightarrow> string \<Rightarrow> bool" where
  "js_ends_with s t = (length t \<le> length s \<and> drop (length s - length t) s = t)"

text \<open>\<open>files.find(f => f.name.toLowerCase().endsWith('.mtl'))\<close> over \<open>allFiles\<close> (the
  OBJ file and the MTL input's file): only then does \<open>renderAsCustomLayer\<close> await.\<close>

definition mtl_await :: "imp_job \<Rightarrow> bool" where
  "mtl_await job =
     list_ex (\<lambda>f. js_ends_with (to_lower f) ''.mtl'')
       (job_obj job # (case job_mtl job of Some m \<Rightarrow> [m] | None \<Rightarrow> []))"

definition model_layer :: "nat \<Rightarrow> mlayer" where
  "model_layer now = \<lparr>ml_id = ''3d-model-layer-'' @ dec_nat now, ml_type = ''custom'', ml_source = None,
                      ml_filter = NoFilter, ml_visible = True, ml_text = None\<rparr>"

text \<open>The part of \<open>renderAsCustomLayer\<close> after the MTL materials (if any), at time
  \<open>now\<close>: the custom layer, the list item and \<open>hideLoader\<close>; then the \<open>finally\<close> of
  the import.\<close>

definition render_model :: "nat \<Rightarrow> imp_job \<Rightarrow> string \<Rightarrow> nat \<Rightarrow> impstate \<Rightarrow> impstate" where
  "render_model j job mid now s =
     (let l = model_layer now;
          s1 = s\<lparr>imp_sess := (imp_sess s)\<lparr>smap := addLayer l (firstSymbolId (imp_sess s)) (smap (imp_sess s))\<rparr>\<rparr>;
          s2 = addImportedModelToList (job_obj job) (ml_id l) None mid s1
      in import_end j (s2\<lparr>imp_loader := None\<rparr>))"

text \<open>After the upload and its JSON body: a failed request or a non-OK status is a
  \<open>FetchFailed\<close> with the thrown message.  A model small enough for the map goes to
  \<open>renderAsCustomLayer\<close>; without an MTL file it has no \<open>await\<close> and draws in this
  same step (at time \<open>now\<close>), with one it waits for the MTL file.\<close>

definition upload_answer :: "nat \<Rightarrow> upload_result reply \<Rightarrow> nat \<Rightarrow> impstate \<Rightarrow> impstate" where
  "upload_answer j r now s =
     (case job_of j s of
        Some job \<Rightarrow>
          (case job_stage job of
             Uploading vc \<Rightarrow>
               (case r of
                  FetchFailed e \<Rightarrow> import_fail j e s
                | FetchOk res \<Rightarrow>
                    (if \<not> up_success res \<or> \<not> id_truthy (up_modelId res) then
                       import_fail j (if id_truthy (up_message res) then the (up_message res)
                                      else ''Failed to process model on server.'') s
                     else
                       (let mid = the (up_modelId res) in
                        if MAX_VERTICES_FOR_MAP < vc then
                          (let s1 = addImportedModelToList (job_obj job) (''inspector-only-'' @ mid) None mid
                                      (s\<lparr>imp_loader := None\<rparr>)
                           in import_end j (s1\<lparr>imp_alerts := imp_alerts s1 @ [TooLarge vc]\<rparr>))
                        else
                          (let s1 = s\<lparr>imp_loader := Some ''Processing & Rendering Model...''\<rparr> in
                           if mtl_await job then set_stage j (Rendering mid) s1
                           else render_model j job mid now s1))))
           | _ \<Rightarrow> s)
      | None \<Rightarrow> s)"

text \<open>The MTL file settled (its failure is caught and only changes materials): the
  rest of \<open>renderAsCustomLayer\<close>, at time \<open>now\<close>.\<close>

definition render_done :: "nat \<Rightarrow> nat \<Rightarrow> impstate \<Rightarrow> impstate" where
  "render_done j now s =
     (case job_of j s of
        Some job \<Rightarrow>
          (case job_stage job of
             Rendering mid \<Rightarrow> render_model j job mid now s
           | _ \<Rightarrow> s)
      | None \<Rightarrow> s)"

text \<open>A basemap change on the shared map: \<open>setStyle\<close> and the \<open>style.load\<close> replay of
  \<open>Basemap\<close>; the importer's list is not part of the replay.\<close>

definition imp_basemap ::
  "dom_lists \<Rightarrow> (string \<Rightarrow> (nat \<times> nat \<times> nat) option) \<Rightarrow> string list \<Rightarrow> mlayer list \<Rightarrow> impstate \<Rightarrow> impstate option" where
  "imp_basemap dl bands srcs lys s =
     map_option (\<lambda>(s', _). s\<lparr>imp_sess := s'\<rparr>) (reapplyAllLayers dl bands (basemap_change srcs lys (imp_sess s)))"

text \<open>The list's items have distinct element numbers below the next one, no source,
  and a layer id the importer creates.\<close>

definition imp_ok :: "impstate \<Rightarrow> bool" where
  "imp_ok s \<longleftrightarrow> distinct (map fst (imp_items s)) \<and>
     (\<forall>e \<in> set (imp_items s). fst e < imp_nextItem s \<and> it_sourceId (snd e) = None \<and>
        (starts_with (it_layerId (snd e)) ''3d-model-layer-'' \<or> starts_with (it_layerId (snd e)) ''inspector-only-''))"

section \<open>A page for the examples\<close>

text \<open>The session of \<open>Basemap\<close> with one imported model drawn on its map, and a large
  model whose upload is in flight.\<close>

definition imp_item_ex :: imp_item where
  "imp_item_ex = \<lparr>it_name = ''house.obj'', it_layerId = ''3d-model-layer-42'', it_sourceId = None, it_modelId = ''m1''\<rparr>"

definition imp_page :: impstate where
  "imp_page =
     \<lparr>imp_sess = bm_session\<lparr>smap := addLayer (model_layer 42) None (smap bm_session)\<rparr>,
      imp_items = [(0, imp_item_ex)], imp_nextItem = 1, imp_placeholder = False, imp_loader = None,
      imp_alerts = [], objInput = None, mtlInput = None,
      imp_jobs = [(1, \<lparr>job_obj = ''big.obj'', job_mtl = None, job_stage = Uploading 2000000\<rparr>)], imp_nextJob = 2\<rparr>"

text \<open>The same page with an accepted small model, imported without an MTL file, whose
  upload is in flight.\<close>

definition imp_small :: impstate where
  "imp_small = imp_page\<lparr>imp_jobs := [(3, \<lparr>job_obj = ''barn.obj'', job_mtl = None, job_stage = Uploading 5000\<rparr>)]\<rparr>"

section \<open>Properties\<close>

lemma replay_keys_layer_frame:
  assumes "replay_keys dl bands ks s = Some (s', p)" and "\<forall>f. j \<noteq> raster_layer_id f"
  shows "has_layer (smap s') j = has_layer (smap s) j"
  using assms
proof (induction ks arbitrary: s p)
  case Nil
  then show ?case by simp
next
  case (Cons k ks)
  show ?case
  proof (cases "obj_get (activeLayers s) k")
    case None
    with Cons.prems show ?thesis by simp
  next
    case (Some i)
    show ?thesis
    proof (cases i)
      case (VectorLayer v)
      show ?thesis
      proof (cases "vi_filename v \<in> set (vectorBoxes dl)")
        case True
        with Cons.prems(1) Some VectorLayer obtain b where
          r: "replay_keys dl bands ks (s\<lparr>activeLayers := obj_del (activeLayers s) k\<rparr>) = Some (s', b)" by auto
        from Cons.IH [OF r Cons.prems(2)] show ?thesis by simp
      next
        case False
        with Cons.prems(1) Some VectorLayer have "replay_keys dl bands ks s = Some (s', p)" by simp
        from Cons.IH [OF this Cons.prems(2)] show ?thesis .
      qed
    next
      case (RasterLayer r)
      let ?t = "fst (handleRasterToggle True (rm_id r) r (bands (rm_id r)) (s\<lparr>activeLayers := obj_del (activeLayers s) k\<rparr>))"
      have frame: "has_layer (smap ?t) j = has_layer (smap s) j"
        using raster_toggle_frame [of j "rm_id r" r "bands (rm_id r)"] Cons.prems(2) by simp
      show ?thesis
      proof (cases "rm_id r \<in> set (if colormap_truthy r then analysisBoxes dl else rasterBoxes dl)")
        case True
        with Cons.prems(1) Some RasterLayer have "replay_keys dl bands ks ?t = Some (s', p)"
          by (simp add: Let_def)
        from Cons.IH [OF this Cons.prems(2)] frame show ?thesis by simp
      next
        case False
        with Cons.prems(1) Some RasterLayer have "replay_keys dl bands ks s = Some (s', p)"
          by (simp add: Let_def)
        from Cons.IH [OF this Cons.prems(2)] show ?thesis .
      qed
    qed
  qed
qed

lemma reapply_layer_frame:
  assumes "reapplyAllLayers dl bands (basemap_change srcs lys s) = Some (s', p)"
    and "\<forall>f. j \<noteq> raster_layer_id f" and "j \<noteq> ''hillshade''"
  shows "has_layer (smap s') j = (j \<in> set (map ml_id lys))"
  using replay_keys_layer_frame [OF assms(1) [unfolded reapplyAllLayers_def Let_def] assms(2)]
    replay_dem_other_layer [OF assms(3)]
  by simp

lemma imported_not_raster:
  assumes "starts_with j ''3d-model-layer-'' \<or> starts_with j ''inspector-only-''"
  shows "\<forall>f. j \<noteq> raster_layer_id f" and "j \<noteq> ''hillshade''"
  using assms by (auto simp: starts_with_def raster_layer_id_def)

lemma imp_ok_same_items: "imp_items s' = imp_items s \<Longrightarrow> imp_nextItem s' = imp_nextItem s \<Longrightarrow> imp_ok s' = imp_ok s"
  by (simp add: imp_ok_def)

lemma imp_ok_extend:
  assumes "imp_ok s"
    and "(imp_items s' = imp_items s \<and> imp_nextItem s' = imp_nextItem s) \<or>
         (\<exists>n lid mid. imp_items s' = imp_items s @ [(imp_nextItem s, \<lparr>it_name = n, it_layerId = lid, it_sourceId = None, it_modelId = mid\<rparr>)] \<and>
            imp_nextItem s' = Suc (imp_nextItem s) \<and>
            (starts_with lid ''3d-model-layer-'' \<or> starts_with lid ''inspector-only-''))"
  shows "imp_ok s'"
  using assms(2)
proof
  assume "imp_items s' = imp_items s \<and> imp_nextItem s' = imp_nextItem s"
  then show ?thesis using assms(1) imp_ok_same_items by blast
next
  assume "\<exists>n lid mid. imp_items s' = imp_items s @ [(imp_nextItem s, \<lparr>it_name = n, it_layerId = lid, it_sourceId = None, it_modelId = mid\<rparr>)] \<and>
            imp_nextItem s' = Suc (imp_nextItem s) \<and>
            (starts_with lid ''3d-model-layer-'' \<or> starts_with lid ''inspector-only-'')"
  then obtain n lid mid where i: "imp_items s' = imp_items s @ [(imp_nextItem s, \<lparr>it_name = n, it_layerId = lid, it_sourceId = None, it_modelId = mid\<rparr>)]"
    and nx: "imp_nextItem s' = Suc (imp_nextItem s)"
    and p: "starts_with lid ''3d-model-layer-'' \<or> starts_with lid ''inspector-only-''" by blast
  have "imp_nextItem s \<notin> set (map fst (imp_items s))" using assms(1) by (auto simp: imp_ok_def)
  with assms(1) i nx p show ?thesis unfolding imp_ok_def by (auto simp del: starts_with_def)
qed

lemma import_step_fields [simp]:
  "imp_items (import_end j s) = imp_items s" "imp_nextItem (import_end j s) = imp_nextItem s"
  "imp_sess (import_end j s) = imp_sess s"
  "imp_items (import_fail j e s) = imp_items s" "imp_nextItem (import_fail j e s) = imp_nextItem s"
  "imp_sess (import_fail j e s) = imp_sess s"
  "imp_items (set_stage j st s) = imp_items s" "imp_nextItem (set_stage j st s) = imp_nextItem s"
  "imp_sess (set_stage j st s) = imp_sess s"
  by (simp_all add: import_end_def import_fail_def set_stage_def)

lemma add_fields [simp]:
  "imp_items (addImportedModelToList n lid sid mid s) = imp_items s @ [(imp_nextItem s, \<lparr>it_name = n, it_layerId = lid, it_sourceId = sid, it_modelId = mid\<rparr>)]"
  "imp_nextItem (addImportedModelToList n lid sid mid s) = Suc (imp_nextItem s)"
  "imp_sess (addImportedModelToList n lid sid mid s) = imp_sess s"
  by (simp_all add: addImportedModelToList_def)

lemma job_of_import_end [simp]: "job_of j (import_end j s) = None"
  by (force simp: job_of_def import_end_def map_of_eq_None_iff)

lemma render_model_fields:
  "imp_items (render_model j job mid now s) =
     imp_items s @ [(imp_nextItem s, \<lparr>it_name = job_obj job, it_layerId = ml_id (model_layer now),
                                     it_sourceId = None, it_modelId = mid\<rparr>)]"
  "imp_nextItem (render_model j job mid now s) = Suc (imp_nextItem s)"
  "smap (imp_sess (render_model j job mid now s)) =
     addLayer (model_layer now) (firstSymbolId (imp_sess s)) (smap (imp_sess s))"
  "job_of j (render_model j job mid now s) = None"
  "imp_loader (render_model j job mid now s) = None"
  by (simp_all add: render_model_def Let_def import_end_def) (force simp: job_of_def map_of_eq_None_iff)

lemma model_layer_prefix: "starts_with (ml_id (model_layer now)) ''3d-model-layer-''"
  by (simp only: model_layer_def mlayer.simps starts_with_append)

lemma upload_answer_items:
  "(imp_items (upload_answer j r now s) = imp_items s \<and> imp_nextItem (upload_answer j r now s) = imp_nextItem s) \<or>
   (\<exists>n lid mid. imp_items (upload_answer j r now s) = imp_items s @ [(imp_nextItem s, \<lparr>it_name = n, it_layerId = lid, it_sourceId = None, it_modelId = mid\<rparr>)] \<and>
      imp_nextItem (upload_answer j r now s) = Suc (imp_nextItem s) \<and>
      (starts_with lid ''3d-model-layer-'' \<or> starts_with lid ''inspector-only-''))"
proof (cases "job_of j s")
  case None
  then show ?thesis by (simp add: upload_answer_def)
next
  case (Some job)
  show ?thesis
  proof (cases "job_stage job")
    case (Uploading vc)
    show ?thesis
    proof (cases r)
      case (FetchFailed e)
      with Some Uploading show ?thesis by (simp add: upload_answer_def)
    next
      case (FetchOk res)
      with Some Uploading model_layer_prefix [of now] show ?thesis
        by (simp add: upload_answer_def Let_def render_model_fields del: starts_with_def)
           (simp add: starts_with_def)
    qed
  qed (simp_all add: upload_answer_def Some)
qed

lemma render_done_items:
  "(imp_items (render_done j now s) = imp_items s \<and> imp_nextItem (render_done j now s) = imp_nextItem s) \<or>
   (\<exists>n lid mid. imp_items (render_done j now s) = imp_items s @ [(imp_nextItem s, \<lparr>it_name = n, it_layerId = lid, it_sourceId = None, it_modelId = mid\<rparr>)] \<and>
      imp_nextItem (render_done j now s) = Suc (imp_nextItem s) \<and>
      (starts_with lid ''3d-model-layer-'' \<or> starts_with lid ''inspector-only-''))"
proof (cases "job_of j s")
  case None
  then show ?thesis by (simp add: render_done_def)
next
  case (Some job)
  show ?thesis
  proof (cases "job_stage job")
    case (Rendering mid)
    with Some model_layer_prefix [of now] show ?thesis
      by (simp add: render_done_def render_model_fields del: starts_with_def)
  qed (simp_all add: render_done_def Some)
qed

lemma imp_ok_handleModelImport:
  assumes "imp_ok s"
  shows "imp_ok (handleModelImport s)"
  by (rule imp_ok_same_items [THEN iffD2, OF _ _ assms])
     (simp_all add: handleModelImport_def Let_def split: option.split)

lemma imp_ok_obj_loaded:
  assumes "imp_ok s"
  shows "imp_ok (obj_loaded j r s)"
  by (rule imp_ok_same_items [THEN iffD2, OF _ _ assms])
     (simp_all add: obj_loaded_def split: option.split reply.split)

lemma imp_ok_upload_answer: "imp_ok s \<Longrightarrow> imp_ok (upload_answer j r now s)"
  using imp_ok_extend upload_answer_items by blast

lemma imp_ok_render_done: "imp_ok s \<Longrightarrow> imp_ok (render_done j now s)"
  using imp_ok_extend render_done_items by blast

lemma imp_ok_remove: "imp_ok s \<Longrightarrow> imp_ok (removeImportedModel k s)"
  unfolding removeImportedModel_def Let_def imp_ok_def
  by (auto simp: distinct_map_filter split: option.split)

lemma imp_basemap_fields:
  assumes "imp_basemap dl bands srcs lys s = Some s'"
  obtains s1 p where "reapplyAllLayers dl bands (basemap_change srcs lys (imp_sess s)) = Some (s1, p)"
    "s' = s\<lparr>imp_sess := s1\<rparr>"
  using assms by (auto simp: imp_basemap_def)

lemma imp_ok_basemap:
  assumes "imp_ok s" and "imp_basemap dl bands srcs lys s = Some s'"
  shows "imp_ok s'"
proof -
  obtain s1 p where "s' = s\<lparr>imp_sess := s1\<rparr>" using imp_basemap_fields [OF assms(2)] by blast
  with assms(1) show ?thesis by (simp add: imp_ok_def)
qed

text \<open>
  C16: an accepted upload of a model small enough for the map, imported without an MTL
  file, is drawn and listed by the upload's answer itself: \<open>renderAsCustomLayer\<close> has
  no \<open>await\<close> on that path, so the answer adds the custom layer (a fresh id, with the
  insertion anchor on the map), lists the model under that layer id, hides the loader
  and ends the job in the same step.  Only an MTL file defers the drawing to a later
  step.
\<close>

theorem upload_draws_without_mtl:
  assumes job: "job_of j s = Some job" "job_stage job = Uploading vc"
    and small: "vc \<le> MAX_VERTICES_FOR_MAP"
    and ok: "up_success res" "id_truthy (up_modelId res)"
    and nomtl: "\<not> mtl_await job"
    and fresh: "\<not> has_layer (smap (imp_sess s)) (ml_id (model_layer now))"
    and anchor: "\<forall>a. firstSymbolId (imp_sess s) = Some a \<longrightarrow> has_layer (smap (imp_sess s)) a"
  shows "has_layer (smap (imp_sess (upload_answer j (FetchOk res) now s))) (ml_id (model_layer now)) \<and>
         imp_items (upload_answer j (FetchOk res) now s) =
           imp_items s @ [(imp_nextItem s, \<lparr>it_name = job_obj job, it_layerId = ml_id (model_layer now),
                                           it_sourceId = None, it_modelId = the (up_modelId res)\<rparr>)] \<and>
         job_of j (upload_answer j (FetchOk res) now s) = None \<and>
         imp_loader (upload_answer j (FetchOk res) now s) = None"
proof -
  have u: "upload_answer j (FetchOk res) now s =
      render_model j job (the (up_modelId res)) now (s\<lparr>imp_loader := Some ''Processing & Rendering Model...''\<rparr>)"
    using job small ok nomtl by (simp add: upload_answer_def Let_def)
  show ?thesis
    using fresh anchor unfolding u
    by (simp add: render_model_fields has_layer_addLayer model_layer_def)
qed

text \<open>
  C15: a basemap change drops every imported model from the map for good: the replay
  of \<open>reapplyAllLayers\<close> restores registry layers and the DEM only, so the model's
  item stays in the list while its layer is gone, and its Remove button then removes the
  item without touching the map.
\<close>

theorem basemap_drops_imported_models:
  assumes "imp_ok s" and "(k, it) \<in> set (imp_items s)" and "it_layerId it \<notin> set (map ml_id lys)"
    and "imp_basemap dl bands srcs lys s = Some s'"
  shows "(k, it) \<in> set (imp_items s') \<and> \<not> has_layer (smap (imp_sess s')) (it_layerId it) \<and>
         smap (imp_sess (removeImportedModel k s')) = smap (imp_sess s') \<and>
         (k, it) \<notin> set (imp_items (removeImportedModel k s'))"
proof -
  obtain s1 p where r: "reapplyAllLayers dl bands (basemap_change srcs lys (imp_sess s)) = Some (s1, p)"
    and s': "s' = s\<lparr>imp_sess := s1\<rparr>" using imp_basemap_fields [OF assms(4)] by blast
  have pre: "starts_with (it_layerId it) ''3d-model-layer-'' \<or> starts_with (it_layerId it) ''inspector-only-''"
    and src: "it_sourceId it = None"
    using assms(1,2) by (auto simp: imp_ok_def)
  have gone: "\<not> has_layer (smap s1) (it_layerId it)"
    using reapply_layer_frame [OF r imported_not_raster [OF pre]] assms(3) by simp
  have "map_of (imp_items s') k = Some it"
    using assms(1,2) s' by (simp add: imp_ok_def)
  then show ?thesis
    using gone src assms(2) s' by (auto simp: removeImportedModel_def remove_layer_if_def Let_def)
qed


section \<open>Examples\<close>

lemma model_layer_42: "ml_id (model_layer 42) = ''3d-model-layer-42''"
  by (simp add: model_layer_def js_simps)

lemma imp_page_ok: "imp_ok imp_page"
  by (simp add: imp_ok_def imp_page_def imp_item_ex_def starts_with_def)

lemma imp_page_layer: "has_layer (smap (imp_sess imp_page)) ''3d-model-layer-42''"
  by (simp add: imp_page_def bm_session_def model_layer_def addLayer_def has_layer_def layer_ids_def js_simps)

lemma imp_page_basemap:
  "imp_basemap bm_dom (\<lambda>_. None) [''osm''] bm_style imp_page = Some (imp_page\<lparr>imp_sess := fst bm_after\<rparr>)"
proof -
  have "basemap_change [''osm''] bm_style (imp_sess imp_page) = basemap_change [''osm''] bm_style bm_session"
    by (simp add: imp_page_def basemap_change_def setStyle_def addLayer_def bm_session_def model_layer_def
        has_layer_def layer_ids_def js_simps)
  then show ?thesis using bm_replay by (simp add: imp_basemap_def case_prod_beta)
qed

theorem basemap_drops_imported_models_witness:
  "has_layer (smap (imp_sess imp_page)) ''3d-model-layer-42'' \<and>
   (0, imp_item_ex) \<in> set (imp_items (imp_page\<lparr>imp_sess := fst bm_after\<rparr>)) \<and>
   \<not> has_layer (smap (imp_sess (imp_page\<lparr>imp_sess := fst bm_after\<rparr>))) ''3d-model-layer-42'' \<and>
   smap (imp_sess (removeImportedModel 0 (imp_page\<lparr>imp_sess := fst bm_after\<rparr>))) =
     smap (imp_sess (imp_page\<lparr>imp_sess := fst bm_after\<rparr>)) \<and>
   (0, imp_item_ex) \<notin> set (imp_items (removeImportedModel 0 (imp_page\<lparr>imp_sess := fst bm_after\<rparr>)))"
  using basemap_drops_imported_models [OF imp_page_ok _ _ imp_page_basemap, of 0 imp_item_ex] imp_page_layer
  by (simp add: imp_page_def imp_item_ex_def bm_style_def)

theorem upload_draws_without_mtl_witness:
  "has_layer (smap (imp_sess (upload_answer 3 (FetchOk \<lparr>up_success = True, up_modelId = Some ''m3'', up_message = None\<rparr>) 7
      imp_small))) ''3d-model-layer-7'' \<and>
   imp_items (upload_answer 3 (FetchOk \<lparr>up_success = True, up_modelId = Some ''m3'', up_message = None\<rparr>) 7 imp_small) =
     imp_items imp_small @ [(1, \<lparr>it_name = ''barn.obj'', it_layerId = ''3d-model-layer-7'', it_sourceId = None, it_modelId = ''m3''\<rparr>)]"
  using upload_draws_without_mtl [of 3 imp_small "\<lparr>job_obj = ''barn.obj'', job_mtl = None, job_stage = Uploading 5000\<rparr>"
      5000 "\<lparr>up_success = True, up_modelId = Some ''m3'', up_message = None\<rparr>" 7]
  by (simp add: job_of_def imp_small_def imp_page_def MAX_VERTICES_FOR_MAP_def id_truthy_def mtl_await_def
      js_ends_with_def to_lower_def lower_char_def upper_letters_def lower_letters_def model_layer_def
      bm_session_def has_layer_def layer_ids_def addLayer_def js_simps)

end
