(* ===== verification/Solar.thy ===== *)
theory Solar
  imports Prelude
begin

text \<open>
  The solar irradiance dashboard of \<open>src/static/js/solar-dashboard.js\<close>, a page of its
  own: \<open>initialize\<close> shows the loader, awaits \<open>fetchSolarData\<close> and draws two Chart.js
  line charts (clear sky and cloudy sky), each with a GHI, a DHI and a DNI series over
  the time labels of the answer.  The handler is split at its \<open>await\<close>: the page load
  and the settled answer are two steps.  Chart.js is not in the repository; its
  contract (a canvas carries at most one live chart, \<open>new Chart\<close> on a canvas still in
  use throws, \<open>destroy\<close> releases it) is modelled from the library's documented
  behaviour.  The answer's HTTP status and body are the argument of the second step:
  a body that is not JSON is \<open>None\<close>, which makes \<open>response.json()\<close> reject.  The
  optional DOM elements are \<open>None\<close> when absent, as the \<open>if (dom.loaderText)\<close> guards
  read them.
\<close>

section \<open>State\<close>

record solar_row =
  sr_index :: string
  ghi_clear :: real
  dhi_clear :: real
  dni_clear :: real
  ghi_cloudy :: real
  dhi_cloudy :: real
  dni_cloudy :: real

text \<open>A parsed JSON body: the expected array of rows, an object, or another value.\<close>

datatype solar_json = SolarArray "solar_row list" | SolarObject "jval jsobj" | SolarScalar jval

record http_response =
  resp_ok :: bool
  resp_body :: "solar_json option"

record dataset =
  ds_label :: string
  ds_data :: "(string \<times> real) list"
  ds_borderColor :: string

record chart_config =
  cc_type :: string
  cc_labels :: "string list"
  cc_datasets :: "dataset list"
  cc_xType :: string
  cc_xUnit :: string
  cc_yBeginAtZero :: bool
  cc_title :: string

record chart =
  ch_canvas :: string
  ch_config :: chart_config

text \<open>The page: the loader elements, the two chart variables of the module, the live
  Chart.js instances by id, and the alerts shown.\<close>

record sstate =
  sol_loaderText :: "string option"
  sol_overlay :: "string option"
  clearSkyChartInstance :: "nat option"
  cloudySkyChartInstance :: "nat option"
  sol_live :: "(nat \<times> chart) list"
  sol_nextChart :: nat
  sol_alerts :: "string list"

text \<open>A statement that returns, or throws with the message after the effects before
  the throw.\<close>

datatype 's thrown = Returned 's | Threw string 's

definition SOLAR_ALERT :: string where
  "SOLAR_ALERT = ''Could not load solar irradiance data. Please check the server and API key.''"

section \<open>The Chart.js contract\<close>

definition canvas_in_use :: "string \<Rightarrow> sstate \<Rightarrow> bool" where
  "canvas_in_use cv s = (cv \<in> set (map (\<lambda>e. ch_canvas (snd e)) (sol_live s)))"

definition new_Chart :: "string \<Rightarrow> chart_config \<Rightarrow> sstate \<Rightarrow> string + nat \<times> sstate" where
  "new_Chart cv cfg s =
     (if canvas_in_use cv s then Inl ''Canvas is already in use.''
      else Inr (sol_nextChart s,
                s\<lparr>sol_live := sol_live s @ [(sol_nextChart s, \<lparr>ch_canvas = cv, ch_config = cfg\<rparr>)],
                  sol_nextChart := Suc (sol_nextChart s)\<rparr>))"

definition destroy_chart :: "nat \<Rightarrow> sstate \<Rightarrow> sstate" where
  "destroy_chart i s = s\<lparr>sol_live := filter (\<lambda>e. fst e \<noteq> i) (sol_live s)\<rparr>"

text \<open>\<open>if (instance) instance.destroy()\<close>.\<close>

definition destroy_opt :: "nat option \<Rightarrow> sstate \<Rightarrow> sstate" where
  "destroy_opt oi s = (case oi of Some i \<Rightarrow> destroy_chart i s | None \<Rightarrow> s)"

section \<open>The dashboard\<close>

definition showLoader :: "string \<Rightarrow> sstate \<Rightarrow> sstate" where
  "showLoader text s =
     s\<lparr>sol_loaderText := map_option (\<lambda>_. text) (sol_loaderText s),
       sol_overlay := map_option (\<lambda>_. ''flex'') (sol_overlay s)\<rparr>"

definition hideLoader :: "sstate \<Rightarrow> sstate" where
  "hideLoader s = s\<lparr>sol_overlay := map_option (\<lambda>_. ''none'') (sol_overlay s)\<rparr>"

text \<open>\<open>fetchSolarData\<close>, after \<open>fetch\<close> settled: \<open>Inl\<close> is the thrown error's message.
  On a non-OK status the body's \<open>error\<close> field is the message; reading a field of
  \<open>null\<close> is a \<open>TypeError\<close>.\<close>

definition fetchSolarData :: "http_response reply \<Rightarrow> string + solar_json" where
  "fetchSolarData r =
     (case r of
        FetchFailed e \<Rightarrow> Inl e
      | FetchOk resp \<Rightarrow>
          (case resp_body resp of
             None \<Rightarrow> Inl ''SyntaxError: Unexpected token''
           | Some b \<Rightarrow>
               (if resp_ok resp then Inr b
                else
                  (case b of
                     SolarObject obj \<Rightarrow>
                       Inl (if truthy (obj_get obj ''error'') then js_string (the (obj_get obj ''error''))
                            else ''Server error'')
                   | SolarScalar JNull \<Rightarrow> Inl ''TypeError: Cannot read properties of null''
                   | _ \<Rightarrow> Inl ''Server error''))))"

text \<open>One dataset of \<open>createCharts\<close>: \<open>data.map(d => ({ x: d.index, y: d.f }))\<close>.\<close>

definition series :: "string \<Rightarrow> (solar_row \<Rightarrow> real) \<Rightarrow> string \<Rightarrow> solar_row list \<Rightarrow> dataset" where
  "series label f color rows =
     \<lparr>ds_label = label, ds_data = map (\<lambda>d. (sr_index d, f d)) rows, ds_borderColor = color\<rparr>"

definition chartConfig :: "string list \<Rightarrow> string \<Rightarrow> dataset list \<Rightarrow> chart_config" where
  "chartConfig labels title datasets =
     \<lparr>cc_type = ''line'', cc_labels = labels, cc_datasets = datasets, cc_xType = ''time'',
      cc_xUnit = ''hour'', cc_yBeginAtZero = True, cc_title = title\<rparr>"

text \<open>The two configurations \<open>createCharts\<close> passes to \<open>new Chart\<close>, over the labels
  \<open>data.map(d => d.index)\<close>.\<close>

definition clear_config :: "solar_row list \<Rightarrow> chart_config" where
  "clear_config rows =
     chartConfig (map sr_index rows) ''Clear Sky Model''
       [series ''GHI'' ghi_clear ''rgb(255, 99, 132)'' rows,
        series ''DHI'' dhi_clear ''rgb(54, 162, 235)'' rows,
        series ''DNI'' dni_clear ''rgb(255, 205, 86)'' rows]"

definition cloudy_config :: "solar_row list \<Rightarrow> chart_config" where
  "cloudy_config rows =
     chartConfig (map sr_index rows) ''Cloudy Sky Model (DirInt)''
       [series ''GHI'' ghi_cloudy ''rgb(148, 87, 235)'' rows,
        series ''DHI'' dhi_cloudy ''rgb(75, 192, 192)'' rows,
        series ''DNI'' dni_cloudy ''rgb(255, 159, 64)'' rows]"

text \<open>\<open>createCharts(data)\<close>: \<open>data.map\<close> of a value that is not an array throws before
  any chart is touched.\<close>

definition createCharts :: "solar_json \<Rightarrow> sstate \<Rightarrow> sstate thrown" where
  "createCharts data s =
     (case data of
        SolarArray rows \<Rightarrow>
          (let s1 = destroy_opt (clearSkyChartInstance s) s
           in case new_Chart ''clearSkyChart'' (clear_config rows) s1 of
                Inl e \<Rightarrow> Threw e s1
              | Inr (i, s2) \<Rightarrow>
                  (let s3 = s2\<lparr>clearSkyChartInstance := Some i\<rparr>;
                       s4 = destroy_opt (cloudySkyChartInstance s3) s3
                   in case new_Chart ''cloudySkyChart'' (cloudy_config rows) s4 of
                        Inl e \<Rightarrow> Threw e s4
                      | Inr (j, s5) \<Rightarrow> Returned (s5\<lparr>cloudySkyChartInstance := Some j\<rparr>)))
      | _ \<Rightarrow> Threw ''TypeError: data.map is not a function'' s)"

definition solar_alert :: "sstate \<Rightarrow> sstate" where
  "solar_alert s = s\<lparr>sol_alerts := sol_alerts s @ [SOLAR_ALERT]\<rparr>"

text \<open>\<open>initialize\<close> up to its \<open>await\<close>, and its continuation with the settled answer
  (the \<open>try\<close>, the \<open>catch\<close> and the \<open>finally\<close>).\<close>

definition initialize_start :: "sstate \<Rightarrow> sstate" where
  "initialize_start s = showLoader ''Fetching solar data...'' s"

definition initialize_finish :: "http_response reply \<Rightarrow> sstate \<Rightarrow> sstate" where
  "initialize_finish r s =
     hideLoader
       (case fetchSolarData r of
          Inl e \<Rightarrow> solar_alert s
        | Inr d \<Rightarrow> (case createCharts d s of Returned s' \<Rightarrow> s' | Threw e s' \<Rightarrow> solar_alert s'))"

text \<open>The page as loaded: both loader elements present, hidden, no chart.\<close>

definition solar_init :: sstate where
  "solar_init =
     \<lparr>sol_loaderText = Some [], sol_overlay = Some ''none'', clearSkyChartInstance = None,
      cloudySkyChartInstance = None, sol_live = [], sol_nextChart = 0, sol_alerts = []\<rparr>"

definition solar_page :: "http_response reply \<Rightarrow> sstate" where
  "solar_page r = initialize_finish r (initialize_start solar_init)"

text \<open>Each canvas carries only the chart its module variable holds.\<close>

definition canvas_owned :: "string \<Rightarrow> nat option \<Rightarrow> sstate \<Rightarrow> bool" where
  "canvas_owned cv inst s = list_all (\<lambda>e. ch_canvas (snd e) = cv \<longrightarrow> inst = Some (fst e)) (sol_live s)"

text \<open>The module variables hold charts created on this page: their ids are below the
  next id Chart.js hands out.\<close>

definition charts_ok :: "sstate \<Rightarrow> bool" where
  "charts_ok s =
     (canvas_owned ''clearSkyChart'' (clearSkyChartInstance s) s \<and>
      canvas_owned ''cloudySkyChart'' (cloudySkyChartInstance s) s \<and>
      pred_option (\<lambda>i. i < sol_nextChart s) (clearSkyChartInstance s) \<and>
      pred_option (\<lambda>i. i < sol_nextChart s) (cloudySkyChartInstance s))"

definition on_canvas :: "string \<Rightarrow> sstate \<Rightarrow> chart list" where
  "on_canvas cv s = filter (\<lambda>c. ch_canvas c = cv) (map snd (sol_live s))"


section \<open>The Chart.js contract: lemmas\<close>

lemma new_Chart_free:
  "\<not> canvas_in_use cv s \<Longrightarrow>
   new_Chart cv cfg s = Inr (sol_nextChart s,
     s\<lparr>sol_live := sol_live s @ [(sol_nextChart s, \<lparr>ch_canvas = cv, ch_config = cfg\<rparr>)],
       sol_nextChart := Suc (sol_nextChart s)\<rparr>)"
  by (simp add: new_Chart_def)

lemma destroy_opt_frame [simp]:
  "sol_nextChart (destroy_opt oi s) = sol_nextChart s"
  "clearSkyChartInstance (destroy_opt oi s) = clearSkyChartInstance s"
  "cloudySkyChartInstance (destroy_opt oi s) = cloudySkyChartInstance s"
  "sol_alerts (destroy_opt oi s) = sol_alerts s"
  "sol_overlay (destroy_opt oi s) = sol_overlay s"
  by (simp_all add: destroy_opt_def destroy_chart_def split: option.split)

lemma sol_live_destroy_opt:
  "sol_live (destroy_opt oi s) = filter (\<lambda>e. oi \<noteq> Some (fst e)) (sol_live s)"
  by (cases oi) (auto simp: destroy_opt_def destroy_chart_def intro: filter_cong)

text \<open>Destroying the chart a canvas's variable holds frees the canvas.\<close>

lemma canvas_owned_free:
  assumes "canvas_owned cv inst s"
  shows "\<not> canvas_in_use cv (destroy_opt inst s)"
  using assms
  by (auto simp: canvas_owned_def canvas_in_use_def sol_live_destroy_opt list_all_iff)

lemma on_canvas_destroy_owned:
  "canvas_owned cv inst s \<Longrightarrow> on_canvas cv (destroy_opt inst s) = []"
  by (auto simp: canvas_owned_def on_canvas_def sol_live_destroy_opt list_all_iff filter_empty_conv)

lemma on_canvas_destroy_other:
  assumes "pred_option (\<lambda>i. list_all (\<lambda>e. fst e = i \<longrightarrow> ch_canvas (snd e) \<noteq> cv) (sol_live s)) inst"
  shows "on_canvas cv (destroy_opt inst s) = on_canvas cv s"
proof (cases inst)
  case (Some i)
  then show ?thesis
    using assms
    by (auto simp: on_canvas_def sol_live_destroy_opt list_all_iff filter_map comp_def
             intro!: arg_cong [where f = "map snd"] filter_cong)
qed (simp add: destroy_opt_def)


lemma canvas_owned_destroy:
  "canvas_owned cv inst s \<Longrightarrow> canvas_owned cv inst (destroy_opt oi s)"
  by (simp add: canvas_owned_def sol_live_destroy_opt list_all_iff)

lemma canvas_owned_append:
  "canvas_owned cv inst s \<Longrightarrow> ch_canvas c \<noteq> cv \<Longrightarrow> sol_live s' = sol_live s @ [(n, c)] \<Longrightarrow>
   canvas_owned cv inst s'"
  by (simp add: canvas_owned_def)

lemma canvas_owned_new:
  "\<not> canvas_in_use cv s \<Longrightarrow> sol_live s' = sol_live s @ [(n, c)] \<Longrightarrow> ch_canvas c = cv \<Longrightarrow>
   canvas_owned cv (Some n) s'"
  by (force simp: canvas_owned_def canvas_in_use_def list_all_iff)

text \<open>\<open>createCharts\<close> on an array, from a page whose variables own their canvases:
  both charts are drawn, each canvas carries exactly its new chart, and the
  variables own their canvases again.\<close>

lemma createCharts_rows:
  fixes rows :: "solar_row list"
  assumes ok: "charts_ok s"
  defines "clr \<equiv> \<lparr>ch_canvas = ''clearSkyChart'',
                   ch_config = clear_config rows\<rparr>"
      and "cld \<equiv> \<lparr>ch_canvas = ''cloudySkyChart'',
                   ch_config = cloudy_config rows\<rparr>"
  obtains s' where "createCharts (SolarArray rows) s = Returned s'" "charts_ok s'"
    "on_canvas ''clearSkyChart'' s' = [clr]" "on_canvas ''cloudySkyChart'' s' = [cld]"
    "sol_alerts s' = sol_alerts s" "sol_overlay s' = sol_overlay s"
    "sol_nextChart s' = Suc (Suc (sol_nextChart s))"
proof -
  define n where "n = sol_nextChart s"
  define s1 where "s1 = destroy_opt (clearSkyChartInstance s) s"
  define s3 where "s3 = s1\<lparr>sol_live := sol_live s1 @ [(n, clr)], sol_nextChart := Suc n,
                           clearSkyChartInstance := Some n\<rparr>"
  define s4 where "s4 = destroy_opt (cloudySkyChartInstance s) s3"
  define s5 where "s5 = s4\<lparr>sol_live := sol_live s4 @ [(Suc n, cld)], sol_nextChart := Suc (Suc n),
                           cloudySkyChartInstance := Some (Suc n)\<rparr>"
  from ok have own1: "canvas_owned ''clearSkyChart'' (clearSkyChartInstance s) s"
    and own2: "canvas_owned ''cloudySkyChart'' (cloudySkyChartInstance s) s"
    and fr: "pred_option (\<lambda>i. i < n) (cloudySkyChartInstance s)"
    by (simp_all add: charts_ok_def n_def)
  have free1: "\<not> canvas_in_use ''clearSkyChart'' s1"
    using canvas_owned_free [OF own1] by (simp add: s1_def)
  have own2': "canvas_owned ''cloudySkyChart'' (cloudySkyChartInstance s) s3"
    by (rule canvas_owned_append [OF canvas_owned_destroy [OF own2], where c = clr]) (simp_all add: s3_def s1_def clr_def)
  have free2: "\<not> canvas_in_use ''cloudySkyChart'' s4"
    using canvas_owned_free [OF own2'] by (simp add: s4_def s3_def s1_def)
  have nc1: "new_Chart ''clearSkyChart'' (clear_config rows) s1
             = Inr (n, s1\<lparr>sol_live := sol_live s1 @ [(n, clr)], sol_nextChart := Suc n\<rparr>)"
    using new_Chart_free [OF free1] by (simp add: s1_def n_def clr_def)
  have nc2: "new_Chart ''cloudySkyChart'' (cloudy_config rows) s4
             = Inr (Suc n, s4\<lparr>sol_live := sol_live s4 @ [(Suc n, cld)], sol_nextChart := Suc (Suc n)\<rparr>)"
    using new_Chart_free [OF free2] by (simp add: s4_def s3_def s1_def n_def cld_def)
  have s4': "destroy_opt (cloudySkyChartInstance s1) (s1\<lparr>sol_live := sol_live s1 @ [(n, clr)], sol_nextChart := Suc n,
                clearSkyChartInstance := Some n\<rparr>) = s4"
    by (simp add: s4_def s3_def s1_def)
  have c1: "createCharts (SolarArray rows) s = Returned s5"
    by (simp add: createCharts_def Let_def s1_def [symmetric] nc1 s4' nc2 s5_def)
  have oc1: "on_canvas ''clearSkyChart'' s1 = []"
    using on_canvas_destroy_owned [OF own1] by (simp add: s1_def)
  have oc3: "on_canvas ''clearSkyChart'' s3 = [clr]"
    using oc1 by (simp add: on_canvas_def s3_def clr_def)
  have oc4: "on_canvas ''clearSkyChart'' s4 = [clr]"
  proof -
    have "pred_option (\<lambda>i. list_all (\<lambda>e. fst e = i \<longrightarrow> ch_canvas (snd e) \<noteq> ''clearSkyChart'') (sol_live s3))
            (cloudySkyChartInstance s)"
      using fr oc1
      by (cases "cloudySkyChartInstance s")
         (auto simp: s3_def on_canvas_def list_all_iff filter_empty_conv)
    then show ?thesis using oc3 by (simp add: s4_def on_canvas_destroy_other)
  qed
  have oc5: "on_canvas ''cloudySkyChart'' s4 = []"
    using on_canvas_destroy_owned [OF own2'] by (simp add: s4_def s3_def s1_def)
  have ok5: "charts_ok s5"
  proof -
    have "canvas_owned ''clearSkyChart'' (Some n) s3"
      by (rule canvas_owned_new [OF free1, where c = clr]) (simp_all add: s3_def clr_def)
    then have "canvas_owned ''clearSkyChart'' (Some n) s5"
      by (rule canvas_owned_append [OF canvas_owned_destroy, where c = cld]) (simp_all add: s5_def s4_def cld_def)
    moreover have "canvas_owned ''cloudySkyChart'' (Some (Suc n)) s5"
      by (rule canvas_owned_new [OF free2, where c = cld]) (simp_all add: s5_def cld_def)
    ultimately show ?thesis by (simp add: charts_ok_def s5_def s4_def s3_def)
  qed
  have "on_canvas ''clearSkyChart'' s5 = [clr]" "on_canvas ''cloudySkyChart'' s5 = [cld]"
    using oc4 oc5 by (simp_all add: on_canvas_def s5_def cld_def)
  moreover have "sol_alerts s5 = sol_alerts s" "sol_overlay s5 = sol_overlay s"
      "sol_nextChart s5 = Suc (Suc (sol_nextChart s))"
    by (simp_all add: s5_def s4_def s3_def s1_def n_def)
  ultimately show thesis
    using that [OF c1 ok5] by blast
qed


lemmas solar_page_simps = solar_page_def initialize_finish_def initialize_start_def hideLoader_def
  showLoader_def solar_alert_def solar_init_def

lemma charts_ok_init: "charts_ok (initialize_start solar_init)"
  by (simp add: charts_ok_def canvas_owned_def solar_page_simps)

section \<open>Properties of the dashboard\<close>

text \<open>C5: Redrawing the charts never fails and never leaks a chart: from a page
  whose chart variables own their canvases, \<open>createCharts\<close> on an array returns, each
  canvas then carries exactly the new chart of its configuration, and the variables
  own their canvases again.\<close>

theorem createCharts_single_chart:
  assumes "charts_ok s"
  shows "\<exists>s'. createCharts (SolarArray rows) s = Returned s' \<and> charts_ok s' \<and>
     on_canvas ''clearSkyChart'' s' = [\<lparr>ch_canvas = ''clearSkyChart'', ch_config = clear_config rows\<rparr>] \<and>
     on_canvas ''cloudySkyChart'' s' = [\<lparr>ch_canvas = ''cloudySkyChart'', ch_config = cloudy_config rows\<rparr>]"
  using createCharts_rows [OF assms, of rows] by metis

definition solar_ok_reply :: "http_response reply" where
  "solar_ok_reply = FetchOk \<lparr>resp_ok = True, resp_body = Some (SolarArray
     [\<lparr>sr_index = ''2025-01-01T06:00:00'', ghi_clear = 120, dhi_clear = 40, dni_clear = 300,
       ghi_cloudy = 80, dhi_cloudy = 50, dni_cloudy = 90\<rparr>])\<rparr>"

theorem createCharts_single_chart_witness:
  "charts_ok (solar_page solar_ok_reply) \<and>
   (\<exists>s'. createCharts (SolarArray []) (solar_page solar_ok_reply) = Returned s' \<and> charts_ok s' \<and>
     on_canvas ''clearSkyChart'' s' = [\<lparr>ch_canvas = ''clearSkyChart'', ch_config = clear_config []\<rparr>] \<and>
     on_canvas ''cloudySkyChart'' s' = [\<lparr>ch_canvas = ''cloudySkyChart'', ch_config = cloudy_config []\<rparr>])"
proof -
  have ok: "charts_ok (solar_page solar_ok_reply)"
    by (simp add: solar_page_simps solar_ok_reply_def fetchSolarData_def createCharts_def new_Chart_def
                  canvas_in_use_def destroy_opt_def charts_ok_def canvas_owned_def)
  show ?thesis using createCharts_single_chart [OF ok, of "[]"] ok by blast
qed

text \<open>C9: Whatever the answer, the page ends with the loader hidden; it shows the
  two charts of the rows and no alert exactly when the answer is an OK response whose
  body is an array, and otherwise the one fixed alert and no chart: the message the
  server put in its \<open>error\<close> field is never shown.\<close>

theorem solar_page_outcome:
  "sol_overlay (solar_page r) = Some ''none'' \<and>
   (case fetchSolarData r of
      Inr (SolarArray rows) \<Rightarrow>
        sol_alerts (solar_page r) = [] \<and>
        on_canvas ''clearSkyChart'' (solar_page r) = [\<lparr>ch_canvas = ''clearSkyChart'', ch_config = clear_config rows\<rparr>] \<and>
        on_canvas ''cloudySkyChart'' (solar_page r) = [\<lparr>ch_canvas = ''cloudySkyChart'', ch_config = cloudy_config rows\<rparr>]
    | _ \<Rightarrow> sol_alerts (solar_page r) = [SOLAR_ALERT] \<and> sol_live (solar_page r) = [])"
proof (cases "fetchSolarData r")
  case (Inl e)
  then show ?thesis
    by (simp add: solar_page_simps)
next
  case (Inr d)
  show ?thesis
  proof (cases d)
    case (SolarArray rows)
    obtain s' where c: "createCharts (SolarArray rows) (initialize_start solar_init) = Returned s'"
      and "on_canvas ''clearSkyChart'' s' = [\<lparr>ch_canvas = ''clearSkyChart'', ch_config = clear_config rows\<rparr>]"
        "on_canvas ''cloudySkyChart'' s' = [\<lparr>ch_canvas = ''cloudySkyChart'', ch_config = cloudy_config rows\<rparr>]"
        "sol_alerts s' = sol_alerts (initialize_start solar_init)"
        "sol_overlay s' = sol_overlay (initialize_start solar_init)"
      by (rule createCharts_rows [OF charts_ok_init, of rows])
    then show ?thesis
      using Inr SolarArray
      by (simp add: solar_page_simps on_canvas_def)
  next
    case (SolarObject obj)
    then show ?thesis
      using Inr by (simp add: solar_page_simps createCharts_def)
  next
    case (SolarScalar v)
    then show ?thesis
      using Inr by (simp add: solar_page_simps createCharts_def)
  qed
qed

end
