(* ===== verification/Elevation.thy ===== *)
theory Elevation
  imports Layers
begin

text \<open>
  The elevation readout of \<open>src/static/js/main.js\<close>: the map's \<open>mousemove\<close> listener
  calls \<open>debouncedUpdateElevation\<close>, built by \<open>debounce(func, 150)\<close>, which cancels the
  pending timer of the closure variable \<open>timeout\<close> and starts a new one; when a timer
  fires, the async body reads \<open>state.currentDEM\<close> and posts \<open>/api/query_elevation\<close>,
  and the answer writes \<open>dom.elevationInfo\<close>; \<open>mouseout\<close> writes \<open>N/A\<close>.  Timers and
  requests are explicit: a pending timer is an id with the arguments of its call, a
  request in flight an id with its payload, and the events (a pointer move, the pointer
  leaving, a timer firing, an answer settling, a DEM radio change) interleave freely;
  an event that cannot happen (a timer that is not pending, an answer to no request) is
  not a step (\<open>None\<close>).  The DEM radio runs \<open>handleDemChange\<close> of \<open>Layers\<close> on the
  session, whose \<open>currentDEM\<close> the readout reads.  The readout text is its two shapes:
  \<open>Elevation: N/A\<close> and \<open>Elevation: ${e.toFixed(2)} m\<close> with the number \<open>e\<close>.
\<close>

section \<open>State\<close>

datatype elev_view = ElevNA | ElevValue real

text \<open>The \<open>elevation\<close> field of the answer: a number, \<open>null\<close>, or anything else
  (absent, a string), on which \<open>toFixed\<close> throws.\<close>

datatype elev_field = EvNum real | EvNull | EvOther

record elev_response =
  er_ok :: bool
  er_elevation :: elev_field

text \<open>The body of the POST: \<open>{ dem_filename, lon, lat }\<close>.\<close>

record elev_query =
  eq_dem :: string
  eq_lon :: real
  eq_lat :: real

record elstate =
  el_sess :: session
  el_info :: elev_view
  el_timeout :: "nat option"
  el_timers :: "(nat \<times> (real \<times> real)) list"
  el_nextTimer :: nat
  el_reqs :: "(nat \<times> elev_query) list"
  el_nextReq :: nat

section \<open>Timers and the debounced call\<close>

text \<open>\<open>clearTimeout(timeout)\<close>: \<open>undefined\<close> or a timer that already fired cancels
  nothing.\<close>

definition clearTimeout :: "nat option \<Rightarrow> elstate \<Rightarrow> elstate" where
  "clearTimeout t s = s\<lparr>el_timers := filter (\<lambda>e. t \<noteq> Some (fst e)) (el_timers s)\<rparr>"

text \<open>The function \<open>debounce\<close> returns: cancel the pending call, schedule this one, and
  remember its timer.\<close>

definition debounced_call :: "real \<times> real \<Rightarrow> elstate \<Rightarrow> elstate" where
  "debounced_call ll s =
     (let s1 = clearTimeout (el_timeout s) s;
          t = el_nextTimer s1
      in s1\<lparr>el_timers := el_timers s1 @ [(t, ll)], el_nextTimer := Suc t, el_timeout := Some t\<rparr>)"

text \<open>The async body of the debounced function, up to its \<open>await\<close>.\<close>

definition updateElevation :: "real \<times> real \<Rightarrow> elstate \<Rightarrow> elstate" where
  "updateElevation ll s =
     (case currentDEM (el_sess s) of
        None \<Rightarrow> s
      | Some d \<Rightarrow>
          s\<lparr>el_reqs := el_reqs s @ [(el_nextReq s, \<lparr>eq_dem = dem_id d, eq_lon = fst ll, eq_lat = snd ll\<rparr>)],
            el_nextReq := Suc (el_nextReq s)\<rparr>)"

text \<open>After the request settled: a failed request, a non-OK status and a
  \<open>TypeError\<close> of \<open>toFixed\<close> leave the readout as it is.\<close>

definition elevation_result :: "elev_response reply \<Rightarrow> elev_view \<Rightarrow> elev_view" where
  "elevation_result r v =
     (case r of
        FetchFailed _ \<Rightarrow> v
      | FetchOk resp \<Rightarrow>
          (if \<not> er_ok resp then v
           else case er_elevation resp of
                  EvNum e \<Rightarrow> ElevValue e
                | EvNull \<Rightarrow> ElevNA
                | EvOther \<Rightarrow> v))"

section \<open>Events\<close>

datatype el_event =
    MouseMove "real \<times> real"
  | MouseOut
  | TimerFires nat
  | ElevAnswer nat "elev_response reply"
  | DemRadio bool string string

definition onMouseOut :: "elstate \<Rightarrow> elstate" where
  "onMouseOut s = s\<lparr>el_info := ElevNA\<rparr>"

definition timer_fires :: "nat \<Rightarrow> elstate \<Rightarrow> elstate option" where
  "timer_fires t s =
     (case map_of (el_timers s) t of
        None \<Rightarrow> None
      | Some ll \<Rightarrow> Some (updateElevation ll (s\<lparr>el_timers := filter (\<lambda>e. fst e \<noteq> t) (el_timers s)\<rparr>)))"

definition elevation_answer :: "nat \<Rightarrow> elev_response reply \<Rightarrow> elstate \<Rightarrow> elstate option" where
  "elevation_answer q r s =
     (case map_of (el_reqs s) q of
        None \<Rightarrow> None
      | Some _ \<Rightarrow> Some (s\<lparr>el_reqs := filter (\<lambda>e. fst e \<noteq> q) (el_reqs s),
                          el_info := elevation_result r (el_info s)\<rparr>))"

fun el_step :: "el_event \<Rightarrow> elstate \<Rightarrow> elstate option" where
  "el_step (MouseMove ll) s = Some (debounced_call ll s)"
| "el_step MouseOut s = Some (onMouseOut s)"
| "el_step (TimerFires t) s = timer_fires t s"
| "el_step (ElevAnswer q r) s = elevation_answer q r s"
| "el_step (DemRadio c i n) s = Some (s\<lparr>el_sess := outcome_state (handleDemChange c i n (el_sess s))\<rparr>)"

fun el_run :: "el_event list \<Rightarrow> elstate \<Rightarrow> elstate option" where
  "el_run [] s = Some s"
| "el_run (e # es) s = (case el_step e s of None \<Rightarrow> None | Some s' \<Rightarrow> el_run es s')"

text \<open>The page after \<open>DOMContentLoaded\<close>: no timer, no request, \<open>timeout\<close> undefined.\<close>

definition el_init :: "session \<Rightarrow> elev_view \<Rightarrow> elstate" where
  "el_init ss v =
     \<lparr>el_sess = ss, el_info = v, el_timeout = None, el_timers = [], el_nextTimer = 0,
      el_reqs = [], el_nextReq = 0\<rparr>"

inductive el_reach :: "elstate \<Rightarrow> bool" where
  init: "el_reach (el_init ss v)"
| step: "el_reach s \<Longrightarrow> el_step e s = Some s' \<Longrightarrow> el_reach s'"

text \<open>A session with a selected DEM, for the examples below.\<close>

definition el_session :: session where
  "el_session =
     \<lparr>currentDEM = Some \<lparr>dem_id = ''srtm_tn.tif'', dem_name = ''SRTM'', dem_source = ''dem-source-srtm_tn.tif''\<rparr>,
      activeLayers = [], highlightedFeature = None, firstSymbolId = None, rng = (\<lambda>_. 0, 0),
      smap = \<lparr>m_sources = [''dem-source-srtm_tn.tif''], m_layers = [], m_terrain = Some ''dem-source-srtm_tn.tif'',
              m_errors = []\<rparr>\<rparr>"

definition el_ok_answer :: "real \<Rightarrow> elev_response reply" where
  "el_ok_answer e = FetchOk \<lparr>er_ok = True, er_elevation = EvNum e\<rparr>"

text \<open>At most one timer is pending, and it is the one \<open>timeout\<close> names.\<close>

definition el_ok :: "elstate \<Rightarrow> bool" where
  "el_ok s = (length (el_timers s) \<le> 1 \<and> list_all (\<lambda>e. el_timeout s = Some (fst e)) (el_timers s))"


section \<open>Runs\<close>

lemma el_run_append:
  "el_run (xs @ ys) s = (case el_run xs s of None \<Rightarrow> None | Some s' \<Rightarrow> el_run ys s')"
  by (induction xs arbitrary: s) (simp_all split: option.split)

lemma el_run_reach: "el_run es s = Some s' \<Longrightarrow> el_reach s \<Longrightarrow> el_reach s'"
  by (induction es arbitrary: s) (auto split: option.splits intro: el_reach.step)

lemma el_run_moves:
  "el_run (map MouseMove ps) s = Some (fold debounced_call ps s)"
  by (induction ps arbitrary: s) simp_all

section \<open>The debounce\<close>

lemma clearTimeout_frame [simp]:
  "el_sess (clearTimeout t s) = el_sess s" "el_info (clearTimeout t s) = el_info s"
  "el_timeout (clearTimeout t s) = el_timeout s" "el_nextTimer (clearTimeout t s) = el_nextTimer s"
  "el_reqs (clearTimeout t s) = el_reqs s" "el_nextReq (clearTimeout t s) = el_nextReq s"
  by (simp_all add: clearTimeout_def)

text \<open>Under the invariant, the call cancels the one pending timer: only the new one is
  left.\<close>

lemma debounced_call_timers:
  "el_ok s \<Longrightarrow> el_timers (debounced_call ll s) = [(el_nextTimer s, ll)]"
  by (auto simp: debounced_call_def clearTimeout_def el_ok_def list_all_iff Let_def filter_empty_conv)

lemma debounced_call_frame [simp]:
  "el_sess (debounced_call ll s) = el_sess s" "el_info (debounced_call ll s) = el_info s"
  "el_timeout (debounced_call ll s) = Some (el_nextTimer s)"
  "el_nextTimer (debounced_call ll s) = Suc (el_nextTimer s)"
  "el_reqs (debounced_call ll s) = el_reqs s" "el_nextReq (debounced_call ll s) = el_nextReq s"
  by (simp_all add: debounced_call_def Let_def)

lemma el_ok_debounced_call: "el_ok s \<Longrightarrow> el_ok (debounced_call ll s)"
  by (simp add: el_ok_def debounced_call_timers)

lemma updateElevation_timers [simp]:
  "el_timers (updateElevation ll s) = el_timers s" "el_timeout (updateElevation ll s) = el_timeout s"
  "el_nextTimer (updateElevation ll s) = el_nextTimer s"
  by (simp_all add: updateElevation_def split: option.split)

lemma el_ok_step: "el_ok s \<Longrightarrow> el_step e s = Some s' \<Longrightarrow> el_ok s'"
proof (cases e)
  case (MouseMove ll)
  then show "el_ok s \<Longrightarrow> el_step e s = Some s' \<Longrightarrow> el_ok s'" by (auto intro: el_ok_debounced_call)
next
  case (TimerFires t)
  then show "el_ok s \<Longrightarrow> el_step e s = Some s' \<Longrightarrow> el_ok s'"
    by (auto simp: timer_fires_def el_ok_def list_all_iff split: option.splits
             intro: le_trans [OF length_filter_le])
qed (auto simp: onMouseOut_def elevation_answer_def el_ok_def split: option.splits)

lemma el_reach_ok: "el_reach s \<Longrightarrow> el_ok s"
proof (induction rule: el_reach.induct)
  case (init ss v)
  then show ?case by (simp add: el_ok_def el_init_def)
next
  case (step s e s')
  show ?case by (rule el_ok_step [OF step.IH step.hyps(2)])
qed

lemma fold_debounced_call:
  "el_ok s \<Longrightarrow> ps \<noteq> [] \<Longrightarrow>
   el_timers (fold debounced_call ps s) = [(el_nextTimer s + length ps - 1, last ps)] \<and>
   el_nextTimer (fold debounced_call ps s) = el_nextTimer s + length ps \<and>
   el_sess (fold debounced_call ps s) = el_sess s \<and> el_reqs (fold debounced_call ps s) = el_reqs s \<and>
   el_nextReq (fold debounced_call ps s) = el_nextReq s"
proof (induction ps arbitrary: s)
  case Nil
  then show ?case by simp
next
  case (Cons p ps)
  show ?case
  proof (cases ps)
    case Nil
    with Cons.prems show ?thesis by (simp add: debounced_call_timers)
  next
    case (Cons q qs)
    have "el_ok (debounced_call p s)" by (rule el_ok_debounced_call [OF \<open>el_ok s\<close>])
    with Cons.IH [of "debounced_call p s"] Cons show ?thesis by simp
  qed
qed


section \<open>Properties of the readout\<close>

text \<open>C12: The debounce keeps at most one call pending: in every reachable state at
  most one timer is pending, and it is the one the closure's \<open>timeout\<close> names, so
  that the next pointer move cancels it.\<close>

theorem debounce_single_timer:
  assumes "el_reach s"
  shows "length (el_timers s) \<le> 1 \<and> list_all (\<lambda>e. el_timeout s = Some (fst e)) (el_timers s)"
  using el_reach_ok [OF assms] by (simp add: el_ok_def)

theorem debounce_single_timer_witness:
  "let s = the (el_run [MouseMove (78, 10), MouseMove (79, 11), TimerFires 1, MouseMove (80, 12)]
                 (el_init el_session ElevNA))
   in el_reach s \<and> length (el_timers s) \<le> 1 \<and> list_all (\<lambda>e. el_timeout s = Some (fst e)) (el_timers s)"
proof -
  let ?s = "the (el_run [MouseMove (78, 10), MouseMove (79, 11), TimerFires 1, MouseMove (80, 12)]
                  (el_init el_session ElevNA))"
  have "el_reach ?s"
    by (rule el_run_reach [OF _ el_reach.init [of el_session ElevNA], of "[MouseMove (78, 10), MouseMove (79, 11), TimerFires 1, MouseMove (80, 12)]"])
       (simp add: debounced_call_def clearTimeout_def timer_fires_def updateElevation_def el_init_def
                  el_session_def)
  then show ?thesis using debounce_single_timer [of ?s] by (simp add: Let_def)
qed

text \<open>C24: The debounce calls once per burst with the last position: from a reachable
  state with a DEM selected, after a burst of pointer moves only the timer of the last
  move can fire, and its firing posts exactly one query, for the last position.\<close>

theorem debounce_last_call:
  assumes "el_reach s" "ps \<noteq> []" "currentDEM (el_sess s) = Some d"
  shows "(\<forall>u. u \<noteq> el_nextTimer s + length ps - 1 \<longrightarrow> el_run (map MouseMove ps @ [TimerFires u]) s = None) \<and>
         map_option (\<lambda>s'. (el_timers s', el_reqs s'))
           (el_run (map MouseMove ps @ [TimerFires (el_nextTimer s + length ps - 1)]) s) =
         Some ([], el_reqs s @ [(el_nextReq s, \<lparr>eq_dem = dem_id d, eq_lon = fst (last ps), eq_lat = snd (last ps)\<rparr>)])"
proof -
  let ?t = "el_nextTimer s + length ps - 1"
  let ?f = "fold debounced_call ps s"
  have f: "el_timers ?f = [(?t, last ps)]" "el_sess ?f = el_sess s" "el_reqs ?f = el_reqs s"
    "el_nextReq ?f = el_nextReq s"
    using fold_debounced_call [OF el_reach_ok [OF assms(1)] assms(2)] by simp_all
  have "\<forall>u. u \<noteq> ?t \<longrightarrow> el_run (map MouseMove ps @ [TimerFires u]) s = None"
    using f by (simp add: el_run_append el_run_moves timer_fires_def)
  moreover have "map_option (\<lambda>s'. (el_timers s', el_reqs s'))
           (el_run (map MouseMove ps @ [TimerFires ?t]) s) =
         Some ([], el_reqs s @ [(el_nextReq s, \<lparr>eq_dem = dem_id d, eq_lon = fst (last ps), eq_lat = snd (last ps)\<rparr>)])"
    using f assms(3) by (simp add: el_run_append el_run_moves timer_fires_def updateElevation_def)
  ultimately show ?thesis by blast
qed

theorem debounce_last_call_witness:
  "el_run [MouseMove (78, 10), MouseMove (79, 11), TimerFires 0] (el_init el_session ElevNA) = None \<and>
   map_option (\<lambda>s'. (el_timers s', el_reqs s'))
     (el_run [MouseMove (78, 10), MouseMove (79, 11), TimerFires 1] (el_init el_session ElevNA)) =
   Some ([], [(0, \<lparr>eq_dem = ''srtm_tn.tif'', eq_lon = 79, eq_lat = 11\<rparr>)])"
  using debounce_last_call [OF el_reach.init, of "[(78, 10), (79, 11)]" el_session ElevNA
          "\<lparr>dem_id = ''srtm_tn.tif'', dem_name = ''SRTM'', dem_source = ''dem-source-srtm_tn.tif''\<rparr>"]
  by (simp add: el_init_def el_session_def)

text \<open>C32: Answers are not ordered and not cancelled.  When two queries are in
  flight and the earlier one settles last, the readout shows the elevation of the
  earlier position although the pointer has moved on; and a call scheduled before the
  pointer left the map still fires and overwrites the \<open>N/A\<close> of \<open>mouseout\<close>.\<close>

theorem stale_elevation_shown:
  assumes "currentDEM ss = Some d"
  shows "map_option el_info
           (el_run [MouseMove p1, TimerFires 0, MouseMove p2, TimerFires 1,
                    ElevAnswer 1 (el_ok_answer e2), ElevAnswer 0 (el_ok_answer e1)] (el_init ss v))
           = Some (ElevValue e1) \<and>
         map_option el_info
           (el_run [MouseMove p1, MouseOut, TimerFires 0, ElevAnswer 0 (el_ok_answer e2)] (el_init ss v))
           = Some (ElevValue e2)"
  using assms
  by (simp add: el_init_def debounced_call_def clearTimeout_def timer_fires_def updateElevation_def
                elevation_answer_def elevation_result_def el_ok_answer_def onMouseOut_def)

theorem stale_elevation_shown_witness:
  "map_option el_info
     (el_run [MouseMove (78, 10), TimerFires 0, MouseMove (79, 11), TimerFires 1,
              ElevAnswer 1 (el_ok_answer 240), ElevAnswer 0 (el_ok_answer 120)] (el_init el_session ElevNA))
     = Some (ElevValue 120) \<and>
   map_option el_info
     (el_run [MouseMove (78, 10), MouseOut, TimerFires 0, ElevAnswer 0 (el_ok_answer 240)] (el_init el_session ElevNA))
     = Some (ElevValue 240)"
  by (rule stale_elevation_shown [where d = "\<lparr>dem_id = ''srtm_tn.tif'', dem_name = ''SRTM'', dem_source = ''dem-source-srtm_tn.tif''\<rparr>"])
     (simp add: el_session_def)

end
