(* ===== verification/Page.thy ===== *)
theory Page
  imports Basemap Panels
begin

text \<open>
  The main page around the layer handlers: the layer lists that
  \<open>populateLayerList\<close> of \<open>src/static/js/layer-handlers.js\<close> builds, the start-up of
  \<open>src/static/js/main.js\<close> (\<open>initialize\<close>: three list requests awaited together, the
  three lists, the click of the first DEM radio after 100 ms and \<open>hideLoader\<close> after
  500 ms), the slide panels of \<open>setupUI\<close> and the map click with its feature popup of
  \<open>setupEventListeners\<close> and \<open>showFeaturePopup\<close> in \<open>src/static/js/ui.js\<close>.  A list
  element is its list of children; \<open>setTimeout\<close> callbacks are pending jobs with a due
  time, run by the event loop earliest first (in the order they were set when due at
  the same time).  The DEM radio's click runs \<open>handleDemChange\<close> of \<open>Layers\<close> on the
  session; the popup's highlight runs \<open>highlightFeatureOnMap\<close> of \<open>Panels\<close>.
\<close>

section \<open>The layer lists\<close>

text \<open>A layer of \<open>/api/elevation_layers\<close>, \<open>/api/vector_layers\<close> or
  \<open>/api/raster_layers\<close> (\<open>bands\<close> is absent for the first two).\<close>

record layer_entry =
  le_id :: string
  le_name :: string
  le_bands :: "nat option"

text \<open>The parsed body of a list request: an array, \<open>null\<close>, or an object (the error
  body of the server; no status is checked).\<close>

datatype list_json = ListArray "layer_entry list" | ListNull | ListObject

record band_select =
  bs_band :: string
  bs_options :: "nat list"
  bs_selectedIndex :: nat

record layer_item =
  li_type :: string
  li_name :: string
  li_value :: string
  li_info :: layer_entry
  li_listener :: bool
  li_label :: string
  li_simulate :: "string option"
  li_controls :: "band_select list option"

datatype list_child = ListHeader | NoLayersFound | Item layer_item

text \<open>The R, G and B selects of a multi-band raster: options \<open>Band 1\<close> to
  \<open>Band n\<close>, and \<open>selectedIndex = Math.min(index, layer.bands - 1)\<close>.\<close>

definition band_selects :: "nat \<Rightarrow> band_select list" where
  "band_selects n =
     map (\<lambda>(i, b). \<lparr>bs_band = b, bs_options = [1..<Suc n], bs_selectedIndex = min i (n - 1)\<rparr>)
         (zip [0..<3] [''r'', ''g'', ''b''])"

definition layer_item_of :: "string \<Rightarrow> string \<Rightarrow> bool \<Rightarrow> layer_entry \<Rightarrow> layer_item" where
  "layer_item_of type name hdl layer =
     \<lparr>li_type = type, li_name = name, li_value = le_id layer, li_info = layer, li_listener = hdl,
      li_label = CHR '' '' # le_name layer,
      li_simulate = (if name = ''dem-layer'' then Some (''/flood_simulation/'' @ le_id layer) else None),
      li_controls =
        (case le_bands layer of
           Some n \<Rightarrow> (if type = ''checkbox'' \<and> name = ''raster-layer'' \<and> 1 < n then Some (band_selects n) else None)
         | None \<Rightarrow> None)\<rparr>"

text \<open>\<open>populateLayerList(container, layers, type, name, handlerName)\<close>; \<open>hdl\<close> is
  \<open>typeof window[handlerName] === 'function'\<close>.  The container keeps only its header;
  an object body passes the emptiness test (\<open>layers.length\<close> is \<open>undefined\<close>) and
  \<open>layers.forEach\<close> throws.\<close>

definition populateLayerList ::
  "list_child list \<Rightarrow> list_json \<Rightarrow> string \<Rightarrow> string \<Rightarrow> bool \<Rightarrow> list_child list ui_outcome" where
  "populateLayerList container layers type name hdl =
     (let header = (if ListHeader \<in> set container then [ListHeader] else [])
      in case layers of
           ListNull \<Rightarrow> UiDone (header @ [NoLayersFound])
         | ListObject \<Rightarrow> UiTypeError header
         | ListArray ls \<Rightarrow>
             (if ls = [] then UiDone (header @ [NoLayersFound])
              else UiDone (header @ map (\<lambda>l. Item (layer_item_of type name hdl l)) ls)))"

section \<open>Start-up\<close>

datatype pg_job = HideLoader | ClickRadio layer_item

record pgstate =
  pg_sess :: session
  demList :: "list_child list"
  vectorList :: "list_child list"
  rasterList :: "list_child list"
  pg_loaderShown :: bool
  pg_loaderText :: string
  pg_alerts :: "string list"
  pg_now :: nat
  pg_timers :: "(nat \<times> pg_job) list"

definition pg_showLoader :: "string \<Rightarrow> pgstate \<Rightarrow> pgstate" where
  "pg_showLoader text s = s\<lparr>pg_loaderText := text, pg_loaderShown := True\<rparr>"

definition setTimeout :: "pg_job \<Rightarrow> nat \<Rightarrow> pgstate \<Rightarrow> pgstate" where
  "setTimeout j delay s = s\<lparr>pg_timers := pg_timers s @ [(pg_now s + delay, j)]\<rparr>"

definition PAGE_ALERT :: string where
  "PAGE_ALERT = ''Could not load layer data. Check console and reload.''"

text \<open>\<open>initialize\<close> up to its \<open>await\<close> (the map control, the window hooks and the
  listeners of \<open>setupUI\<close>, \<open>setupEventListeners\<close> and the importer change no state
  modelled here).\<close>

definition initialize_page :: "pgstate \<Rightarrow> pgstate" where
  "initialize_page s = pg_showLoader ''Fetching layer information...'' s"

text \<open>\<open>dom.demList.querySelector("input[type=radio]")\<close>.\<close>

definition first_radio :: "list_child list \<Rightarrow> layer_item option" where
  "first_radio cs =
     (case find (\<lambda>c. case c of Item it \<Rightarrow> li_type it = ''radio'' | _ \<Rightarrow> False) cs of
        Some (Item it) \<Rightarrow> Some it
      | _ \<Rightarrow> None)"

text \<open>The \<open>try\<close> block after \<open>Promise.all\<close> settled: a thrown \<open>TypeError\<close>
  leaves the lists as far as they were filled.\<close>

definition populate_all :: "list_json \<Rightarrow> list_json \<Rightarrow> list_json \<Rightarrow> pgstate \<Rightarrow> pgstate ui_outcome" where
  "populate_all dems vecs rasters s =
     (case populateLayerList (demList s) dems ''radio'' ''dem-layer'' True of
        UiTypeError d \<Rightarrow> UiTypeError (s\<lparr>demList := d\<rparr>)
      | UiDone d \<Rightarrow>
          (let s1 = s\<lparr>demList := d\<rparr> in
           case populateLayerList (vectorList s1) vecs ''checkbox'' ''vector-layer'' True of
             UiTypeError v \<Rightarrow> UiTypeError (s1\<lparr>vectorList := v\<rparr>)
           | UiDone v \<Rightarrow>
               (let s2 = s1\<lparr>vectorList := v\<rparr> in
                case populateLayerList (rasterList s2) rasters ''checkbox'' ''raster-layer'' True of
                  UiTypeError r \<Rightarrow> UiTypeError (s2\<lparr>rasterList := r\<rparr>)
                | UiDone r \<Rightarrow>
                    (let s3 = s2\<lparr>rasterList := r\<rparr> in
                     UiDone (case first_radio (demList s3) of
                               Some it \<Rightarrow> setTimeout (ClickRadio it) 100 s3
                             | None \<Rightarrow> s3)))))"

text \<open>\<open>initialize\<close> after the await: a rejected request or a thrown \<open>TypeError\<close>
  ends in the \<open>catch\<close>; the \<open>finally\<close> schedules \<open>hideLoader\<close>.\<close>

definition initialize_answer ::
  "list_json reply \<Rightarrow> list_json reply \<Rightarrow> list_json reply \<Rightarrow> pgstate \<Rightarrow> pgstate" where
  "initialize_answer rd rv rr s =
     setTimeout HideLoader 500
       (case (rd, rv, rr) of
          (FetchOk dems, FetchOk vecs, FetchOk rasters) \<Rightarrow>
            (case populate_all dems vecs rasters s of
               UiDone s' \<Rightarrow> s'
             | UiTypeError s' \<Rightarrow> s'\<lparr>pg_alerts := pg_alerts s' @ [PAGE_ALERT]\<rparr>)
        | _ \<Rightarrow> s\<lparr>pg_alerts := pg_alerts s @ [PAGE_ALERT]\<rparr>)"

text \<open>\<open>firstDemRadio.click()\<close>: the radio becomes checked and its \<open>change\<close> listener
  runs \<open>handleDemChange(input, false)\<close>, which shows the loader, reads the radio's
  \<open>layerInfo\<close> and schedules \<open>hideLoader\<close> after 200 ms in its \<open>finally\<close>.\<close>

definition run_job :: "pg_job \<Rightarrow> pgstate \<Rightarrow> pgstate" where
  "run_job j s =
     (case j of
        HideLoader \<Rightarrow> s\<lparr>pg_loaderShown := False\<rparr>
      | ClickRadio it \<Rightarrow>
          (if li_listener it then
             setTimeout HideLoader 200
               ((pg_showLoader ''Loading Terrain...'' s)\<lparr>pg_sess :=
                  outcome_state (handleDemChange True (le_id (li_info it)) (le_name (li_info it)) (pg_sess s))\<rparr>)
           else s))"

text \<open>The event loop runs the pending timer due first.\<close>

definition tick :: "pgstate \<Rightarrow> pgstate option" where
  "tick s =
     (case pg_timers s of
        [] \<Rightarrow> None
      | ts \<Rightarrow> (let e = arg_min_list fst ts
               in Some (run_job (snd e) (s\<lparr>pg_now := max (pg_now s) (fst e), pg_timers := remove1 e ts\<rparr>))))"

fun ticks :: "nat \<Rightarrow> pgstate \<Rightarrow> pgstate option" where
  "ticks 0 s = Some s"
| "ticks (Suc n) s = (case tick s of None \<Rightarrow> None | Some s' \<Rightarrow> ticks n s')"

definition pg_init :: "session \<Rightarrow> pgstate" where
  "pg_init ss =
     \<lparr>pg_sess = ss, demList = [ListHeader], vectorList = [ListHeader], rasterList = [ListHeader],
      pg_loaderShown = False, pg_loaderText = [], pg_alerts = [], pg_now = 0, pg_timers = []\<rparr>"

text \<open>The DOM lists as the basemap replay of \<open>Basemap\<close> reads them: the values of
  the boxes and radios each list holds.\<close>

definition item_values :: "list_child list \<Rightarrow> string list" where
  "item_values cs = concat (map (\<lambda>c. case c of Item it \<Rightarrow> [li_value it] | _ \<Rightarrow> []) cs)"

definition page_lists :: "pgstate \<Rightarrow> dom_lists" where
  "page_lists s =
     \<lparr>vectorBoxes = item_values (vectorList s), rasterBoxes = item_values (rasterList s), analysisBoxes = [],
      demRadios = item_values (demList s)\<rparr>"


section \<open>Start-up lemmas\<close>

lemma handleDemChange_currentDEM:
  "currentDEM (outcome_state (handleDemChange True i n s)) =
     Some \<lparr>dem_id = i, dem_name = n, dem_source = ''dem-source-'' @ i\<rparr>"
  by (simp add: handleDemChange_def Let_def split: sum.split)

lemma layer_item_of_fields [simp]:
  "li_type (layer_item_of t n h l) = t" "li_value (layer_item_of t n h l) = le_id l"
  "li_info (layer_item_of t n h l) = l" "li_listener (layer_item_of t n h l) = h"
  by (simp_all add: layer_item_of_def)

lemma populateLayerList_header:
  "populateLayerList [ListHeader] (ListArray ls) t n h =
     UiDone (ListHeader # (if ls = [] then [NoLayersFound] else map (\<lambda>l. Item (layer_item_of t n h l)) ls))"
  "populateLayerList [ListHeader] ListObject t n h = UiTypeError [ListHeader]"
  by (simp_all add: populateLayerList_def)

lemma item_values_simps [simp]:
  "item_values [] = []"
  "item_values (ListHeader # cs) = item_values cs"
  "item_values (NoLayersFound # cs) = item_values cs"
  "item_values (Item it # cs) = li_value it # item_values cs"
  "item_values (map (\<lambda>l. Item (layer_item_of t n h l)) ls) = map le_id ls"
  by (simp_all add: item_values_def) (induction ls, simp_all)

lemma first_radio_dem:
  "first_radio (ListHeader # Item (layer_item_of ''radio'' n h d) # cs) =
     Some (layer_item_of ''radio'' n h d)"
  by (simp add: first_radio_def)

lemma page_lists_fields [simp]:
  "demRadios (page_lists s) = item_values (demList s)"
  "vectorBoxes (page_lists s) = item_values (vectorList s)"
  "rasterBoxes (page_lists s) = item_values (rasterList s)"
  by (simp_all add: page_lists_def)

lemmas page_defs = initialize_page_def pg_showLoader_def initialize_answer_def setTimeout_def
  populate_all_def pg_init_def tick_def run_job_def

section \<open>Start-up properties\<close>

text \<open>C23: Start-up of the main page.  When the three lists arrive, the DEM list
  shows the DEMs in order, the first radio is clicked after 100 ms, which selects the
  first DEM, and the last of the three pending timers hides the loader.  When the vector
  list answers with an object (the server's error body: no status is checked), the
  DEM list is shown but the \<open>TypeError\<close> of the vector list skips the raster list and
  the DEM click: no DEM is selected and only the generic alert is shown.\<close>

theorem page_startup:
  "map_option (\<lambda>s. (currentDEM (pg_sess s), demRadios (page_lists s), pg_alerts s, pg_loaderShown s, pg_timers s))
     (ticks 3 (initialize_answer (FetchOk (ListArray (d # ds))) (FetchOk (ListArray vs)) (FetchOk (ListArray rs))
                 (initialize_page (pg_init ss))))
   = Some (Some \<lparr>dem_id = le_id d, dem_name = le_name d, dem_source = ''dem-source-'' @ le_id d\<rparr>,
           map le_id (d # ds), [], False, []) \<and>
   map_option (\<lambda>s. (currentDEM (pg_sess s), demRadios (page_lists s), vectorBoxes (page_lists s),
                    pg_alerts s, pg_loaderShown s, pg_timers s))
     (ticks 1 (initialize_answer (FetchOk (ListArray (d # ds))) (FetchOk ListObject) (FetchOk rr)
                 (initialize_page (pg_init ss))))
   = Some (currentDEM ss, map le_id (d # ds), [], [PAGE_ALERT], False, [])"
  by (simp add: page_defs populateLayerList_header first_radio_dem handleDemChange_currentDEM Let_def
                eval_nat_numeral)

end
