(* ===== verification/Popup.thy ===== *)
theory Popup
  imports Panels "HOL-Library.Sublist"
begin

text \<open>
  The slide panels of \<open>setupUI\<close> and the map click of \<open>setupEventListeners\<close> in
  \<open>src/static/js/ui.js\<close>, with \<open>showFeaturePopup\<close>.  A panel's or a button's class
  list is the set of panels carrying the class.  The rendered features under the
  pointer are an input in render order (topmost first), each with the id of its layer;
  \<open>map.queryRenderedFeatures(point, { layers })\<close> keeps those of the given layers,
  as MapLibre documents.  The popup is its position and its HTML; the highlight runs
  \<open>highlightFeatureOnMap\<close> of \<open>Panels\<close>.  \<open>highlightRowInTable\<close> (the attribute
  table's selection and paging) and \<open>map.fitBounds\<close> only change the DOM table and the
  camera and are not modelled.
\<close>

section \<open>Slide panels\<close>

datatype slide = LayersPanel | HazardPanel | ViewOptionsPanel

text \<open>The panels with class \<open>expanded\<close> and the tool buttons with class \<open>active\<close>.\<close>

record slides =
  expandedPanels :: "slide set"
  activeTools :: "slide set"

definition closeAllSlidePanels :: "slides \<Rightarrow> slides" where
  "closeAllSlidePanels s = s\<lparr>expandedPanels := {}, activeTools := {}\<rparr>"

text \<open>The \<open>onclick\<close> of a panel's tool button.\<close>

definition slideToolClick :: "slide \<Rightarrow> slides \<Rightarrow> slides" where
  "slideToolClick p s =
     (let isOpen = p \<in> expandedPanels s;
          s1 = closeAllSlidePanels s
      in if \<not> isOpen then s1\<lparr>expandedPanels := insert p (expandedPanels s1), activeTools := insert p (activeTools s1)\<rparr>
         else s1)"

datatype slide_event = ToolButton slide | CloseButton slide

fun slide_step :: "slide_event \<Rightarrow> slides \<Rightarrow> slides" where
  "slide_step (ToolButton p) s = slideToolClick p s"
| "slide_step (CloseButton p) s = closeAllSlidePanels s"

section \<open>The feature popup\<close>

text \<open>\<open>str.replace(/c/g, r)\<close> for a one-character pattern.\<close>

definition replace_char :: "char \<Rightarrow> string \<Rightarrow> string \<Rightarrow> string" where
  "replace_char c r str = concat (map (\<lambda>x. if x = c then r else [x]) str)"

text \<open>\<open>value ? String(value).replace(/</g, "<").replace(/>/g, ">") : "N/A"\<close>: the
  replacement texts are the characters themselves.\<close>

definition popup_cell :: "jval \<Rightarrow> string" where
  "popup_cell v =
     (if truthy (Some v) then replace_char CHR ''>'' ''>'' (replace_char CHR ''<'' ''<'' (js_string v))
      else ''N/A'')"

definition popup_row :: "string \<times> jval \<Rightarrow> string" where
  "popup_row e = ''<tr><th>'' @ fst e @ ''</th><td>'' @ popup_cell (snd e) @ ''</td></tr>''"

definition popup_open_tag :: string where
  "popup_open_tag = ''<table class='' @ [CHR 0x22] @ ''map-popup-table'' @ [CHR 0x22] @ ''>''"

text \<open>The table of \<open>showFeaturePopup\<close>, over \<open>Object.entries(feature.properties)\<close>.\<close>

definition popup_content :: "jval jsobj \<Rightarrow> string" where
  "popup_content props =
     popup_open_tag @ concat (map popup_row (filter (\<lambda>e. fst e \<noteq> ''_uniqueId'') (obj_entries props)))
     @ ''</table>''"

record popup =
  pp_lngLat :: "real \<times> real"
  pp_html :: string

text \<open>The session with \<open>currentPopup\<close> of \<open>main.js\<close> and whether it is on the map.\<close>

record clickst =
  ck_sess :: session
  currentPopup :: "popup option"
  popupOpen :: bool

text \<open>\<open>map.queryRenderedFeatures(point, { layers })\<close>: the rendered features of those
  layers, in render order.\<close>

definition queryRenderedFeatures ::
  "string list \<Rightarrow> (string \<times> jval jsobj) list \<Rightarrow> (string \<times> jval jsobj) list" where
  "queryRenderedFeatures lids hits = filter (\<lambda>f. fst f \<in> set lids) hits"

text \<open>\<open>Object.values(state.activeLayers).flatMap(l => l.type === 'vector' ? l.layerIds : [])\<close>.\<close>

definition vector_layer_ids :: "layer_info jsobj \<Rightarrow> string list" where
  "vector_layer_ids al =
     concat (map (\<lambda>e. case snd e of VectorLayer v \<Rightarrow> vi_layerIds v | RasterLayer _ \<Rightarrow> []) (obj_entries al))"

text \<open>\<open>feature.properties._uniqueId\<close> as passed to the highlight.\<close>

definition feature_uid :: "jval jsobj \<Rightarrow> string" where
  "feature_uid props = (case obj_get props ''_uniqueId'' of Some v \<Rightarrow> js_string v | None \<Rightarrow> ''undefined'')"

definition showFeaturePopup :: "string \<times> jval jsobj \<Rightarrow> real \<times> real \<Rightarrow> clickst \<Rightarrow> clickst ui_outcome" where
  "showFeaturePopup f ll s =
     (let s1 = s\<lparr>currentPopup := Some \<lparr>pp_lngLat = ll, pp_html = popup_content (snd f)\<rparr>, popupOpen := True\<rparr>
      in case highlightFeatureOnMap (fst f) (feature_uid (snd f)) (ck_sess s1) of
           UiDone ss \<Rightarrow> UiDone (s1\<lparr>ck_sess := ss\<rparr>)
         | UiTypeError ss \<Rightarrow> UiTypeError (s1\<lparr>ck_sess := ss\<rparr>))"

text \<open>The map's \<open>click\<close> listener; \<open>toolActive\<close> is
  \<open>state.isMeasuring || state.isProfiling\<close>.\<close>

definition onMapClickUi ::
  "bool \<Rightarrow> (string \<times> jval jsobj) list \<Rightarrow> real \<times> real \<Rightarrow> clickst \<Rightarrow> clickst ui_outcome" where
  "onMapClickUi toolActive hits ll s =
     (let s1 = s\<lparr>popupOpen := False, ck_sess := clearFeatureHighlight (ck_sess s)\<rparr>
      in if toolActive then UiDone s1
         else
           (let vids = vector_layer_ids (activeLayers (ck_sess s1))
            in if vids = [] then UiDone s1
               else (case queryRenderedFeatures vids hits of
                       [] \<Rightarrow> UiDone s1
                     | f # _ \<Rightarrow> showFeaturePopup f ll s1)))"


section \<open>Slide panels: lemmas\<close>

text \<open>Whatever the classes before, after any click on a slide control the expanded
  panels are exactly the active buttons and at most one of them.\<close>

lemma slide_step_ok:
  "expandedPanels (slide_step e s) = activeTools (slide_step e s) \<and> card (expandedPanels (slide_step e s)) \<le> 1"
  by (cases e) (simp_all add: slideToolClick_def closeAllSlidePanels_def Let_def)

lemma slideToolClick_twice:
  "p \<notin> expandedPanels s \<Longrightarrow> slideToolClick p (slideToolClick p s) = closeAllSlidePanels s"
  by (simp add: slideToolClick_def closeAllSlidePanels_def Let_def)

section \<open>The popup: lemmas\<close>

lemma replace_char_self [simp]: "replace_char c [c] str = str"
  by (induction str) (simp_all add: replace_char_def)

text \<open>The "sanitisation" of a cell is the identity on the value's text.\<close>

lemma popup_cell_text: "popup_cell v = (if truthy (Some v) then js_string v else ''N/A'')"
  by (simp add: popup_cell_def)

lemma sublist_concat_map:
  assumes "x \<in> set xs"
  shows "sublist (f x) (concat (map f xs))"
proof -
  obtain as bs where "xs = as @ x # bs" using split_list [OF assms] by blast
  then show ?thesis by (simp add: sublist_appendI)
qed

lemma sublist_popup_row:
  "sublist (''<th>'' @ k @ ''</th><td>'' @ popup_cell v @ ''</td>'') (popup_row (k, v))"
proof -
  have "popup_row (k, v) = ''<tr>'' @ (''<th>'' @ k @ ''</th><td>'' @ popup_cell v @ ''</td>'') @ ''</tr>''"
    by (simp add: popup_row_def)
  then show ?thesis by (metis sublist_appendI)
qed

section \<open>Map click: lemmas\<close>

lemma onMapClickUi_tool:
  "onMapClickUi True hits ll s = UiDone (s\<lparr>popupOpen := False, ck_sess := clearFeatureHighlight (ck_sess s)\<rparr>)"
  by (simp add: onMapClickUi_def)

lemma onMapClickUi_hit:
  assumes "queryRenderedFeatures (vector_layer_ids (activeLayers (ck_sess s))) hits = f # fs"
  shows "onMapClickUi False hits ll s =
           showFeaturePopup f ll (s\<lparr>popupOpen := False, ck_sess := clearFeatureHighlight (ck_sess s)\<rparr>)"
proof -
  have "vector_layer_ids (activeLayers (ck_sess s)) \<noteq> []"
    using assms by (auto simp: queryRenderedFeatures_def)
  then show ?thesis
    using assms by (simp add: onMapClickUi_def clearFeatureHighlight_def)
qed

section \<open>Properties of the popup\<close>

text \<open>C35: Feature properties reach the popup's HTML unescaped.  For every property
  other than \<open>_uniqueId\<close> whose value is truthy, the popup's table contains the
  property's name and the value's text verbatim, so a value holding markup (such as
  an \<open>img\<close> element with an \<open>onerror\<close> handler) is inserted into the page as HTML:
  the replacements of \<open><\<close> by \<open><\<close> and of \<open>>\<close> by \<open>>\<close> change nothing.\<close>

theorem popup_html_unescaped:
  assumes "(k, v) \<in> set props" "k \<noteq> ''_uniqueId''" "truthy (Some v)"
  shows "sublist (''<th>'' @ k @ ''</th><td>'' @ js_string v @ ''</td>'') (popup_content props)"
proof -
  have "(k, v) \<in> set (filter (\<lambda>e. fst e \<noteq> ''_uniqueId'') (obj_entries props))"
    using assms(1,2) by (simp add: set_obj_entries)
  then have "sublist (popup_row (k, v)) (concat (map popup_row (filter (\<lambda>e. fst e \<noteq> ''_uniqueId'') (obj_entries props))))"
    by (rule sublist_concat_map)
  moreover have "sublist (''<th>'' @ k @ ''</th><td>'' @ js_string v @ ''</td>'') (popup_row (k, v))"
    using sublist_popup_row [of k v] assms(3) by (simp add: popup_cell_text)
  ultimately show ?thesis
    unfolding popup_content_def
    by (meson sublist_appendI sublist_order.dual_order.trans)
qed

theorem popup_html_unescaped_witness:
  "sublist (''<th>name</th><td><img src=x onerror=alert(1)></td>'')
     (popup_content [(''_uniqueId'', JStr ''roads_0''), (''name'', JStr ''<img src=x onerror=alert(1)>'')])"
  using popup_html_unescaped [of "''name''" "JStr ''<img src=x onerror=alert(1)>''"
                                 "[(''_uniqueId'', JStr ''roads_0''), (''name'', JStr ''<img src=x onerror=alert(1)>'')]"]
  by simp

end
