(* ===== verification/Analysis.thy ===== *)
theory Analysis
  imports Layers
begin

text \<open>
  The terrain analyses of \<open>src/static/js/analysis-tools.js\<close>:
  \<open>handleDerivativeCalculation\<close> (slope, aspect), \<open>handleLandslideAnalysis\<close>, and
  \<open>addAnalysisLayerToUI\<close>, which adds a checkbox for the computed raster to the
  \<open>Generated Layers\<close> list and clicks it, running \<open>handleRasterToggle\<close> of \<open>Layers\<close>.
  Each handler is split at its \<open>await\<close>: the click sends the request (a request in
  flight is an id with what the continuation needs), and the answer step takes the
  settled response.  The list is its items (checkbox id, value, \<open>layerInfo\<close>, checked
  state, label).  The rainfall field is an input: its parsed value (\<open>None\<close> for
  \<open>NaN\<close>) and the text \<open>String(rainfall)\<close> of that number.
\<close>

section \<open>State\<close>

text \<open>The JSON body of an analysis request.\<close>

record analysis_result =
  ar_error :: "string option"
  ar_cache :: "string option"
  ar_stats :: "(real \<times> real) option"

record analysis_response =
  an_ok :: bool
  an_body :: analysis_result

record an_item =
  ai_id :: string
  ai_value :: string
  ai_info :: raster_meta
  ai_checked :: bool
  ai_label :: string

text \<open>What the continuation of a request reads: the derivative type, or the rainfall
  and its text.\<close>

datatype an_request = DerivativeReq string | LandslideReq real string

record anstate =
  an_sess :: session
  an_items :: "an_item list"
  an_placeholderShown :: bool
  an_loaderShown :: bool
  an_alerts :: "string list"
  an_reqs :: "(nat \<times> an_request \<times> string) list"
  an_nextReq :: nat

section \<open>The generated-layers list\<close>

definition upper_char :: "char \<Rightarrow> char" where
  "upper_char c = (case map_of (zip lower_letters upper_letters) c of Some d \<Rightarrow> d | None \<Rightarrow> c)"

text \<open>\<open>t.charAt(0).toUpperCase() + t.slice(1)\<close>.\<close>

definition title_case :: "string \<Rightarrow> string" where
  "title_case t = (case t of [] \<Rightarrow> [] | c # cs \<Rightarrow> upper_char c # cs)"

definition analysis_check_id :: "string \<Rightarrow> string" where
  "analysis_check_id cf = ''analysis-check-'' @ sanitize cf"

text \<open>A click on the checkbox \<open>cid\<close>: it toggles, and its \<open>change\<close> listener runs
  \<open>handleRasterToggle(input)\<close>, whose \<open>catch\<close> may uncheck it again.\<close>

definition click_item :: "string \<Rightarrow> anstate \<Rightarrow> anstate" where
  "click_item cid s =
     (case find (\<lambda>it. ai_id it = cid) (an_items s) of
        None \<Rightarrow> s
      | Some it \<Rightarrow>
          (let r = handleRasterToggle (\<not> ai_checked it) (ai_value it) (ai_info it) None (an_sess s)
           in s\<lparr>an_sess := fst r,
                an_items := map (\<lambda>x. if ai_id x = cid then x\<lparr>ai_checked := snd r\<rparr> else x) (an_items s)\<rparr>))"

text \<open>\<open>addAnalysisLayerToUI(displayName, result, colormap)\<close>: reading
  \<open>cache_filename\<close> or \<open>stats\<close> of a body without them is a \<open>TypeError\<close>.\<close>

definition addAnalysisLayerToUI :: "string \<Rightarrow> analysis_result \<Rightarrow> string \<Rightarrow> anstate \<Rightarrow> anstate ui_outcome" where
  "addAnalysisLayerToUI displayName result colormap s =
     (let s1 = s\<lparr>an_placeholderShown := False\<rparr> in
      case ar_cache result of
        None \<Rightarrow> UiTypeError s1
      | Some cf \<Rightarrow>
          (let cid = analysis_check_id cf in
           case find (\<lambda>it. ai_id it = cid) (an_items s1) of
             Some it \<Rightarrow> UiDone (if ai_checked it then s1 else click_item cid s1)
           | None \<Rightarrow>
               (case ar_stats result of
                  None \<Rightarrow> UiTypeError s1
                | Some st \<Rightarrow>
                    (let info = \<lparr>rm_id = cf, rm_name = displayName, rm_bands = 1, rm_stats = [st],
                                 rm_colormap = Some colormap\<rparr>;
                         s2 = s1\<lparr>an_items := an_items s1 @ [\<lparr>ai_id = cid, ai_value = cf, ai_info = info,
                                                            ai_checked = False, ai_label = CHR '' '' # displayName\<rparr>]\<rparr>
                     in UiDone (click_item cid s2)))))"

section \<open>The analyses\<close>

definition an_alert :: "string \<Rightarrow> anstate \<Rightarrow> anstate" where
  "an_alert msg s = s\<lparr>an_alerts := an_alerts s @ [msg]\<rparr>"

definition NO_DEM_ALERT :: string where
  "NO_DEM_ALERT = ''Please select a base DEM first.''"

definition send_request :: "an_request \<Rightarrow> string \<Rightarrow> anstate \<Rightarrow> anstate" where
  "send_request rq demId s =
     s\<lparr>an_loaderShown := True, an_reqs := an_reqs s @ [(an_nextReq s, rq, demId)], an_nextReq := Suc (an_nextReq s)\<rparr>"

text \<open>\<open>handleDerivativeCalculation(t)\<close> up to the \<open>await\<close>: the payload carries the
  current DEM's id.\<close>

definition handleDerivativeCalculation :: "string \<Rightarrow> anstate \<Rightarrow> anstate" where
  "handleDerivativeCalculation t s =
     (case currentDEM (an_sess s) of
        None \<Rightarrow> an_alert NO_DEM_ALERT s
      | Some d \<Rightarrow> send_request (DerivativeReq t) (dem_id d) s)"

text \<open>\<open>handleLandslideAnalysis()\<close> up to the \<open>await\<close>.\<close>

definition handleLandslideAnalysis :: "real option \<Rightarrow> string \<Rightarrow> anstate \<Rightarrow> anstate" where
  "handleLandslideAnalysis rain rtext s =
     (case currentDEM (an_sess s) of
        None \<Rightarrow> an_alert NO_DEM_ALERT s
      | Some d \<Rightarrow>
          (case rain of
             Some r \<Rightarrow> (if r < 0 then an_alert ''Please enter a valid, non-negative rainfall amount.'' s
                        else send_request (LandslideReq r rtext) (dem_id d) s)
           | None \<Rightarrow> an_alert ''Please enter a valid, non-negative rainfall amount.'' s))"

text \<open>The thrown message of \<open>!response.ok || result.error\<close>.\<close>

definition answer_error :: "string \<Rightarrow> analysis_response reply \<Rightarrow> string option" where
  "answer_error dflt r =
     (case r of
        FetchFailed e \<Rightarrow> Some e
      | FetchOk resp \<Rightarrow>
          (if \<not> an_ok resp \<or> truthy (map_option JStr (ar_error (an_body resp)))
           then Some (if truthy (map_option JStr (ar_error (an_body resp))) then the (ar_error (an_body resp)) else dflt)
           else None))"

text \<open>The continuation of a derivative request: the display name reads
  \<open>state.currentDEM\<close> again, after the \<open>await\<close>.\<close>

definition derivative_answer :: "string \<Rightarrow> analysis_response reply \<Rightarrow> anstate \<Rightarrow> anstate" where
  "derivative_answer t r s =
     (let T = title_case t;
          fail = (\<lambda>msg s'. an_alert (''Failed to generate '' @ T @ '' map: '' @ msg) s')
      in case answer_error (''Server error during '' @ t @ '' calculation.'') r of
           Some msg \<Rightarrow> fail msg s
         | None \<Rightarrow>
             (case currentDEM (an_sess s) of
                None \<Rightarrow> fail ''Cannot read properties of null'' s
              | Some d \<Rightarrow>
                  (case r of
                     FetchOk resp \<Rightarrow>
                       (case addAnalysisLayerToUI (T @ '' ('' @ dem_name d @ '')'') (an_body resp)
                               (if t = ''slope'' then ''slope'' else ''hsv'') s of
                          UiDone s' \<Rightarrow> an_alert (T @ '' map generated and added to the 'Generated Layers' list.'') s'
                        | UiTypeError s' \<Rightarrow> fail ''TypeError'' s')
                   | FetchFailed e \<Rightarrow> fail e s)))"

definition landslide_answer :: "string \<Rightarrow> analysis_response reply \<Rightarrow> anstate \<Rightarrow> anstate" where
  "landslide_answer rtext r s =
     (let fail = (\<lambda>msg s'. an_alert (''Failed to generate landslide map: '' @ msg) s')
      in case answer_error ''Server error during analysis.'' r of
           Some msg \<Rightarrow> fail msg s
         | None \<Rightarrow>
             (case r of
                FetchOk resp \<Rightarrow>
                  (case addAnalysisLayerToUI (''Landslide Hazard ('' @ rtext @ ''mm)'') (an_body resp) ''YlOrRd'' s of
                     UiDone s' \<Rightarrow> an_alert ''Landslide Hazard map generated and added to the 'Generated Layers' list.'' s'
                   | UiTypeError s' \<Rightarrow> fail ''TypeError'' s')
              | FetchFailed e \<Rightarrow> fail e s))"

text \<open>The answer to request \<open>n\<close>, with the \<open>finally\<close>'s \<open>hideLoader\<close>.\<close>

definition analysis_answer :: "nat \<Rightarrow> analysis_response reply \<Rightarrow> anstate \<Rightarrow> anstate option" where
  "analysis_answer n r s =
     (case map_of (an_reqs s) n of
        None \<Rightarrow> None
      | Some (rq, _) \<Rightarrow>
          (let s0 = s\<lparr>an_reqs := filter (\<lambda>e. fst e \<noteq> n) (an_reqs s)\<rparr>;
               s1 = (case rq of
                       DerivativeReq t \<Rightarrow> derivative_answer t r s0
                     | LandslideReq _ rtext \<Rightarrow> landslide_answer rtext r s0)
           in Some (s1\<lparr>an_loaderShown := False\<rparr>)))"


text \<open>A page with a DEM selected, no request in flight, and the slope of one file
  listed and checked.\<close>

definition an_dem :: dem_state where
  "an_dem = \<lparr>dem_id = ''srtm_tn.tif'', dem_name = ''SRTM'', dem_source = ''dem-source-srtm_tn.tif''\<rparr>"

definition an_page :: anstate where
  "an_page =
     \<lparr>an_sess = \<lparr>currentDEM = Some an_dem, activeLayers = [], highlightedFeature = None, firstSymbolId = None,
                 rng = (\<lambda>_. 0, 0),
                 smap = \<lparr>m_sources = [''dem-source-srtm_tn.tif''], m_layers = [], m_terrain = Some ''dem-source-srtm_tn.tif'',
                         m_errors = []\<rparr>\<rparr>,
      an_items = [\<lparr>ai_id = ''analysis-check-slope_dem_1_tif'', ai_value = ''slope_dem-1.tif'',
                   ai_info = \<lparr>rm_id = ''slope_dem-1.tif'', rm_name = ''Slope (SRTM)'', rm_bands = 1,
                              rm_stats = [(0, 45)], rm_colormap = Some ''slope''\<rparr>,
                   ai_checked = True, ai_label = '' Slope (SRTM)''\<rparr>],
      an_placeholderShown = False, an_loaderShown = False, an_alerts = [], an_reqs = [], an_nextReq = 0\<rparr>"

section \<open>Lemmas\<close>

lemma sanitize_same_id: "sanitize a = sanitize b \<Longrightarrow> analysis_check_id a = analysis_check_id b"
  by (simp add: analysis_check_id_def)

lemma click_item_labels [simp]:
  "map ai_label (an_items (click_item cid s)) = map ai_label (an_items s)"
  "map ai_info (an_items (click_item cid s)) = map ai_info (an_items s)"
  "an_alerts (click_item cid s) = an_alerts s" "an_reqs (click_item cid s) = an_reqs s"
  by (simp_all add: click_item_def Let_def comp_def split: option.split)

text \<open>A checkbox that exists and is checked takes the result's place: nothing is
  added and nothing is clicked.\<close>

lemma addAnalysisLayerToUI_existing:
  assumes "find (\<lambda>it. ai_id it = analysis_check_id cf) (an_items s) = Some it" "ai_checked it"
      and "ar_cache res = Some cf"
  shows "addAnalysisLayerToUI dn res cm s = UiDone (s\<lparr>an_placeholderShown := False\<rparr>)"
  using assms by (simp add: addAnalysisLayerToUI_def)

lemma addAnalysisLayerToUI_new:
  assumes "find (\<lambda>it. ai_id it = analysis_check_id cf) (an_items s) = None"
      and "ar_cache res = Some cf" "ar_stats res = Some st"
  shows "addAnalysisLayerToUI dn res cm s =
           UiDone (click_item (analysis_check_id cf)
             (s\<lparr>an_placeholderShown := False,
                an_items := an_items s @ [\<lparr>ai_id = analysis_check_id cf, ai_value = cf,
                   ai_info = \<lparr>rm_id = cf, rm_name = dn, rm_bands = 1, rm_stats = [st], rm_colormap = Some cm\<rparr>,
                   ai_checked = False, ai_label = CHR '' '' # dn\<rparr>]\<rparr>))"
  using assms by (simp add: addAnalysisLayerToUI_def Let_def)

definition ok_response :: "string \<Rightarrow> real \<times> real \<Rightarrow> analysis_response reply" where
  "ok_response cf st = FetchOk \<lparr>an_ok = True, an_body = \<lparr>ar_error = None, ar_cache = Some cf, ar_stats = Some st\<rparr>\<rparr>"

lemma answer_error_ok [simp]: "answer_error dflt (ok_response cf st) = None"
  by (simp add: answer_error_def ok_response_def)

section \<open>Properties\<close>

text \<open>C20: The layer is named after the DEM selected when the answer arrives.  The
  request carries the id of the DEM selected at the click; if another DEM is selected
  while the computation runs, the new layer is listed and registered as the slope of
  the newly selected DEM.\<close>

theorem analysis_named_after_answer_dem:
  fixes idB nameB :: string
  assumes "currentDEM (an_sess s) = Some dA" "an_reqs s = []"
      and "find (\<lambda>it. ai_id it = analysis_check_id cf) (an_items s) = None"
  defines "s1 \<equiv> handleDerivativeCalculation ''slope'' s"
      and "s2 \<equiv> (handleDerivativeCalculation ''slope'' s)\<lparr>an_sess :=
               outcome_state (handleDemChange True idB nameB (an_sess (handleDerivativeCalculation ''slope'' s)))\<rparr>"
  shows "an_reqs s1 = [(an_nextReq s, DerivativeReq ''slope'', dem_id dA)] \<and>
         map_option (\<lambda>s'. last (map ai_info (an_items s'))) (analysis_answer (an_nextReq s) (ok_response cf st) s2) =
         Some \<lparr>rm_id = cf, rm_name = ''Slope ('' @ nameB @ '')'', rm_bands = 1, rm_stats = [st], rm_colormap = Some ''slope''\<rparr>"
proof -
  have r1: "an_reqs s1 = [(an_nextReq s, DerivativeReq ''slope'', dem_id dA)]"
    using assms(1,2) by (simp add: s1_def handleDerivativeCalculation_def send_request_def)
  have dem: "currentDEM (an_sess s2) = Some \<lparr>dem_id = idB, dem_name = nameB, dem_source = ''dem-source-'' @ idB\<rparr>"
    by (simp add: s2_def handleDemChange_def Let_def split: sum.split)
  have items: "an_items s2 = an_items s"
    by (simp add: s2_def s1_def handleDerivativeCalculation_def send_request_def assms(1))
  have reqs2: "an_reqs s2 = [(an_nextReq s, DerivativeReq ''slope'', dem_id dA)]"
    using r1 by (simp add: s2_def s1_def)
  have tc: "title_case ''slope'' = ''Slope''"
    by (simp add: title_case_def upper_char_def lower_letters_def upper_letters_def)
  have "map_option (\<lambda>s'. last (map ai_info (an_items s'))) (analysis_answer (an_nextReq s) (ok_response cf st) s2) =
        Some \<lparr>rm_id = cf, rm_name = ''Slope ('' @ nameB @ '')'', rm_bands = 1, rm_stats = [st], rm_colormap = Some ''slope''\<rparr>"
    using reqs2 dem items assms(3)
    by (simp add: analysis_answer_def derivative_answer_def tc addAnalysisLayerToUI_new
                  ok_response_def answer_error_def an_alert_def Let_def)
  with r1 show ?thesis by blast
qed

theorem analysis_named_after_answer_dem_witness:
  "an_reqs (handleDerivativeCalculation ''slope'' an_page) = [(0, DerivativeReq ''slope'', ''srtm_tn.tif'')] \<and>
   map_option (\<lambda>s'. last (map ai_info (an_items s')))
     (analysis_answer 0 (ok_response ''slope_cauvery.tif'' (0, 60))
        ((handleDerivativeCalculation ''slope'' an_page)\<lparr>an_sess :=
           outcome_state (handleDemChange True ''cauvery.tif'' ''Cauvery'' (an_sess (handleDerivativeCalculation ''slope'' an_page)))\<rparr>)) =
   Some \<lparr>rm_id = ''slope_cauvery.tif'', rm_name = ''Slope (Cauvery)'', rm_bands = 1, rm_stats = [(0, 60)],
         rm_colormap = Some ''slope''\<rparr>"
  using analysis_named_after_answer_dem [where s = an_page and dA = an_dem and cf = "''slope_cauvery.tif''"
          and idB = "''cauvery.tif''" and nameB = "''Cauvery''" and st = "(0, 60)"]
  by (simp add: an_page_def an_dem_def analysis_check_id_def sanitize_def is_alnum_def upper_letters_def
                lower_letters_def digit_chars_def)

text \<open>C18: Two results whose cache file names differ only in characters other than
  letters and digits get the same checkbox id.  When the first one's checkbox is
  checked, the second result is neither listed nor put on the map, yet the success
  alert is shown.\<close>

theorem analysis_checkbox_collision:
  assumes "find (\<lambda>it. ai_id it = analysis_check_id cf1) (an_items s) = Some it" "ai_checked it"
      and "sanitize cf2 = sanitize cf1" "currentDEM (an_sess s) = Some d"
      and "map_of (an_reqs s) n = Some (DerivativeReq t, dd)"
  shows "map_option (\<lambda>s'. (an_items s', an_sess s', an_alerts s')) (analysis_answer n (ok_response cf2 st) s) =
         Some (an_items s, an_sess s,
               an_alerts s @ [title_case t @ '' map generated and added to the 'Generated Layers' list.''])"
proof -
  have "find (\<lambda>it. ai_id it = analysis_check_id cf2) (an_items s) = Some it"
    using assms(1) sanitize_same_id [OF assms(3)] by simp
  then show ?thesis
    using assms(2,4,5)
    by (simp add: analysis_answer_def derivative_answer_def addAnalysisLayerToUI_existing an_alert_def
                  ok_response_def answer_error_def Let_def)
qed

theorem analysis_checkbox_collision_witness:
  "map_option (\<lambda>s'. (an_items s', an_sess s', an_alerts s'))
     (analysis_answer 0 (ok_response ''slope_dem_1.tif'' (0, 30)) (send_request (DerivativeReq ''slope'') ''dem_1.tif'' an_page)) =
   Some (an_items an_page, an_sess an_page,
         [''Slope map generated and added to the 'Generated Layers' list.''])"
proof -
  have tc: "title_case ''slope'' = ''Slope''"
    by (simp add: title_case_def upper_char_def lower_letters_def upper_letters_def)
  show ?thesis
    using analysis_checkbox_collision [of "''slope_dem-1.tif''" "send_request (DerivativeReq ''slope'') ''dem_1.tif'' an_page"
            "hd (an_items an_page)" "''slope_dem_1.tif''" an_dem 0 "''slope''" "''dem_1.tif''" "(0, 30)"]
    by (simp add: an_page_def an_dem_def send_request_def analysis_check_id_def sanitize_def is_alnum_def
                  upper_letters_def lower_letters_def digit_chars_def tc)
qed

end
