(* ===== verification/Export.thy ===== *)
theory Export
  imports Panels
begin

text \<open>
  The attribute panel and the PDF export of \<open>src/static/js/ui.js\<close>:
  \<open>populateAttributePanel\<close> (run when \<open>toggleAttributePanel\<close> opens the panel) builds
  one DataTables table per active vector layer with features, and \<open>exportToPDF\<close>
  writes the map image, a legend table and one data table per vector layer.  Both are
  functions of the registry \<open>state.activeLayers\<close>; the outputs are the tables' content
  (columns, rows, row colours) and the document's pages of blocks.  The rows that the
  DataTables search leaves visible are an input of the export (\<open>dt_rows\<close>, by source
  id), as is whether the panel is visible.  Property keys are listed in the order of
  \<open>Object.keys\<close> (\<open>obj_entries\<close>).  The map image, the page geometry and the camera
  move of a filtered export are rendering.
\<close>

section \<open>The attribute panel\<close>

definition js_keys :: "'v jsobj \<Rightarrow> string list" where
  "js_keys ob = map fst (obj_entries ob)"

text \<open>\<open>sourceId.replace(/[^a-zA-Z0-9]/g, "")\<close>.\<close>

definition table_id :: "string \<Rightarrow> string" where
  "table_id sid = ''datatable-'' @ filter is_alnum sid"

record attr_table =
  at_id :: string
  at_title :: string
  at_columns :: "(string \<times> bool) list"
  at_rows :: "jval jsobj list"
  at_rowColors :: "string option list"

datatype attr_panel = AttrTables "attr_table list" | NoVectorLayers

text \<open>\<open>Array.from(new Set(dataForTable.flatMap(props => Object.keys(props))))\<close>, each
  column visible unless it is \<open>_uniqueId\<close>.\<close>

definition table_columns :: "jval jsobj list \<Rightarrow> (string \<times> bool) list" where
  "table_columns rows = map (\<lambda>h. (h, h \<noteq> ''_uniqueId'')) (uniq (concat (map js_keys rows)))"

text \<open>The \<open>createdRow\<close> callback: the border colour of the row's category.\<close>

definition row_color :: "vector_info \<Rightarrow> jval jsobj \<Rightarrow> string option" where
  "row_color v row =
     (case vi_classField v of
        Some fld \<Rightarrow>
          (if fld = [] then None
           else obj_get (vi_classification v)
                  (case obj_get row fld of Some c \<Rightarrow> js_string c | None \<Rightarrow> ''undefined''))
      | None \<Rightarrow> None)"

definition attr_table_of :: "vector_info \<Rightarrow> attr_table" where
  "attr_table_of v =
     (let rows = map f_props (vi_features v)
      in \<lparr>at_id = table_id (vi_sourceId v), at_title = vi_displayName v, at_columns = table_columns rows,
          at_rows = rows, at_rowColors = map (row_color v) rows\<rparr>)"

definition populateAttributePanel :: "layer_info jsobj \<Rightarrow> attr_panel" where
  "populateAttributePanel al =
     (let tabs = List.map_filter (\<lambda>e. case snd e of
                                        VectorLayer v \<Rightarrow> (if vi_features v \<noteq> [] then Some (attr_table_of v) else None)
                                      | RasterLayer _ \<Rightarrow> None) (obj_entries al)
      in if tabs = [] then NoVectorLayers else AttrTables tabs)"

section \<open>The PDF export\<close>

datatype pdf_block =
    MapImage
  | LegendTable "(string \<times> (string \<times> string) list) list"
  | DataTable string "string list" "string list list"

text \<open>The vector layers of \<open>Object.values(state.activeLayers)\<close>; their
  \<open>classification\<close> object is always truthy.\<close>

definition export_layers :: "layer_info jsobj \<Rightarrow> vector_info list" where
  "export_layers al =
     List.map_filter (\<lambda>e. case snd e of VectorLayer v \<Rightarrow> Some v | RasterLayer _ \<Rightarrow> None) (obj_entries al)"

text \<open>\<open>legendBody\<close>: a title row per layer and a row per category of its
  classification (\<open>for ... in\<close> order).\<close>

definition legend_body :: "vector_info list \<Rightarrow> (string \<times> (string \<times> string) list) list" where
  "legend_body vs = map (\<lambda>v. (vi_displayName v, map (\<lambda>e. (snd e, fst e)) (obj_entries (vi_classification v)))) vs"

text \<open>\<open>row[header] || ''\<close>.\<close>

definition pdf_cell :: "jval jsobj \<Rightarrow> string \<Rightarrow> string" where
  "pdf_cell row h = (case obj_get row h of Some v \<Rightarrow> (if truthy (Some v) then js_string v else []) | None \<Rightarrow> [])"

text \<open>A layer's table: the headers are the keys of the first row only.\<close>

definition pdf_table :: "string \<Rightarrow> jval jsobj list \<Rightarrow> pdf_block list" where
  "pdf_table title data =
     (case data of
        [] \<Rightarrow> []
      | r0 # _ \<Rightarrow>
          (let headers = filter (\<lambda>h. h \<noteq> ''_uniqueId'') (js_keys r0)
           in [DataTable title headers (map (\<lambda>row. map (pdf_cell row) headers) data)]))"

text \<open>The data of a layer: the rows the search left visible when the export is
  filtered and the layer is among \<open>state.filteredLayers\<close>, all its features' properties
  otherwise.\<close>

definition export_data :: "bool \<Rightarrow> string list \<Rightarrow> (string \<Rightarrow> jval jsobj list) \<Rightarrow> vector_info \<Rightarrow> jval jsobj list" where
  "export_data isFiltered fl dt_rows v =
     (if isFiltered \<and> vi_sourceId v \<in> set fl then dt_rows (vi_sourceId v) else map f_props (vi_features v))"

text \<open>The pages of the document written by the \<open>idle\<close> callback of \<open>exportToPDF\<close>;
  \<open>isFiltered\<close> is computed before it.\<close>

definition exportToPDF ::
  "bool \<Rightarrow> string list \<Rightarrow> (string \<Rightarrow> jval jsobj list) \<Rightarrow> layer_info jsobj \<Rightarrow> pdf_block list list" where
  "exportToPDF panelVisible fl dt_rows al =
     (let isFiltered = panelVisible \<and> fl \<noteq> [];
          vs = export_layers al;
          lb = legend_body vs;
          first = MapImage # (if lb = [] then [] else [LegendTable lb])
      in first # map (\<lambda>v. pdf_table (vi_displayName v) (export_data isFiltered fl dt_rows v)) vs)"


section \<open>Lemmas\<close>

lemma set_uniq_concat: "set (uniq (concat xss)) = (\<Union>xs \<in> set xss. set xs)"
  by (simp add: set_uniq)

text \<open>The panel's table has a column for every key of every row.\<close>

lemma attr_table_columns:
  "set (map fst (at_columns (attr_table_of v))) = (\<Union>f \<in> set (vi_features v). set (js_keys (f_props f)))"
  by (simp add: attr_table_of_def table_columns_def set_uniq_concat Let_def image_image)

lemma export_layers_pages:
  "v \<in> set (export_layers al) \<Longrightarrow>
   pdf_table (vi_displayName v) (export_data (pv \<and> fl \<noteq> []) fl dt v) \<in> set (exportToPDF pv fl dt al)"
  by (simp add: exportToPDF_def Let_def)

text \<open>The PDF table of a layer takes its headers from the first row only.\<close>

lemma pdf_table_headers:
  "pdf_table t (r0 # rs) = [DataTable t (filter (\<lambda>h. h \<noteq> ''_uniqueId'') (js_keys r0))
                              (map (\<lambda>row. map (pdf_cell row) (filter (\<lambda>h. h \<noteq> ''_uniqueId'') (js_keys r0))) (r0 # rs))]"
  by (simp add: pdf_table_def Let_def)

text \<open>The export drops columns the panel shows: when a later feature of an exported
  layer has a property the first feature lacks, the panel's table shows it as a
  visible column while the layer's page of an unfiltered export has no header for it.\<close>

lemma pdf_drops_panel_columns:
  assumes "v \<in> set (export_layers al)" "vi_features v = f0 # fs" "f1 \<in> set fs"
      and "k \<in> set (js_keys (f_props f1))" "k \<notin> set (js_keys (f_props f0))" "k \<noteq> ''_uniqueId''"
  shows "(k, True) \<in> set (at_columns (attr_table_of v)) \<and>
         (\<exists>hs body. [DataTable (vi_displayName v) hs body] \<in> set (exportToPDF False fl dt al) \<and> k \<notin> set hs)"
proof
  have "k \<in> set (map fst (at_columns (attr_table_of v)))"
    using assms(2-4) attr_table_columns [of v] by auto
  then show "(k, True) \<in> set (at_columns (attr_table_of v))"
    using assms(6) by (auto simp: attr_table_of_def table_columns_def Let_def)
next
  show "\<exists>hs body. [DataTable (vi_displayName v) hs body] \<in> set (exportToPDF False fl dt al) \<and> k \<notin> set hs"
    using export_layers_pages [OF assms(1), of False fl dt] assms(2,5)
    by (auto simp: export_data_def pdf_table_headers)
qed

end
