(* ===== verification/Weather.thy ===== *)
theory Weather
  imports Prelude
begin

text \<open>
  The live weather of the flood viewer (\<open>src/static/js/flood-viewer.js\<close>):
  \<open>startLiveWeatherUpdates\<close> and \<open>stopLiveWeatherUpdates\<close> with the interval of
  \<open>state.liveWeatherInterval\<close>, \<open>fetchLiveWeather\<close> split at its await,
  \<open>classifyRainfall\<close>, \<open>updateWeatherDisplay\<close> and the number of drops
  \<open>createRainEffect\<close> creates.  The browser's registered intervals are an explicit
  list, so that a leaked interval would be visible; the requests in flight are ids.
  \<open>Flood\<close> keeps only the flag \<open>liveWeatherOn\<close> of this part; here the flag is whether
  \<open>state.liveWeatherInterval\<close> is set.  The classification text prints the number with
  \<open>toFixed(1)\<close>; the model keeps the class and the number.
\<close>

section \<open>Classification\<close>

datatype rain_class = NoRain | LightRain | ModerateRain | HeavyRain | ViolentRain

definition classifyRainfall :: "real \<Rightarrow> rain_class" where
  "classifyRainfall mm =
     (if mm \<le> 0.01 then NoRain else if mm < 2.5 then LightRain else if mm < 7.6 then ModerateRain
      else if mm < 50 then HeavyRain else ViolentRain)"

datatype weather_icon = IconSun | IconCloudRain | IconShowersHeavy

text \<open>The icon class chosen by \<open>updateWeatherDisplay\<close>.\<close>

definition rain_icon :: "real \<Rightarrow> weather_icon" where
  "rain_icon r = (if r < 0.1 then IconSun else if r < 7.6 then IconCloudRain else IconShowersHeavy)"

text \<open>\<open>createRainEffect(intensity)\<close>: the loop \<open>for (i = 0; i < visualIntensity; i++)\<close>
  with \<open>visualIntensity = Math.min(intensity, 25) * 6\<close> runs \<open>\<lceil>visualIntensity\<rceil>\<close>
  times (no time for a value that is not positive).\<close>

definition rain_drops :: "real \<Rightarrow> nat" where
  "rain_drops intensity = nat \<lceil>min intensity 25 * 6\<rceil>"

section \<open>State and handlers\<close>

text \<open>The browser numbers intervals from 1, so that the test
  \<open>if (state.liveWeatherInterval)\<close> of \<open>stopLiveWeatherUpdates\<close> holds for every id it
  is given; the model's \<open>Some i\<close> is that truthy id.  A \<open>null\<close> precipitation would be
  read as 0; the model's \<open>None\<close> is the absent field, on which \<open>toFixed\<close> throws.\<close>

datatype wx_status = WxNone | WxUpdating | WxUnavailable | WxClass rain_class real

text \<open>The answer of \<open>/api/get_live_rainfall\<close>: \<open>success\<close> and
  \<open>current_precipitation_mmhr\<close> (\<open>None\<close> when absent).\<close>

record rain_answer =
  ra_success :: bool
  ra_precip :: "real option"

record wxstate =
  wx_interval :: "nat option"
  wx_live :: "nat list"
  wx_nextTimer :: nat
  wx_displayShown :: bool
  wx_status :: wx_status
  wx_icon :: "weather_icon option"
  currentRainfall :: "real option"
  wx_drops :: nat
  wx_reqs :: "nat list"
  wx_nextReq :: nat

definition createRainEffect :: "real \<Rightarrow> wxstate \<Rightarrow> wxstate" where
  "createRainEffect intensity s = s\<lparr>wx_drops := rain_drops intensity\<rparr>"

text \<open>\<open>fetchLiveWeather()\<close> up to its await.\<close>

definition fetchLiveWeather :: "wxstate \<Rightarrow> wxstate" where
  "fetchLiveWeather s =
     s\<lparr>wx_status := WxUpdating, wx_reqs := wx_reqs s @ [wx_nextReq s], wx_nextReq := Suc (wx_nextReq s)\<rparr>"

definition weather_stop :: "wxstate \<Rightarrow> wxstate" where
  "weather_stop s =
     createRainEffect 0
       (s\<lparr>wx_live := (case wx_interval s of Some i \<Rightarrow> filter (\<lambda>j. j \<noteq> i) (wx_live s) | None \<Rightarrow> wx_live s),
          wx_interval := None, wx_displayShown := False\<rparr>)"

definition weather_start :: "wxstate \<Rightarrow> wxstate" where
  "weather_start s =
     (let s1 = fetchLiveWeather ((weather_stop s)\<lparr>wx_displayShown := True\<rparr>);
          i = wx_nextTimer s1
      in s1\<lparr>wx_interval := Some i, wx_live := wx_live s1 @ [i], wx_nextTimer := Suc i\<rparr>)"

text \<open>\<open>updateWeatherDisplay(rainfall)\<close> and \<open>createRainEffect\<close> after a successful
  answer; \<open>toFixed\<close> on an absent value throws into the \<open>catch\<close>.\<close>

definition weather_answer :: "nat \<Rightarrow> rain_answer reply \<Rightarrow> wxstate \<Rightarrow> wxstate option" where
  "weather_answer n r s =
     (if n \<notin> set (wx_reqs s) then None
      else
        (let s0 = s\<lparr>wx_reqs := filter (\<lambda>m. m \<noteq> n) (wx_reqs s)\<rparr> in
         Some (case r of
                 FetchFailed _ \<Rightarrow> s0\<lparr>wx_status := WxUnavailable\<rparr>
               | FetchOk a \<Rightarrow>
                   (if \<not> ra_success a then s0\<lparr>wx_status := WxUnavailable\<rparr>
                    else
                      (case ra_precip a of
                         None \<Rightarrow> s0\<lparr>currentRainfall := None, wx_status := WxUnavailable\<rparr>
                       | Some mm \<Rightarrow>
                           createRainEffect mm
                             (s0\<lparr>currentRainfall := Some mm, wx_status := WxClass (classifyRainfall mm) mm,
                                  wx_icon := Some (rain_icon mm)\<rparr>))))))"

datatype wx_event = WxStart | WxStop | WxInterval nat | WxAnswer nat "rain_answer reply"

fun wx_step :: "wx_event \<Rightarrow> wxstate \<Rightarrow> wxstate option" where
  "wx_step WxStart s = Some (weather_start s)"
| "wx_step WxStop s = Some (weather_stop s)"
| "wx_step (WxInterval i) s = (if i \<in> set (wx_live s) then Some (fetchLiveWeather s) else None)"
| "wx_step (WxAnswer n r) s = weather_answer n r s"

fun wx_run :: "wx_event list \<Rightarrow> wxstate \<Rightarrow> wxstate option" where
  "wx_run [] s = Some s"
| "wx_run (e # es) s = (case wx_step e s of None \<Rightarrow> None | Some s' \<Rightarrow> wx_run es s')"

definition wx_init :: wxstate where
  "wx_init =
     \<lparr>wx_interval = None, wx_live = [], wx_nextTimer = 1, wx_displayShown = False, wx_status = WxNone,
      wx_icon = None, currentRainfall = Some 0, wx_drops = 0, wx_reqs = [], wx_nextReq = 0\<rparr>"

inductive wx_reach :: "wxstate \<Rightarrow> bool" where
  init: "wx_reach wx_init"
| step: "wx_reach s \<Longrightarrow> wx_step e s = Some s' \<Longrightarrow> wx_reach s'"

text \<open>The registered intervals are exactly the one the variable holds, and the rain
  container holds at most 150 drops.\<close>

definition wx_ok :: "wxstate \<Rightarrow> bool" where
  "wx_ok s = (wx_live s = (case wx_interval s of Some i \<Rightarrow> [i] | None \<Rightarrow> []) \<and> wx_drops s \<le> 150)"


section \<open>Lemmas\<close>

lemma rain_drops_le: "rain_drops i \<le> 150"
proof -
  have "min i 25 * 6 \<le> 150" by linarith
  then have "\<lceil>min i 25 * 6\<rceil> \<le> 150"
    by (metis ceiling_le_iff of_int_numeral)
  then show ?thesis by (simp add: rain_drops_def)
qed

lemma rain_drops_full: "25 \<le> i \<Longrightarrow> rain_drops i = 150"
  by (simp add: rain_drops_def min_def)

lemma rain_drops_zero: "rain_drops 0 = 0"
  by (simp add: rain_drops_def)

text \<open>Between 0.01 and 0.1 mm/h the status reads \<open>Light Rain\<close> under a sun icon.\<close>

lemma rain_label_icon_disagree:
  "0.01 < mm \<Longrightarrow> mm < 0.1 \<Longrightarrow> classifyRainfall mm = LightRain \<and> rain_icon mm = IconSun"
  by (simp add: classifyRainfall_def rain_icon_def)

lemma wx_ok_step: "wx_ok s \<Longrightarrow> wx_step e s = Some s' \<Longrightarrow> wx_ok s'"
  by (cases e)
     (auto simp: wx_ok_def weather_start_def weather_stop_def fetchLiveWeather_def createRainEffect_def
                 weather_answer_def rain_drops_le Let_def split: option.splits reply.splits if_splits)

lemma wx_reach_ok: "wx_reach s \<Longrightarrow> wx_ok s"
proof (induction rule: wx_reach.induct)
  case init
  then show ?case by (simp add: wx_ok_def wx_init_def)
next
  case (step s e s')
  show ?case by (rule wx_ok_step [OF step.IH step.hyps(2)])
qed

text \<open>C33: starting and stopping the live weather never leaks an interval, and the
  rain effect stays bounded: in every reachable state the browser runs at most one
  weather interval, exactly the one \<open>state.liveWeatherInterval\<close> names (a second
  start first clears the running one), and the rain container holds at most 150 drops.\<close>

lemma weather_no_leak:
  "wx_reach s \<Longrightarrow> length (wx_live s) \<le> 1 \<and> set (wx_live s) = set_option (wx_interval s) \<and> wx_drops s \<le> 150"
  using wx_reach_ok [of s] by (auto simp: wx_ok_def split: option.splits)

text \<open>An answer still in flight when the updates stop brings the rain back: the
  display is hidden and no interval runs, but the container fills with drops.\<close>

lemma weather_rain_after_stop:
  "25 \<le> mm \<Longrightarrow>
   map_option (\<lambda>s. (wx_displayShown s, wx_interval s, wx_drops s))
     (wx_run [WxStart, WxStop, WxAnswer 0 (FetchOk \<lparr>ra_success = True, ra_precip = Some mm\<rparr>)] wx_init) =
   Some (False, None, 150)"
  by (simp add: wx_init_def weather_start_def weather_stop_def fetchLiveWeather_def weather_answer_def
                createRainEffect_def rain_drops_full rain_drops_zero Let_def)


theorem weather_no_leak_witness:
  "length (wx_live (weather_start (weather_start wx_init))) \<le> 1 \<and>
   set (wx_live (weather_start (weather_start wx_init))) = set_option (wx_interval (weather_start (weather_start wx_init))) \<and>
   wx_drops (weather_start (weather_start wx_init)) \<le> 150"
proof -
  have "wx_reach (weather_start wx_init)" by (rule wx_reach.step [OF wx_reach.init, of WxStart]) simp
  then have "wx_reach (weather_start (weather_start wx_init))" by (rule wx_reach.step [of _ WxStart]) simp
  then show ?thesis by (rule weather_no_leak)
qed

end
