(* ===== verification/Spec2Isabelle.thy ===== *)
theory Spec2Isabelle
  imports Panels Toggle Profile Tools Flood_Events PointTools Basemap ObjViewer ModelImport Solar Elevation Page Popup Analysis Export Weather
begin

text \<open>
  A verification library for the browser GIS client under \<open>src/static/js/\<close>.  The
  client keeps its state in plain objects (\<open>state\<close> in \<open>main.js\<close> and in
  \<open>flood-viewer.js\<close>), draws on a MapLibre GL map, and reacts to DOM events,
  animation frames and settling \<open>fetch\<close> requests.  Each part is modelled as a shallow
  embedding: objects are records, tagged values datatypes, every handler a total HOL
  function on the state (the map included), and each \<open>await\<close> splits a handler into a
  click step and a continuation that takes the reply as an argument, so that racing
  requests are interleavings of steps.  Thrown exceptions are values (\<open>Inl\<close>,
  \<open>Thrown\<close>, \<open>None\<close>, \<open>UiTypeError\<close>).

  \<^bold>\<open>Theories and the code they model.\<close>
  \<^item> \<open>Prelude\<close>: JavaScript objects as insertion-ordered association lists
    (\<open>obj_get\<close>, \<open>obj_set\<close>, \<open>obj_del\<close>, \<open>obj_keys\<close>, and \<open>obj_entries\<close> for the
    property order of \<open>Object.entries\<close>), JSON values with truthiness, the string
    helpers the code uses (\<open>toLowerCase\<close>, \<open>includes\<close>, \<open>startsWith\<close>, the
    identifier sanitiser, \<open>toString(16)\<close>), and the \<open>reply\<close> of a request; the
    collection \<open>js_simps\<close> carries their rewrite rules.
  \<^item> \<open>MapEngine\<close>: the contract of MapLibre GL the client relies on (not in the
    repository): sources, the ordered layer stack, terrain, filters and visibility, with
    \<open>addSource\<close>/\<open>removeSource\<close> throwing and the layer calls firing error events;
    \<open>map_wf\<close> (distinct ids, sources present) and its preservation by every operation.
  \<^item> \<open>Style\<close>: \<open>generateVectorStyle\<close> and \<open>KEYWORD_COLORS\<close> of
    \<open>layer-handlers.js\<close>, with \<open>Math.random\<close> as an explicit supply.
  \<^item> \<open>Layers\<close>: the \<open>try\<close> block of \<open>handleVectorToggle\<close> up to its last two
    calls (\<open>vector_toggle_try\<close>: activation, or deactivation with the \<open>TypeError\<close> of
    an entry without \<open>layerIds\<close>), \<open>addOrUpdateLabelLayer\<close>, \<open>handleRasterToggle\<close>
    and \<open>handleDemChange\<close> on the session of \<open>main.js\<close>.
  \<^item> \<open>Legend\<close>: \<open>updateLegend\<close> of \<open>ui.js\<close>, and the coherence of the registry that
    makes it total.
  \<^item> \<open>Panels\<close>: the label controls, the attribute-table search bridge and the feature
    highlight of \<open>ui.js\<close>.
  \<^item> \<open>Toggle\<close>: \<open>handleVectorToggle\<close> as a whole: the \<open>try\<close> block of \<open>Layers\<close>
    followed by \<open>updateLegend()\<close> and \<open>updateLabelControl()\<close> inside the same
    \<open>try\<close>, whose \<open>catch\<close> unchecks the box; it returns the session, the legend and
    label panels and the box.  The features MapLibre reports as rendered are an input.
  \<^item> \<open>Profile\<close>: \<open>calculateProfileStats\<close> of \<open>analysis-tools.js\<close> and of
    \<open>point.js\<close> over real numbers.
  \<^item> \<open>Tools\<close>: the measure and profile tools of \<open>analysis-tools.js\<close>: flags, point
    lists, map listeners, the mutually recursive toggles as a
    \<open>partial_function (option)\<close> (\<open>None\<close> is non-termination), and the reachable tool
    states as an inductive relation.
  \<^item> \<open>Flood\<close>: the flood viewer of \<open>flood-viewer.js\<close>: its \<open>state\<close> with the animation
    sub-object, the browser's animation-frame queue (\<open>requestAnimationFrame\<close> handles
    are numbered from 1 and queued in \<open>rafPending\<close>), and every handler of
    \<open>setupEventListeners\<close>; \<open>Flood_Events\<close> makes the page an event system
    (\<open>flood_step\<close>, \<open>flood_reach\<close>) in which replies may arrive at any time, an
    over-approximation whose invariants hold of every real run.
  \<^item> \<open>PointTools\<close>: the point-cloud inspector of \<open>point.js\<close>: the Three.js scene as
    a store of numbered objects, the measure and profile tools with their canvas
    handlers, and the layer loading split at its awaits; its profile chart uses
    \<open>Profile.profile_samples3d\<close> and \<open>Profile.calculateProfileStats3D\<close>.
  \<^item> \<open>Basemap\<close>: the basemap radios and \<open>reapplyAllLayers\<close> of \<open>ui.js\<close>
    (with \<open>updateFirstSymbolId\<close> of \<open>main.js\<close>): \<open>map.setStyle\<close> drops what the
    client added, and the replay re-clicks the DEM radio and the checkbox of each registry
    key, running the \<open>Layers\<close> handlers (the vector answer is a later
    \<open>Toggle\<close> step); \<open>replay_keys\<close> is the key loop, with
    \<open>None\<close> for the \<open>TypeError\<close> of a missing entry, and returns the vector requests
    it sends.  The checkbox lists are an input record (\<open>dom_lists\<close>).
  \<^item> \<open>ObjViewer\<close>: the OBJ inspector page of \<open>obj-viewer.js\<close>: model loading and
    materials, the texture switch, the clipping sliders, the snap search and the
    measuring tool.  The arrays that \<open>currentMeasurement\<close> shares with the copies in
    \<open>allMeasurements\<close> live in an explicit store of addresses (\<open>pts_heap\<close>,
    \<open>mk_heap\<close>), so that the aliasing the code relies on is part of the model; the page
    is an event system (\<open>ov_step\<close>, \<open>ov_reach\<close>).
  \<^item> \<open>ModelImport\<close>: \<open>handleModelImport\<close> of \<open>model-importer.js\<close> split at its
    awaits into jobs with stages (OBJ parse, upload, and the MTL file when one is among
    the files; without one the upload's answer draws at once), the size check against
    \<open>MAX_VERTICES_FOR_MAP\<close>, the custom layer and the list of imported models of
    \<open>main-model-manager.js\<close> with its Remove button, on the session map that the basemap
    change of \<open>Basemap\<close> also rewrites.
  \<^item> \<open>Solar\<close>: the solar dashboard (\<open>solar-dashboard.js\<close>): \<open>initialize\<close> split at
    its await, \<open>fetchSolarData\<close> on the settled response, \<open>createCharts\<close> with its six
    series, and the Chart.js canvas contract (one live chart per canvas, \<open>destroy\<close>).
  \<^item> \<open>Elevation\<close>: the elevation readout of \<open>main.js\<close>: \<open>debounce\<close> with its
    \<open>timeout\<close> variable, pending timers and queries in flight as explicit lists, and
    the page as the partial step function \<open>el_step\<close> (\<open>None\<close> for an event that cannot
    happen) with runs \<open>el_run\<close> and reachability \<open>el_reach\<close>; the DEM radio runs the
    \<open>Layers\<close> model of \<open>handleDemChange\<close>.
  \<^item> \<open>Page\<close>: \<open>populateLayerList\<close> of \<open>layer-handlers.js\<close> and the start-up of
    \<open>main.js\<close>: the three list requests, the lists, the click of the first DEM radio and
    the loader timers, run by an event loop that fires the pending timer due first
    (\<open>tick\<close>); \<open>page_lists\<close> gives the lists as \<open>Basemap\<close> reads them.
  \<^item> \<open>Popup\<close>: the slide panels of \<open>setupUI\<close>, the map click of
    \<open>setupEventListeners\<close> and \<open>showFeaturePopup\<close> of \<open>ui.js\<close>, with the highlight of
    \<open>Panels\<close>.
  \<^item> \<open>Analysis\<close>: \<open>handleDerivativeCalculation\<close>, \<open>handleLandslideAnalysis\<close> and
    \<open>addAnalysisLayerToUI\<close> of \<open>analysis-tools.js\<close>, split at their awaits, with the
    generated-layers list whose checkbox click runs \<open>handleRasterToggle\<close> of
    \<open>Layers\<close>.
  \<^item> \<open>Export\<close>: \<open>populateAttributePanel\<close> and \<open>exportToPDF\<close> of \<open>ui.js\<close> as
    functions of the registry: the tables' columns, rows and row colours, and the
    document's pages of blocks; the rows the DataTables search leaves visible are an
    input.  It shows that the export takes a layer's headers from its first row only,
    so columns the panel shows can be missing from the document.
  \<^item> \<open>Weather\<close>: \<open>startLiveWeatherUpdates\<close>, \<open>stopLiveWeatherUpdates\<close>,
    \<open>fetchLiveWeather\<close> (split at its await), \<open>classifyRainfall\<close>,
    \<open>updateWeatherDisplay\<close> and \<open>createRainEffect\<close> of \<open>flood-viewer.js\<close>, with
    the browser's intervals as a list; \<open>Flood\<close> keeps only the flag of this part.  No
    interval leaks and the drops stay at most 150 on every reachable state; an answer
    in flight at stop brings the rain back; label and icon disagree between 0.01 and
    0.1 mm/h.

  \<^bold>\<open>What is proved.\<close>  The properties C1--C40 of the manifest, each after a text
  naming it.  Toggle: the activation round trip of a vector layer (the box stays checked
  exactly when the legend renders), its failure modes (a double check that locks the
  layer, an orphan source after a null geometry), the label field mismatch, and that an
  activation with distinct key stems keeps the box checked and the legend's invariants.
  Style: dead keyword colours.  Legend: when \<open>updateLegend\<close> throws and when it
  cannot.  Panels: the search filter's agreement with the table.  Profile: the
  telescoping of gain and loss, and the 2D and 3D statistics agreeing except for the
  slope over steps of at most 0.001.  Tools: the
  toggles return on reachable states, and two listener bugs (the double-click parity,
  the profile answer that re-enables a tool).  Flood_Events: a finishing frame stops the
  loop once, a playing animation finishes within \<open>n + 1\<close> refreshes, and three bugs (the Stop button that restarts, result layers anchored
  before a river layer that may be absent, Clear Points removing the river for good).
  PointTools: a finished measurement is never shown, the profile chart shows the 3D
  statistics of its samples, overlapping layer loads leave an orphan cloud that no later
  event removes.  Basemap: a colormapped raster without an analysis
  checkbox stays registered with no layer, vector entries are re-fetched rather than
  restored.  ObjViewer: a completed measurement is never shown and its points array is
  shared with the stored copy, the snap loop equals the nearest-vertex reference
  (\<open>arg_min_list\<close>), and the scaled model's centre is off the origin.  ModelImport: a
  basemap change drops imported models for good, and a small model without an MTL file
  is drawn and listed by the upload's answer itself.
  Solar: redrawing never meets the canvas-in-use error and leaves one chart per canvas;
  whatever the answer the loader ends hidden, and a failure always shows the same fixed
  alert.  Elevation: the debounce keeps at most one timer, a burst of moves posts one
  query for its last position, and late answers overwrite the readout (also after
  \<open>mouseout\<close>).  Page: start-up selects the first DEM and hides the loader, and an
  error body of the vector list skips the raster list and the DEM selection.  Popup:
  property values reach the popup's HTML unescaped.  Analysis: a layer is named after
  the DEM selected when its answer arrives, and results whose cache names sanitise
  alike collide on one checkbox.  Weather: no interval leaks and the rain drops stay
  bounded on every reachable state.  Each theorem with a hypothesis has a witness that
  applies it to a concrete state computed by \<open>simp\<close>.

  \<^bold>\<open>Bounds and fuel.\<close>  No fuel is used.  The tool toggles are a
  \<open>partial_function (option)\<close>, and their return is proved as \<open>toggle t s \<noteq> None\<close>
  on reachable states.  The animation's completion is proved with the frame driver
  \<open>play_frames n dt\<close>; the bound \<open>n\<close> is any number with
  \<open>1 - progress \<le> n * dt * speed / duration\<close>, which suffices because every frame adds
  exactly \<open>dt * speed / duration\<close>.  Event runs (\<open>el_run\<close>, \<open>ov_run\<close>, \<open>ticks n\<close>)
  take the events or the number of timer firings explicitly; \<open>ticks 3\<close> runs the
  three timers the start-up schedules.  The numbers the handlers compute with are \<open>real\<close>
  (no overflow is involved); the values of GeoJSON properties (\<open>jval\<close>) keep numbers
  as integers, since the client only compares, prints and tests them, so a fractional
  property value is outside the model; rounding by \<open>toFixed\<close> happens only in printing and is not modelled, and
  \<open>String(number)\<close> of the rainfall is an input.

  \<^bold>\<open>Not modelled.\<close>  Rendering and camera effects: Three.js scenes beyond the
  objects the handlers add and remove (lights, renderer, \<open>animate\<close>, window resizing,
  the point-cloud view reset), the custom layer's \<open>onAdd\<close>/\<open>render\<close>
  (\<open>createObjModelLayer\<close>), \<open>fitBounds\<close>, \<open>flyTo\<close> and \<open>zoomToModel\<close>,
  Chart.js drawing and its axis and tooltip options, the map image and page geometry
  of the PDF, the rain drops' random placement.  DOM effects that the code never reads
  back: the DataTables widgets themselves (paging, \<open>highlightRowInTable\<close>), the
  legend's \<open>zoomToLegendCategory\<close>, the OBJ viewer's progress text and panel toggle,
  tile URLs and paint values.  I/O: the shapefile download, the point-cloud colour and
  point-size controls (material changes only), the band selects' change listeners and
  the Simulate button (\<open>window.open\<close>).  The server endpoints are replies chosen by
  the environment.  Consecutive awaits whose continuations change no modelled state
  before the last one settles are one step: a \<open>fetch\<close> and its
  \<open>response.json()\<close> (the model upload, the projection of \<open>handleAnimateFlood\<close>),
  and in \<open>handleAnimateFlood\<close> the preceding \<open>await fetchLiveWeather()\<close>, whose
  effects (rainfall, weather display) are the \<open>Weather\<close> model's and not part of
  the flood state; the projection's request body (selected DEM, points, rainfall) is
  not modelled.  GeoJSON
  features whose \<open>properties\<close> is \<open>null\<close> (on which \<open>tag_features\<close>' assignment
  would throw) are outside the model: a property object is always an object.
\<close>

end
